(* ===== verification/Guardian_Prelude.thy ===== *)
theory Guardian_Prelude
  imports
    Complex_Main
    "HOL-Library.Word"
    "HOL-Library.Signed_Division"
    "HOL-Library.Multiset"
    "HOL-Library.AList"
begin

text \<open>
  Shared vocabulary of the development: the integer, time and string types of Go as the
  operator uses them, decimal formatting, and the generic lemmas on words, association lists
  and lists that the component theories rely on.

  Go's fixed-width integers are words: \<open>int32\<close> and \<open>int64\<close> are read with \<open>sint\<close> and compared
  with the signed orders, the unsigned types with \<open>uint\<close>; arithmetic wraps. A \<open>time.Time\<close> is an
  unbounded count of nanoseconds since the Unix epoch, a \<open>time.Duration\<close> is an \<open>int64\<close> of
  nanoseconds, and \<open>Time.Sub\<close> saturates as Go's does. Go strings are byte strings, so text
  beyond ASCII appears as its UTF-8 bytes; case mapping and trimming are those of ASCII text.
\<close>

section \<open>Collections of rules\<close>

named_theorems guardian_simps \<open>unfolding rules of the operator's small pure helpers\<close>
named_theorems guardian_inv \<open>an operation keeps its component's invariant\<close>

section \<open>Integers\<close>

type_synonym int32 = "32 word"
type_synonym int64 = "64 word"
type_synonym uint8 = "8 word"
type_synonym uint16 = "16 word"
type_synonym uint32 = "32 word"
type_synonym uint64 = "64 word"

lemma sint_less_iff: "(a <s b) \<longleftrightarrow> sint a < sint b"
  by (simp add: word_sless_alt)

lemma sint_le_iff: "(a \<le>s b) \<longleftrightarrow> sint a \<le> sint b"
  by (simp add: word_sle_eq)

lemmas sint_cmp = sint_less_iff sint_le_iff

lemma sint_word_of_int_id:
  "- (2 ^ (LENGTH('a) - 1)) \<le> i \<Longrightarrow> i < 2 ^ (LENGTH('a) - 1) \<Longrightarrow> sint (word_of_int i :: 'a::len word) = i"
  by (simp add: sint_sbintrunc' signed_take_bit_int_eq_self)

lemma sint_range32: "- (2 ^ 31) \<le> sint (a :: int32)" "sint (a :: int32) < 2 ^ 31"
  using sint_ge [of a] sint_lt [of a] by simp_all

lemma sint_range64: "- (2 ^ 63) \<le> sint (a :: int64)" "sint (a :: int64) < 2 ^ 63"
  using sint_ge [of a] sint_lt [of a] by simp_all

text \<open>Addition, subtraction and multiplication agree with the integers while the result fits.\<close>

lemma sint_add_id:
  "- (2 ^ (LENGTH('a) - 1)) \<le> sint a + sint b \<Longrightarrow> sint a + sint b < 2 ^ (LENGTH('a) - 1)
   \<Longrightarrow> sint (a + b :: 'a::len word) = sint a + sint b"
  using sint_word_of_int_id [of "sint a + sint b", where 'a = 'a] by simp

lemma sint_sub_id:
  "- (2 ^ (LENGTH('a) - 1)) \<le> sint a - sint b \<Longrightarrow> sint a - sint b < 2 ^ (LENGTH('a) - 1)
   \<Longrightarrow> sint (a - b :: 'a::len word) = sint a - sint b"
  using sint_word_of_int_id [of "sint a - sint b", where 'a = 'a] by simp

lemma sint_mult_id:
  "- (2 ^ (LENGTH('a) - 1)) \<le> sint a * sint b \<Longrightarrow> sint a * sint b < 2 ^ (LENGTH('a) - 1)
   \<Longrightarrow> sint (a * b :: 'a::len word) = sint a * sint b"
  using sint_word_of_int_id [of "sint a * sint b", where 'a = 'a] by simp

text \<open>A counter below a signed bound can be incremented without wrapping.\<close>

lemma sint_incr:
  fixes a b :: "'a::len word"
  assumes "a <s b" and "1 < LENGTH('a)"
  shows "sint (a + 1) = sint a + 1"
proof -
  have "sint (1 :: 'a word) = 1"
    using assms(2) by simp
  moreover have "sint a < sint b" using assms(1) by (simp add: sint_cmp)
  moreover have "sint b < 2 ^ (LENGTH('a) - 1)" by (rule sint_lt)
  moreover have "- (2 ^ (LENGTH('a) - 1)) \<le> sint a" by (rule sint_ge)
  ultimately show ?thesis using sint_add_id [of a 1] by simp
qed

text \<open>Go's \<open>/\<close> on \<open>int64\<close> truncates towards zero.\<close>

definition quot64 :: "int64 \<Rightarrow> int64 \<Rightarrow> int64" where
  "quot64 a b = word_of_int (sint a sdiv sint b)"

section \<open>Time\<close>

type_synonym time = int
type_synonym duration = int64

definition second :: duration where "second = 1000000000"
definition minute :: duration where "minute = 60 * second"
definition hour :: duration where "hour = 60 * minute"

text \<open>\<open>time.Now().Sub(t)\<close>: the difference, saturated to the range of \<open>Duration\<close>.\<close>

definition duration_of_int :: "int \<Rightarrow> duration" where
  "duration_of_int x =
     (if x < - (2 ^ 63) then word_of_int (- (2 ^ 63))
      else if 2 ^ 63 \<le> x then word_of_int (2 ^ 63 - 1) else word_of_int x)"

definition since :: "time \<Rightarrow> time \<Rightarrow> duration" where
  "since now t = duration_of_int (now - t)"

text \<open>\<open>Time.Add\<close>, and the zero \<open>time.Time\<close> (1 January of year 1).\<close>

definition time_add :: "time \<Rightarrow> duration \<Rightarrow> time" where
  "time_add t d = t + sint d"

definition time_zero :: time where
  "time_zero = - 62135596800000000000"

lemma sint_duration_of_int:
  "sint (duration_of_int x) = min (max x (- (2 ^ 63))) (2 ^ 63 - 1)"
  unfolding duration_of_int_def
  by (auto simp: sint_word_of_int_id)

lemma since_mono: "now \<le> now' \<Longrightarrow> sint (since now t) \<le> sint (since now' t)"
  unfolding since_def sint_duration_of_int by (auto simp: min_def max_def)

lemma since_anti: "t \<le> t' \<Longrightarrow> sint (since now t') \<le> sint (since now t)"
  unfolding since_def sint_duration_of_int by (auto simp: min_def max_def)

lemma since_less_iff: "sint (since now t) < sint (d :: duration) \<longleftrightarrow> now - t < sint d" if "- (2 ^ 63) < sint (d :: duration)"
  unfolding since_def sint_duration_of_int using that sint_range64 [of d] by (auto simp: min_def max_def)

lemma less_since_iff: "sint (d :: duration) < sint (since now t) \<longleftrightarrow> sint d < now - t" if "sint (d :: duration) < 2 ^ 63 - 1"
  unfolding since_def sint_duration_of_int using that sint_range64 [of d] by (auto simp: min_def max_def)

lemma sint_duration_consts [simp]:
  "sint second = 1000000000" "sint minute = 60000000000" "sint hour = 3600000000000"
  by (simp_all add: second_def minute_def hour_def)

text \<open>\<open>time.Duration(x) * time.Second\<close> for an \<open>int32\<close> field; never wraps.\<close>

definition seconds32 :: "int32 \<Rightarrow> duration" where
  "seconds32 x = scast x * second"

definition minutes32 :: "int32 \<Rightarrow> duration" where
  "minutes32 x = scast x * minute"

lemma sint_scast32: "sint (scast (x :: int32) :: int64) = sint x"
proof -
  have "sint (word_of_int (sint x) :: int64) = sint x"
    using sint_range32 [of x] by (intro sint_word_of_int_id) simp_all
  then show ?thesis by simp
qed

lemma sint_seconds32: "sint (seconds32 x) = sint x * 1000000000"
  using sint_range32 [of x] by (simp add: seconds32_def sint_mult_id sint_scast32)

section \<open>Text\<close>

text \<open>\<open>%d\<close> of an integer.\<close>

definition digit_char :: "int \<Rightarrow> char" where
  "digit_char d = char_of (48 + d)"

lemma digit_char_simps [simp]:
  "digit_char 0 = CHR ''0''" "digit_char 1 = CHR ''1''" "digit_char 2 = CHR ''2''"
  "digit_char 3 = CHR ''3''" "digit_char 4 = CHR ''4''" "digit_char 5 = CHR ''5''"
  "digit_char 6 = CHR ''6''" "digit_char 7 = CHR ''7''" "digit_char 8 = CHR ''8''"
  "digit_char 9 = CHR ''9''"
  by code_simp+

function fmt_pos :: "int \<Rightarrow> string" where
  "fmt_pos i = (if i < 10 then [digit_char i] else fmt_pos (i div 10) @ [digit_char (i mod 10)])"
  by pat_completeness auto
termination by (relation "measure nat") auto

declare fmt_pos.simps [simp del]

definition fmt_int :: "int \<Rightarrow> string" where
  "fmt_int i = (if i < 0 then CHR ''-'' # fmt_pos (- i) else fmt_pos i)"

abbreviation fmt_d :: "'a::len word \<Rightarrow> string" where
  "fmt_d w \<equiv> fmt_int (sint w)"

text \<open>UTF-8 bytes of the em dash and the ellipsis that occur in messages.\<close>

definition em_dash :: string where "em_dash = [CHR 0xE2, CHR 0x80, CHR 0x94]"
definition ellipsis :: string where "ellipsis = [CHR 0xE2, CHR 0x80, CHR 0xA6]"

text \<open>\<open>strings.ToLower\<close>, \<open>strings.ToUpper\<close> and \<open>strings.TrimSpace\<close> on ASCII text.\<close>

definition char_lower :: "char \<Rightarrow> char" where
  "char_lower c = (let n = of_char c :: nat in if 65 \<le> n \<and> n \<le> 90 then char_of (n + 32) else c)"

definition char_upper :: "char \<Rightarrow> char" where
  "char_upper c = (let n = of_char c :: nat in if 97 \<le> n \<and> n \<le> 122 then char_of (n - 32) else c)"

definition to_lower :: "string \<Rightarrow> string" where "to_lower = map char_lower"
definition to_upper :: "string \<Rightarrow> string" where "to_upper = map char_upper"

definition is_space :: "char \<Rightarrow> bool" where
  "is_space c = (let n = of_char c :: nat in n = 32 \<or> (9 \<le> n \<and> n \<le> 13))"

definition trim_left :: "string \<Rightarrow> string" where "trim_left = dropWhile is_space"
definition trim_right :: "string \<Rightarrow> string" where "trim_right s = rev (dropWhile is_space (rev s))"
definition trim_space :: "string \<Rightarrow> string" where "trim_space s = trim_right (trim_left s)"

text \<open>\<open>strings.Join\<close>, \<open>HasSuffix\<close> and \<open>HasPrefix\<close>.\<close>

fun join :: "string \<Rightarrow> string list \<Rightarrow> string" where
  "join sep [] = ''''"
| "join sep [s] = s"
| "join sep (s # t # ss) = s @ sep @ join sep (t # ss)"

definition has_suffix :: "string \<Rightarrow> string \<Rightarrow> bool" where
  "has_suffix s suf = (length suf \<le> length s \<and> drop (length s - length suf) s = suf)"

definition has_prefix :: "string \<Rightarrow> string \<Rightarrow> bool" where
  "has_prefix s pre = (take (length pre) s = pre)"

lemma has_suffix_iff: "has_suffix s suf \<longleftrightarrow> (\<exists>p. s = p @ suf)"
proof
  assume "has_suffix s suf"
  then have "s = take (length s - length suf) s @ suf"
    unfolding has_suffix_def by (metis append_take_drop_id)
  then show "\<exists>p. s = p @ suf" by blast
qed (auto simp: has_suffix_def)

lemma has_prefix_iff: "has_prefix s pre \<longleftrightarrow> (\<exists>r. s = pre @ r)"
  unfolding has_prefix_def by (metis append_eq_conv_conj append_take_drop_id)

text \<open>Decimal text determines the number.\<close>

fun read_digits :: "string \<Rightarrow> int \<Rightarrow> int" where
  "read_digits [] acc = acc"
| "read_digits (c # cs) acc = read_digits cs (10 * acc + (of_char c - 48))"

lemma read_digits_append: "read_digits (xs @ ys) acc = read_digits ys (read_digits xs acc)"
  by (induction xs arbitrary: acc) simp_all

lemma of_digit_char: "0 \<le> d \<Longrightarrow> d < 10 \<Longrightarrow> of_char (digit_char d) = 48 + d"
  by (simp add: digit_char_def)

lemma read_fmt_pos: "0 \<le> i \<Longrightarrow> read_digits (fmt_pos i) 0 = i"
proof (induction i rule: fmt_pos.induct)
  case (1 i)
  show ?case
  proof (cases "i < 10")
    case True
    with 1 show ?thesis by (subst fmt_pos.simps) (simp add: of_digit_char)
  next
    case False
    with 1 show ?thesis by (subst fmt_pos.simps) (simp add: read_digits_append of_digit_char)
  qed
qed

lemma fmt_pos_inj: "0 \<le> i \<Longrightarrow> 0 \<le> j \<Longrightarrow> fmt_pos i = fmt_pos j \<longleftrightarrow> i = j"
  by (metis read_fmt_pos)

lemma fmt_pos_digit: "0 \<le> i \<Longrightarrow> c \<in> set (fmt_pos i) \<Longrightarrow> 48 \<le> (of_char c :: int) \<and> (of_char c :: int) \<le> 57"
proof (induction i rule: fmt_pos.induct)
  case (1 i)
  show ?case
  proof (cases "i < 10")
    case True
    with 1 show ?thesis by (subst (asm) fmt_pos.simps) (auto simp: of_digit_char)
  next
    case False
    have "0 \<le> i mod 10 \<and> i mod 10 < 10" by simp
    with 1 False show ?thesis
      by (subst (asm) (2) fmt_pos.simps) (auto simp: of_digit_char)
  qed
qed

lemma fmt_pos_nonempty [simp]: "fmt_pos i \<noteq> []"
  by (subst fmt_pos.simps) simp

lemma fmt_pos_no_minus: "0 \<le> i \<Longrightarrow> CHR ''-'' \<notin> set (fmt_pos i)"
  using fmt_pos_digit [of i "CHR ''-''"] by auto

lemma fmt_int_inj: "fmt_int i = fmt_int j \<longleftrightarrow> i = j"
proof -
  have neq: "fmt_pos k \<noteq> CHR ''-'' # s" if "0 \<le> k" for k s
    using fmt_pos_no_minus [OF that] by auto
  show ?thesis
    unfolding fmt_int_def using neq neq [symmetric] by (auto simp: fmt_pos_inj)
qed

section \<open>Association lists\<close>

text \<open>
  A Go map is an association list with distinct keys: \<open>AList.update\<close> stores, \<open>AList.delete\<close>
  deletes, \<open>map_of\<close> reads and \<open>length\<close> is \<open>len\<close>.
\<close>

abbreviation keys_distinct :: "('k \<times> 'v) list \<Rightarrow> bool" where
  "keys_distinct m \<equiv> distinct (map fst m)"

lemma keys_distinct_filter [simp]: "keys_distinct m \<Longrightarrow> keys_distinct (filter P m)"
  by (induction m) auto

lemma length_alist_update:
  "length (AList.update k v m) = (if k \<in> fst ` set m then length m else Suc (length m))"
  by (induction m) auto

lemma length_alist_delete: "length (AList.delete k m) \<le> length m"
  by (simp add: AList.delete_eq)

lemma map_of_filter_Some:
  "keys_distinct m \<Longrightarrow> map_of (filter P m) k = Some v \<longleftrightarrow> map_of m k = Some v \<and> P (k, v)"
  by (induction m) (auto simp: map_of_eq_None_iff image_iff)

section \<open>Lists\<close>

lemma filter_take_drop_le: "length (filter P (drop n xs)) \<le> length (filter P xs)"
  by (metis append_take_drop_id filter_append length_append le_add2)

lemma sorted_wrt_take: "sorted_wrt R xs \<Longrightarrow> sorted_wrt R (take n xs)"
  by (metis append_take_drop_id sorted_wrt_append)

lemma sorted_wrt_drop: "sorted_wrt R xs \<Longrightarrow> sorted_wrt R (drop n xs)"
  by (metis append_take_drop_id sorted_wrt_append)

end
