(* ===== verification/Go_Float.thy ===== *)
theory Go_Float
  imports Guardian_Prelude
begin

text \<open>
  The floating-point numbers of Go, as the anomaly scores, the cost estimates and the progress
  report use them. A value is a rational, an infinity or a NaN; the two zeros are identified,
  since no operation of the operator tells them apart. Every arithmetic operation computes the
  exact rational result and rounds it once, to nearest with ties to even, in the precision and
  exponent range of binary64 (\<open>float64\<close>) or binary32 (\<open>float32\<close>), subnormals included. The
  decimal verbs \<open>%.Nf\<close> round the exact value to \<open>N\<close> decimals, ties to even, as
  \<open>strconv\<close> does.

  The bounds at the end (rounding keeps \<open>[0, 1]\<close>, and is exact on 0 and 1) carry the score
  bounds of the detector theories.
\<close>

section \<open>Rounding\<close>

function log2_int :: "int \<Rightarrow> int" where
  "log2_int n = (if n < 2 then 0 else 1 + log2_int (n div 2))"
  by pat_completeness auto
termination by (relation "measure nat") auto

declare log2_int.simps [simp del]

definition pow2 :: "int \<Rightarrow> rat" where
  "pow2 e = (if 0 \<le> e then 2 ^ nat e else 1 / 2 ^ nat (- e))"

text \<open>The binary exponent of a positive rational: the \<open>e\<close> with \<open>2^e \<le> x < 2^(e+1)\<close>.\<close>

definition exponent2 :: "rat \<Rightarrow> int" where
  "exponent2 x = (if 1 \<le> x then log2_int \<lfloor>x\<rfloor>
                  else - 1 - log2_int (\<lceil>1 / x\<rceil> - 1))"

definition round_half_even :: "rat \<Rightarrow> int" where
  "round_half_even m =
     (let f = \<lfloor>m\<rfloor>; d = m - of_int f
      in if d < 1 / 2 then f else if 1 / 2 < d then f + 1 else if even f then f else f + 1)"

datatype gofloat = NaN | PInf | NInf | Fin rat

definition round_float :: "nat \<Rightarrow> int \<Rightarrow> int \<Rightarrow> rat \<Rightarrow> gofloat" where
  "round_float p emin emax x =
     (if x = 0 then Fin 0
      else let e = max (exponent2 \<bar>x\<bar>) emin;
               u = pow2 (e - int p + 1);
               r = of_int (round_half_even (x / u)) * u
           in if pow2 (emax + 1) \<le> \<bar>r\<bar> then (if 0 < x then PInf else NInf) else Fin r)"

definition r64 :: "rat \<Rightarrow> gofloat" where "r64 = round_float 53 (- 1022) 1023"
definition r32 :: "rat \<Rightarrow> gofloat" where "r32 = round_float 24 (- 126) 127"

section \<open>Operations\<close>

text \<open>Conversions: an integer to \<open>float64\<close>, and \<open>float64\<close> to \<open>float32\<close> and back.\<close>

definition f64_of_int :: "int \<Rightarrow> gofloat" where "f64_of_int i = r64 (of_int i)"
definition f32_of_int :: "int \<Rightarrow> gofloat" where "f32_of_int i = r32 (of_int i)"

fun to_f32 :: "gofloat \<Rightarrow> gofloat" where
  "to_f32 (Fin x) = r32 x"
| "to_f32 v = v"

fun fneg :: "gofloat \<Rightarrow> gofloat" where
  "fneg NaN = NaN"
| "fneg PInf = NInf"
| "fneg NInf = PInf"
| "fneg (Fin x) = Fin (- x)"

fun fadd64 :: "gofloat \<Rightarrow> gofloat \<Rightarrow> gofloat" where
  "fadd64 (Fin x) (Fin y) = r64 (x + y)"
| "fadd64 NaN _ = NaN"
| "fadd64 _ NaN = NaN"
| "fadd64 PInf NInf = NaN"
| "fadd64 NInf PInf = NaN"
| "fadd64 PInf _ = PInf"
| "fadd64 _ PInf = PInf"
| "fadd64 NInf _ = NInf"
| "fadd64 _ NInf = NInf"

definition fsub64 :: "gofloat \<Rightarrow> gofloat \<Rightarrow> gofloat" where
  "fsub64 a b = fadd64 a (fneg b)"

definition fsign_inf :: "bool \<Rightarrow> gofloat" where
  "fsign_inf pos = (if pos then PInf else NInf)"

text \<open>Multiplication and division, over a rounding function.\<close>

fun fmul :: "(rat \<Rightarrow> gofloat) \<Rightarrow> gofloat \<Rightarrow> gofloat \<Rightarrow> gofloat" where
  "fmul rd (Fin x) (Fin y) = rd (x * y)"
| "fmul rd NaN _ = NaN"
| "fmul rd _ NaN = NaN"
| "fmul rd (Fin x) PInf = (if x = 0 then NaN else fsign_inf (0 < x))"
| "fmul rd (Fin x) NInf = (if x = 0 then NaN else fsign_inf (x < 0))"
| "fmul rd PInf (Fin x) = (if x = 0 then NaN else fsign_inf (0 < x))"
| "fmul rd NInf (Fin x) = (if x = 0 then NaN else fsign_inf (x < 0))"
| "fmul rd a b = fsign_inf (a = b)"

fun fdiv :: "(rat \<Rightarrow> gofloat) \<Rightarrow> gofloat \<Rightarrow> gofloat \<Rightarrow> gofloat" where
  "fdiv rd (Fin x) (Fin y) =
     (if y = 0 then (if x = 0 then NaN else fsign_inf (0 < x)) else rd (x / y))"
| "fdiv rd NaN _ = NaN"
| "fdiv rd _ NaN = NaN"
| "fdiv rd (Fin x) _ = Fin 0"
| "fdiv rd PInf (Fin y) = fsign_inf (0 \<le> y)"
| "fdiv rd NInf (Fin y) = fsign_inf (y < 0)"
| "fdiv rd _ _ = NaN"

abbreviation fmul64 :: "gofloat \<Rightarrow> gofloat \<Rightarrow> gofloat" where "fmul64 \<equiv> fmul r64"
abbreviation fdiv64 :: "gofloat \<Rightarrow> gofloat \<Rightarrow> gofloat" where "fdiv64 \<equiv> fdiv r64"
abbreviation fdiv32 :: "gofloat \<Rightarrow> gofloat \<Rightarrow> gofloat" where "fdiv32 \<equiv> fdiv r32"
abbreviation fmul32 :: "gofloat \<Rightarrow> gofloat \<Rightarrow> gofloat" where "fmul32 \<equiv> fmul r32"

text \<open>The comparisons of Go: any comparison with a NaN is false.\<close>

fun flt :: "gofloat \<Rightarrow> gofloat \<Rightarrow> bool" where
  "flt (Fin x) (Fin y) = (x < y)"
| "flt NaN _ = False"
| "flt _ NaN = False"
| "flt PInf _ = False"
| "flt _ NInf = False"
| "flt _ _ = True"

definition feq :: "gofloat \<Rightarrow> gofloat \<Rightarrow> bool" where
  "feq a b = (a \<noteq> NaN \<and> a = b)"

definition fle :: "gofloat \<Rightarrow> gofloat \<Rightarrow> bool" where
  "fle a b = (flt a b \<or> feq a b)"

text \<open>\<open>math.Min\<close> and \<open>math.Max\<close>: a NaN argument gives NaN, except that an infinity of the right
  sign wins first.\<close>

definition fmin :: "gofloat \<Rightarrow> gofloat \<Rightarrow> gofloat" where
  "fmin a b = (if a = NInf \<or> b = NInf then NInf
               else if a = NaN \<or> b = NaN then NaN
               else if flt a b then a else b)"

definition fmax :: "gofloat \<Rightarrow> gofloat \<Rightarrow> gofloat" where
  "fmax a b = (if a = PInf \<or> b = PInf then PInf
               else if a = NaN \<or> b = NaN then NaN
               else if flt b a then a else b)"

text \<open>\<open>%.Nf\<close>.\<close>

definition pad_left0 :: "nat \<Rightarrow> string \<Rightarrow> string" where
  "pad_left0 n s = replicate (n - length s) (CHR ''0'') @ s"

definition fmt_fixed :: "nat \<Rightarrow> rat \<Rightarrow> string" where
  "fmt_fixed n x =
     (let k = round_half_even (\<bar>x\<bar> * 10 ^ n);
          whole = fmt_pos (k div 10 ^ n);
          frac = (if n = 0 then [] else CHR ''.'' # pad_left0 n (fmt_pos (k mod 10 ^ n)))
      in (if x < 0 then ''-'' else []) @ whole @ frac)"

fun fmt_f :: "nat \<Rightarrow> gofloat \<Rightarrow> string" where
  "fmt_f n NaN = ''NaN''"
| "fmt_f n PInf = ''+Inf''"
| "fmt_f n NInf = ''-Inf''"
| "fmt_f n (Fin x) = fmt_fixed n x"

section \<open>Facts about rounding\<close>

lemma pow2_pos [simp]: "0 < pow2 e"
  by (simp add: pow2_def)

lemma pow2_add: "pow2 (a + b) = pow2 a * pow2 b"
proof -
  have "pow2 e = 2 powi e" for e
    by (simp add: pow2_def power_int_def field_simps)
  then show ?thesis by (simp add: power_int_add)
qed

lemma pow2_mono: "a \<le> b \<Longrightarrow> pow2 a \<le> pow2 b"
proof -
  assume "a \<le> b"
  have "pow2 b = pow2 a * pow2 (b - a)"
    using pow2_add [of a "b - a"] by simp
  moreover have "1 \<le> pow2 (b - a)"
    using \<open>a \<le> b\<close> by (simp add: pow2_def)
  ultimately show ?thesis by simp
qed

lemma pow2_double: "pow2 (e + 1) = 2 * pow2 e"
  using pow2_add [of e 1] by (simp add: pow2_def [of 1])

lemma pow2_0 [simp]: "pow2 0 = 1"
  by (simp add: pow2_def)

lemma log2_int_nonneg: "0 \<le> log2_int n"
  by (induction n rule: log2_int.induct) (subst log2_int.simps, simp)

lemma log2_int_bounds: "0 < n \<Longrightarrow> pow2 (log2_int n) \<le> of_int n \<and> of_int n < pow2 (log2_int n + 1)"
proof (induction n rule: log2_int.induct)
  case (1 n)
  show ?case
  proof (cases "n < 2")
    case True
    with 1 have "n = 1" by simp
    moreover have "log2_int 1 = 0" by (subst log2_int.simps) simp
    ultimately show ?thesis by (simp add: pow2_def)
  next
    case False
    then have "0 < n div 2" by simp
    with 1 False have IH: "pow2 (log2_int (n div 2)) \<le> of_int (n div 2)"
      "of_int (n div 2) < pow2 (log2_int (n div 2) + 1)"
      by simp_all
    have l: "log2_int n = log2_int (n div 2) + 1"
      using False by (subst log2_int.simps) simp
    have two: "pow2 (log2_int n) = 2 * pow2 (log2_int (n div 2))"
      "pow2 (log2_int n + 1) = 2 * pow2 (log2_int (n div 2) + 1)"
      unfolding l by (simp_all only: pow2_double)
    have lo: "(of_int (2 * (n div 2)) :: rat) \<le> of_int n" by (simp only: of_int_le_iff)
    obtain k where k: "pow2 (log2_int (n div 2) + 1) = of_int k"
      using log2_int_nonneg [of "n div 2"]
      by (metis add_nonneg_nonneg of_int_numeral of_int_power pow2_def zero_le_one)
    have "n div 2 < k" using IH(2) k by simp
    then have "n < 2 * k" by simp
    then have "(of_int n :: rat) < of_int (2 * k)" by (simp only: of_int_less_iff)
    with IH lo two k show ?thesis by simp
  qed
qed

lemma exponent2_upper: "0 < x \<Longrightarrow> x < pow2 (exponent2 x + 1)"
proof (cases "1 \<le> x")
  case True
  have pos: "0 < \<lfloor>x\<rfloor>" using True by (simp add: zero_less_floor)
  obtain k where k: "pow2 (log2_int \<lfloor>x\<rfloor> + 1) = of_int k"
    using log2_int_nonneg [of "\<lfloor>x\<rfloor>"]
    by (metis add_nonneg_nonneg of_int_numeral of_int_power pow2_def zero_le_one)
  have "(of_int \<lfloor>x\<rfloor> :: rat) < of_int k" using log2_int_bounds [OF pos] k by simp
  then have "x < of_int k" by (simp add: floor_less_iff)
  then show ?thesis using True k by (simp add: exponent2_def)
next
  case False
  assume x: "0 < x"
  have "1 < 1 / x" using x False by (simp add: field_simps)
  then have pos: "0 < \<lceil>1 / x\<rceil> - 1" by (simp add: less_ceiling_iff)
  let ?l = "log2_int (\<lceil>1 / x\<rceil> - 1)"
  have "pow2 ?l \<le> of_int (\<lceil>1 / x\<rceil> - 1)" using log2_int_bounds [OF pos] by simp
  also have "\<dots> < 1 / x" by linarith
  finally have "x * pow2 ?l < 1" using x by (simp add: field_simps)
  moreover have "pow2 ?l * pow2 (exponent2 x + 1) = 1"
    using False pow2_add [of ?l "- ?l"] by (simp add: exponent2_def)
  ultimately have "x * pow2 ?l < pow2 (exponent2 x + 1) * pow2 ?l" by (simp add: mult.commute)
  then show ?thesis by (simp add: mult_less_cancel_right_pos)
qed

lemma exponent2_lower: "0 < x \<Longrightarrow> pow2 (exponent2 x) \<le> x"
proof (cases "1 \<le> x")
  case True
  have pos: "0 < \<lfloor>x\<rfloor>" using True by (simp add: zero_less_floor)
  have "pow2 (log2_int \<lfloor>x\<rfloor>) \<le> of_int \<lfloor>x\<rfloor>" using log2_int_bounds [OF pos] by simp
  also have "\<dots> \<le> x" by (rule of_int_floor_le)
  finally show ?thesis using True by (simp add: exponent2_def)
next
  case False
  assume x: "0 < x"
  have "1 < 1 / x" using x False by (simp add: field_simps)
  then have pos: "0 < \<lceil>1 / x\<rceil> - 1" by (simp add: less_ceiling_iff)
  let ?l = "log2_int (\<lceil>1 / x\<rceil> - 1)"
  obtain k where k: "pow2 (?l + 1) = of_int k"
    using log2_int_nonneg [of "\<lceil>1 / x\<rceil> - 1"]
    by (metis add_nonneg_nonneg of_int_numeral of_int_power pow2_def zero_le_one)
  have "(of_int (\<lceil>1 / x\<rceil> - 1) :: rat) < of_int k" using log2_int_bounds [OF pos] k by simp
  then have "\<lceil>1 / x\<rceil> \<le> k" by simp
  then have "1 / x \<le> of_int k" by (simp add: ceiling_le_iff)
  then have "1 \<le> x * pow2 (?l + 1)" using x k by (simp add: field_simps)
  moreover have "pow2 (?l + 1) * pow2 (exponent2 x) = 1"
    using False pow2_add [of "?l + 1" "- 1 - ?l"] by (simp add: exponent2_def)
  ultimately have "pow2 (exponent2 x) * pow2 (?l + 1) \<le> x * pow2 (?l + 1)" by (simp add: mult.commute)
  then show ?thesis by (simp add: mult_le_cancel_right_pos)
qed

lemma round_half_even_le: "m \<le> of_int k \<Longrightarrow> round_half_even m \<le> k"
proof -
  assume m: "m \<le> of_int k"
  then have f: "\<lfloor>m\<rfloor> \<le> k" by linarith
  show ?thesis
  proof (cases "\<lfloor>m\<rfloor> = k")
    case True
    with m have "m = of_int k" by linarith
    then show ?thesis by (simp add: round_half_even_def)
  next
    case False
    with f show ?thesis by (auto simp: round_half_even_def Let_def)
  qed
qed

lemma round_half_even_ge: "of_int k \<le> m \<Longrightarrow> k \<le> round_half_even m"
proof -
  assume m: "of_int k \<le> m"
  then have "k \<le> \<lfloor>m\<rfloor>" by (simp add: le_floor_iff)
  then show ?thesis by (auto simp: round_half_even_def Let_def)
qed

lemma round_half_even_int [simp]: "round_half_even (of_int k) = k"
  by (simp add: round_half_even_def)

text \<open>Rounding keeps the sign and the unit interval, and is exact on 0 and 1.\<close>

lemma round_float_0 [simp]: "round_float p emin emax 0 = Fin 0"
  by (simp add: round_float_def)

lemma round_half_even_scaled_bound:
  assumes "0 < x" and "e = max (exponent2 x) emin" and "0 < p"
  shows "of_int (round_half_even (x / pow2 (e - int p + 1))) * pow2 (e - int p + 1) \<le> pow2 (e + 1)"
proof -
  let ?u = "pow2 (e - int p + 1)"
  have split: "pow2 (e + 1) = pow2 (int p) * ?u"
    using pow2_add [of "int p" "e - int p + 1"] by simp
  have "x < pow2 (exponent2 x + 1)" using assms(1) by (rule exponent2_upper)
  also have "\<dots> \<le> pow2 (e + 1)" using assms(2) by (simp add: pow2_mono)
  finally have "x \<le> pow2 (int p) * ?u" by (simp add: split)
  then have "x / ?u \<le> pow2 (int p)" by (simp add: divide_le_eq)
  also have "pow2 (int p) = of_int (2 ^ p)" by (simp add: pow2_def)
  finally have "round_half_even (x / ?u) \<le> 2 ^ p" by (rule round_half_even_le)
  then have "(of_int (round_half_even (x / ?u)) :: rat) \<le> 2 ^ p"
    by (metis of_int_le_iff of_int_numeral of_int_power)
  then have "of_int (round_half_even (x / ?u)) * ?u \<le> 2 ^ p * ?u"
    by (intro mult_right_mono) (simp_all add: less_imp_le)
  also have "2 ^ p * ?u = pow2 (e + 1)"
    unfolding split by (simp add: pow2_def [of "int p"])
  finally show ?thesis .
qed

lemma round_float_unit:
  assumes "0 \<le> x" and "x \<le> 1" and "0 < p" and "emin < 0" and "0 \<le> emax"
  obtains r where "round_float p emin emax x = Fin r" and "0 \<le> r" and "r \<le> 1"
proof (cases "x = 0")
  case True
  then show ?thesis using that [of 0] by simp
next
  case False
  with assms have pos: "0 < x" by simp
  define e where "e = max (exponent2 x) emin"
  define u where "u = pow2 (e - int p + 1)"
  define r where "r = of_int (round_half_even (x / u)) * u"
  have "0 \<le> round_half_even (x / u)"
    using pos by (intro round_half_even_ge) (simp add: u_def less_imp_le)
  then have r0: "0 \<le> r" by (simp add: r_def u_def less_imp_le)
  have r1: "r \<le> 1"
  proof (cases "x = 1")
    case True
    have "log2_int 1 = 0" by (subst log2_int.simps) simp
    then have "e = 0" using True assms(4) by (simp add: e_def exponent2_def)
    then have u: "1 = of_int (2 ^ (p - 1)) * u"
      using pow2_add [of "int (p - 1)" "1 - int p"] assms(3)
      by (auto simp: u_def pow2_def of_nat_diff nat_diff_distrib)
    have "u \<noteq> 0" by (simp add: u_def less_imp_neq [symmetric])
    then have "x / u = of_int (2 ^ (p - 1))" using u True by (simp add: divide_eq_eq)
    then show ?thesis using u by (simp add: r_def del: of_int_power)
  next
    case False
    have "pow2 (exponent2 x) \<le> x" using pos by (rule exponent2_lower)
    with False assms(2) have "pow2 (exponent2 x) < 1" by simp
    then have "exponent2 x < 0"
      by (metis linorder_not_less pow2_0 pow2_mono)
    then have "e + 1 \<le> 0" using assms(4) by (simp add: e_def)
    have "r \<le> pow2 (e + 1)"
      using round_half_even_scaled_bound [OF pos e_def assms(3)] by (simp add: r_def u_def)
    also have "\<dots> \<le> 1" using \<open>e + 1 \<le> 0\<close> pow2_mono [of "e + 1" 0] by simp
    finally show ?thesis .
  qed
  have "1 < pow2 (emax + 1)" using assms(5) by (simp add: pow2_def)
  then have "round_float p emin emax x = Fin r"
    using pos r0 r1 by (simp add: round_float_def Let_def r_def u_def e_def)
  with r0 r1 that show ?thesis by blast
qed

lemma r64_unit: "0 \<le> x \<Longrightarrow> x \<le> 1 \<Longrightarrow> \<exists>r. r64 x = Fin r \<and> 0 \<le> r \<and> r \<le> 1"
  unfolding r64_def by (metis round_float_unit [of x 53 "-1022" 1023] numeral_less_iff neg_numeral_less_zero
      zero_less_numeral zero_le_numeral)

lemma r32_unit: "0 \<le> x \<Longrightarrow> x \<le> 1 \<Longrightarrow> \<exists>r. r32 x = Fin r \<and> 0 \<le> r \<and> r \<le> 1"
  unfolding r32_def by (metis round_float_unit [of x 24 "-126" 127] numeral_less_iff neg_numeral_less_zero
      zero_less_numeral zero_le_numeral)

definition unit_float :: "gofloat \<Rightarrow> bool" where
  "unit_float v = (case v of Fin x \<Rightarrow> 0 \<le> x \<and> x \<le> 1 | _ \<Rightarrow> False)"

lemma unit_float_Fin [simp]: "unit_float (Fin x) \<longleftrightarrow> 0 \<le> x \<and> x \<le> 1"
  by (simp add: unit_float_def)

lemma unit_floatE: "unit_float v \<Longrightarrow> (\<And>x. v = Fin x \<Longrightarrow> 0 \<le> x \<Longrightarrow> x \<le> 1 \<Longrightarrow> P) \<Longrightarrow> P"
  by (cases v) (auto simp: unit_float_def)

lemma unit_float_to_f32: "unit_float v \<Longrightarrow> unit_float (to_f32 v)"
  using r32_unit by (fastforce elim!: unit_floatE)

text \<open>\<open>math.Min(1.0, math.Max(0.0, z))\<close> lies in the unit interval unless \<open>z\<close> is a NaN.\<close>

lemma unit_float_clamp: "z \<noteq> NaN \<Longrightarrow> unit_float (fmin (Fin 1) (fmax (Fin 0) z))"
  by (cases z) (auto simp: fmin_def fmax_def)

lemma fmin_fmax_NaN: "fmin (Fin 1) (fmax (Fin 0) NaN) = NaN"
  by (simp add: fmin_def fmax_def)

lemma unit_float_fmin1: "flt (Fin 0) z \<or> z = Fin 0 \<Longrightarrow> unit_float (fmin (Fin 1) z)"
  by (cases z) (auto simp: fmin_def)

end
