(* ===== verification/Go_Time.thy ===== *)
theory Go_Time
  imports Guardian_Prelude
begin

text \<open>
  The part of Go's \<open>time\<close> package that turns times and durations into text: the calendar of the
  proleptic Gregorian year, the layouts \<open>20060102-150405\<close>, \<open>20060102T150405Z\<close>, \<open>2006-01-02\<close> and
  RFC 3339, and \<open>Duration.String\<close>. Times are nanoseconds since 1970 in UTC.
\<close>

section \<open>The calendar\<close>

record civil =
  civ_year :: int
  civ_month :: int
  civ_day :: int
  civ_hour :: int
  civ_min :: int
  civ_sec :: int

text \<open>Days since 1 March of year 0, split into 400-year eras that start in March.\<close>

definition civil_date :: "int \<Rightarrow> int \<times> int \<times> int" where
  "civil_date days =
     (let z = days + 719468;
          era = z div 146097;
          doe = z mod 146097;
          yoe = (doe - doe div 1460 + doe div 36524 - doe div 146096) div 365;
          doy = doe - (365 * yoe + yoe div 4 - yoe div 100);
          mp = (5 * doy + 2) div 153;
          d = doy - (153 * mp + 2) div 5 + 1;
          m = (if mp < 10 then mp + 3 else mp - 9);
          y = yoe + era * 400 + (if m \<le> 2 then 1 else 0)
      in (y, m, d))"

definition civil_of :: "time \<Rightarrow> civil" where
  "civil_of t =
     (let secs = t div 1000000000; days = secs div 86400; rem = secs mod 86400;
          (y, m, d) = civil_date days
      in \<lparr>civ_year = y, civ_month = m, civ_day = d, civ_hour = rem div 3600,
          civ_min = rem mod 3600 div 60, civ_sec = rem mod 60\<rparr>)"

definition pad_left :: "nat \<Rightarrow> int \<Rightarrow> string" where
  "pad_left n i = (let s = fmt_int i in replicate (n - length s) (CHR ''0'') @ s)"

definition fmt_compact :: "time \<Rightarrow> string" where
  "fmt_compact t = (let c = civil_of t in
     pad_left 4 (civ_year c) @ pad_left 2 (civ_month c) @ pad_left 2 (civ_day c) @ ''-'' @
     pad_left 2 (civ_hour c) @ pad_left 2 (civ_min c) @ pad_left 2 (civ_sec c))"

definition fmt_compact_z :: "time \<Rightarrow> string" where
  "fmt_compact_z t = (let c = civil_of t in
     pad_left 4 (civ_year c) @ pad_left 2 (civ_month c) @ pad_left 2 (civ_day c) @ ''T'' @
     pad_left 2 (civ_hour c) @ pad_left 2 (civ_min c) @ pad_left 2 (civ_sec c) @ ''Z'')"

definition fmt_date :: "time \<Rightarrow> string" where
  "fmt_date t = (let c = civil_of t in
     pad_left 4 (civ_year c) @ ''-'' @ pad_left 2 (civ_month c) @ ''-'' @ pad_left 2 (civ_day c))"

definition fmt_rfc3339 :: "time \<Rightarrow> string" where
  "fmt_rfc3339 t = (let c = civil_of t in
     fmt_date t @ ''T'' @ pad_left 2 (civ_hour c) @ '':'' @ pad_left 2 (civ_min c) @ '':'' @
     pad_left 2 (civ_sec c) @ ''Z'')"

section \<open>Durations\<close>

definition trim_zeros :: "string \<Rightarrow> string" where
  "trim_zeros s = rev (dropWhile (\<lambda>c. c = CHR ''0'') (rev s))"

text \<open>A number with \<open>n\<close> fractional digits, trailing zeros removed.\<close>

definition fmt_frac :: "nat \<Rightarrow> int \<Rightarrow> string" where
  "fmt_frac n v =
     (let q = v div 10 ^ n; frac = trim_zeros (pad_left n (v mod 10 ^ n))
      in fmt_int q @ (if frac = '''' then '''' else ''.'' @ frac))"

definition micro_sign :: string where "micro_sign = [CHR 0xC2, CHR 0xB5]"

definition fmt_duration :: "duration \<Rightarrow> string" where
  "fmt_duration d =
     (let u = abs (sint d); sign = (if sint d < 0 then ''-'' else '''')
      in if u = 0 then ''0s''
         else if u < 1000 then sign @ fmt_int u @ ''ns''
         else if u < 1000000 then sign @ fmt_frac 3 u @ micro_sign @ ''s''
         else if u < 1000000000 then sign @ fmt_frac 6 u @ ''ms''
         else (let secs = u div 1000000000;
                   s = fmt_frac 9 (u mod 60000000000) @ ''s'';
                   mins = secs div 60
               in sign @ (if mins = 0 then s
                  else (let ms = fmt_int (mins mod 60) @ ''m'' @ s; hrs = mins div 60
                        in if hrs = 0 then ms else fmt_int hrs @ ''h'' @ ms))))"

lemma fmt_time_examples:
  "fmt_rfc3339 0 = ''1970-01-01T00:00:00Z''"
  "fmt_rfc3339 (951827696 * 10 ^ 9) = ''2000-02-29T12:34:56Z''"
  "fmt_compact (1767225599 * 10 ^ 9) = ''20251231-235959''"
  "fmt_date time_zero = ''0001-01-01''"
  "fmt_duration (seconds32 5400) = ''1h30m0s''"
  "fmt_duration 1500000000 = ''1.5s''"
  by code_simp+

end
