(* ===== verification/Api_Types.thy ===== *)
theory Api_Types
  imports Guardian_Prelude
begin

text \<open>
  The custom resource of the operator, \<open>api/v1alpha1/taonode_types.go\<close>: one record per struct,
  one datatype per enumerated string type, in the order of the file. A pointer field is an
  \<open>option\<close>, a slice a list, a Go map a partial map. The records of the Kubernetes API types that
  the structs embed (object metadata, conditions, resource requirements, tolerations) hold the
  fields the operator reads or writes.

  A \<open>resource.Quantity\<close> is kept as the text it serialises to; its methods are parameters of
  the definitions that call them (\<open>Kube_Quantities\<close>).
\<close>

section \<open>Kubernetes data the resource embeds\<close>

datatype quantity = Quantity string

type_synonym resource_list = "string \<rightharpoonup> quantity"

record resource_requirements =
  rr_requests :: "resource_list option"
  rr_limits :: "resource_list option"

record toleration =
  tol_key :: string
  tol_operator :: string
  tol_value :: string
  tol_effect :: string

datatype condition_status = ConditionTrue | ConditionFalse | ConditionUnknown

record condition =
  cond_type :: string
  cond_status :: condition_status
  cond_observedGeneration :: int64
  cond_lastTransitionTime :: time
  cond_reason :: string
  cond_message :: string

record type_meta =
  tm_kind :: string
  tm_apiVersion :: string

record object_meta =
  om_name :: string
  om_namespace :: string
  om_uid :: string
  om_resourceVersion :: string
  om_generation :: int64
  om_deletionTimestamp :: "time option"
  om_finalizers :: "string list"
  om_managedFields :: "string list"
  om_labels :: "string \<rightharpoonup> string"
  om_annotations :: "string \<rightharpoonup> string"

section \<open>Roles and phases\<close>

datatype TaoNodeRole = RoleSubtensor | RoleMiner | RoleValidator | RoleOther string

fun role_string :: "TaoNodeRole \<Rightarrow> string" where
  "role_string RoleSubtensor = ''subtensor''"
| "role_string RoleMiner = ''miner''"
| "role_string RoleValidator = ''validator''"
| "role_string (RoleOther s) = s"

text \<open>The status of a fresh resource has the empty phase.\<close>

datatype TaoNodePhase =
  PhaseNone | PhasePending | PhaseSyncing | PhaseSynced | PhaseDegraded | PhaseRecovering | PhaseFailed

fun phase_string :: "TaoNodePhase \<Rightarrow> string" where
  "phase_string PhaseNone = ''''"
| "phase_string PhasePending = ''Pending''"
| "phase_string PhaseSyncing = ''Syncing''"
| "phase_string PhaseSynced = ''Synced''"
| "phase_string PhaseDegraded = ''Degraded''"
| "phase_string PhaseRecovering = ''Recovering''"
| "phase_string PhaseFailed = ''Failed''"

section \<open>Core specification types\<close>

record AutoExpandSpec =
  ae_thresholdPercent :: int32
  ae_maxSize :: quantity
  ae_incrementPercent :: int32

record ChainStorageSpec =
  cs_storageClass :: string
  cs_size :: quantity
  cs_autoExpand :: "AutoExpandSpec option"

record SyncPolicySpec =
  sp_maxBlockLag :: int64
  sp_recoveryStrategy :: string
  sp_maxRestartAttempts :: int32
  sp_probeIntervalSeconds :: int32
  sp_syncTimeoutMinutes :: int32

record SnapshotDestination =
  sd_type :: string
  sd_bucket :: string
  sd_credentialsSecret :: string

record SnapshotPolicySpec =
  snp_schedule :: string
  snp_destination :: SnapshotDestination
  snp_retentionCount :: int32
  snp_onSyncLoss :: bool

record GPUSpec =
  gpu_count :: int32
  gpu_type :: string
  gpu_spotTolerant :: bool
  gpu_fallbackToCPU :: bool

record AlertRule =
  ar_name :: string
  ar_expression :: string
  ar_duration :: string
  ar_severity :: string

record MonitoringSpec =
  mon_enabled :: bool
  mon_port :: int32
  mon_alertRules :: "AlertRule list"

record ValidatorSpec =
  val_hotKeySecret :: string
  val_coldKeyVaultRef :: string
  val_externalSecretProvider :: string
  val_slashingProtection :: bool
  val_maxConcurrentValidators :: int32

section \<open>Analytics specification types\<close>

record ClickHouseRef =
  ch_endpoint :: string
  ch_database :: string
  ch_credentialsSecret :: string
  ch_tls :: bool
  ch_cluster :: string

record IngestionSpec =
  ing_batchSize :: int32
  ing_flushIntervalSeconds :: int32
  ing_chainEvents :: bool
  ing_minerTelemetry :: bool
  ing_reconcileAudit :: bool

record AnomalyDetectionSpec =
  ad_enabled :: bool
  ad_evaluationIntervalSeconds :: int32
  ad_syncDriftThreshold :: int64
  ad_peerChurnVelocityThreshold :: int32
  ad_diskExhaustionHorizonHours :: int32
  ad_rewardDecayPercent :: int32

record RetentionSpec =
  ret_rawDataDays :: int32
  ret_aggregatedDataDays :: int32
  ret_auditDataDays :: int32

record AnalyticsSpec =
  an_enabled :: bool
  an_clickHouseRef :: ClickHouseRef
  an_ingestion :: IngestionSpec
  an_anomalyDetection :: "AnomalyDetectionSpec option"
  an_retention :: RetentionSpec

section \<open>AI advisor specification types\<close>

record NotificationChannels =
  nc_slackWebhookSecret :: string
  nc_pagerDutyKeySecret :: string
  nc_discordWebhookSecret :: string
  nc_kubernetesEvents :: bool

record AIAdvisorSpec =
  ai_enabled :: bool
  ai_endpoint :: string
  ai_model :: string
  ai_timeoutSeconds :: int32
  ai_minAnomalyScoreForAdvisory :: string
  ai_notificationChannels :: "NotificationChannels option"
  ai_contextWindowTokens :: int32

section \<open>Disaster-recovery specification types\<close>

record CRDBackupSpec =
  cb_schedule :: string
  cb_destination :: SnapshotDestination

record ChainDataDRSpec =
  cd_crossRegionReplication :: bool
  cd_secondaryBucket :: string
  cd_secondaryRegion :: string

record ClickHouseDRSpec =
  chd_backupSchedule :: string
  chd_destination :: SnapshotDestination
  chd_retentionDays :: int32

record DisasterRecoverySpec =
  dr_enabled :: bool
  dr_crdBackup :: CRDBackupSpec
  dr_chainDataDR :: ChainDataDRSpec
  dr_clickHouseDR :: "ClickHouseDRSpec option"
  dr_rpo :: string
  dr_rto :: string

section \<open>Status types\<close>

record SyncStateStatus =
  sss_state :: string
  sss_currentBlock :: int64
  sss_networkBlock :: int64
  sss_blockLag :: int64
  sss_syncPercentage :: string
  sss_lastSyncedAt :: "time option"

record ChainStatus =
  chs_peerCount :: int32
  chs_finalizedBlock :: int64
  chs_runtimeVersion :: string
  chs_epoch :: int64

record ResourceStatus =
  rs_diskUsagePercent :: int32
  rs_gpuUtilizationPercent :: "int32 option"
  rs_estimatedMonthlyUSD :: string

record SnapshotStatus =
  sns_lastSnapshotTime :: "time option"
  sns_lastSnapshotSize :: int64
  sns_availableSnapshots :: int32

record AnomalyScoreStatus =
  ass_type :: string
  ass_score :: string
  ass_detail :: string
  ass_detectedAt :: "time option"

record AnalyticsStatusBlock =
  asb_connected :: bool
  asb_lastIngestionTime :: "time option"
  asb_rowsIngested24h :: int64
  asb_anomalyScores :: "AnomalyScoreStatus list"
  asb_ingestionLagMs :: int32

record AIIncidentReportStatus =
  irs_timestamp :: "time option"
  irs_severity :: string
  irs_summary :: string
  irs_rootCauseCategory :: string
  irs_recommendedAction :: string
  irs_confidence :: string

record AIAdvisoryStatus =
  aas_lastReport :: "AIIncidentReportStatus option"
  aas_modelAvailable :: bool
  aas_inferencesTotal24h :: int32
  aas_avgInferenceLatencyMs :: int32

section \<open>The resource\<close>

record TaoNodeSpec =
  spec_network :: string
  spec_subnetID :: int32
  spec_role :: TaoNodeRole
  spec_image :: string
  spec_version :: string
  spec_chainStorage :: ChainStorageSpec
  spec_syncPolicy :: SyncPolicySpec
  spec_snapshotPolicy :: "SnapshotPolicySpec option"
  spec_gpu :: "GPUSpec option"
  spec_validator :: "ValidatorSpec option"
  spec_resources :: resource_requirements
  spec_monitoring :: "MonitoringSpec option"
  spec_analytics :: "AnalyticsSpec option"
  spec_aiAdvisor :: "AIAdvisorSpec option"
  spec_disasterRecovery :: "DisasterRecoverySpec option"
  spec_tolerations :: "toleration list"
  spec_nodeSelector :: "string \<rightharpoonup> string"

record TaoNodeStatus =
  st_phase :: TaoNodePhase
  st_syncState :: SyncStateStatus
  st_chain :: ChainStatus
  st_resources :: ResourceStatus
  st_snapshot :: "SnapshotStatus option"
  st_analytics :: "AnalyticsStatusBlock option"
  st_aiAdvisory :: "AIAdvisoryStatus option"
  st_conditions :: "condition list"
  st_restartCount :: int32
  st_observedGeneration :: int64
  st_lastReconcileTime :: "time option"
  st_hotkeyHash :: string

record TaoNode =
  tn_typeMeta :: type_meta
  tn_meta :: object_meta
  tn_spec :: TaoNodeSpec
  tn_status :: TaoNodeStatus

text \<open>Short names for the paths the code reads most.\<close>

abbreviation tn_name :: "TaoNode \<Rightarrow> string" where "tn_name tn \<equiv> om_name (tn_meta tn)"
abbreviation tn_namespace :: "TaoNode \<Rightarrow> string" where "tn_namespace tn \<equiv> om_namespace (tn_meta tn)"
abbreviation tn_network :: "TaoNode \<Rightarrow> string" where "tn_network tn \<equiv> spec_network (tn_spec tn)"
abbreviation tn_role :: "TaoNode \<Rightarrow> TaoNodeRole" where "tn_role tn \<equiv> spec_role (tn_spec tn)"
abbreviation tn_phase :: "TaoNode \<Rightarrow> TaoNodePhase" where "tn_phase tn \<equiv> st_phase (tn_status tn)"
abbreviation tn_policy :: "TaoNode \<Rightarrow> SyncPolicySpec" where "tn_policy tn \<equiv> spec_syncPolicy (tn_spec tn)"
abbreviation tn_restarts :: "TaoNode \<Rightarrow> int32" where "tn_restarts tn \<equiv> st_restartCount (tn_status tn)"
abbreviation tn_conditions :: "TaoNode \<Rightarrow> condition list" where
  "tn_conditions tn \<equiv> st_conditions (tn_status tn)"

abbreviation set_phase :: "TaoNodePhase \<Rightarrow> TaoNode \<Rightarrow> TaoNode" where
  "set_phase p tn \<equiv> tn\<lparr>tn_status := (tn_status tn)\<lparr>st_phase := p\<rparr>\<rparr>"

text \<open>The Go zero values of the status records, as a new object carries them.\<close>

definition zero_SyncStateStatus :: SyncStateStatus where
  "zero_SyncStateStatus = \<lparr>sss_state = '''', sss_currentBlock = 0, sss_networkBlock = 0,
     sss_blockLag = 0, sss_syncPercentage = '''', sss_lastSyncedAt = None\<rparr>"

definition zero_SnapshotStatus :: SnapshotStatus where
  "zero_SnapshotStatus = \<lparr>sns_lastSnapshotTime = None, sns_lastSnapshotSize = 0, sns_availableSnapshots = 0\<rparr>"

definition zero_AnalyticsStatusBlock :: AnalyticsStatusBlock where
  "zero_AnalyticsStatusBlock = \<lparr>asb_connected = False, asb_lastIngestionTime = None,
     asb_rowsIngested24h = 0, asb_anomalyScores = [], asb_ingestionLagMs = 0\<rparr>"

definition zero_TaoNodeStatus :: TaoNodeStatus where
  "zero_TaoNodeStatus = \<lparr>st_phase = PhaseNone, st_syncState = zero_SyncStateStatus,
     st_chain = \<lparr>chs_peerCount = 0, chs_finalizedBlock = 0, chs_runtimeVersion = '''', chs_epoch = 0\<rparr>,
     st_resources = \<lparr>rs_diskUsagePercent = 0, rs_gpuUtilizationPercent = None, rs_estimatedMonthlyUSD = ''''\<rparr>,
     st_snapshot = None, st_analytics = None, st_aiAdvisory = None, st_conditions = [],
     st_restartCount = 0, st_observedGeneration = 0, st_lastReconcileTime = None, st_hotkeyHash = ''''\<rparr>"

end
