(* ===== verification/Kube_Quantities.thy ===== *)
theory Kube_Quantities
  imports Api_Types
begin

text \<open>
  \<open>resource.Quantity\<close> of the Kubernetes API machinery, whose code is not part of the repository: a
  record of its methods, a parameter of the definitions that call them; the documented behaviour
  that properties rely on, as predicates over that record; and an instance on plain decimal texts,
  which satisfies them and on which witnesses are evaluated.
\<close>

section \<open>Quantities\<close>

text \<open>
  \<open>Value\<close>, \<open>MilliValue\<close>, \<open>Cmp\<close>, \<open>String\<close>, \<open>NewQuantity\<close> (format \<open>DecimalSI\<close>) and
  \<open>NewMilliQuantity\<close> (format \<open>BinarySI\<close>). The literals given to \<open>MustParse\<close> in the code are in
  canonical form, so that the quantity is the literal itself.
\<close>

record quantity_ops =
  q_value :: "quantity \<Rightarrow> int64"
  q_milliValue :: "quantity \<Rightarrow> int64"
  q_cmp :: "quantity \<Rightarrow> quantity \<Rightarrow> int"
  q_string :: "quantity \<Rightarrow> string"
  q_newQuantity :: "int64 \<Rightarrow> quantity"
  q_newMilliQuantity :: "int64 \<Rightarrow> quantity"

definition zero_quantity :: quantity where "zero_quantity = Quantity ''0''"

text \<open>
  What the package documents, for the number \<open>amount q\<close> a quantity denotes: \<open>Cmp\<close> is the sign of
  the difference, \<open>Value\<close> and \<open>MilliValue\<close> round up and are exact about it whenever the result
  fits in 64 bits, and the constructors denote their argument.
\<close>

definition cmp_law :: "(quantity \<Rightarrow> rat) \<Rightarrow> quantity_ops \<Rightarrow> bool" where
  "cmp_law amount Q \<longleftrightarrow> (\<forall>a b. q_cmp Q a b =
     (if amount a < amount b then - 1 else if amount a = amount b then 0 else 1))"

definition value_law :: "(quantity \<Rightarrow> rat) \<Rightarrow> quantity_ops \<Rightarrow> bool" where
  "value_law amount Q \<longleftrightarrow> (\<forall>q. 0 \<le> amount q \<longrightarrow> amount q \<le> 2 ^ 63 - 1 \<longrightarrow>
     sint (q_value Q q) = \<lceil>amount q\<rceil>)"

definition milli_law :: "(quantity \<Rightarrow> rat) \<Rightarrow> quantity_ops \<Rightarrow> bool" where
  "milli_law amount Q \<longleftrightarrow>
     (\<forall>q. 0 \<le> amount q \<longrightarrow> 1000 * amount q \<le> 2 ^ 63 - 1 \<longrightarrow> sint (q_milliValue Q q) = \<lceil>1000 * amount q\<rceil>) \<and>
     (\<forall>m. amount (q_newMilliQuantity Q m) = of_int (sint m) / 1000)"

text \<open>
  An instance: quantities written as plain decimal numbers of units, with an optional sign, and
  milli-quantities with the suffix \<open>m\<close>, as the package prints them.
\<close>

fun plain_milli :: "quantity \<Rightarrow> int" where
  "plain_milli (Quantity s) =
     (let (sign, body) = (case s of c # cs \<Rightarrow> if c = CHR ''-'' then (- 1, cs) else (1, s) | [] \<Rightarrow> (1, []))
      in if body \<noteq> [] \<and> last body = CHR ''m'' then sign * read_digits (butlast body) 0
         else sign * (1000 * read_digits body 0))"

definition plain_amount :: "quantity \<Rightarrow> rat" where
  "plain_amount q = of_int (plain_milli q) / 1000"

definition plain_quantities :: quantity_ops where
  "plain_quantities =
     \<lparr>q_value = (\<lambda>q. word_of_int (- ((- plain_milli q) div 1000))),
      q_milliValue = (\<lambda>q. word_of_int (plain_milli q)),
      q_cmp = (\<lambda>a b. if plain_milli a < plain_milli b then - 1 else if plain_milli a = plain_milli b then 0 else 1),
      q_string = (\<lambda>q. case q of Quantity s \<Rightarrow> s),
      q_newQuantity = (\<lambda>n. Quantity (fmt_d n)),
      q_newMilliQuantity = (\<lambda>n. Quantity (fmt_d n @ ''m''))\<rparr>"

lemma plain_cmp_law: "cmp_law plain_amount plain_quantities"
  by (auto simp: cmp_law_def plain_quantities_def plain_amount_def divide_less_cancel)

lemma plain_value_law: "value_law plain_amount plain_quantities"
  unfolding value_law_def
proof (intro allI impI)
  fix q assume *: "0 \<le> plain_amount q" "plain_amount q \<le> 2 ^ 63 - 1"
  have eq: "\<lceil>plain_amount q\<rceil> = - ((- plain_milli q) div 1000)"
    by (metis ceiling_divide_eq_div of_int_numeral plain_amount_def)
  have "0 \<le> \<lceil>plain_amount q\<rceil>" using *(1) by simp
  moreover have "\<lceil>plain_amount q\<rceil> \<le> 2 ^ 63 - 1" using *(2) by (simp add: ceiling_le_iff)
  ultimately show "sint (q_value plain_quantities q) = \<lceil>plain_amount q\<rceil>"
    unfolding eq plain_quantities_def quantity_ops.select_convs
    by (intro sint_word_of_int_id) simp_all
qed

lemma plain_milli_new: "plain_milli (q_newMilliQuantity plain_quantities m) = sint m"
proof (cases "sint m < 0")
  case True
  then show ?thesis by (simp add: plain_quantities_def fmt_int_def read_fmt_pos)
next
  case False
  then obtain c cs where "fmt_pos (sint m) = c # cs" "c \<noteq> CHR ''-''"
    using fmt_pos_nonempty [of "sint m"] fmt_pos_no_minus [of "sint m"]
    by (cases "fmt_pos (sint m)") auto
  with False show ?thesis
    using read_fmt_pos [of "sint m"] by (simp add: plain_quantities_def fmt_int_def)
qed

lemma plain_milli_law: "milli_law plain_amount plain_quantities"
  unfolding milli_law_def
proof (intro conjI allI impI)
  fix q assume *: "0 \<le> plain_amount q" "1000 * plain_amount q \<le> 2 ^ 63 - 1"
  have "of_int (plain_milli q) \<le> (of_int (2 ^ 63 - 1) :: rat)" using *(2) by (simp add: plain_amount_def)
  then have "plain_milli q \<le> 2 ^ 63 - 1" by (simp only: of_int_le_iff)
  with * show "sint (q_milliValue plain_quantities q) = \<lceil>1000 * plain_amount q\<rceil>"
    by (simp add: plain_quantities_def plain_amount_def sint_word_of_int_id)
next
  fix m show "plain_amount (q_newMilliQuantity plain_quantities m) = of_int (sint m) / 1000"
    by (simp add: plain_amount_def plain_milli_new)
qed

section \<open>A sample resource\<close>

text \<open>A mainnet validator of 120 GiB, on which witnesses are evaluated.\<close>

definition sample_spec :: TaoNodeSpec where
  "sample_spec =
     \<lparr>spec_network = ''mainnet'', spec_subnetID = 1, spec_role = RoleValidator, spec_image = ''img'',
      spec_version = ''v1'',
      spec_chainStorage = \<lparr>cs_storageClass = ''ssd'', cs_size = Quantity ''128849018880'',
        cs_autoExpand = Some \<lparr>ae_thresholdPercent = 80, ae_maxSize = Quantity ''214748364800'', ae_incrementPercent = 20\<rparr>\<rparr>,
      spec_syncPolicy = \<lparr>sp_maxBlockLag = 50, sp_recoveryStrategy = ''restart'', sp_maxRestartAttempts = 3,
        sp_probeIntervalSeconds = 30, sp_syncTimeoutMinutes = 60\<rparr>,
      spec_snapshotPolicy = Some \<lparr>snp_schedule = ''0 * * * *'',
        snp_destination = \<lparr>sd_type = ''csi'', sd_bucket = '''', sd_credentialsSecret = ''''\<rparr>,
        snp_retentionCount = 2, snp_onSyncLoss = True\<rparr>,
      spec_gpu = None,
      spec_validator = Some \<lparr>val_hotKeySecret = ''hot'', val_coldKeyVaultRef = '''', val_externalSecretProvider = '''',
        val_slashingProtection = True, val_maxConcurrentValidators = 1\<rparr>,
      spec_resources = \<lparr>rr_requests = None, rr_limits = None\<rparr>,
      spec_monitoring = None, spec_analytics = None, spec_aiAdvisor = None, spec_disasterRecovery = None,
      spec_tolerations = [], spec_nodeSelector = Map.empty\<rparr>"

definition sample_node :: TaoNode where
  "sample_node =
     \<lparr>tn_typeMeta = \<lparr>tm_kind = ''TaoNode'', tm_apiVersion = ''tao.guardian.io/v1alpha1''\<rparr>,
      tn_meta = \<lparr>om_name = ''node'', om_namespace = ''tao'', om_uid = ''uid-1'', om_resourceVersion = ''1'',
        om_generation = 1, om_deletionTimestamp = None, om_finalizers = [], om_managedFields = [],
        om_labels = Map.empty, om_annotations = Map.empty\<rparr>,
      tn_spec = sample_spec, tn_status = zero_TaoNodeStatus\<rparr>"

definition with_size :: "string \<Rightarrow> TaoNode \<Rightarrow> TaoNode" where
  "with_size s r = r\<lparr>tn_spec := (tn_spec r)\<lparr>spec_chainStorage := (spec_chainStorage (tn_spec r))\<lparr>cs_size := Quantity s\<rparr>\<rparr>\<rparr>"

end
