(* ===== verification/Admission_Webhook.thy ===== *)
theory Admission_Webhook
  imports Kube_Quantities "HOL-Library.List_Lexorder" "HOL-Library.Char_ord"
begin

text \<open>
  The validating admission webhook, \<open>api/v1alpha1/taonode_webhook.go\<close>: one definition per
  validation function, each returning the list of field errors in the order the code appends them,
  and \<open>validate\<close>, \<open>ValidateCreate\<close>, \<open>ValidateUpdate\<close>, \<open>ValidateDelete\<close> over them. A field path is
  the list of its segments. The methods of \<open>resource.Quantity\<close> are the parameter \<open>Q\<close>.

  The locale \<open>field_rules\<close> is the contract the validation functions share: no error exactly when
  the rule holds, and every error located under the path the function was given.
\<close>

section \<open>Field errors\<close>

datatype bad_value = BadBool bool | BadInt int | BadString string

datatype field_error =
  Required "string list" string
| Invalid "string list" bad_value string
| NotSupported "string list" string "string list"
| Forbidden "string list" string

fun fe_path :: "field_error \<Rightarrow> string list" where
  "fe_path (Required p _) = p"
| "fe_path (Invalid p _ _) = p"
| "fe_path (NotSupported p _ _) = p"
| "fe_path (Forbidden p _) = p"

text \<open>The object handed to \<open>ValidateUpdate\<close>: a \<open>*TaoNode\<close> or a value of another type.\<close>

datatype runtime_object = ObjTaoNode TaoNode | ObjOther string

datatype admission_error = NewInvalid string string string "field_error list" | AdmissionErrorf string

type_synonym admission_result = "string list \<times> admission_error option"

section \<open>Validation functions\<close>

definition validateValidatorSpec :: "TaoNode \<Rightarrow> string list \<Rightarrow> field_error list" where
  "validateValidatorSpec r fldPath =
     (case spec_validator (tn_spec r) of
        None \<Rightarrow>
          [Required (fldPath @ [''validator''])
             (''validator spec is required when role is 'validator' or 'miner'' @ [CHR 0x27])]
      | Some v \<Rightarrow>
          (if val_hotKeySecret v = '''' then
             [Required (fldPath @ [''validator'', ''hotKeySecret''])
                ''hotKeySecret must be specified for validator and miner nodes''] else []) @
          (if tn_network r = ''mainnet'' \<and> \<not> val_slashingProtection v then
             [Invalid (fldPath @ [''validator'', ''slashingProtection'']) (BadBool False)
                ''slashing protection cannot be disabled on mainnet (risk of double-signing penalties)'']
           else []) @
          (if tn_network r = ''mainnet'' \<and> val_maxConcurrentValidators v \<noteq> 1 then
             [Invalid (fldPath @ [''validator'', ''maxConcurrentValidators''])
                (BadInt (sint (val_maxConcurrentValidators v)))
                ''must be exactly 1 on mainnet to prevent slashing from duplicate validators'']
           else []))"

definition validGPUTypes :: "string list" where
  "validGPUTypes = [''nvidia-a100'', ''nvidia-h100'', ''nvidia-t4'', ''nvidia-l4'', ''nvidia-a10g'',
     ''nvidia-v100'', ''amd-gpu'']"

definition validateGPUSpec :: "GPUSpec \<Rightarrow> string list \<Rightarrow> field_error list" where
  "validateGPUSpec gpu fldPath =
     (if gpu_type gpu \<notin> set validGPUTypes then
        [NotSupported (fldPath @ [''type'']) (gpu_type gpu) (sort validGPUTypes)] else []) @
     (if gpu_count gpu <s 1 then
        [Invalid (fldPath @ [''count'']) (BadInt (sint (gpu_count gpu))) ''GPU count must be at least 1'']
      else [])"

definition minSizes :: "(TaoNodeRole \<times> int64) list" where
  "minSizes = [(RoleSubtensor, 100 * 1024 * 1024 * 1024), (RoleMiner, 50 * 1024 * 1024 * 1024),
     (RoleValidator, 100 * 1024 * 1024 * 1024)]"

definition validateStorageSize :: "quantity_ops \<Rightarrow> TaoNode \<Rightarrow> string list \<Rightarrow> field_error list" where
  "validateStorageSize Q r fldPath =
     (case map_of minSizes (tn_role r) of
        None \<Rightarrow> []
      | Some minSize \<Rightarrow>
          if q_value Q (cs_size (spec_chainStorage (tn_spec r))) <s minSize then
            (let minGiB = quot64 minSize (1024 * 1024 * 1024)
             in [Invalid (fldPath @ [''size'']) (BadString (q_string Q (cs_size (spec_chainStorage (tn_spec r)))))
                   (''minimum storage for '' @ role_string (tn_role r) @ '' role is '' @ fmt_d minGiB @ ''Gi'')])
          else []) @
     (case cs_autoExpand (spec_chainStorage (tn_spec r)) of
        None \<Rightarrow> []
      | Some ae \<Rightarrow>
          if q_cmp Q (ae_maxSize ae) (cs_size (spec_chainStorage (tn_spec r))) < 0 then
            [Invalid (fldPath @ [''autoExpand'', ''maxSize'']) (BadString (q_string Q (ae_maxSize ae)))
               ''autoExpand.maxSize must be greater than or equal to the initial size'']
          else [])"

definition validateAnalyticsSpec :: "AnalyticsSpec \<Rightarrow> string list \<Rightarrow> field_error list" where
  "validateAnalyticsSpec a fldPath =
     (if ch_endpoint (an_clickHouseRef a) = '''' then
        [Required (fldPath @ [''clickhouseRef'', ''endpoint''])
           ''clickhouseRef.endpoint is required when analytics is enabled''] else []) @
     (if ch_credentialsSecret (an_clickHouseRef a) = '''' then
        [Required (fldPath @ [''clickhouseRef'', ''credentialsSecret''])
           ''clickhouseRef.credentialsSecret is required when analytics is enabled''] else [])"

definition validateImmutableFields ::
  "quantity_ops \<Rightarrow> TaoNode \<Rightarrow> TaoNode \<Rightarrow> string list \<Rightarrow> field_error list" where
  "validateImmutableFields Q r old fldPath =
     (if tn_network r \<noteq> tn_network old then
        [Forbidden (fldPath @ [''network''])
           (''network is immutable after creation '' @ em_dash @ '' create a new TaoNode to change networks'')]
      else []) @
     (if spec_subnetID (tn_spec r) \<noteq> spec_subnetID (tn_spec old) then
        [Forbidden (fldPath @ [''subnetID'']) ''subnetID is immutable after creation''] else []) @
     (if q_cmp Q (cs_size (spec_chainStorage (tn_spec r))) (cs_size (spec_chainStorage (tn_spec old))) < 0 then
        [Forbidden (fldPath @ [''chainStorage'', ''size''])
           (''storage size can only be increased (current: '' @
            q_string Q (cs_size (spec_chainStorage (tn_spec old))) @ '')'')]
      else [])"

section \<open>The webhook\<close>

definition validate_errs :: "quantity_ops \<Rightarrow> TaoNode \<Rightarrow> TaoNode option \<Rightarrow> field_error list" where
  "validate_errs Q r oldNode =
     (case tn_role r of
        RoleValidator \<Rightarrow> validateValidatorSpec r [''spec'']
      | RoleMiner \<Rightarrow> validateValidatorSpec r [''spec'']
      | _ \<Rightarrow>
          if spec_validator (tn_spec r) \<noteq> None then
            [Forbidden [''spec'', ''validator'']
               (''validator key material is only allowed for roles 'validator' or 'miner'' @ [CHR 0x27])]
          else []) @
     (case spec_gpu (tn_spec r) of
        Some gpu \<Rightarrow> validateGPUSpec gpu [''spec'', ''gpu'']
      | None \<Rightarrow> []) @
     validateStorageSize Q r [''spec'', ''chainStorage''] @
     (case spec_analytics (tn_spec r) of
        Some a \<Rightarrow> if an_enabled a then validateAnalyticsSpec a [''spec'', ''analytics''] else []
      | None \<Rightarrow> []) @
     (case oldNode of
        Some old \<Rightarrow> validateImmutableFields Q r old [''spec'']
      | None \<Rightarrow> [])"

definition validate :: "quantity_ops \<Rightarrow> TaoNode \<Rightarrow> TaoNode option \<Rightarrow> admission_result" where
  "validate Q r oldNode =
     (let allErrs = validate_errs Q r oldNode
      in if length allErrs > 0 then ([], Some (NewInvalid ''tao.guardian.io'' ''TaoNode'' (tn_name r) allErrs))
         else ([], None))"

definition ValidateCreate :: "quantity_ops \<Rightarrow> TaoNode \<Rightarrow> admission_result" where
  "ValidateCreate Q r = validate Q r None"

definition ValidateUpdate :: "quantity_ops \<Rightarrow> TaoNode \<Rightarrow> runtime_object \<Rightarrow> admission_result" where
  "ValidateUpdate Q r old =
     (case old of
        ObjTaoNode oldNode \<Rightarrow> validate Q r (Some oldNode)
      | ObjOther ty \<Rightarrow> ([], Some (AdmissionErrorf (''expected *TaoNode, got '' @ ty))))"

definition ValidateDelete :: "TaoNode \<Rightarrow> admission_result" where
  "ValidateDelete r = ([], None)"

section \<open>The rules as predicates\<close>

fun needs_keys :: "TaoNodeRole \<Rightarrow> bool" where
  "needs_keys RoleValidator = True"
| "needs_keys RoleMiner = True"
| "needs_keys _ = False"

definition key_rule :: "TaoNode \<Rightarrow> bool" where
  "key_rule r \<longleftrightarrow> (case spec_validator (tn_spec r) of
     None \<Rightarrow> False
   | Some v \<Rightarrow> val_hotKeySecret v \<noteq> '''' \<and>
       (tn_network r = ''mainnet'' \<longrightarrow> val_slashingProtection v \<and> val_maxConcurrentValidators v = 1))"

definition gpu_rule :: "GPUSpec \<Rightarrow> bool" where
  "gpu_rule gpu \<longleftrightarrow> gpu_type gpu \<in> set validGPUTypes \<and> 1 \<le> sint (gpu_count gpu)"

definition min_gib :: "TaoNodeRole \<Rightarrow> int" where
  "min_gib role = (case role of RoleSubtensor \<Rightarrow> 100 | RoleValidator \<Rightarrow> 100 | RoleMiner \<Rightarrow> 50 | RoleOther _ \<Rightarrow> - (2 ^ 33))"

definition storage_rule :: "quantity_ops \<Rightarrow> TaoNode \<Rightarrow> bool" where
  "storage_rule Q r \<longleftrightarrow>
     min_gib (tn_role r) * 2 ^ 30 \<le> sint (q_value Q (cs_size (spec_chainStorage (tn_spec r)))) \<and>
     (case cs_autoExpand (spec_chainStorage (tn_spec r)) of
        None \<Rightarrow> True
      | Some ae \<Rightarrow> 0 \<le> q_cmp Q (ae_maxSize ae) (cs_size (spec_chainStorage (tn_spec r))))"

definition analytics_rule :: "AnalyticsSpec \<Rightarrow> bool" where
  "analytics_rule a \<longleftrightarrow> ch_endpoint (an_clickHouseRef a) \<noteq> '''' \<and> ch_credentialsSecret (an_clickHouseRef a) \<noteq> ''''"

definition immutable_rule :: "quantity_ops \<Rightarrow> TaoNode \<times> TaoNode \<Rightarrow> bool" where
  "immutable_rule Q p \<longleftrightarrow> (case p of (r, old) \<Rightarrow>
     tn_network r = tn_network old \<and> spec_subnetID (tn_spec r) = spec_subnetID (tn_spec old) \<and>
     0 \<le> q_cmp Q (cs_size (spec_chainStorage (tn_spec r))) (cs_size (spec_chainStorage (tn_spec old))))"

definition admissible :: "quantity_ops \<Rightarrow> TaoNode \<Rightarrow> TaoNode option \<Rightarrow> bool" where
  "admissible Q r old \<longleftrightarrow>
     (if needs_keys (tn_role r) then key_rule r else spec_validator (tn_spec r) = None) \<and>
     (\<forall>gpu. spec_gpu (tn_spec r) = Some gpu \<longrightarrow> gpu_rule gpu) \<and>
     storage_rule Q r \<and>
     (\<forall>a. spec_analytics (tn_spec r) = Some a \<and> an_enabled a \<longrightarrow> analytics_rule a) \<and>
     (\<forall>o'. old = Some o' \<longrightarrow> immutable_rule Q (r, o'))"

section \<open>The contract of the validation functions\<close>

locale field_rules =
  fixes check :: "'a \<Rightarrow> string list \<Rightarrow> field_error list"
    and holds :: "'a \<Rightarrow> bool"
  assumes nil_iff: "check x p = [] \<longleftrightarrow> holds x"
    and located: "e \<in> set (check x p) \<Longrightarrow> \<exists>q. q \<noteq> [] \<and> fe_path e = p @ q"
begin

lemma located_under: "e \<in> set (check x p) \<Longrightarrow> take (length p) (fe_path e) = p"
  using located by fastforce

end

lemma min_gib_map_of:
  "(case map_of minSizes role of None \<Rightarrow> False | Some m \<Rightarrow> v <s m) \<longleftrightarrow> \<not> min_gib role * 2 ^ 30 \<le> sint v"
  using sint_range64 [of v] by (cases role) (auto simp: minSizes_def min_gib_def sint_cmp)

interpretation key_check: field_rules validateValidatorSpec key_rule
  by unfold_locales (auto simp: validateValidatorSpec_def key_rule_def split: option.splits if_splits)

interpretation gpu_check: field_rules validateGPUSpec gpu_rule
  by unfold_locales (auto simp: validateGPUSpec_def gpu_rule_def sint_cmp split: if_splits)

interpretation storage_check: field_rules "validateStorageSize Q" "storage_rule Q" for Q
proof (unfold_locales, goal_cases)
  case (1 x p)
  have "validateStorageSize Q x p = [] \<longleftrightarrow>
     \<not> (case map_of minSizes (tn_role x) of None \<Rightarrow> False
        | Some m \<Rightarrow> q_value Q (cs_size (spec_chainStorage (tn_spec x))) <s m) \<and>
     (case cs_autoExpand (spec_chainStorage (tn_spec x)) of None \<Rightarrow> True
      | Some ae \<Rightarrow> 0 \<le> q_cmp Q (ae_maxSize ae) (cs_size (spec_chainStorage (tn_spec x))))"
    by (auto simp: validateStorageSize_def Let_def split: option.splits)
  then show ?case unfolding min_gib_map_of storage_rule_def by blast
next
  case (2 e x p)
  then show ?case by (auto simp: validateStorageSize_def Let_def split: option.splits if_splits)
qed

interpretation analytics_check: field_rules validateAnalyticsSpec analytics_rule
  by unfold_locales (auto simp: validateAnalyticsSpec_def analytics_rule_def split: if_splits)

interpretation immutable_check: field_rules "\<lambda>(r, old). validateImmutableFields Q r old" "immutable_rule Q" for Q
  by unfold_locales (auto simp: validateImmutableFields_def immutable_rule_def split: if_splits)

lemmas rule_nil_iffs = key_check.nil_iff gpu_check.nil_iff storage_check.nil_iff
  analytics_check.nil_iff immutable_check.nil_iff [of _ "(r, old)" for r old, simplified]

lemma validate_errs_nil: "validate_errs Q r old = [] \<longleftrightarrow> admissible Q r old"
  by (cases "tn_role r")
    (auto simp: validate_errs_def admissible_def rule_nil_iffs split: option.splits)

section \<open>Properties of the webhook\<close>

lemma errs_under_spec: "e \<in> set (validate_errs Q r old) \<Longrightarrow> hd (fe_path e) = ''spec''"
  by (auto simp: validate_errs_def split: option.splits TaoNodeRole.splits if_splits
      dest!: key_check.located gpu_check.located storage_check.located analytics_check.located
        immutable_check.located [of _ Q "(r, old)" for r old, simplified])

lemma validate_ok_iff: "validate Q r old = ([], None) \<longleftrightarrow> admissible Q r old"
  by (auto simp: validate_def Let_def validate_errs_nil [symmetric])

text \<open>
  C9. The webhook accepts a resource exactly when it satisfies the admission rules (key material
  required for validators and miners and forbidden for other roles, mainnet slashing protection and
  a single validator, known GPU types, minimum sizes per role, a maximal size not below the size,
  ClickHouse coordinates when analytics is on, and the immutability rules on update). Otherwise it
  answers with an \<open>Invalid\<close> status naming the resource, with at least one error, all under \<open>spec\<close>.
\<close>

theorem webhook_decides:
  "if admissible Q r old then validate Q r old = ([], None)
   else \<exists>errs. validate Q r old = ([], Some (NewInvalid ''tao.guardian.io'' ''TaoNode'' (tn_name r) errs)) \<and>
     errs \<noteq> [] \<and> list_all (\<lambda>e. hd (fe_path e) = ''spec'') errs"
proof (cases "admissible Q r old")
  case True
  then show ?thesis by (simp add: validate_ok_iff)
next
  case False
  then have "validate_errs Q r old \<noteq> []" by (simp add: validate_errs_nil)
  then show ?thesis using False by (auto simp: validate_def Let_def list_all_iff errs_under_spec)
qed

text \<open>The versions of a resource that passed the webhook, from its creation through its updates.\<close>

inductive admitted :: "quantity_ops \<Rightarrow> TaoNode \<Rightarrow> TaoNode \<Rightarrow> bool" for Q where
  created: "ValidateCreate Q r = ([], None) \<Longrightarrow> admitted Q r r"
| updated: "admitted Q r0 r \<Longrightarrow> ValidateUpdate Q r' (ObjTaoNode r) = ([], None) \<Longrightarrow> admitted Q r0 r'"

lemma admitted_current:
  "admitted Q r0 r \<Longrightarrow> \<exists>old. admissible Q r old"
  by (induction rule: admitted.induct) (auto simp: ValidateCreate_def ValidateUpdate_def validate_ok_iff)

lemma admitted_immutable:
  assumes "cmp_law amount Q"
  shows "admitted Q r0 r \<Longrightarrow> tn_network r = tn_network r0 \<and>
    spec_subnetID (tn_spec r) = spec_subnetID (tn_spec r0) \<and>
    amount (cs_size (spec_chainStorage (tn_spec r0))) \<le> amount (cs_size (spec_chainStorage (tn_spec r)))"
proof (induction rule: admitted.induct)
  case (updated r0 r r')
  have "immutable_rule Q (r', r)"
    using updated.hyps(2) by (simp add: ValidateUpdate_def validate_ok_iff admissible_def)
  then show ?case
    using updated.IH assms by (auto simp: immutable_rule_def cmp_law_def split: if_splits)
qed simp

text \<open>
  C8. Over every history of accepted requests, network and subnet stay those of the creation and
  the requested size never shrinks, and at every moment a validator or miner has a hotkey secret,
  on mainnet it has slashing protection and exactly one concurrent validator, and a resource of
  another role carries no key material.
\<close>

theorem webhook_history:
  assumes "cmp_law amount Q" and "admitted Q r0 r"
  shows "tn_network r = tn_network r0 \<and> spec_subnetID (tn_spec r) = spec_subnetID (tn_spec r0) \<and>
    amount (cs_size (spec_chainStorage (tn_spec r0))) \<le> amount (cs_size (spec_chainStorage (tn_spec r))) \<and>
    (case spec_validator (tn_spec r) of
       None \<Rightarrow> \<not> needs_keys (tn_role r)
     | Some v \<Rightarrow> needs_keys (tn_role r) \<and> val_hotKeySecret v \<noteq> '''' \<and>
         (tn_network r0 = ''mainnet'' \<longrightarrow> val_slashingProtection v \<and> val_maxConcurrentValidators v = 1))"
proof -
  obtain old where "admissible Q r old" using admitted_current [OF assms(2)] by blast
  then show ?thesis
    using admitted_immutable [OF assms]
    by (auto simp: admissible_def key_rule_def split: option.splits if_splits)
qed

theorem webhook_history_witness:
  "admitted plain_quantities sample_node (with_size ''193273528320'' sample_node) \<and>
   plain_amount (Quantity ''128849018880'') \<le> plain_amount (Quantity ''193273528320'')"
proof -
  have "ValidateCreate plain_quantities sample_node = ([], None)"
    "ValidateUpdate plain_quantities (with_size ''193273528320'' sample_node) (ObjTaoNode sample_node) = ([], None)"
    by code_simp+
  then have "admitted plain_quantities sample_node (with_size ''193273528320'' sample_node)"
    by (intro updated [OF created])
  from this webhook_history [OF plain_cmp_law this] show ?thesis
    by (simp add: with_size_def sample_node_def sample_spec_def)
qed

text \<open>
  An accepted resource satisfies the size rules in the numbers its quantities denote: at least
  100 GiB (50 GiB for a miner), up to the rounding of \<open>Value\<close>, and never more than the maximal
  size of its auto-expansion.
\<close>

theorem webhook_sizes:
  assumes "cmp_law amount Q" and "value_law amount Q" and "admitted Q r0 r"
    and "0 \<le> amount (cs_size (spec_chainStorage (tn_spec r)))"
    and "amount (cs_size (spec_chainStorage (tn_spec r))) \<le> 2 ^ 63 - 1"
  shows "(tn_role r = RoleValidator \<or> tn_role r = RoleSubtensor \<longrightarrow>
      100 * 2 ^ 30 - 1 < amount (cs_size (spec_chainStorage (tn_spec r)))) \<and>
    (tn_role r = RoleMiner \<longrightarrow> 50 * 2 ^ 30 - 1 < amount (cs_size (spec_chainStorage (tn_spec r)))) \<and>
    (\<forall>ae. cs_autoExpand (spec_chainStorage (tn_spec r)) = Some ae \<longrightarrow>
      amount (cs_size (spec_chainStorage (tn_spec r))) \<le> amount (ae_maxSize ae))"
proof -
  let ?a = "amount (cs_size (spec_chainStorage (tn_spec r)))"
  have "storage_rule Q r"
    using admitted_current [OF assms(3)] by (auto simp: admissible_def)
  moreover have "sint (q_value Q (cs_size (spec_chainStorage (tn_spec r)))) = \<lceil>?a\<rceil>"
    using assms(2,4,5) by (simp add: value_law_def)
  ultimately have low: "min_gib (tn_role r) * 2 ^ 30 \<le> \<lceil>?a\<rceil>"
    and high: "\<forall>ae. cs_autoExpand (spec_chainStorage (tn_spec r)) = Some ae \<longrightarrow> ?a \<le> amount (ae_maxSize ae)"
    using assms(1) by (auto simp: storage_rule_def cmp_law_def split: option.splits if_splits)
  have "of_int (min_gib (tn_role r) * 2 ^ 30) - 1 < ?a"
    using low by (simp only: le_ceiling_iff)
  then show ?thesis using high by (auto simp: min_gib_def)
qed

theorem webhook_sizes_witness:
  "100 * 2 ^ 30 - 1 < plain_amount (Quantity ''128849018880'')"
proof -
  have acc: "ValidateCreate plain_quantities sample_node = ([], None)" by code_simp
  have size: "cs_size (spec_chainStorage (tn_spec sample_node)) = Quantity ''128849018880''"
    "tn_role sample_node = RoleValidator"
    by (simp_all add: sample_node_def sample_spec_def)
  have "0 \<le> plain_amount (Quantity ''128849018880'')" "plain_amount (Quantity ''128849018880'') \<le> 2 ^ 63 - 1"
    by (simp_all add: plain_amount_def)
  then show ?thesis
    using webhook_sizes [OF plain_cmp_law plain_value_law created [OF acc]] by (simp add: size)
qed

end
