(* ===== verification/Recovery_Limiter.thy ===== *)
theory Recovery_Limiter
  imports Guardian_Prelude
begin

text \<open>
  The recovery rate limiter, \<open>internal/controller/rate_limiter.go\<close>: a cap on the recoveries in
  flight across the fleet and a cooldown per node. The mutex makes each operation one atomic
  step; the clock is read once per operation and is an argument of the model.

  The interface the sync state machine relies on is the locale \<open>recovery_gate\<close>: what a grant, a
  refusal and a release do to the set of recoveries in flight and to the time of the last grant.
  Its lemmas (the cap on every run, the spacing of the grants of one node, the bound on the nodes
  granted within one hold period) are proved once there and instantiated for the code's limiter.
\<close>

section \<open>The limiter\<close>

record RecoveryRateLimiter =
  activeRecoveries :: "(string \<times> time) list"
  lastRecoveryByNode :: "(string \<times> time) list"
  maxConcurrent :: int
  cooldownPerNode :: duration
  recoveryThrottled :: nat
  activeRecoveriesGauge :: nat

definition NewRecoveryRateLimiter :: "int \<Rightarrow> duration \<Rightarrow> RecoveryRateLimiter" where
  "NewRecoveryRateLimiter maxConc cooldown =
     \<lparr>activeRecoveries = [], lastRecoveryByNode = [], maxConcurrent = maxConc,
      cooldownPerNode = cooldown, recoveryThrottled = 0, activeRecoveriesGauge = 0\<rparr>"

definition staleAfter :: duration where
  "staleAfter = 5 * minute"

definition evictStale :: "time \<Rightarrow> (string \<times> time) list \<Rightarrow> (string \<times> time) list" where
  "evictStale now active = filter (\<lambda>(k, started). \<not> staleAfter <s since now started) active"

definition TryAcquire :: "time \<Rightarrow> string \<Rightarrow> RecoveryRateLimiter \<Rightarrow> RecoveryRateLimiter \<times> bool" where
  "TryAcquire now nodeKey rl =
     (let active = evictStale now (activeRecoveries rl);
          rl1 = rl\<lparr>activeRecoveries := active\<rparr>;
          throttled = (rl1\<lparr>recoveryThrottled := Suc (recoveryThrottled rl1)\<rparr>, False)
      in if maxConcurrent rl1 \<le> int (length active) then throttled
         else if (case map_of (lastRecoveryByNode rl1) nodeKey of
                    Some lastRec \<Rightarrow> since now lastRec <s cooldownPerNode rl1
                  | None \<Rightarrow> False) then throttled
         else (let active' = AList.update nodeKey now active
               in (rl1\<lparr>activeRecoveries := active',
                       lastRecoveryByNode := AList.update nodeKey now (lastRecoveryByNode rl1),
                       activeRecoveriesGauge := length active'\<rparr>, True)))"

definition Release :: "string \<Rightarrow> RecoveryRateLimiter \<Rightarrow> RecoveryRateLimiter" where
  "Release nodeKey rl =
     (let active = AList.delete nodeKey (activeRecoveries rl)
      in rl\<lparr>activeRecoveries := active, activeRecoveriesGauge := length active\<rparr>)"

definition ActiveCount :: "RecoveryRateLimiter \<Rightarrow> nat" where
  "ActiveCount rl = length (activeRecoveries rl)"

definition limiter_inv :: "RecoveryRateLimiter \<Rightarrow> bool" where
  "limiter_inv rl \<longleftrightarrow> keys_distinct (activeRecoveries rl) \<and> keys_distinct (lastRecoveryByNode rl)"

section \<open>Runs of a gate\<close>

datatype 'k gate_op = Acquire time 'k | Done 'k

text \<open>A sequence of operations, with the grants it gave, in order.\<close>

fun gate_run ::
  "(time \<Rightarrow> 'k \<Rightarrow> 's \<Rightarrow> 's \<times> bool) \<Rightarrow> ('k \<Rightarrow> 's \<Rightarrow> 's) \<Rightarrow> 'k gate_op list \<Rightarrow> 's \<Rightarrow> 's \<times> (time \<times> 'k) list" where
  "gate_run try rel [] s = (s, [])"
| "gate_run try rel (Acquire t k # ops) s =
     (let (s1, granted) = try t k s; (s2, gs) = gate_run try rel ops s1
      in (s2, if granted then (t, k) # gs else gs))"
| "gate_run try rel (Done k # ops) s = gate_run try rel ops (rel k s)"

fun op_times :: "'k gate_op list \<Rightarrow> time list" where
  "op_times [] = []"
| "op_times (Acquire t k # ops) = t # op_times ops"
| "op_times (Done k # ops) = op_times ops"

section \<open>The interface\<close>

locale recovery_gate =
  fixes try_acquire :: "time \<Rightarrow> 'k \<Rightarrow> 's \<Rightarrow> 's \<times> bool"
    and release :: "'k \<Rightarrow> 's \<Rightarrow> 's"
    and in_flight :: "'s \<Rightarrow> 'k \<Rightarrow> time option"
    and last_grant :: "'s \<Rightarrow> 'k \<Rightarrow> time option"
    and cap :: "'s \<Rightarrow> int"
    and cooldown :: "'s \<Rightarrow> duration"
    and hold :: duration
    and invar :: "'s \<Rightarrow> bool"
  assumes finite_flight: "invar s \<Longrightarrow> finite (dom (in_flight s))"
    and try_invar: "invar s \<Longrightarrow> invar (fst (try_acquire t k s))"
    and try_config: "cap (fst (try_acquire t k s)) = cap s"
      "cooldown (fst (try_acquire t k s)) = cooldown s"
    and try_flight: "invar s \<Longrightarrow> in_flight (fst (try_acquire t k s)) j =
      (if j = k \<and> snd (try_acquire t k s) then Some t
       else case in_flight s j of None \<Rightarrow> None | Some st \<Rightarrow> if hold <s since t st then None else Some st)"
    and try_last: "last_grant (fst (try_acquire t k s)) =
      (if snd (try_acquire t k s) then (last_grant s)(k \<mapsto> t) else last_grant s)"
    and try_cap: "invar s \<Longrightarrow> snd (try_acquire t k s) \<Longrightarrow>
      int (card (dom (in_flight (fst (try_acquire t k s))))) \<le> cap s"
    and try_cooldown: "snd (try_acquire t k s) \<Longrightarrow> last_grant s k = Some t0 \<Longrightarrow>
      \<not> since t t0 <s cooldown s"
    and release_invar: "invar s \<Longrightarrow> invar (release k s)"
    and release_config: "cap (release k s) = cap s" "cooldown (release k s) = cooldown s"
    and release_flight: "invar s \<Longrightarrow> in_flight (release k s) = (in_flight s)(k := None)"
    and release_last: "last_grant (release k s) = last_grant s"
begin

lemma try_within_cap:
  assumes "invar s" and "int (card (dom (in_flight s))) \<le> cap s"
  shows "int (card (dom (in_flight (fst (try_acquire t k s))))) \<le> cap s"
proof (cases "snd (try_acquire t k s)")
  case True
  with assms(1) show ?thesis by (rule try_cap)
next
  case False
  then have "dom (in_flight (fst (try_acquire t k s))) \<subseteq> dom (in_flight s)"
    by (auto simp: try_flight [OF assms(1)] dom_def split: option.splits)
  then have "card (dom (in_flight (fst (try_acquire t k s)))) \<le> card (dom (in_flight s))"
    by (intro card_mono finite_flight assms(1))
  with assms(2) show ?thesis by linarith
qed

lemma release_within_cap:
  assumes "invar s" and "int (card (dom (in_flight s))) \<le> cap s"
  shows "int (card (dom (in_flight (release k s)))) \<le> cap s"
proof -
  have "card (dom (in_flight (release k s))) \<le> card (dom (in_flight s))"
    by (intro card_mono finite_flight assms(1)) (auto simp: release_flight [OF assms(1)])
  with assms(2) show ?thesis by linarith
qed

lemma run_invar: "invar s \<Longrightarrow> invar (fst (gate_run try_acquire release ops s))"
proof (induction ops arbitrary: s)
  case (Cons op ops)
  then show ?case by (cases op) (auto simp: Let_def case_prod_unfold try_invar release_invar)
qed simp

lemma run_config:
  "cap (fst (gate_run try_acquire release ops s)) = cap s \<and>
   cooldown (fst (gate_run try_acquire release ops s)) = cooldown s"
proof (induction ops arbitrary: s)
  case (Cons op ops)
  then show ?case
    by (cases op) (auto simp: Let_def case_prod_unfold try_config release_config)
qed simp

theorem run_within_cap:
  "invar s \<Longrightarrow> int (card (dom (in_flight s))) \<le> cap s \<Longrightarrow>
   int (card (dom (in_flight (fst (gate_run try_acquire release ops s))))) \<le> cap s"
proof (induction ops arbitrary: s)
  case (Cons op ops)
  show ?case
  proof (cases op)
    case (Acquire t k)
    let ?s = "fst (try_acquire t k s)"
    have "int (card (dom (in_flight (fst (gate_run try_acquire release ops ?s))))) \<le> cap ?s"
      using Cons.prems by (intro Cons.IH) (simp_all add: try_invar try_config try_within_cap)
    with Acquire show ?thesis by (simp add: Let_def case_prod_unfold try_config)
  next
    case (Done k)
    have "int (card (dom (in_flight (fst (gate_run try_acquire release ops (release k s))))))
        \<le> cap (release k s)"
      using Cons.prems by (intro Cons.IH) (simp_all add: release_invar release_config release_within_cap)
    with Done show ?thesis by (simp add: release_config)
  qed
qed simp

text \<open>Every grant of a run comes from one of its acquisitions.\<close>

lemma run_grant_times:
  "(t, k) \<in> set (snd (gate_run try_acquire release ops s)) \<Longrightarrow> t \<in> set (op_times ops)"
proof (induction ops arbitrary: s)
  case (Cons op ops)
  then show ?case by (cases op) (auto simp: Let_def case_prod_unfold split: if_splits)
qed simp

text \<open>A node that was last granted at \<open>t0\<close> is not granted again within the cooldown.\<close>

lemma run_after_last:
  "sorted (op_times ops) \<Longrightarrow> last_grant s k = Some t0 \<Longrightarrow> \<forall>t\<in>set (op_times ops). t0 \<le> t \<Longrightarrow>
   (t, k) \<in> set (snd (gate_run try_acquire release ops s)) \<Longrightarrow> \<not> since t t0 <s cooldown s"
proof (induction ops arbitrary: s t0)
  case (Cons op ops)
  show ?case
  proof (cases op)
    case (Done j)
    have "\<not> since t t0 <s cooldown (release j s)"
      using Cons.prems Done by (intro Cons.IH) (simp_all add: release_last)
    then show ?thesis by (simp add: release_config)
  next
    case (Acquire u j)
    let ?s = "fst (try_acquire u j s)"
    let ?gs = "snd (gate_run try_acquire release ops ?s)"
    have in_gs: "(t, k) \<in> set ?gs \<or> (t = u \<and> k = j \<and> snd (try_acquire u j s))"
      using Cons.prems(4) Acquire by (auto simp: Let_def case_prod_unfold split: if_splits)
    have u: "\<forall>t\<in>set (op_times ops). u \<le> t" and srt: "sorted (op_times ops)" and t0u: "t0 \<le> u"
      using Cons.prems(1,3) Acquire by simp_all
    show ?thesis
    proof (cases "t = u \<and> k = j \<and> snd (try_acquire u j s)")
      case True
      then show ?thesis using try_cooldown Cons.prems(2) by blast
    next
      case later: False
      with in_gs have gs: "(t, k) \<in> set ?gs" by blast
      show ?thesis
      proof (cases "k = j \<and> snd (try_acquire u j s)")
        case True
        have "\<not> since t u <s cooldown ?s"
          using True gs u srt by (intro Cons.IH) (simp_all add: try_last)
        then have "sint (cooldown s) \<le> sint (since t u)"
          by (simp add: try_config sint_cmp not_less)
        also have "\<dots> \<le> sint (since t t0)"
          using t0u by (rule since_anti)
        finally show ?thesis by (simp add: sint_cmp not_less)
      next
        case False
        then have "last_grant ?s k = Some t0" using Cons.prems(2) by (auto simp: try_last)
        then have "\<not> since t t0 <s cooldown ?s"
          using gs srt Cons.prems(3) Acquire by (intro Cons.IH) simp_all
        then show ?thesis by (simp add: try_config)
      qed
    qed
  qed
qed simp

theorem run_grants_spaced:
  "sorted (op_times ops) \<Longrightarrow> i < j \<Longrightarrow> j < length gs \<Longrightarrow> gs ! i = (t, k) \<Longrightarrow> gs ! j = (u, k) \<Longrightarrow>
   gs = snd (gate_run try_acquire release ops s) \<Longrightarrow> \<not> since u t <s cooldown s"
proof (induction ops arbitrary: s gs i j)
  case (Cons op ops)
  show ?case
  proof (cases op)
    case (Done l)
    have "\<not> since u t <s cooldown (release l s)"
      using Cons.prems Done by (intro Cons.IH [of i j gs]) simp_all
    then show ?thesis by (simp add: release_config)
  next
    case (Acquire v l)
    let ?s = "fst (try_acquire v l s)"
    let ?gs = "snd (gate_run try_acquire release ops ?s)"
    have srt: "sorted (op_times ops)" and v: "\<forall>t\<in>set (op_times ops). v \<le> t"
      using Cons.prems(1) Acquire by simp_all
    show ?thesis
    proof (cases "snd (try_acquire v l s)")
      case False
      then have "gs = ?gs" using Cons.prems(6) Acquire by (simp add: Let_def case_prod_unfold)
      then have "\<not> since u t <s cooldown ?s"
        using Cons.prems srt by (intro Cons.IH [of i j gs]) simp_all
      then show ?thesis by (simp add: try_config)
    next
      case True
      then have gs: "gs = (v, l) # ?gs"
        using Cons.prems(6) Acquire by (simp add: Let_def case_prod_unfold)
      obtain j' where j': "j = Suc j'" using Cons.prems(2) by (cases j) auto
      show ?thesis
      proof (cases i)
        case 0
        then have tk: "t = v" "k = l" using Cons.prems(4) gs by simp_all
        have "(u, k) \<in> set ?gs" using Cons.prems(3,5) gs j' by (auto simp: in_set_conv_nth)
        then have "\<not> since u v <s cooldown ?s"
          using srt v True tk by (intro run_after_last [of ops ?s l]) (simp_all add: try_last)
        then show ?thesis by (simp add: try_config tk)
      next
        case (Suc i')
        have "i' < j'" "j' < length ?gs" "?gs ! i' = (t, k)" "?gs ! j' = (u, k)"
          using Cons.prems(2-5) unfolding gs Suc j' by simp_all
        then have "\<not> since u t <s cooldown ?s" by (rule Cons.IH [OF srt]) simp
        then show ?thesis by (simp add: try_config)
      qed
    qed
  qed
qed simp

text \<open>A grant stays in flight for the hold period unless it is released.\<close>

lemma run_keeps_recent:
  "sorted (op_times ops) \<Longrightarrow> invar s \<Longrightarrow> \<forall>op\<in>set ops. \<exists>t k. op = Acquire t k \<Longrightarrow>
   \<forall>t\<in>set (op_times ops). st \<le> t \<and> t \<le> now \<Longrightarrow> in_flight s k = Some st \<Longrightarrow>
   \<not> hold <s since now st \<Longrightarrow>
   k \<in> dom (in_flight (fst (gate_run try_acquire release ops s)))"
proof (induction ops arbitrary: s st)
  case Nil
  then show ?case by auto
next
  case (Cons op ops)
  then obtain t j where op: "op = Acquire t j" by auto
  let ?s = "fst (try_acquire t j s)"
  have "t \<le> now" "st \<le> t" using Cons.prems(4) op by simp_all
  then have keep: "\<not> hold <s since t st"
    using Cons.prems(6) since_mono [of t now st] by (simp add: sint_cmp)
  obtain st' where st': "in_flight ?s k = Some st'" "st' = st \<or> st' = t"
    using Cons.prems(5) keep
    by (cases "k = j \<and> snd (try_acquire t j s)") (simp_all add: try_flight [OF Cons.prems(2)])
  have "st \<le> st'" using st'(2) \<open>st \<le> t\<close> by auto
  then have "\<not> hold <s since now st'"
    using Cons.prems(6) since_anti [of st st' now] by (simp add: sint_cmp)
  moreover have "\<forall>u\<in>set (op_times ops). st' \<le> u \<and> u \<le> now"
    using Cons.prems(1,4) op st'(2) by auto
  ultimately have "k \<in> dom (in_flight (fst (gate_run try_acquire release ops ?s)))"
    using Cons.prems(1,3) op st'(1) try_invar [OF Cons.prems(2)]
    by (intro Cons.IH [of ?s st']) auto
  then show ?case by (simp add: op Let_def case_prod_unfold)
qed

lemma run_recent_in_flight:
  "sorted (op_times ops) \<Longrightarrow> invar s \<Longrightarrow> \<forall>op\<in>set ops. \<exists>t k. op = Acquire t k \<Longrightarrow>
   \<forall>t\<in>set (op_times ops). t \<le> now \<Longrightarrow>
   (t, k) \<in> set (snd (gate_run try_acquire release ops s)) \<Longrightarrow> \<not> hold <s since now t \<Longrightarrow>
   k \<in> dom (in_flight (fst (gate_run try_acquire release ops s)))"
proof (induction ops arbitrary: s)
  case (Cons op ops)
  then obtain u j where op: "op = Acquire u j" by auto
  let ?s = "fst (try_acquire u j s)"
  have inv: "invar ?s" by (rule try_invar [OF Cons.prems(2)])
  have "k \<in> dom (in_flight (fst (gate_run try_acquire release ops ?s)))"
  proof (cases "t = u \<and> k = j \<and> snd (try_acquire u j s)")
    case True
    then have "in_flight ?s k = Some u" by (simp add: try_flight [OF Cons.prems(2)])
    then show ?thesis
      using Cons.prems op True inv by (intro run_keeps_recent [of ops ?s u now]) auto
  next
    case False
    then have "(t, k) \<in> set (snd (gate_run try_acquire release ops ?s))"
      using Cons.prems(5) op by (auto simp: Let_def case_prod_unfold split: if_splits)
    then show ?thesis using Cons.prems op inv by (intro Cons.IH) auto
  qed
  then show ?case by (simp add: op Let_def case_prod_unfold)
qed simp

theorem run_window_bound:
  assumes "sorted (op_times ops)" and "invar s" and "\<forall>op\<in>set ops. \<exists>t k. op = Acquire t k"
    and "\<forall>t\<in>set (op_times ops). t \<le> now" and "int (card (dom (in_flight s))) \<le> cap s"
  shows "int (card {k. \<exists>t. (t, k) \<in> set (snd (gate_run try_acquire release ops s)) \<and>
                            \<not> hold <s since now t}) \<le> cap s"
proof -
  let ?f = "in_flight (fst (gate_run try_acquire release ops s))"
  have "{k. \<exists>t. (t, k) \<in> set (snd (gate_run try_acquire release ops s)) \<and> \<not> hold <s since now t} \<subseteq> dom ?f"
    using run_recent_in_flight [OF assms(1-4)] by blast
  then have "card {k. \<exists>t. (t, k) \<in> set (snd (gate_run try_acquire release ops s)) \<and> \<not> hold <s since now t}
      \<le> card (dom ?f)"
    by (intro card_mono finite_flight run_invar assms(2))
  with run_within_cap [OF assms(2,5), of ops] show ?thesis by linarith
qed

end

section \<open>The limiter implements the interface\<close>

lemma keys_distinct_evictStale: "keys_distinct al \<Longrightarrow> keys_distinct (evictStale now al)"
  by (simp add: evictStale_def keys_distinct_filter)

lemma map_of_evictStale:
  "keys_distinct al \<Longrightarrow> map_of (evictStale now al) k =
   (case map_of al k of None \<Rightarrow> None | Some st \<Rightarrow> if staleAfter <s since now st then None else Some st)"
  by (induction al) (force simp: evictStale_def split: option.splits dest: map_of_SomeD)+

lemma TryAcquire_granted_cap:
  "limiter_inv rl \<Longrightarrow> snd (TryAcquire now k rl) \<Longrightarrow>
   int (length (activeRecoveries (fst (TryAcquire now k rl)))) \<le> maxConcurrent rl"
  by (auto simp: TryAcquire_def Let_def length_alist_update limiter_inv_def split: if_splits option.splits)

lemma card_dom_map_of: "keys_distinct al \<Longrightarrow> card (dom (map_of al)) = length al"
  by (metis distinct_card dom_map_of_conv_image_fst length_map list.set_map)

interpretation limiter: recovery_gate TryAcquire Release "\<lambda>rl. map_of (activeRecoveries rl)"
  "\<lambda>rl. map_of (lastRecoveryByNode rl)" maxConcurrent cooldownPerNode staleAfter limiter_inv
proof (unfold_locales, goal_cases)
  case (2 s t k)
  then show ?case
    by (auto simp: limiter_inv_def TryAcquire_def Let_def keys_distinct_evictStale distinct_update
        split: option.splits)
next
  case (5 s t k j)
  then show ?case
    by (auto simp: limiter_inv_def TryAcquire_def Let_def map_of_evictStale update_conv'
        split: option.splits)
next
  case (7 s t k)
  have "keys_distinct (activeRecoveries (fst (TryAcquire t k s)))"
    using 7 by (auto simp: limiter_inv_def TryAcquire_def Let_def keys_distinct_evictStale distinct_update
        split: option.splits)
  then show ?case using TryAcquire_granted_cap [OF 7] by (simp add: card_dom_map_of)
next
  case (6 t k s)
  then show ?case by (auto simp: TryAcquire_def Let_def update_conv' split: option.splits)
qed (auto simp: TryAcquire_def Release_def Let_def limiter_inv_def finite_dom_map_of delete_conv'
       distinct_delete split: option.splits if_splits)

section \<open>Properties of the limiter\<close>

lemma NewRecoveryRateLimiter_inv: "limiter_inv (NewRecoveryRateLimiter m d)"
  by (simp add: limiter_inv_def NewRecoveryRateLimiter_def)

lemma limiter_within_cap:
  assumes "0 \<le> m"
  shows "int (ActiveCount (fst (gate_run TryAcquire Release ops (NewRecoveryRateLimiter m d)))) \<le> m"
proof -
  let ?s = "fst (gate_run TryAcquire Release ops (NewRecoveryRateLimiter m d))"
  have "int (card (dom (map_of (activeRecoveries ?s)))) \<le> maxConcurrent (NewRecoveryRateLimiter m d)"
    using assms by (intro limiter.run_within_cap NewRecoveryRateLimiter_inv)
      (simp add: NewRecoveryRateLimiter_def)
  moreover have "limiter_inv ?s" by (intro limiter.run_invar NewRecoveryRateLimiter_inv)
  ultimately show ?thesis
    by (simp add: ActiveCount_def card_dom_map_of limiter_inv_def NewRecoveryRateLimiter_def)
qed

text \<open>
  Whatever operations are called, in whatever order and at whatever times, the number
  \<open>ActiveCount\<close> reports for a limiter made by \<open>NewRecoveryRateLimiter\<close> with a non-negative cap
  never exceeds that cap.
\<close>

theorem limiter_cap:
  assumes "0 \<le> m"
  shows "int (ActiveCount (fst (gate_run TryAcquire Release ops (NewRecoveryRateLimiter m d)))) \<le> m"
  using assms by (rule limiter_within_cap)

theorem limiter_cap_witness:
  "int (ActiveCount (fst (gate_run TryAcquire Release
     [Acquire 1 ''a'', Acquire 2 ''b'', Done ''a'', Acquire 3 ''c'', Acquire 4 ''d'']
     (NewRecoveryRateLimiter 2 minute)))) \<le> 2"
  by (rule limiter_cap) simp

text \<open>
  C11. When the clock does not go back, two grants of the same node in one run are at least the
  cooldown apart: the duration between them, as \<open>time.Since\<close> computes it, is never below
  \<open>cooldownPerNode\<close>.
\<close>

theorem limiter_cooldown:
  assumes "sorted (op_times ops)"
    and "i < j" and "j < length (snd (gate_run TryAcquire Release ops rl))"
    and "snd (gate_run TryAcquire Release ops rl) ! i = (t, k)"
    and "snd (gate_run TryAcquire Release ops rl) ! j = (u, k)"
  shows "\<not> since u t <s cooldownPerNode rl"
  using assms by (rule limiter.run_grants_spaced) simp

theorem limiter_cooldown_witness:
  "snd (gate_run TryAcquire Release [Acquire 0 ''a'', Acquire 5 ''a'', Acquire 10 ''a'']
     (NewRecoveryRateLimiter 2 10)) = [(0, ''a''), (10, ''a'')] \<and>
   \<not> since 10 0 <s cooldownPerNode (NewRecoveryRateLimiter 2 10)"
proof -
  have run: "snd (gate_run TryAcquire Release [Acquire 0 ''a'', Acquire 5 ''a'', Acquire 10 ''a'']
     (NewRecoveryRateLimiter 2 10)) = [(0, ''a''), (10, ''a'')]"
    by code_simp
  then show ?thesis
    using limiter_cooldown [of "[Acquire 0 ''a'', Acquire 5 ''a'', Acquire 10 ''a'']" 0 1
        "NewRecoveryRateLimiter 2 10" 0 "''a''" 10] by simp
qed

text \<open>
  While no recovery is reported complete, the number of distinct nodes granted a recovery
  within the last five minutes is bounded by the cap at every moment: the eviction of stale
  entries does not admit more than \<open>maxConcurrent\<close> nodes per five-minute window.
\<close>

theorem limiter_window:
  assumes "sorted (op_times ops)" and "\<forall>op\<in>set ops. \<exists>t k. op = Acquire t k"
    and "\<forall>t\<in>set (op_times ops). t \<le> now" and "0 \<le> m"
  shows "int (card {k. \<exists>t. (t, k) \<in> set (snd (gate_run TryAcquire Release ops (NewRecoveryRateLimiter m d))) \<and>
                            \<not> 5 * minute <s since now t}) \<le> m"
proof -
  have "int (card {k. \<exists>t. (t, k) \<in> set (snd (gate_run TryAcquire Release ops (NewRecoveryRateLimiter m d))) \<and>
                            \<not> staleAfter <s since now t}) \<le> maxConcurrent (NewRecoveryRateLimiter m d)"
    using assms by (intro limiter.run_window_bound NewRecoveryRateLimiter_inv)
      (simp_all add: NewRecoveryRateLimiter_def)
  then show ?thesis by (simp add: staleAfter_def NewRecoveryRateLimiter_def)
qed

theorem limiter_window_witness:
  "int (card {k. \<exists>t. (t, k) \<in> set (snd (gate_run TryAcquire Release
        [Acquire 1 ''a'', Acquire 2 ''b'', Acquire 3 ''c''] (NewRecoveryRateLimiter 2 minute))) \<and>
        \<not> 5 * minute <s since 3 t}) \<le> 2"
  using limiter_window [of "[Acquire 1 ''a'', Acquire 2 ''b'', Acquire 3 ''c'']" 3 2 minute] by simp

end
