(* ===== verification/Circuit_Breaker.thy ===== *)
theory Circuit_Breaker
  imports Guardian_Prelude
begin

text \<open>
  The circuit breaker in front of ClickHouse, \<open>internal/analytics/circuit_breaker.go\<close>. The state
  word, the half-open permit, the counters and the configuration are the fields of one record; each
  method is one atomic step, and the clock value it reads is an argument. The last section splits the two
  recording methods where the code releases its lock, and shows what a call in between can do.

  The locale \<open>blackout\<close> is what a caller relies on while the circuit is open: refused calls change
  nothing and neither successes nor further failures end the blackout early.
\<close>

section \<open>The breaker\<close>

type_synonym cbState = uint32

definition cbStateClosed :: cbState where "cbStateClosed = 0"

definition cbStateOpen :: cbState where "cbStateOpen = 1"

definition cbStateHalfOpen :: cbState where "cbStateHalfOpen = 2"

lemmas cb_state_defs = cbStateClosed_def cbStateOpen_def cbStateHalfOpen_def

record CircuitBreaker =
  cb_state :: cbState
  cb_halfOpenPermit :: bool
  cb_failures :: int64
  cb_successes :: int64
  cb_lastFailureAt :: time
  cb_maxFailures :: int64
  cb_resetTimeout :: duration
  cb_halfOpenProbes :: int64

definition NewCircuitBreaker :: "int64 \<Rightarrow> duration \<Rightarrow> int64 \<Rightarrow> CircuitBreaker" where
  "NewCircuitBreaker maxFailures resetTimeout halfOpenProbes =
     \<lparr>cb_state = cbStateClosed, cb_halfOpenPermit = False, cb_failures = 0, cb_successes = 0,
      cb_lastFailureAt = time_zero, cb_maxFailures = maxFailures, cb_resetTimeout = resetTimeout,
      cb_halfOpenProbes = halfOpenProbes\<rparr>"

definition Allow :: "time \<Rightarrow> CircuitBreaker \<Rightarrow> CircuitBreaker \<times> bool" where
  "Allow now cb =
     (if cb_state cb = cbStateClosed then (cb, True)
      else if cb_state cb = cbStateOpen then
        (let elapsed = since now (cb_lastFailureAt cb)
         in if elapsed <s cb_resetTimeout cb then (cb, False)
            else if \<not> cb_halfOpenPermit cb then
              (cb\<lparr>cb_halfOpenPermit := True, cb_state := cbStateHalfOpen, cb_successes := 0\<rparr>, True)
            else (cb, False))
      else if cb_state cb = cbStateHalfOpen then (cb, False)
      else (cb, True))"

definition RecordSuccess :: "CircuitBreaker \<Rightarrow> CircuitBreaker" where
  "RecordSuccess cb =
     (if cb_state cb = cbStateHalfOpen then
        (let succs = cb_successes cb + 1;
             shouldClose = cb_halfOpenProbes cb \<le>s succs
         in if shouldClose
            then cb\<lparr>cb_failures := 0, cb_successes := 0, cb_state := cbStateClosed,
                    cb_halfOpenPermit := False\<rparr>
            else cb\<lparr>cb_successes := succs\<rparr>)
      else if cb_state cb = cbStateClosed then cb\<lparr>cb_failures := 0\<rparr>
      else cb)"

definition RecordFailure :: "time \<Rightarrow> CircuitBreaker \<Rightarrow> CircuitBreaker" where
  "RecordFailure now cb =
     (let fails = cb_failures cb + 1;
          cb1 = cb\<lparr>cb_failures := fails, cb_lastFailureAt := now\<rparr>;
          shouldOpen = (cb_maxFailures cb \<le>s fails \<or> cb_state cb = cbStateHalfOpen)
      in if shouldOpen then cb1\<lparr>cb_state := cbStateOpen, cb_halfOpenPermit := False\<rparr> else cb1)"

definition IsOpen :: "CircuitBreaker \<Rightarrow> bool" where
  "IsOpen cb = (cb_state cb = cbStateOpen)"

definition State :: "CircuitBreaker \<Rightarrow> string" where
  "State cb =
     (if cb_state cb = cbStateClosed then ''closed''
      else if cb_state cb = cbStateOpen then ''open''
      else if cb_state cb = cbStateHalfOpen then ''half-open''
      else ''unknown'')"

section \<open>Calls through a breaker\<close>

datatype cb_op = CbAllow time | CbSuccess | CbFailure time

fun cb_op_time :: "cb_op \<Rightarrow> time option" where
  "cb_op_time (CbAllow t) = Some t"
| "cb_op_time CbSuccess = None"
| "cb_op_time (CbFailure t) = Some t"

text \<open>A sequence of operations, with the answers of its \<open>Allow\<close> calls in order.\<close>

fun cb_run ::
  "(time \<Rightarrow> 's \<Rightarrow> 's \<times> bool) \<Rightarrow> ('s \<Rightarrow> 's) \<Rightarrow> (time \<Rightarrow> 's \<Rightarrow> 's) \<Rightarrow> cb_op list \<Rightarrow> 's \<Rightarrow> 's \<times> bool list" where
  "cb_run allow ok fail [] s = (s, [])"
| "cb_run allow ok fail (CbAllow t # ops) s =
     (let (s1, a) = allow t s; (s2, as) = cb_run allow ok fail ops s1 in (s2, a # as))"
| "cb_run allow ok fail (CbSuccess # ops) s = cb_run allow ok fail ops (ok s)"
| "cb_run allow ok fail (CbFailure t # ops) s = cb_run allow ok fail ops (fail t s)"

text \<open>
  The protocol of a caller: ask, and only when allowed make the call and record its outcome. The
  answers tell which calls were made.
\<close>

fun cb_calls :: "(time \<times> bool) list \<Rightarrow> CircuitBreaker \<Rightarrow> CircuitBreaker \<times> bool list" where
  "cb_calls [] cb = (cb, [])"
| "cb_calls ((t, ok) # calls) cb =
     (case Allow t cb of (cb1, allowed) \<Rightarrow>
        let cb2 = (if \<not> allowed then cb1 else if ok then RecordSuccess cb1 else RecordFailure t cb1);
            (cb3, as) = cb_calls calls cb2
        in (cb3, allowed # as))"

locale blackout =
  fixes allow :: "time \<Rightarrow> 's \<Rightarrow> 's \<times> bool"
    and ok :: "'s \<Rightarrow> 's"
    and fail :: "time \<Rightarrow> 's \<Rightarrow> 's"
    and dark :: "time \<Rightarrow> time \<Rightarrow> 's \<Rightarrow> bool"
  assumes allow_dark: "dark from till s \<Longrightarrow> t \<le> till \<Longrightarrow> allow t s = (s, False)"
    and ok_dark: "dark from till s \<Longrightarrow> dark from till (ok s)"
    and fail_dark: "dark from till s \<Longrightarrow> from \<le> t \<Longrightarrow> t \<le> till \<Longrightarrow> dark from till (fail t s)"
begin

theorem run_dark:
  "dark from till s \<Longrightarrow> \<forall>op\<in>set ops. \<forall>t. cb_op_time op = Some t \<longrightarrow> from \<le> t \<and> t \<le> till \<Longrightarrow>
   dark from till (fst (cb_run allow ok fail ops s)) \<and> True \<notin> set (snd (cb_run allow ok fail ops s))"
proof (induction ops arbitrary: s)
  case (Cons op ops)
  then show ?case
    by (cases op) (auto simp: Let_def case_prod_unfold allow_dark ok_dark fail_dark)
qed simp

end

definition cb_dark :: "time \<Rightarrow> time \<Rightarrow> CircuitBreaker \<Rightarrow> bool" where
  "cb_dark from till cb \<longleftrightarrow>
     cb_state cb = cbStateOpen \<and> from \<le> cb_lastFailureAt cb \<and> since till from <s cb_resetTimeout cb"

lemma cb_dark_elapsed:
  "cb_dark from till cb \<Longrightarrow> t \<le> till \<Longrightarrow> since t (cb_lastFailureAt cb) <s cb_resetTimeout cb"
  using since_mono [of t till "cb_lastFailureAt cb"] since_anti [of "from" "cb_lastFailureAt cb" till]
  by (auto simp: cb_dark_def sint_cmp)

interpretation breaker: blackout Allow RecordSuccess RecordFailure cb_dark
proof (unfold_locales, goal_cases)
  case (1 "from" till s t)
  then show ?case
    using cb_dark_elapsed [OF 1] by (auto simp: Allow_def cb_dark_def cb_state_defs Let_def)
qed (auto simp: RecordSuccess_def RecordFailure_def cb_dark_def Let_def cb_state_defs)

section \<open>Properties of the breaker\<close>

lemma RecordFailure_closed_step:
  assumes "cb_state cb = cbStateClosed" and "cb_failures cb = word_of_int k"
    and "0 \<le> k" and "k + 1 < sint (cb_maxFailures cb)"
  shows "cb_state (RecordFailure t cb) = cbStateClosed \<and>
    cb_failures (RecordFailure t cb) = word_of_int (k + 1) \<and>
    cb_maxFailures (RecordFailure t cb) = cb_maxFailures cb"
proof -
  have "sint (word_of_int (k + 1) :: int64) = k + 1"
    using assms(3,4) sint_range64 [of "cb_maxFailures cb"] by (intro sint_word_of_int_id) auto
  then show ?thesis
    using assms by (simp add: RecordFailure_def Let_def sint_cmp cb_state_defs)
qed

text \<open>Consecutive failures, at the times of the list.\<close>

definition fail_all :: "time list \<Rightarrow> CircuitBreaker \<Rightarrow> CircuitBreaker" where
  "fail_all ts cb = fold RecordFailure ts cb"

lemma fail_all_closed:
  "cb_state cb = cbStateClosed \<Longrightarrow> cb_failures cb = word_of_int k \<Longrightarrow> 0 \<le> k \<Longrightarrow>
   k + int (length ts) < sint (cb_maxFailures cb) \<Longrightarrow>
   cb_state (fail_all ts cb) = cbStateClosed \<and> cb_failures (fail_all ts cb) = word_of_int (k + int (length ts)) \<and>
   cb_maxFailures (fail_all ts cb) = cb_maxFailures cb"
proof (induction ts arbitrary: cb k)
  case (Cons t ts)
  have step: "cb_state (RecordFailure t cb) = cbStateClosed"
    "cb_failures (RecordFailure t cb) = word_of_int (k + 1)"
    "cb_maxFailures (RecordFailure t cb) = cb_maxFailures cb"
    using RecordFailure_closed_step [OF Cons.prems(1-3)] Cons.prems(4) by auto
  show ?case
    using Cons.IH [OF step(1,2)] Cons.prems(3,4) step(3) by (simp add: fail_all_def algebra_simps)
qed (simp add: fail_all_def)

text \<open>
  A new breaker stays closed through every streak of fewer than \<open>maxFailures\<close> failures and is
  open after exactly \<open>maxFailures\<close> of them, whenever they happen.
\<close>

theorem breaker_opens:
  assumes "0 < sint m" and "int (length ts) = sint m - 1"
  shows "(\<forall>n. cb_state (fail_all (take n ts) (NewCircuitBreaker m d h)) = cbStateClosed) \<and>
    cb_state (fail_all (ts @ [t]) (NewCircuitBreaker m d h)) = cbStateOpen"
proof -
  let ?cb = "NewCircuitBreaker m d h"
  have closed: "cb_state (fail_all us ?cb) = cbStateClosed \<and>
      cb_failures (fail_all us ?cb) = word_of_int (int (length us)) \<and>
      cb_maxFailures (fail_all us ?cb) = m" if "int (length us) < sint m" for us
    using fail_all_closed [of ?cb 0 us] that by (simp add: NewCircuitBreaker_def)
  have "cb_state (fail_all (take n ts) ?cb) = cbStateClosed" for n
    using assms by (intro conjunct1 [OF closed]) (auto simp: min_def)
  moreover have "sint (word_of_int (sint m) :: int64) = sint m" by simp
  moreover have "cb_state (fail_all (ts @ [t]) ?cb) = cbStateOpen"
    using closed [of ts] assms by (simp add: fail_all_def RecordFailure_def Let_def sint_cmp)
  ultimately show ?thesis by blast
qed

theorem breaker_opens_witness:
  "(\<forall>n. cb_state (fail_all (take n [10, 20, 30, 40]) (NewCircuitBreaker 5 (30 * second) 3)) = cbStateClosed) \<and>
   cb_state (fail_all ([10, 20, 30, 40] @ [50]) (NewCircuitBreaker 5 (30 * second) 3)) = cbStateOpen"
  by (rule breaker_opens) simp_all

text \<open>
  C12. Once the breaker is open, no call is allowed before \<open>resetTimeout\<close> has passed since the
  failure that opened it, whatever successes and failures are recorded meanwhile, and it is still
  open then.
\<close>

theorem breaker_blackout:
  assumes "cb_state cb = cbStateOpen" and "since till (cb_lastFailureAt cb) <s cb_resetTimeout cb"
    and "\<forall>op\<in>set ops. \<forall>t. cb_op_time op = Some t \<longrightarrow> cb_lastFailureAt cb \<le> t \<and> t \<le> till"
  shows "IsOpen (fst (cb_run Allow RecordSuccess RecordFailure ops cb)) \<and>
    True \<notin> set (snd (cb_run Allow RecordSuccess RecordFailure ops cb))"
  using breaker.run_dark [of "cb_lastFailureAt cb" till cb ops] assms by (auto simp: cb_dark_def IsOpen_def)

theorem breaker_blackout_witness:
  "IsOpen (fst (cb_run Allow RecordSuccess RecordFailure [CbAllow 3, CbSuccess, CbFailure 5, CbAllow 9]
     (RecordFailure 2 (NewCircuitBreaker 1 10 1)))) \<and>
   True \<notin> set (snd (cb_run Allow RecordSuccess RecordFailure [CbAllow 3, CbSuccess, CbFailure 5, CbAllow 9]
     (RecordFailure 2 (NewCircuitBreaker 1 10 1))))"
proof (rule breaker_blackout [of _ 11])
  show "cb_state (RecordFailure 2 (NewCircuitBreaker 1 10 1)) = cbStateOpen" by code_simp
  show "since 11 (cb_lastFailureAt (RecordFailure 2 (NewCircuitBreaker 1 10 1)))
      <s cb_resetTimeout (RecordFailure 2 (NewCircuitBreaker 1 10 1))" by code_simp
qed (simp add: RecordFailure_def NewCircuitBreaker_def Let_def sint_cmp)

lemma cb_calls_half_open:
  "cb_state cb = cbStateHalfOpen \<Longrightarrow> fst (cb_calls calls cb) = cb \<and> True \<notin> set (snd (cb_calls calls cb))"
  by (induction calls) (auto simp: Allow_def cb_state_defs Let_def case_prod_unfold)

text \<open>
  When the blackout is over the first caller is let through as the probe. If the probe fails
  the breaker is open again; if it succeeds and one probe is enough (\<open>halfOpenProbes \<le> 1\<close>) the
  breaker is closed with its failure streak cleared; if it succeeds and more than one probe is
  required, the breaker stays half-open and refuses every later call, so that the remaining probes
  never happen.
\<close>

theorem breaker_probe:
  assumes "cb_state cb = cbStateOpen" and "\<not> cb_halfOpenPermit cb"
    and "\<not> since t (cb_lastFailureAt cb) <s cb_resetTimeout cb"
  shows "snd (cb_calls [(t, False)] cb) = [True] \<and> cb_state (fst (cb_calls [(t, False)] cb)) = cbStateOpen \<and>
    (cb_halfOpenProbes cb \<le>s 1 \<longrightarrow>
       cb_state (fst (cb_calls [(t, True)] cb)) = cbStateClosed \<and> cb_failures (fst (cb_calls [(t, True)] cb)) = 0) \<and>
    (1 <s cb_halfOpenProbes cb \<longrightarrow>
       (\<forall>calls. cb_state (fst (cb_calls ((t, True) # calls) cb)) = cbStateHalfOpen \<and>
         True \<notin> set (tl (snd (cb_calls ((t, True) # calls) cb)))))"
proof -
  let ?p = "cb\<lparr>cb_halfOpenPermit := True, cb_state := cbStateHalfOpen, cb_successes := 0\<rparr>"
  have probe: "Allow t cb = (?p, True)"
    using assms by (simp add: Allow_def Let_def cb_state_defs)
  have reopen: "cb_state (RecordFailure t ?p) = cbStateOpen"
    by (simp add: RecordFailure_def Let_def)
  have wedge: "cb_state (RecordSuccess ?p) = cbStateHalfOpen" if "1 <s cb_halfOpenProbes cb"
    using that by (simp add: RecordSuccess_def Let_def sint_cmp)
  have close: "cb_state (RecordSuccess ?p) = cbStateClosed \<and> cb_failures (RecordSuccess ?p) = 0"
    if "cb_halfOpenProbes cb \<le>s 1"
    using that by (simp add: RecordSuccess_def Let_def sint_cmp)
  show ?thesis
    using reopen wedge close cb_calls_half_open [of "RecordSuccess ?p"] by (simp add: probe Let_def case_prod_unfold)
qed

theorem breaker_probe_witness:
  "cb_state (fst (cb_calls ((32 * 10 ^ 9, True) # replicate 9 (40 * 10 ^ 9, True))
     (fail_all [1, 1, 1, 1, 1] (NewCircuitBreaker 5 (30 * second) 3)))) = cbStateHalfOpen"
proof -
  let ?cb = "fail_all [1, 1, 1, 1, 1] (NewCircuitBreaker 5 (30 * second) 3)"
  have "cb_state ?cb = cbStateOpen" "\<not> cb_halfOpenPermit ?cb"
    "\<not> since (32 * 10 ^ 9) (cb_lastFailureAt ?cb) <s cb_resetTimeout ?cb" "1 <s cb_halfOpenProbes ?cb"
    by code_simp+
  from breaker_probe [OF this(1-3)] this(4) show ?thesis by blast
qed

section \<open>Two calls at once\<close>

text \<open>
  \<open>RecordSuccess\<close> and \<open>RecordFailure\<close> update the counters under the lock and store the state after they have
  released it. Split at that point, with what the first half decided carried to the second:
\<close>

definition RecordSuccess_locked :: "CircuitBreaker \<Rightarrow> CircuitBreaker \<times> bool" where
  "RecordSuccess_locked cb =
     (if cb_state cb = cbStateHalfOpen then
        (let succs = cb_successes cb + 1; shouldClose = cb_halfOpenProbes cb \<le>s succs
         in (if shouldClose then cb\<lparr>cb_failures := 0, cb_successes := 0\<rparr> else cb\<lparr>cb_successes := succs\<rparr>, shouldClose))
      else (if cb_state cb = cbStateClosed then cb\<lparr>cb_failures := 0\<rparr> else cb, False))"

definition RecordFailure_locked :: "time \<Rightarrow> CircuitBreaker \<Rightarrow> CircuitBreaker \<times> bool" where
  "RecordFailure_locked now cb =
     (let fails = cb_failures cb + 1
      in (cb\<lparr>cb_failures := fails, cb_lastFailureAt := now\<rparr>,
          cb_maxFailures cb \<le>s fails \<or> cb_state cb = cbStateHalfOpen))"

definition store_state :: "cbState \<Rightarrow> CircuitBreaker \<times> bool \<Rightarrow> CircuitBreaker" where
  "store_state st = (\<lambda>(cb, decided). if decided then cb\<lparr>cb_state := st, cb_halfOpenPermit := False\<rparr> else cb)"

text \<open>Run without a call in between, the halves are the methods.\<close>

lemma record_halves:
  "RecordSuccess cb = store_state cbStateClosed (RecordSuccess_locked cb)"
  "RecordFailure now cb = store_state cbStateOpen (RecordFailure_locked now cb)"
  by (simp_all add: RecordSuccess_def RecordSuccess_locked_def RecordFailure_def RecordFailure_locked_def store_state_def Let_def)

text \<open>
  A failure that is recorded between the halves of the success that closes the circuit is overwritten: the
  circuit is closed although it failed last, with a counter that has seen the failure only.
\<close>

lemma failure_overwritten:
  assumes half: "cb_state cb = cbStateHalfOpen" "RecordSuccess_locked cb = (cb1, True)"
  shows "cb_state (RecordFailure now cb1) = cbStateOpen \<and>
    cb_state (store_state cbStateClosed (RecordFailure now cb1, True)) = cbStateClosed \<and>
    cb_failures (store_state cbStateClosed (RecordFailure now cb1, True)) = 1"
  using assms by (auto simp: RecordSuccess_locked_def RecordFailure_def store_state_def Let_def split: if_splits)

end
