(* ===== verification/Kube_Objects.thy ===== *)
theory Kube_Objects
  imports Api_Types
begin

text \<open>
  The Kubernetes objects the operator reads and writes besides its own resource, with the fields it
  sets or looks at. Fields left out are never touched by the operator.
\<close>

section \<open>Metadata\<close>

record owner_ref =
  or_apiVersion :: string
  or_kind :: string
  or_name :: string
  or_uid :: string
  or_controller :: bool
  or_blockOwnerDeletion :: bool

record owned_meta = object_meta +
  om_owners :: "owner_ref list"

definition new_meta :: "string \<Rightarrow> string \<Rightarrow> (string \<rightharpoonup> string) \<Rightarrow> owned_meta" where
  "new_meta name ns labels =
     \<lparr>om_name = name, om_namespace = ns, om_uid = '''', om_resourceVersion = '''', om_generation = 0,
      om_deletionTimestamp = None, om_finalizers = [], om_managedFields = [], om_labels = labels,
      om_annotations = Map.empty, om_owners = []\<rparr>"

section \<open>Workload objects\<close>

datatype int_or_string = IntVal int32 | StrVal string

datatype probe_handler = TCPSocket int_or_string | HTTPGet string int_or_string string

record probe =
  pr_handler :: probe_handler
  pr_initialDelaySeconds :: int32
  pr_periodSeconds :: int32
  pr_timeoutSeconds :: int32
  pr_failureThreshold :: int32

record container_port =
  cp_name :: string
  cp_containerPort :: int32
  cp_protocol :: string

record volume_mount =
  vm_name :: string
  vm_mountPath :: string
  vm_readOnly :: bool

record security_context =
  sc_runAsUser :: "int64 option"
  sc_runAsGroup :: "int64 option"
  sc_runAsNonRoot :: "bool option"
  sc_allowPrivilegeEscalation :: "bool option"
  sc_readOnlyRootFilesystem :: "bool option"
  sc_capDrop :: "string list"
  sc_capAdd :: "string list"
  sc_seccomp :: "string option"

record container =
  con_name :: string
  con_image :: string
  con_command :: "string list"
  con_args :: "string list"
  con_ports :: "container_port list"
  con_env :: "(string \<times> string) list"
  con_resources :: resource_requirements
  con_volumeMounts :: "volume_mount list"
  con_securityContext :: security_context
  con_startupProbe :: "probe option"
  con_livenessProbe :: "probe option"
  con_readinessProbe :: "probe option"

datatype volume_source =
  EmptyDirDefault
| EmptyDirMemory quantity
| ConfigMapSource string
| SecretSource string int32 "(string \<times> string \<times> int32) list"

record volume =
  vol_name :: string
  vol_source :: volume_source

record selector_requirement =
  sr_key :: string
  sr_operator :: string
  sr_values :: "string list"

record node_affinity =
  na_required :: "selector_requirement list list option"
  na_preferred :: "(int32 \<times> selector_requirement list) list"

record pod_security_context =
  psc_runAsNonRoot :: bool
  psc_runAsUser :: int64
  psc_fsGroup :: int64
  psc_fsGroupChangePolicy :: string
  psc_seccomp :: string

record pod_spec =
  ps_securityContext :: pod_security_context
  ps_serviceAccountName :: string
  ps_automountServiceAccountToken :: bool
  ps_terminationGracePeriodSeconds :: int64
  ps_initContainers :: "container list"
  ps_containers :: "container list"
  ps_volumes :: "volume list"
  ps_tolerations :: "toleration list"
  ps_nodeSelector :: "string \<rightharpoonup> string"
  ps_affinity :: "node_affinity option"

record pod_template =
  pt_labels :: "string \<rightharpoonup> string"
  pt_annotations :: "string \<rightharpoonup> string"
  pt_spec :: pod_spec

record volume_claim_spec =
  vcs_accessModes :: "string list"
  vcs_storageClassName :: "string option"
  vcs_requests :: "resource_list option"
  vcs_volumeMode :: "string option"

record volume_claim_template =
  vct_name :: string
  vct_labels :: "string \<rightharpoonup> string"
  vct_spec :: volume_claim_spec

record stateful_set =
  sts_meta :: owned_meta
  sts_replicas :: int32
  sts_serviceName :: string
  sts_selector :: "string \<rightharpoonup> string"
  sts_updateStrategy :: string
  sts_volumeClaimTemplates :: "volume_claim_template list"
  sts_template :: pod_template

section \<open>The other objects\<close>

record pod =
  pod_meta :: owned_meta
  pod_podIP :: string

record pvc =
  pvc_meta :: owned_meta
  pvc_requests :: "resource_list option"

record lease =
  lease_meta :: owned_meta
  lease_holderIdentity :: "string option"
  lease_durationSeconds :: "int32 option"
  lease_acquireTime :: "time option"
  lease_renewTime :: "time option"

record volume_snapshot =
  vs_meta :: owned_meta
  vs_creationTimestamp :: time
  vs_className :: string
  vs_pvcName :: string

record secret =
  sec_meta :: owned_meta
  sec_data :: "string \<rightharpoonup> string"

record rbac_role =
  role_meta :: owned_meta

record service_account =
  sa_meta :: owned_meta

record service_port =
  svp_name :: string
  svp_port :: int32
  svp_protocol :: string

record service =
  svc_meta :: owned_meta
  svc_clusterIP :: string
  svc_selector :: "string \<rightharpoonup> string"
  svc_ports :: "service_port list"
  svc_publishNotReadyAddresses :: bool

record monitor_endpoint =
  me_port :: string
  me_interval :: string
  me_path :: string

record service_monitor =
  sm_meta :: owned_meta
  sm_matchLabels :: "string \<rightharpoonup> string"
  sm_endpoints :: "monitor_endpoint list"

end
