(* ===== verification/Metric_Descriptors.thy ===== *)
theory Metric_Descriptors
  imports Go_Float
begin

text \<open>
  The Prometheus metrics the process declares: \<open>internal/controller/metrics.go\<close>, \<open>rate_limiter.go\<close>,
  \<open>dr_runner.go\<close> and \<open>internal/analytics/metrics.go\<close>. A descriptor is what a metric is created with: its kind,
  name, help text and the names of its labels, none for a metric that is not a vector.
\<close>

section \<open>Descriptors\<close>

datatype buckets = DefBuckets | ExponentialBuckets gofloat gofloat nat

datatype metric_kind = Counter | Gauge | Histogram buckets

record metric_desc =
  md_kind :: metric_kind
  md_name :: string
  md_help :: string
  md_labels :: "string list"

text \<open>\<open>internal/controller/metrics.go\<close>\<close>

definition blockLag_desc :: metric_desc where
  "blockLag_desc = \<lparr>md_kind = Gauge, md_name = ''taonode_block_lag'',
     md_help = ''Current block lag between node and network tip.'', md_labels = [''node'', ''namespace'', ''network'']\<rparr>"

definition syncState_desc :: metric_desc where
  "syncState_desc = \<lparr>md_kind = Gauge, md_name = ''taonode_sync_state'',
     md_help = ''Sync state encoded as float: 0=syncing, 1=in-sync.'', md_labels = [''node'', ''namespace'', ''network'']\<rparr>"

definition peerCount_desc :: metric_desc where
  "peerCount_desc = \<lparr>md_kind = Gauge, md_name = ''taonode_peer_count'',
     md_help = ''Number of connected P2P peers.'', md_labels = [''node'', ''namespace'', ''network'']\<rparr>"

definition reconcileDuration_desc :: metric_desc where
  "reconcileDuration_desc = \<lparr>md_kind = Histogram DefBuckets, md_name = ''taonode_reconcile_duration_seconds'',
     md_help = ''Duration of a single reconcile loop execution.'', md_labels = [''node'', ''namespace'', ''result'']\<rparr>"

definition recoveryTotal_desc :: metric_desc where
  "recoveryTotal_desc = \<lparr>md_kind = Counter, md_name = ''taonode_recovery_total'',
     md_help = ''Total number of recovery actions triggered.'', md_labels = [''node'', ''namespace'', ''strategy'']\<rparr>"

definition snapshotDuration_desc :: metric_desc where
  "snapshotDuration_desc = \<lparr>md_kind = Histogram (ExponentialBuckets (Fin 1) (Fin 2) 10), md_name = ''taonode_snapshot_duration_seconds'',
     md_help = ''Duration of snapshot operations.'', md_labels = [''node'', ''namespace'', ''type'']\<rparr>"

definition diskUsagePercent_desc :: metric_desc where
  "diskUsagePercent_desc = \<lparr>md_kind = Gauge, md_name = ''taonode_disk_usage_percent'',
     md_help = ''Chain data PVC utilization as a percentage.'', md_labels = [''node'', ''namespace'']\<rparr>"

definition estimatedMonthlyCost_desc :: metric_desc where
  "estimatedMonthlyCost_desc = \<lparr>md_kind = Gauge, md_name = ''taonode_estimated_monthly_cost_usd'',
     md_help = ''Estimated monthly infrastructure cost in USD.'', md_labels = [''node'', ''namespace'', ''network'']\<rparr>"

definition taoPerGPUHour_desc :: metric_desc where
  "taoPerGPUHour_desc = \<lparr>md_kind = Gauge, md_name = ''taonode_tao_per_gpu_hour'',
     md_help = ''TAO emissions earned per GPU-hour (miner ROI).'', md_labels = [''node'', ''namespace'', ''subnet_id'']\<rparr>"

definition roiPercent_desc :: metric_desc where
  "roiPercent_desc = \<lparr>md_kind = Gauge, md_name = ''taonode_roi_percent'',
     md_help = ''Return on investment as a percentage (TAO value / infra cost).'', md_labels = [''node'', ''namespace'', ''subnet_id'']\<rparr>"

definition gpuUtilization_desc :: metric_desc where
  "gpuUtilization_desc = \<lparr>md_kind = Gauge, md_name = ''taonode_gpu_utilization_percent'',
     md_help = ''GPU utilization percentage reported by the chain-probe sidecar.'', md_labels = [''node'', ''namespace'']\<rparr>"

definition anomalyScore_desc :: metric_desc where
  "anomalyScore_desc = \<lparr>md_kind = Gauge, md_name = ''taonode_anomaly_score'',
     md_help = ''Anomaly score per detector type (0.0=normal, 1.0=critical).'', md_labels = [''node'', ''namespace'', ''type'']\<rparr>"

definition anomalyEvaluationDuration_desc :: metric_desc where
  "anomalyEvaluationDuration_desc = \<lparr>md_kind = Histogram DefBuckets, md_name = ''taonode_anomaly_evaluation_duration_seconds'',
     md_help = ''Time spent evaluating anomaly queries against ClickHouse.'', md_labels = [''node'', ''namespace'']\<rparr>"

definition predictiveActionsTotal_desc :: metric_desc where
  "predictiveActionsTotal_desc = \<lparr>md_kind = Counter, md_name = ''taonode_predictive_actions_total'',
     md_help = ''Actions taken proactively based on anomaly predictions.'', md_labels = [''node'', ''namespace'', ''action'']\<rparr>"

definition analyticsGracefulDegradations_desc :: metric_desc where
  "analyticsGracefulDegradations_desc = \<lparr>md_kind = Counter, md_name = ''taonode_analytics_graceful_degradation_total'',
     md_help = ''Times the analytics plane was skipped due to circuit-breaker or config.'', md_labels = []\<rparr>"

text \<open>\<open>internal/analytics/metrics.go\<close>\<close>

definition RowsWritten_desc :: metric_desc where
  "RowsWritten_desc = \<lparr>md_kind = Counter, md_name = ''taonode_analytics_rows_written_total'',
     md_help = ''Total rows successfully written to ClickHouse, by table.'', md_labels = [''table'']\<rparr>"

definition FlushDuration_desc :: metric_desc where
  "FlushDuration_desc = \<lparr>md_kind = Histogram DefBuckets, md_name = ''taonode_analytics_flush_duration_seconds'',
     md_help = ''Duration of ClickHouse batch flush operations, by table.'', md_labels = [''table'']\<rparr>"

definition FlushErrors_desc :: metric_desc where
  "FlushErrors_desc = \<lparr>md_kind = Counter, md_name = ''taonode_analytics_flush_errors_total'',
     md_help = ''Total ClickHouse flush failures or dropped rows, by table.'', md_labels = [''table'']\<rparr>"

definition ChannelBacklog_desc :: metric_desc where
  "ChannelBacklog_desc = \<lparr>md_kind = Gauge, md_name = ''taonode_analytics_channel_backlog'',
     md_help = ''Instantaneous number of rows pending in the flush channel, by table.'', md_labels = [''table'']\<rparr>"

text \<open>\<open>rate_limiter.go\<close>\<close>

definition recoveryThrottledMetric_desc :: metric_desc where
  "recoveryThrottledMetric_desc = \<lparr>md_kind = Counter, md_name = ''taonode_recovery_throttled_total'',
     md_help = ''Recovery actions delayed by the rate limiter (thundering herd protection).'', md_labels = []\<rparr>"

definition activeRecoveriesGaugeMetric_desc :: metric_desc where
  "activeRecoveriesGaugeMetric_desc = \<lparr>md_kind = Gauge, md_name = ''taonode_recovery_active'',
     md_help = ''Number of currently active (in-flight) recovery actions.'', md_labels = []\<rparr>"

text \<open>\<open>dr_runner.go\<close>\<close>

definition drBackupSuccessMetric_desc :: metric_desc where
  "drBackupSuccessMetric_desc = \<lparr>md_kind = Counter, md_name = ''taonode_dr_backup_success_total'',
     md_help = ''Total successful DR backup uploads.'', md_labels = []\<rparr>"

definition drBackupFailureMetric_desc :: metric_desc where
  "drBackupFailureMetric_desc = \<lparr>md_kind = Counter, md_name = ''taonode_dr_backup_failures_total'',
     md_help = ''Total failed DR backup uploads.'', md_labels = []\<rparr>"

definition drLastBackupTimeMetric_desc :: metric_desc where
  "drLastBackupTimeMetric_desc = \<lparr>md_kind = Gauge, md_name = ''taonode_dr_last_backup_timestamp_seconds'',
     md_help = ''Unix timestamp of the most recent successful DR backup.'', md_labels = []\<rparr>"

end
