(* ===== verification/Kube_Client.thy ===== *)
theory Kube_Client
  imports Kube_Quantities Kube_Objects Metric_Descriptors Go_Time
begin

text \<open>
  The Kubernetes client, whose code is not part of the repository, and what the controller's
  handlers share: errors as values, the log of events and metric samples, and the result of a
  reconcile step.

  Every client call may observe and change the outside world, so each is a function from a world to
  a world and an answer; other actors may act during any call. The type of the world is a
  parameter.
\<close>

section \<open>Errors\<close>

text \<open>
  API errors by the reasons the code distinguishes, other errors, and errors wrapped with \<open>%w\<close>.
  A Go panic is the value \<open>PanicErr\<close>. It has two sources, a negative retention count and a volume
  claim without requests, which the resource's schema (\<open>Minimum=1\<close>) and the API server rule out; a
  caller that only logs errors passes over it, where Go would unwind the whole reconcile.
\<close>

datatype kerr = NotFound string | Conflict string | ForbiddenErr string | OtherErr string
  | Wrapped string kerr | PanicErr string

fun IsNotFound :: "kerr \<Rightarrow> bool" where
  "IsNotFound (NotFound _) = True"
| "IsNotFound (Wrapped _ e) = IsNotFound e"
| "IsNotFound _ = False"

fun IsConflict :: "kerr \<Rightarrow> bool" where
  "IsConflict (Conflict _) = True"
| "IsConflict (Wrapped _ e) = IsConflict e"
| "IsConflict _ = False"

fun IsForbidden :: "kerr \<Rightarrow> bool" where
  "IsForbidden (ForbiddenErr _) = True"
| "IsForbidden (Wrapped _ e) = IsForbidden e"
| "IsForbidden _ = False"

fun error_text :: "kerr \<Rightarrow> string" where
  "error_text (NotFound s) = s"
| "error_text (Conflict s) = s"
| "error_text (ForbiddenErr s) = s"
| "error_text (OtherErr s) = s"
| "error_text (Wrapped s e) = s @ '': '' @ error_text e"
| "error_text (PanicErr s) = s"

definition IgnoreNotFound :: "kerr \<Rightarrow> kerr option" where
  "IgnoreNotFound e = (if IsNotFound e then None else Some e)"

definition wrap_err :: "string \<Rightarrow> kerr option \<Rightarrow> kerr option" where
  "wrap_err s e = map_option (Wrapped s) e"

section \<open>The client\<close>

type_synonym ('w, 'a) kget = "'w \<Rightarrow> string \<Rightarrow> string \<Rightarrow> 'w \<times> (kerr + 'a)"

type_synonym ('w, 'a) kput = "'w \<Rightarrow> 'a \<Rightarrow> 'w \<times> kerr option"

text \<open>
  Reads take namespace and name. \<open>k_createOrUpdate\<close> calls are \<open>controllerutil.CreateOrUpdate\<close>,
  with the object to start from and the mutation. \<open>k_retryOnConflict\<close> is \<open>retry.RetryOnConflict\<close>
  with the default back-off. \<open>k_setControllerReference\<close> gives the new list of owner references.
\<close>

record 'w kclient =
  k_getTaoNode :: "('w, TaoNode) kget"
  k_updateTaoNode :: "('w, TaoNode) kput"
  k_updateTaoNodeStatus :: "('w, TaoNode) kput"
  k_getPod :: "('w, pod) kget"
  k_deletePod :: "('w, pod) kput"
  k_getPVC :: "('w, pvc) kget"
  k_updatePVC :: "('w, pvc) kput"
  k_getLease :: "('w, lease) kget"
  k_createLease :: "('w, lease) kput"
  k_updateLease :: "('w, lease) kput"
  k_deleteLease :: "('w, lease) kput"
  k_listSnapshots :: "'w \<Rightarrow> string \<Rightarrow> (string \<rightharpoonup> string) \<Rightarrow> 'w \<times> (kerr + volume_snapshot list)"
  k_createSnapshot :: "('w, volume_snapshot) kput"
  k_deleteSnapshot :: "('w, volume_snapshot) kput"
  k_getRole :: "('w, rbac_role) kget"
  k_getSecret :: "('w, secret) kget"
  k_getStatefulSet :: "('w, stateful_set) kget"
  k_createStatefulSet :: "('w, stateful_set) kput"
  k_updateStatefulSet :: "('w, stateful_set) kput"
  k_deleteStatefulSetOrphan :: "('w, stateful_set) kput"
  k_createOrUpdateSA :: "'w \<Rightarrow> service_account \<Rightarrow> (service_account \<Rightarrow> kerr + service_account) \<Rightarrow> 'w \<times> kerr option"
  k_createOrUpdateService :: "'w \<Rightarrow> service \<Rightarrow> (service \<Rightarrow> kerr + service) \<Rightarrow> 'w \<times> kerr option"
  k_createOrUpdateMonitor ::
    "'w \<Rightarrow> service_monitor \<Rightarrow> (service_monitor \<Rightarrow> kerr + service_monitor) \<Rightarrow> 'w \<times> kerr option"
  k_retryOnConflict :: "('w \<Rightarrow> 'w \<times> kerr option) \<Rightarrow> 'w \<Rightarrow> 'w \<times> kerr option"
  k_setControllerReference :: "TaoNode \<Rightarrow> owner_ref list \<Rightarrow> kerr + owner_ref list"

section \<open>Conditions\<close>

text \<open>\<open>meta.FindStatusCondition\<close> and \<open>meta.SetStatusCondition\<close>.\<close>

record condition_ops =
  co_find :: "condition list \<Rightarrow> string \<Rightarrow> condition option"
  co_set :: "condition list \<Rightarrow> condition \<Rightarrow> condition list"

text \<open>
  As documented: after setting a condition, the entry of its type has its fields, with the
  transition time of the old entry when the status did not change; entries of other types stay.
\<close>

definition condition_laws :: "condition_ops \<Rightarrow> bool" where
  "condition_laws C \<longleftrightarrow>
     (\<forall>cs c t. cond_lastTransitionTime c \<noteq> time_zero \<longrightarrow>
        co_find C (co_set C cs c) t =
          (if t = cond_type c then
             Some (c\<lparr>cond_lastTransitionTime :=
               (case co_find C cs t of
                  Some e \<Rightarrow> if cond_status e = cond_status c then cond_lastTransitionTime e
                           else cond_lastTransitionTime c
                | None \<Rightarrow> cond_lastTransitionTime c)\<rparr>)
           else co_find C cs t))"

text \<open>An instance on the list of conditions.\<close>

fun list_set_condition :: "condition list \<Rightarrow> condition \<Rightarrow> condition list" where
  "list_set_condition [] c = [c]"
| "list_set_condition (e # cs) c =
     (if cond_type e = cond_type c then
        c\<lparr>cond_lastTransitionTime := (if cond_status e = cond_status c then cond_lastTransitionTime e
                                      else cond_lastTransitionTime c)\<rparr> # cs
      else e # list_set_condition cs c)"

definition list_conditions :: condition_ops where
  "list_conditions = \<lparr>co_find = (\<lambda>cs t. find (\<lambda>c. cond_type c = t) cs), co_set = list_set_condition\<rparr>"

lemma find_list_set_condition:
  "find (\<lambda>c. cond_type c = t) (list_set_condition cs c) =
     (if t = cond_type c then
        Some (c\<lparr>cond_lastTransitionTime :=
          (case find (\<lambda>c. cond_type c = t) cs of
             Some e \<Rightarrow> if cond_status e = cond_status c then cond_lastTransitionTime e
                      else cond_lastTransitionTime c
           | None \<Rightarrow> cond_lastTransitionTime c)\<rparr>)
      else find (\<lambda>c. cond_type c = t) cs)"
  by (induction cs) auto

lemma list_condition_laws: "condition_laws list_conditions"
  unfolding condition_laws_def list_conditions_def condition_ops.select_convs
  by (intro allI impI) (rule find_list_set_condition)

section \<open>Events and metrics\<close>

datatype event_type = EventNormal | EventWarning

record k_event =
  ev_namespace :: string
  ev_name :: string
  ev_type :: event_type
  ev_reason :: string
  ev_message :: string

text \<open>
  A use of a metric: \<open>v.WithLabelValues(values...)\<close> followed by the operation on the child it gives; the
  values of a metric without labels are empty. Gauges are set to a value, counters incremented, and what a
  histogram observes is a measured duration, which is left out. In Go a wrong number of label values panics;
  here every use is recorded as it is made, so that a wrong one shows in the record.
\<close>

datatype metric_op = SetTo gofloat | Inc | Observe

record metric_sample =
  ms_desc :: metric_desc
  ms_values :: "string list"
  ms_op :: metric_op

abbreviation WithLabelValues :: "metric_desc \<Rightarrow> string list \<Rightarrow> metric_op \<Rightarrow> metric_sample" where
  "WithLabelValues d values action \<equiv> \<lparr>ms_desc = d, ms_values = values, ms_op = action\<rparr>"

text \<open>What a handler acts on besides the resource: the world, the events and the metric samples.\<close>

record 'w kstate =
  ks_world :: 'w
  ks_events :: "k_event list"
  ks_metrics :: "metric_sample list"

definition Eventf :: "TaoNode \<Rightarrow> event_type \<Rightarrow> string \<Rightarrow> string \<Rightarrow> ('w, 'a) kstate_scheme \<Rightarrow> ('w, 'a) kstate_scheme" where
  "Eventf tn ty reason msg s =
     s\<lparr>ks_events := ks_events s @ [\<lparr>ev_namespace = tn_namespace tn, ev_name = tn_name tn, ev_type = ty,
        ev_reason = reason, ev_message = msg\<rparr>]\<rparr>"

definition sample :: "metric_sample \<Rightarrow> ('w, 'a) kstate_scheme \<Rightarrow> ('w, 'a) kstate_scheme" where
  "sample m s = s\<lparr>ks_metrics := ks_metrics s @ [m]\<rparr>"

text \<open>A client call inside a handler.\<close>

definition call :: "('w \<Rightarrow> 'w \<times> 'r) \<Rightarrow> ('w, 'a) kstate_scheme \<Rightarrow> ('w, 'a) kstate_scheme \<times> 'r" where
  "call f s = (case f (ks_world s) of (w, r) \<Rightarrow> (s\<lparr>ks_world := w\<rparr>, r))"

text \<open>The result of a reconcile: the delay before the next one (0 is none).\<close>

record ctrl_result =
  RequeueAfter :: duration

abbreviation no_requeue :: ctrl_result where "no_requeue \<equiv> \<lparr>RequeueAfter = 0\<rparr>"

text \<open>
  The services of the operator's process the handlers use: the client, the quantity and
  condition methods, the image it falls back to and the offset of its local time zone are fixed for a run.
\<close>

record 'w operator_env =
  env_client :: "'w kclient"
  env_quantities :: quantity_ops
  env_conditions :: condition_ops
  env_defaultImage :: string
  env_zoneOffset :: duration

end
