(* ===== verification/Node_Helpers.thy ===== *)
theory Node_Helpers
  imports Kube_Client
begin

text \<open>
  The helpers every handler of the controller uses, \<open>internal/controller/helpers.go\<close>: the labels
  and annotations of owned objects, the status conditions and the image of a node; and the result
  of the chain probe, \<open>internal/controller/types.go\<close>. A Go map literal is a map update of the empty
  map.
\<close>

record ChainHealthResult =
  h_currentBlock :: int64
  h_networkBlock :: int64
  h_finalizedBlock :: int64
  h_peerCount :: int32
  h_syncState :: string
  h_runtimeVersion :: string
  h_epoch :: int64
  h_probeLatency :: duration
  h_diskUsagePercent :: int32
  h_diskUsedBytes :: uint64
  h_diskTotalBytes :: uint64
  h_gpuUtilPercent :: uint8
  h_gpuMemUsedBytes :: uint64
  h_gpuTempCelsius :: uint16

definition labelsForNode :: "TaoNode \<Rightarrow> string \<rightharpoonup> string" where
  "labelsForNode tn =
     [''app.kubernetes.io/name'' \<mapsto> ''taonode-guardian'',
      ''app.kubernetes.io/instance'' \<mapsto> tn_name tn,
      ''app.kubernetes.io/managed-by'' \<mapsto> ''taonode-guardian'',
      ''tao.guardian.io/network'' \<mapsto> tn_network tn,
      ''tao.guardian.io/subnet'' \<mapsto> fmt_d (spec_subnetID (tn_spec tn)),
      ''tao.guardian.io/role'' \<mapsto> role_string (tn_role tn)]"

definition annotationsForNode :: "TaoNode \<Rightarrow> string \<rightharpoonup> string" where
  "annotationsForNode tn =
     (let ann = [''tao.guardian.io/node-name'' \<mapsto> tn_name tn, ''tao.guardian.io/network'' \<mapsto> tn_network tn];
          ann = (if spec_version (tn_spec tn) \<noteq> '''' then ann(''tao.guardian.io/version'' \<mapsto> spec_version (tn_spec tn)) else ann)
      in case spec_monitoring (tn_spec tn) of
           Some mon \<Rightarrow>
             if mon_enabled mon then
               ann(''prometheus.io/scrape'' \<mapsto> ''true'', ''prometheus.io/port'' \<mapsto> fmt_d (mon_port mon))
             else ann
         | None \<Rightarrow> ann)"

definition setCondition ::
  "condition_ops \<Rightarrow> time \<Rightarrow> string \<Rightarrow> condition_status \<Rightarrow> string \<Rightarrow> string \<Rightarrow> TaoNode \<Rightarrow> TaoNode" where
  "setCondition C now condType status reason message tn =
     (let existingCondition = co_find C (tn_conditions tn) condType;
          newCondition = \<lparr>cond_type = condType, cond_status = status,
            cond_observedGeneration = om_generation (tn_meta tn), cond_lastTransitionTime = now,
            cond_reason = reason, cond_message = message\<rparr>;
          newCondition =
            (case existingCondition of
               Some e \<Rightarrow>
                 if cond_status e = status then newCondition\<lparr>cond_lastTransitionTime := cond_lastTransitionTime e\<rparr>
                 else newCondition
             | None \<Rightarrow> newCondition)
      in tn\<lparr>tn_status := (tn_status tn)\<lparr>st_conditions := co_set C (tn_conditions tn) newCondition\<rparr>\<rparr>)"

definition imageForNode :: "string \<Rightarrow> TaoNode \<Rightarrow> string" where
  "imageForNode defaultImage tn =
     (if spec_image (tn_spec tn) \<noteq> '''' then spec_image (tn_spec tn)
      else if defaultImage \<noteq> '''' then defaultImage
      else ''opentensor/subtensor:latest'')"

section \<open>Properties\<close>

text \<open>Setting a condition changes nothing of a resource but its conditions.\<close>

lemma setCondition_frame [simp]:
  "tn_meta (setCondition C now ct st rs msg tn) = tn_meta tn"
  "tn_spec (setCondition C now ct st rs msg tn) = tn_spec tn"
  "tn_phase (setCondition C now ct st rs msg tn) = tn_phase tn"
  "tn_restarts (setCondition C now ct st rs msg tn) = tn_restarts tn"
  "st_syncState (tn_status (setCondition C now ct st rs msg tn)) = st_syncState (tn_status tn)"
  "st_chain (tn_status (setCondition C now ct st rs msg tn)) = st_chain (tn_status tn)"
  "st_resources (tn_status (setCondition C now ct st rs msg tn)) = st_resources (tn_status tn)"
  "st_snapshot (tn_status (setCondition C now ct st rs msg tn)) = st_snapshot (tn_status tn)"
  "st_analytics (tn_status (setCondition C now ct st rs msg tn)) = st_analytics (tn_status tn)"
  "st_aiAdvisory (tn_status (setCondition C now ct st rs msg tn)) = st_aiAdvisory (tn_status tn)"
  "st_hotkeyHash (tn_status (setCondition C now ct st rs msg tn)) = st_hotkeyHash (tn_status tn)"
  "st_lastReconcileTime (tn_status (setCondition C now ct st rs msg tn)) = st_lastReconcileTime (tn_status tn)"
  "st_observedGeneration (tn_status (setCondition C now ct st rs msg tn)) = st_observedGeneration (tn_status tn)"
  by (simp_all add: setCondition_def Let_def)

text \<open>No existing condition carries the zero time: it was set by an earlier reconcile.\<close>

definition conditions_timed :: "condition_ops \<Rightarrow> condition list \<Rightarrow> bool" where
  "conditions_timed C cs \<longleftrightarrow> (\<forall>t e. co_find C cs t = Some e \<longrightarrow> cond_lastTransitionTime e \<noteq> time_zero)"

text \<open>
  \<open>setCondition\<close> upserts: afterwards the condition of the given type has the given status,
  reason and message and the generation of the resource, its transition time moved to now exactly
  when the status changed or the condition is new, and every other condition is as before.
\<close>

theorem setCondition_upserts:
  assumes "condition_laws C" and "conditions_timed C (tn_conditions tn)" and "now \<noteq> time_zero"
  shows "co_find C (tn_conditions (setCondition C now ct st rs msg tn)) t =
    (if t = ct then
       Some \<lparr>cond_type = ct, cond_status = st, cond_observedGeneration = om_generation (tn_meta tn),
         cond_lastTransitionTime =
           (case co_find C (tn_conditions tn) ct of
              Some e \<Rightarrow> if cond_status e = st then cond_lastTransitionTime e else now
            | None \<Rightarrow> now),
         cond_reason = rs, cond_message = msg\<rparr>
     else co_find C (tn_conditions tn) t)"
  using assms unfolding condition_laws_def conditions_timed_def setCondition_def
  by (auto simp: Let_def split: option.splits)

theorem setCondition_upserts_witness:
  "co_find list_conditions (tn_conditions (setCondition list_conditions 5 ''Ready'' ConditionTrue ''ok'' ''fine'' sample_node)) ''Ready'' =
   Some \<lparr>cond_type = ''Ready'', cond_status = ConditionTrue, cond_observedGeneration = 1,
     cond_lastTransitionTime = 5, cond_reason = ''ok'', cond_message = ''fine''\<rparr>"
proof -
  have "conditions_timed list_conditions (tn_conditions sample_node)"
    by (simp add: conditions_timed_def list_conditions_def sample_node_def zero_TaoNodeStatus_def)
  from setCondition_upserts [OF list_condition_laws this] show ?thesis
    by (simp add: time_zero_def list_conditions_def sample_node_def zero_TaoNodeStatus_def)
qed

text \<open>
  The labels of a node identify it and its placement: two nodes with the same labels have the
  same name, network, subnet and role text.
\<close>

theorem labelsForNode_inj:
  assumes "labelsForNode a = labelsForNode b"
  shows "tn_name a = tn_name b \<and> tn_network a = tn_network b \<and>
    spec_subnetID (tn_spec a) = spec_subnetID (tn_spec b) \<and> role_string (tn_role a) = role_string (tn_role b)"
proof -
  have "labelsForNode a k = labelsForNode b k" for k using assms by simp
  from this [of "''app.kubernetes.io/instance''"] this [of "''tao.guardian.io/network''"]
    this [of "''tao.guardian.io/subnet''"] this [of "''tao.guardian.io/role''"]
  show ?thesis by (auto simp: labelsForNode_def fmt_int_inj intro: signed_word_eqI)
qed

theorem labelsForNode_inj_witness:
  "labelsForNode sample_node = labelsForNode (with_size ''1'' sample_node) \<and>
   tn_name sample_node = tn_name (with_size ''1'' sample_node)"
proof -
  have "labelsForNode sample_node = labelsForNode (with_size ''1'' sample_node)"
    by (simp add: labelsForNode_def with_size_def sample_node_def)
  with labelsForNode_inj [OF this] show ?thesis by simp
qed

end
