(* ===== verification/Kube_Memory.thy ===== *)
theory Kube_Memory
  imports Kube_Client
begin

text \<open>
  An in-memory API server: a concrete instance of the client parameter, on which the witnesses of
  the handlers' properties are evaluated. Objects are maps from namespace and name; a missing
  object is \<open>NotFound\<close>, creating an existing one fails.
\<close>

type_synonym 'a store = "string \<times> string \<rightharpoonup> 'a"

text \<open>
  What a server records of the stateful sets: the creations, updates and orphaning deletions it was asked
  for, each with its answer.
\<close>

datatype set_event =
    SetCreated stateful_set "kerr option"
  | SetUpdated stateful_set "kerr option"
  | SetOrphaned stateful_set "kerr option"

record mem_world =
  mw_nodes :: "TaoNode store"
  mw_pods :: "pod store"
  mw_pvcs :: "pvc store"
  mw_leases :: "lease store"
  mw_snapshots :: "volume_snapshot list"
  mw_roles :: "rbac_role store"
  mw_secrets :: "secret store"
  mw_sets :: "stateful_set store"
  mw_accounts :: "service_account store"
  mw_services :: "service store"
  mw_monitors :: "service_monitor store"
  mw_clock :: time
  mw_log :: "set_event list"

definition mem_get :: "('w \<Rightarrow> 'a store) \<Rightarrow> ('w, 'a) kget" where
  "mem_get sel w ns n = (w, case sel w (ns, n) of None \<Rightarrow> Inl (NotFound n) | Some x \<Rightarrow> Inr x)"

definition meta_key :: "('a object_meta_scheme) \<Rightarrow> string \<times> string" where
  "meta_key m = (om_namespace m, om_name m)"

definition mem_create ::
  "('w \<Rightarrow> 'a store) \<Rightarrow> (('a store \<Rightarrow> 'a store) \<Rightarrow> 'w \<Rightarrow> 'w) \<Rightarrow> ('a \<Rightarrow> string \<times> string) \<Rightarrow> ('w, 'a) kput" where
  "mem_create sel upd key w x =
     (if sel w (key x) = None then (upd (\<lambda>m. m(key x \<mapsto> x)) w, None) else (w, Some (OtherErr ''already exists'')))"

definition mem_update ::
  "('w \<Rightarrow> 'a store) \<Rightarrow> (('a store \<Rightarrow> 'a store) \<Rightarrow> 'w \<Rightarrow> 'w) \<Rightarrow> ('a \<Rightarrow> string \<times> string) \<Rightarrow> ('w, 'a) kput" where
  "mem_update sel upd key w x =
     (case sel w (key x) of None \<Rightarrow> (w, Some (NotFound (snd (key x)))) | Some _ \<Rightarrow> (upd (\<lambda>m. m(key x \<mapsto> x)) w, None))"

definition mem_delete ::
  "('w \<Rightarrow> 'a store) \<Rightarrow> (('a store \<Rightarrow> 'a store) \<Rightarrow> 'w \<Rightarrow> 'w) \<Rightarrow> ('a \<Rightarrow> string \<times> string) \<Rightarrow> ('w, 'a) kput" where
  "mem_delete sel upd key w x =
     (case sel w (key x) of None \<Rightarrow> (w, Some (NotFound (snd (key x)))) | Some _ \<Rightarrow> (upd (\<lambda>m. m(key x := None)) w, None))"

definition mem_createOrUpdate ::
  "('w \<Rightarrow> 'a store) \<Rightarrow> (('a store \<Rightarrow> 'a store) \<Rightarrow> 'w \<Rightarrow> 'w) \<Rightarrow> ('a \<Rightarrow> string \<times> string) \<Rightarrow>
   'w \<Rightarrow> 'a \<Rightarrow> ('a \<Rightarrow> kerr + 'a) \<Rightarrow> 'w \<times> kerr option" where
  "mem_createOrUpdate sel upd key w x mutate =
     (case mutate (case sel w (key x) of None \<Rightarrow> x | Some y \<Rightarrow> y) of
        Inl e \<Rightarrow> (w, Some e)
      | Inr y \<Rightarrow> (upd (\<lambda>m. m(key x \<mapsto> y)) w, None))"

fun mem_retry :: "nat \<Rightarrow> ('w \<Rightarrow> 'w \<times> kerr option) \<Rightarrow> 'w \<Rightarrow> 'w \<times> kerr option" where
  "mem_retry 0 f w = f w"
| "mem_retry (Suc n) f w =
     (case f w of
        (w', Some e) \<Rightarrow> if IsConflict e then mem_retry n f w' else (w', Some e)
      | (w', None) \<Rightarrow> (w', None))"

definition label_keys :: "string list" where
  "label_keys = [''app.kubernetes.io/name'', ''app.kubernetes.io/instance'', ''app.kubernetes.io/managed-by'',
     ''tao.guardian.io/network'', ''tao.guardian.io/subnet'', ''tao.guardian.io/role'']"

definition labels_match :: "(string \<rightharpoonup> string) \<Rightarrow> (string \<rightharpoonup> string) \<Rightarrow> bool" where
  "labels_match sel labels = list_all (\<lambda>k. sel k = None \<or> labels k = sel k) label_keys"

definition snapshot_key :: "volume_snapshot \<Rightarrow> string \<times> string" where
  "snapshot_key v = meta_key (vs_meta v)"

definition mem_listSnapshots ::
  "mem_world \<Rightarrow> string \<Rightarrow> (string \<rightharpoonup> string) \<Rightarrow> mem_world \<times> (kerr + volume_snapshot list)" where
  "mem_listSnapshots w ns labels =
     (w, Inr (filter (\<lambda>v. om_namespace (vs_meta v) = ns \<and> labels_match labels (om_labels (vs_meta v))) (mw_snapshots w)))"

definition mem_createSnapshot :: "(mem_world, volume_snapshot) kput" where
  "mem_createSnapshot w v =
     (if snapshot_key v \<in> snapshot_key ` set (mw_snapshots w) then (w, Some (OtherErr ''already exists''))
      else (w\<lparr>mw_snapshots := mw_snapshots w @ [v\<lparr>vs_creationTimestamp := mw_clock w\<rparr>]\<rparr>, None))"

definition mem_deleteSnapshot :: "(mem_world, volume_snapshot) kput" where
  "mem_deleteSnapshot w v =
     (w\<lparr>mw_snapshots := filter (\<lambda>u. snapshot_key u \<noteq> snapshot_key v) (mw_snapshots w)\<rparr>, None)"

definition mem_setControllerReference :: "TaoNode \<Rightarrow> owner_ref list \<Rightarrow> kerr + owner_ref list" where
  "mem_setControllerReference tn owners =
     (let ref = \<lparr>or_apiVersion = ''tao.guardian.io/v1alpha1'', or_kind = ''TaoNode'', or_name = tn_name tn,
        or_uid = om_uid (tn_meta tn), or_controller = True, or_blockOwnerDeletion = True\<rparr>
      in if list_ex (\<lambda>o'. or_controller o' \<and> or_uid o' \<noteq> or_uid ref) owners then Inl (OtherErr ''already owned'')
         else if list_ex (\<lambda>o'. or_uid o' = or_uid ref) owners then Inr owners
         else Inr (owners @ [ref]))"

definition mem_client :: "mem_world kclient" where
  "mem_client =
     \<lparr>k_getTaoNode = mem_get mw_nodes,
      k_updateTaoNode = mem_update mw_nodes mw_nodes_update (\<lambda>x. meta_key (tn_meta x)),
      k_updateTaoNodeStatus = mem_update mw_nodes mw_nodes_update (\<lambda>x. meta_key (tn_meta x)),
      k_getPod = mem_get mw_pods,
      k_deletePod = mem_delete mw_pods mw_pods_update (\<lambda>x. meta_key (pod_meta x)),
      k_getPVC = mem_get mw_pvcs,
      k_updatePVC = mem_update mw_pvcs mw_pvcs_update (\<lambda>x. meta_key (pvc_meta x)),
      k_getLease = mem_get mw_leases,
      k_createLease = mem_create mw_leases mw_leases_update (\<lambda>x. meta_key (lease_meta x)),
      k_updateLease = mem_update mw_leases mw_leases_update (\<lambda>x. meta_key (lease_meta x)),
      k_deleteLease = mem_delete mw_leases mw_leases_update (\<lambda>x. meta_key (lease_meta x)),
      k_listSnapshots = mem_listSnapshots,
      k_createSnapshot = mem_createSnapshot,
      k_deleteSnapshot = mem_deleteSnapshot,
      k_getRole = mem_get mw_roles,
      k_getSecret = mem_get mw_secrets,
      k_getStatefulSet = mem_get mw_sets,
      k_createStatefulSet = mem_create mw_sets mw_sets_update (\<lambda>x. meta_key (sts_meta x)),
      k_updateStatefulSet = mem_update mw_sets mw_sets_update (\<lambda>x. meta_key (sts_meta x)),
      k_deleteStatefulSetOrphan = mem_delete mw_sets mw_sets_update (\<lambda>x. meta_key (sts_meta x)),
      k_createOrUpdateSA = mem_createOrUpdate mw_accounts mw_accounts_update (\<lambda>x. meta_key (sa_meta x)),
      k_createOrUpdateService = mem_createOrUpdate mw_services mw_services_update (\<lambda>x. meta_key (svc_meta x)),
      k_createOrUpdateMonitor = mem_createOrUpdate mw_monitors mw_monitors_update (\<lambda>x. meta_key (sm_meta x)),
      k_retryOnConflict = mem_retry 5,
      k_setControllerReference = mem_setControllerReference\<rparr>"

definition mem_env :: "mem_world operator_env" where
  "mem_env = \<lparr>env_client = mem_client, env_quantities = plain_quantities, env_conditions = list_conditions,
     env_defaultImage = '''', env_zoneOffset = 0\<rparr>"

definition empty_world :: mem_world where
  "empty_world = \<lparr>mw_nodes = Map.empty, mw_pods = Map.empty, mw_pvcs = Map.empty, mw_leases = Map.empty,
     mw_snapshots = [], mw_roles = Map.empty, mw_secrets = Map.empty, mw_sets = Map.empty,
     mw_accounts = Map.empty, mw_services = Map.empty, mw_monitors = Map.empty, mw_clock = 0, mw_log = []\<rparr>"

definition mem_state :: "mem_world \<Rightarrow> mem_world kstate" where
  "mem_state w = \<lparr>ks_world = w, ks_events = [], ks_metrics = []\<rparr>"

end
