(* ===== verification/Snapshot_Manager.thy ===== *)
theory Snapshot_Manager
  imports Node_Helpers Kube_Memory
begin

text \<open>
  Volume snapshots of the chain data, \<open>internal/controller/snapshot_manager.go\<close>: taking one, pruning
  the old ones down to the retention count, the in-place insertion sort the pruning uses, and the
  snapshot-restore recovery strategy. Handlers return the new state, the mutated resource and the
  error.
\<close>

section \<open>Definitions\<close>

definition snapshotClassForDestination :: "SnapshotDestination \<Rightarrow> string" where
  "snapshotClassForDestination dest =
     (if sd_type dest = ''s3'' then ''csi-aws-vsc''
      else if sd_type dest = ''gcs'' then ''csi-gce-pd-vsc''
      else if sd_type dest = ''minio'' then ''csi-minio-vsc''
      else ''csi-hostpath-snapclass'')"

text \<open>The inner loop of the sort: element \<open>j\<close> moves down while it is older than its neighbour.\<close>

fun sift_down :: "nat \<Rightarrow> volume_snapshot list \<Rightarrow> volume_snapshot list" where
  "sift_down 0 items = items"
| "sift_down (Suc j) items =
     (let ti = vs_creationTimestamp (items ! Suc j); tj = vs_creationTimestamp (items ! j)
      in if ti < tj then sift_down j (items[Suc j := items ! j, j := items ! Suc j]) else items)"

definition sortSnapshotsByAge :: "volume_snapshot list \<Rightarrow> volume_snapshot list" where
  "sortSnapshotsByAge items = fold sift_down [1..<length items] items"

fun delete_snapshots ::
  "'w kclient \<Rightarrow> volume_snapshot list \<Rightarrow> ('w, 'a) kstate_scheme \<Rightarrow> ('w, 'a) kstate_scheme \<times> kerr option" where
  "delete_snapshots K [] s = (s, None)"
| "delete_snapshots K (v # vs) s =
     (case call (\<lambda>w. k_deleteSnapshot K w v) s of
        (s1, Some e) \<Rightarrow> (s1, Some (Wrapped (''delete snapshot '' @ om_name (vs_meta v)) e))
      | (s1, None) \<Rightarrow> delete_snapshots K vs s1)"

definition pruneOldSnapshots ::
  "'w operator_env \<Rightarrow> TaoNode \<Rightarrow> ('w, 'a) kstate_scheme \<Rightarrow> ('w, 'a) kstate_scheme \<times> kerr option" where
  "pruneOldSnapshots env tn s =
     (case spec_snapshotPolicy (tn_spec tn) of
        None \<Rightarrow> (s, None)
      | Some policy \<Rightarrow>
          (case call (\<lambda>w. k_listSnapshots (env_client env) w (tn_namespace tn) (labelsForNode tn)) s of
             (s1, Inl e) \<Rightarrow> (s1, Some (Wrapped ''list snapshots'' e))
           | (s1, Inr items) \<Rightarrow>
               let retention = sint (snp_retentionCount policy)
               in if int (length items) \<le> retention then (s1, None)
                  else if retention < 0 then (s1, Some (PanicErr ''slice bounds out of range''))
                  else let items' = sortSnapshotsByAge items;
                           toDelete = take (length items' - nat retention) items'
                       in delete_snapshots (env_client env) toDelete s1))"

definition snapshot_for :: "'w operator_env \<Rightarrow> time \<Rightarrow> TaoNode \<Rightarrow> SnapshotPolicySpec \<Rightarrow> string \<Rightarrow> volume_snapshot" where
  "snapshot_for env now tn policy reason =
     \<lparr>vs_meta = (new_meta (tn_name tn @ ''-'' @ fmt_compact (time_add now (env_zoneOffset env)))
                   (tn_namespace tn) (labelsForNode tn))
        \<lparr>om_annotations :=
           [''tao.guardian.io/snapshot-reason'' \<mapsto> reason,
            ''tao.guardian.io/node-name'' \<mapsto> tn_name tn,
            ''tao.guardian.io/snapshot-timestamp'' \<mapsto> fmt_rfc3339 now],
         om_owners := [\<lparr>or_apiVersion = ''tao.guardian.io/v1alpha1'', or_kind = ''TaoNode'',
           or_name = tn_name tn, or_uid = om_uid (tn_meta tn), or_controller = True,
           or_blockOwnerDeletion = True\<rparr>]\<rparr>,
      vs_creationTimestamp = time_zero,
      vs_className = snapshotClassForDestination (snp_destination policy),
      vs_pvcName = ''chain-data-'' @ tn_name tn @ ''-0''\<rparr>"

definition record_snapshot :: "time \<Rightarrow> TaoNode \<Rightarrow> TaoNode" where
  "record_snapshot now tn =
     (let sn = (case st_snapshot (tn_status tn) of None \<Rightarrow> zero_SnapshotStatus | Some sn \<Rightarrow> sn)
      in tn\<lparr>tn_status := (tn_status tn)\<lparr>st_snapshot :=
           Some (sn\<lparr>sns_lastSnapshotTime := Some now,
                    sns_availableSnapshots := sns_availableSnapshots sn + 1\<rparr>)\<rparr>\<rparr>)"

definition triggerSnapshot ::
  "'w operator_env \<Rightarrow> time \<Rightarrow> TaoNode \<Rightarrow> string \<Rightarrow> ('w, 'a) kstate_scheme \<Rightarrow>
   ('w, 'a) kstate_scheme \<times> TaoNode \<times> kerr option" where
  "triggerSnapshot env now tn reason s =
     (case spec_snapshotPolicy (tn_spec tn) of
        None \<Rightarrow> (s, tn, None)
      | Some policy \<Rightarrow>
          let snap = snapshot_for env now tn policy reason; snapshotName = om_name (vs_meta snap)
          in (case call (\<lambda>w. k_createSnapshot (env_client env) w snap) s of
                (s1, Some e) \<Rightarrow> (s1, tn, Some (Wrapped (''create VolumeSnapshot '' @ snapshotName) e))
              | (s1, None) \<Rightarrow>
                  let s2 = sample (WithLabelValues snapshotDuration_desc [tn_name tn, tn_namespace tn, reason] Observe) s1;
                      s3 = Eventf tn EventNormal ''SnapshotTriggered''
                             (''VolumeSnapshot '' @ snapshotName @ '' created (reason: '' @ reason @ '')'') s2;
                      tn1 = record_snapshot now tn;
                      (s4, _) = pruneOldSnapshots env tn1 s3
                  in (s4, tn1, None)))"

definition recoverySnapshotRestore ::
  "'w operator_env \<Rightarrow> time \<Rightarrow> TaoNode \<Rightarrow> ('w, 'a) kstate_scheme \<Rightarrow>
   ('w, 'a) kstate_scheme \<times> TaoNode \<times> ctrl_result \<times> kerr option" where
  "recoverySnapshotRestore env now tn s =
     (let (s1, tn1, _) = triggerSnapshot env now tn ''pre-restore-backup'' s;
          podName = tn_name tn1 @ ''-0'';
          (s2, deleteErr) =
            (case call (\<lambda>w. k_getPod (env_client env) w (tn_namespace tn1) podName) s1 of
               (s2, Inr pod) \<Rightarrow> call (\<lambda>w. k_deletePod (env_client env) w pod) s2
             | (s2, Inl _) \<Rightarrow> (s2, None))
      in case deleteErr of
           Some e \<Rightarrow> (s2, tn1, no_requeue, Some (Wrapped ''delete pod for snapshot-restore'' e))
         | None \<Rightarrow>
             let s3 = Eventf tn1 EventWarning ''SnapshotRestoreRequired''
                        (''Snapshot-restore recovery triggered. Manual PVC restoration from latest snapshot '' @
                         ''may be needed if restart does not resolve sync loss.'') s2;
                 tn2 = set_phase PhaseRecovering tn1;
                 s4 = sample (WithLabelValues recoveryTotal_desc [tn_name tn2, tn_namespace tn2, ''snapshot-restore''] Inc) s3
             in (s4, tn2, \<lparr>RequeueAfter = 60 * second\<rparr>, None))"

section \<open>The sort\<close>

lemma sift_down_sorted:
  "sorted (map vs_creationTimestamp ys) \<Longrightarrow>
   sift_down (length ys) (ys @ x # zs) =
     filter (\<lambda>y. vs_creationTimestamp y \<le> vs_creationTimestamp x) ys @ x #
     filter (\<lambda>y. vs_creationTimestamp x < vs_creationTimestamp y) ys @ zs"
proof (induction ys arbitrary: zs rule: rev_induct)
  case (snoc y ys)
  have nths: "(ys @ y # x # zs) ! Suc (length ys) = x" "(ys @ y # x # zs) ! length ys = y"
    by (simp_all add: nth_append)
  have swap: "(ys @ y # x # zs)[Suc (length ys) := y, length ys := x] = ys @ x # y # zs"
    by (simp add: list_update_append)
  show ?case
  proof (cases "vs_creationTimestamp x < vs_creationTimestamp y")
    case True
    then show ?thesis using snoc by (simp add: nths swap Let_def sorted_append)
  next
    case False
    then have "\<forall>z\<in>set ys. vs_creationTimestamp z \<le> vs_creationTimestamp x"
      using snoc.prems by (force simp: sorted_append)
    then have "filter (\<lambda>z. vs_creationTimestamp z \<le> vs_creationTimestamp x) ys = ys"
      "filter (\<lambda>z. vs_creationTimestamp x < vs_creationTimestamp z) ys = []"
      by (auto simp: filter_empty_conv)
    with False show ?thesis by (simp add: nths Let_def)
  qed
qed simp

lemma sort_key_snoc:
  fixes f :: "'a \<Rightarrow> 'b::linorder"
  shows "sort_key f (xs @ [x]) =
    filter (\<lambda>y. f y \<le> f x) (sort_key f xs) @ x # filter (\<lambda>y. f x < f y) (sort_key f xs)"
proof (rule properties_for_sort_key)
  let ?zs = "filter (\<lambda>y. f y \<le> f x) (sort_key f xs) @ x # filter (\<lambda>y. f x < f y) (sort_key f xs)"
  have "mset (filter (\<lambda>y. f y \<le> f x) (sort_key f xs)) + mset (filter (\<lambda>y. f x < f y) (sort_key f xs)) = mset xs"
    using multiset_partition [of "mset xs" "\<lambda>y. f y \<le> f x"] by (simp add: not_le)
  then show "mset ?zs = mset (xs @ [x])" by simp
  show "sorted (map f ?zs)" by (auto simp: sorted_append sorted_filter)
  have stable: "filter (\<lambda>y. f k = f y) (sort_key f xs) = filter (\<lambda>y. f k = f y) xs" for k
    using sort_key_stable [of f "f k" xs] by (simp add: eq_commute)
  show "filter (\<lambda>y. f k = f y) ?zs = filter (\<lambda>y. f k = f y) (xs @ [x])" if "k \<in> set ?zs" for k
  proof (cases "f k \<le> f x")
    case True
    then have "filter (\<lambda>y. f k = f y) (filter (\<lambda>y. f y \<le> f x) (sort_key f xs)) = filter (\<lambda>y. f k = f y) (sort_key f xs)"
      "filter (\<lambda>y. f k = f y) (filter (\<lambda>y. f x < f y) (sort_key f xs)) = []"
      by (auto simp: filter_empty_conv intro: filter_cong)
    then show ?thesis unfolding filter_append filter.simps by (auto simp: stable filter_empty_conv)
  next
    case False
    then have "filter (\<lambda>y. f k = f y) (filter (\<lambda>y. f x < f y) (sort_key f xs)) = filter (\<lambda>y. f k = f y) (sort_key f xs)"
      "filter (\<lambda>y. f k = f y) (filter (\<lambda>y. f y \<le> f x) (sort_key f xs)) = []"
      by (auto simp: filter_empty_conv intro: filter_cong)
    then show ?thesis using False unfolding filter_append filter.simps by (auto simp: stable)
  qed
qed

lemma sift_prefix:
  "n \<le> length items \<Longrightarrow> fold sift_down [1..<n] items =
   sort_key vs_creationTimestamp (take n items) @ drop n items"
proof (induction n)
  case (Suc n)
  show ?case
  proof (cases n)
    case 0
    then show ?thesis using Suc.prems by (cases items) simp_all
  next
    case (Suc m)
    have n: "n < length items" using Suc.prems by simp
    have "sift_down n (sort_key vs_creationTimestamp (take n items) @ drop n items) =
        sort_key vs_creationTimestamp (take n items @ [items ! n]) @ drop (Suc n) items"
      using sift_down_sorted [of "sort_key vs_creationTimestamp (take n items)" "items ! n" "drop (Suc n) items"] n
      by (simp add: sort_key_snoc Cons_nth_drop_Suc [symmetric])
    then show ?thesis using Suc Suc.IH n by (simp add: take_Suc_conv_app_nth)
  qed
qed simp

lemma sortSnapshots_sort_key: "sortSnapshotsByAge items = sort_key vs_creationTimestamp items"
  unfolding sortSnapshotsByAge_def using sift_prefix [of "length items" items] by simp

text \<open>
  C24. The hand-written in-place insertion sort orders the snapshots by creation time, oldest first,
  keeps exactly the given snapshots, and keeps the order of snapshots with the same time.
\<close>

theorem sortSnapshotsByAge_correct:
  "sorted (map vs_creationTimestamp (sortSnapshotsByAge items)) \<and>
   mset (sortSnapshotsByAge items) = mset items \<and>
   filter (\<lambda>v. vs_creationTimestamp v = t) (sortSnapshotsByAge items) =
     filter (\<lambda>v. vs_creationTimestamp v = t) items"
  unfolding sortSnapshots_sort_key by (simp add: sort_key_stable)

section \<open>Pruning\<close>

text \<open>
  What the API server documents of listing and deleting snapshots, for the snapshots \<open>view w\<close> of a
  world: a list selects by namespace and labels, and deleting a present snapshot removes the one of
  that namespace and name.
\<close>

definition snapshot_laws ::
  "'w kclient \<Rightarrow> ('w \<Rightarrow> volume_snapshot list) \<Rightarrow> ((string \<rightharpoonup> string) \<Rightarrow> (string \<rightharpoonup> string) \<Rightarrow> bool) \<Rightarrow> bool" where
  "snapshot_laws K view match \<longleftrightarrow>
     (\<forall>w ns labels. k_listSnapshots K w ns labels =
        (w, Inr (filter (\<lambda>v. om_namespace (vs_meta v) = ns \<and> match labels (om_labels (vs_meta v))) (view w)))) \<and>
     (\<forall>w v. v \<in> set (view w) \<longrightarrow> (\<exists>w'. k_deleteSnapshot K w v = (w', None) \<and>
        view w' = filter (\<lambda>u. snapshot_key u \<noteq> snapshot_key v) (view w)))"

lemma mem_snapshot_laws: "snapshot_laws mem_client mw_snapshots labels_match"
  by (simp add: snapshot_laws_def mem_client_def mem_listSnapshots_def mem_deleteSnapshot_def)

lemma delete_snapshots_view:
  assumes "snapshot_laws K view match"
  shows "set vs \<subseteq> set (view (ks_world s)) \<Longrightarrow> distinct (map snapshot_key vs) \<Longrightarrow>
    \<exists>s'. delete_snapshots K vs s = (s', None) \<and>
      view (ks_world s') = filter (\<lambda>u. snapshot_key u \<notin> snapshot_key ` set vs) (view (ks_world s))"
proof (induction vs arbitrary: s)
  case (Cons v vs)
  obtain w' where del: "k_deleteSnapshot K (ks_world s) v = (w', None)"
    and view': "view w' = filter (\<lambda>u. snapshot_key u \<noteq> snapshot_key v) (view (ks_world s))"
    using assms Cons.prems(1) unfolding snapshot_laws_def by (metis list.set_intros(1) subsetD)
  let ?s = "s\<lparr>ks_world := w'\<rparr>"
  have "set vs \<subseteq> set (view (ks_world ?s))"
    using Cons.prems by (auto simp: view' intro: rev_image_eqI)
  from Cons.IH [OF this] Cons.prems(2) obtain s' where
    "delete_snapshots K vs ?s = (s', None)"
    "view (ks_world s') = filter (\<lambda>u. snapshot_key u \<notin> snapshot_key ` set vs) (view w')" by auto
  then show ?case by (auto simp: call_def del view' conj_commute)
qed simp

lemma delete_snapshots_set:
  assumes "snapshot_laws K view match" and "distinct (map snapshot_key (view (ks_world s)))"
    and "distinct vs" and "set vs \<subseteq> set (view (ks_world s))"
  shows "\<exists>s'. delete_snapshots K vs s = (s', None) \<and> view (ks_world s') = filter (\<lambda>u. u \<notin> set vs) (view (ks_world s))"
proof -
  have inj: "inj_on snapshot_key (set (view (ks_world s)))" using assms(2) by (simp add: distinct_map)
  then have "distinct (map snapshot_key vs)" using assms(3,4) by (simp add: distinct_map inj_on_subset)
  moreover have "filter (\<lambda>u. snapshot_key u \<notin> snapshot_key ` set vs) (view (ks_world s)) = filter (\<lambda>u. u \<notin> set vs) (view (ks_world s))"
    using inj assms(4) by (intro filter_cong refl) (auto simp: inj_on_def)
  ultimately show ?thesis using delete_snapshots_view [OF assms(1,4)] by simp
qed

text \<open>
  The snapshots of a node in a world.
\<close>

definition snapshots_of ::
  "((string \<rightharpoonup> string) \<Rightarrow> (string \<rightharpoonup> string) \<Rightarrow> bool) \<Rightarrow> TaoNode \<Rightarrow> volume_snapshot list \<Rightarrow> volume_snapshot list" where
  "snapshots_of match tn vs =
     filter (\<lambda>v. om_namespace (vs_meta v) = tn_namespace tn \<and> match (labelsForNode tn) (om_labels (vs_meta v))) vs"

lemma delete_oldest:
  fixes f :: "'a \<Rightarrow> 'b::linorder"
  assumes "distinct xs" and "ds = take (length xs - r) (sort_key f xs)"
  shows "length (filter (\<lambda>x. x \<notin> set ds) xs) = min r (length xs)"
    and "x \<in> set xs \<Longrightarrow> x \<notin> set ds \<Longrightarrow> d \<in> set ds \<Longrightarrow> f d \<le> f x"
proof -
  let ?L = "sort_key f xs" and ?n = "length xs - r"
  have "distinct ?L" using assms(1) by simp
  have "length (filter (\<lambda>x. x \<in> set ds) xs) = card (set ds)"
    using assms set_take_subset [of ?n ?L] by (simp add: distinct_length_filter Int_absorb2)
  also have "\<dots> = ?n" using assms \<open>distinct ?L\<close> by (simp add: distinct_card)
  finally show "length (filter (\<lambda>x. x \<notin> set ds) xs) = min r (length xs)"
    using sum_length_filter_compl [of "\<lambda>x. x \<in> set ds" xs] by auto
  assume x: "x \<in> set xs" "x \<notin> set ds" and d: "d \<in> set ds"
  have "set xs = set (take ?n ?L) \<union> set (drop ?n ?L)"
    by (metis append_take_drop_id set_append set_sort)
  then have "x \<in> set (drop ?n ?L)" using x assms(2) by blast
  moreover have "sorted (map f (take ?n ?L @ drop ?n ?L))" by simp
  ultimately show "f d \<le> f x" using d assms(2) unfolding map_append sorted_append by force
qed

text \<open>
  C23. Pruning succeeds and leaves the node the newest \<open>retentionCount\<close> of its snapshots: no
  deleted snapshot is newer than a kept one, the number left is the smaller of the retention count
  and the number there was, and snapshots of other nodes stay.
\<close>

theorem pruneOldSnapshots_keeps_newest:
  fixes match :: "(string \<rightharpoonup> string) \<Rightarrow> (string \<rightharpoonup> string) \<Rightarrow> bool"
  assumes "snapshot_laws (env_client env) view match"
    and "distinct (map snapshot_key (view (ks_world s)))"
    and "spec_snapshotPolicy (tn_spec tn) = Some policy" and "0 \<le> sint (snp_retentionCount policy)"
  shows "\<exists>s'. pruneOldSnapshots env tn s = (s', None) \<and>
    (let before = snapshots_of match tn (view (ks_world s)); after = snapshots_of match tn (view (ks_world s'))
     in length after = min (nat (sint (snp_retentionCount policy))) (length before) \<and>
        set after \<subseteq> set before \<and>
        (\<forall>v\<in>set after. \<forall>d\<in>set before - set after. vs_creationTimestamp d \<le> vs_creationTimestamp v)) \<and>
    set (view (ks_world s)) - set (snapshots_of match tn (view (ks_world s))) \<subseteq> set (view (ks_world s'))"
proof -
  let ?V = "view (ks_world s)" and ?r = "sint (snp_retentionCount policy)"
  let ?mine = "snapshots_of match tn ?V"
  have list: "k_listSnapshots (env_client env) (ks_world s) (tn_namespace tn) (labelsForNode tn) = (ks_world s, Inr ?mine)"
    using assms(1) by (simp add: snapshot_laws_def snapshots_of_def)
  have distV: "distinct ?V" using assms(2) by (simp add: distinct_map)
  show ?thesis
  proof (cases "int (length ?mine) \<le> ?r")
    case True
    then have "min (nat ?r) (length ?mine) = length ?mine" by linarith
    with True show ?thesis
      by (intro exI [of _ s]) (simp add: pruneOldSnapshots_def assms(3) call_def list Let_def)
  next
    case False
    let ?ds = "take (length ?mine - nat ?r) (sort_key vs_creationTimestamp ?mine)"
    have sub: "set ?ds \<subseteq> set ?mine" by (auto dest: in_set_takeD)
    have mineV: "set ?mine \<subseteq> set ?V" by (auto simp: snapshots_of_def)
    have "distinct ?ds" using distV by (simp add: snapshots_of_def)
    then obtain s' where s': "delete_snapshots (env_client env) ?ds s = (s', None)"
      and view': "view (ks_world s') = filter (\<lambda>u. u \<notin> set ?ds) ?V"
      using delete_snapshots_set [OF assms(1,2), of ?ds] sub mineV by auto
    have after: "snapshots_of match tn (view (ks_world s')) = filter (\<lambda>u. u \<notin> set ?ds) ?mine"
      unfolding view' snapshots_of_def by (simp add: conj_commute)
    have "pruneOldSnapshots env tn s = (s', None)"
      using False assms(3,4) s' by (simp add: pruneOldSnapshots_def call_def list Let_def sortSnapshots_sort_key)
    moreover have "length (filter (\<lambda>u. u \<notin> set ?ds) ?mine) = min (nat ?r) (length ?mine)"
      using distV by (intro delete_oldest(1) [of _ _ _ vs_creationTimestamp]) (simp_all add: snapshots_of_def)
    moreover have "vs_creationTimestamp d \<le> vs_creationTimestamp v"
      if "v \<in> set ?mine" "v \<notin> set ?ds" "d \<in> set ?ds" for v d
      using distV that by (intro delete_oldest(2) [of ?mine ?ds "nat ?r"]) (simp_all add: snapshots_of_def)
    ultimately show ?thesis
      using sub unfolding Let_def by (intro exI [of _ s'], unfold after, unfold view') auto
  qed
qed

definition snap_at :: "string \<Rightarrow> time \<Rightarrow> volume_snapshot" where
  "snap_at name t = (snapshot_for mem_env 0 sample_node (the (spec_snapshotPolicy sample_spec)) ''r'')
     \<lparr>vs_meta := new_meta name ''tao'' (labelsForNode sample_node), vs_creationTimestamp := t\<rparr>"

theorem pruneOldSnapshots_keeps_newest_witness:
  "\<exists>s'. pruneOldSnapshots mem_env sample_node
        (mem_state (empty_world\<lparr>mw_snapshots := [snap_at ''b'' 20, snap_at ''a'' 10, snap_at ''c'' 30]\<rparr>)) = (s', None) \<and>
     length (snapshots_of labels_match sample_node (mw_snapshots (ks_world s'))) = 2"
proof -
  let ?w = "empty_world\<lparr>mw_snapshots := [snap_at ''b'' 20, snap_at ''a'' 10, snap_at ''c'' 30]\<rparr>"
  have env: "env_client mem_env = mem_client" by (simp add: mem_env_def)
  have pol: "spec_snapshotPolicy (tn_spec sample_node) = Some (the (spec_snapshotPolicy sample_spec))"
    "sint (snp_retentionCount (the (spec_snapshotPolicy sample_spec))) = 2"
    by (simp_all add: sample_node_def sample_spec_def)
  have dist: "distinct (map snapshot_key (mw_snapshots (ks_world (mem_state ?w))))"
    by (simp add: mem_state_def snapshot_key_def meta_key_def snap_at_def new_meta_def)
  have len: "length (snapshots_of labels_match sample_node (mw_snapshots (ks_world (mem_state ?w)))) = 3"
    by code_simp
  have laws: "snapshot_laws (env_client mem_env) mw_snapshots labels_match"
    unfolding env by (rule mem_snapshot_laws)
  show ?thesis
    using pruneOldSnapshots_keeps_newest [OF laws dist pol(1)] by (auto simp: pol(2) Let_def len)
qed

end
