(* ===== verification/Storage_Manager.thy ===== *)
theory Storage_Manager
  imports Node_Helpers Kube_Memory
begin

text \<open>
  Automatic expansion of the chain-data volume, \<open>internal/controller/storage_manager.go\<close>. The sizes
  are computed in \<open>int64\<close> milli-units with Go's wrap-around and truncating division.
\<close>

section \<open>Definitions\<close>

definition newMilliValue :: "int64 \<Rightarrow> int32 \<Rightarrow> int64 \<Rightarrow> int64" where
  "newMilliValue current incrementPercent maxMilliValue =
     (let incrementMilliValue = quot64 (current * scast incrementPercent) 100;
          new = current + incrementMilliValue
      in if maxMilliValue <s new then maxMilliValue else new)"

definition storage_request :: "pvc \<Rightarrow> quantity" where
  "storage_request p =
     (case pvc_requests p of
        None \<Rightarrow> zero_quantity
      | Some m \<Rightarrow> (case m ''storage'' of None \<Rightarrow> zero_quantity | Some q \<Rightarrow> q))"

definition expandPVCPreemptively ::
  "'w operator_env \<Rightarrow> TaoNode \<Rightarrow> ('w, 'a) kstate_scheme \<Rightarrow> ('w, 'a) kstate_scheme \<times> kerr option" where
  "expandPVCPreemptively env tn s =
     (case cs_autoExpand (spec_chainStorage (tn_spec tn)) of
        None \<Rightarrow> (s, None)
      | Some autoExpand \<Rightarrow>
          let Q = env_quantities env; pvcName = ''chain-data-'' @ tn_name tn @ ''-0''
          in (case call (\<lambda>w. k_getPVC (env_client env) w (tn_namespace tn) pvcName) s of
                (s1, Inl e) \<Rightarrow> (s1, Some (Wrapped (''get PVC '' @ pvcName) e))
              | (s1, Inr pvc) \<Rightarrow>
                  let currentSize = storage_request pvc;
                      maxMilliValue = q_milliValue Q (ae_maxSize autoExpand);
                      new = newMilliValue (q_milliValue Q currentSize) (ae_incrementPercent autoExpand) maxMilliValue
                  in if maxMilliValue \<le>s q_milliValue Q currentSize then (s1, None)
                     else
                       let newSize = q_newMilliQuantity Q new
                       in (case pvc_requests pvc of
                             None \<Rightarrow> (s1, Some (PanicErr ''assignment to entry in nil map''))
                           | Some m \<Rightarrow>
                               (case call (\<lambda>w. k_updatePVC (env_client env) w
                                       (pvc\<lparr>pvc_requests := Some (m(''storage'' \<mapsto> newSize))\<rparr>)) s1 of
                                  (s2, Some e) \<Rightarrow>
                                    (s2, Some (Wrapped (''update PVC '' @ pvcName @ '' storage request'') e))
                                | (s2, None) \<Rightarrow>
                                    let s3 = Eventf tn EventNormal ''PVCExpanded''
                                          (''Expanded chain-data PVC from '' @ q_string Q currentSize @ '' to '' @
                                           q_string Q newSize @ '' (disk at '' @
                                           fmt_d (rs_diskUsagePercent (st_resources (tn_status tn))) @ ''%)'') s2
                                    in (sample (WithLabelValues predictiveActionsTotal_desc [tn_name tn, tn_namespace tn, ''pvc-expand''] Inc) s3,
                                        None)))))"

definition evaluateDiskPressure ::
  "'w operator_env \<Rightarrow> TaoNode \<Rightarrow> ('w, 'a) kstate_scheme \<Rightarrow> ('w, 'a) kstate_scheme \<times> kerr option" where
  "evaluateDiskPressure env tn s =
     (case cs_autoExpand (spec_chainStorage (tn_spec tn)) of
        None \<Rightarrow> (s, None)
      | Some autoExpand \<Rightarrow>
          if rs_diskUsagePercent (st_resources (tn_status tn)) <s ae_thresholdPercent autoExpand then (s, None)
          else (case expandPVCPreemptively env tn s of
                  (s1, Some e) \<Rightarrow> (s1, Some (Wrapped ''auto-expand PVC'' e))
                | (s1, None) \<Rightarrow> (s1, None)))"

section \<open>Properties\<close>

lemma sdiv_nonneg: "0 \<le> a \<Longrightarrow> 0 < b \<Longrightarrow> a sdiv b = (a :: int) div b"
  by (simp add: signed_divide_int_def sgn_if)

lemma newMilliValue_exact:
  assumes "0 \<le> sint cur" and "sint cur * 100 < 2 ^ 63" and "0 \<le> sint p" and "sint p \<le> 100"
  shows "sint (newMilliValue cur p mx) = min (sint cur + sint cur * sint p div 100) (sint mx)"
proof -
  have prod: "0 \<le> sint cur * sint p" "sint cur * sint p \<le> sint cur * 100"
    using assms by (simp_all add: mult_left_mono)
  have sp: "sint (scast p :: int64) = sint p" by (rule sint_scast32)
  have mul: "sint (cur * scast p) = sint cur * sint p"
    using prod assms(2) by (subst sint_mult_id) (simp_all add: sp)
  have inc: "sint (quot64 (cur * scast p) 100) = sint cur * sint p div 100"
  proof -
    have "0 \<le> sint cur * sint p div 100" "sint cur * sint p div 100 < 2 ^ 63"
      using prod assms(2) by (simp_all add: div_int_pos_iff)
    then have "sint (word_of_int (sint cur * sint p div 100) :: int64) = sint cur * sint p div 100"
      by (intro sint_word_of_int_id) simp_all
    then show ?thesis using prod by (simp add: quot64_def mul sdiv_nonneg)
  qed
  have "sint cur * sint p div 100 \<le> sint cur"
    using prod(2) zdiv_mono1 [of "sint cur * sint p" "sint cur * 100" 100] by simp
  then have sum: "sint (cur + quot64 (cur * scast p) 100) = sint cur + sint cur * sint p div 100"
    using assms prod by (subst sint_add_id) (simp_all add: inc pos_imp_zdiv_nonneg_iff)
  show ?thesis by (auto simp: newMilliValue_def Let_def sint_cmp sum min_def)
qed

lemma newMilliValue_grows:
  assumes "10 \<le> sint cur" and "sint cur * 100 < 2 ^ 63" and "10 \<le> sint p" and "sint p \<le> 100" and "sint cur < sint mx"
  shows "sint cur < sint (newMilliValue cur p mx)" and "sint (newMilliValue cur p mx) \<le> sint mx"
proof -
  have "10 * 10 \<le> sint cur * sint p" using assms by (intro mult_mono) simp_all
  then have "1 \<le> sint cur * sint p div 100" using zdiv_mono1 [of 100 "sint cur * sint p" 100] by simp
  with assms show "sint cur < sint (newMilliValue cur p mx)" by (simp add: newMilliValue_exact)
  show "sint (newMilliValue cur p mx) \<le> sint mx" using assms by (simp add: newMilliValue_exact)
qed

text \<open>
  For volumes below \<open>2^63 / 100\<close> milli-bytes (about 84 TiB) and an increment of 10 to 100
  percent, the arithmetic of the expansion does not wrap: the new size is the current size plus the
  increment, rounded down, capped at the maximal size, and it is strictly larger than the current
  size while that is below the maximum.
\<close>

theorem expansion_size:
  assumes "10 \<le> sint cur" and "sint cur * 100 < 2 ^ 63" and "10 \<le> sint p" and "sint p \<le> 100"
  shows "sint (newMilliValue cur p mx) = min (sint cur + sint cur * sint p div 100) (sint mx) \<and>
    (sint cur < sint mx \<longrightarrow> sint cur < sint (newMilliValue cur p mx))"
  using assms newMilliValue_grows(1) by (simp add: newMilliValue_exact)

theorem expansion_size_witness:
  "sint (newMilliValue 1000000 20 1150000) = 1150000"
  using expansion_size [of 1000000 20 1150000] by simp

text \<open>
  Runs of the disk-pressure step, one reconcile after another, on the state each left to the next; the
  second result counts the runs that reported no error.
\<close>

fun pressure_run ::
  "'w operator_env \<Rightarrow> TaoNode list \<Rightarrow> ('w, 'a) kstate_scheme \<Rightarrow> ('w, 'a) kstate_scheme \<times> nat" where
  "pressure_run env [] s = (s, 0)"
| "pressure_run env (tn # tns) s =
     (case evaluateDiskPressure env tn s of
        (s1, err) \<Rightarrow> (case pressure_run env tns s1 of (s2, n) \<Rightarrow> (s2, if err = None then Suc n else n)))"

text \<open>
  What the API server documents of the volume claim \<open>name\<close> in \<open>ns\<close>, for the claim \<open>claim w\<close> a world
  stores: a read that succeeds returns it, an update that succeeds replaces it, and a read or an update
  that fails leaves it. A resource is under pressure when its disk usage is at its threshold or above.
\<close>

definition claim_laws :: "'w kclient \<Rightarrow> string \<Rightarrow> string \<Rightarrow> ('w \<Rightarrow> pvc option) \<Rightarrow> bool" where
  "claim_laws K ns name claim \<longleftrightarrow>
     (\<forall>w w1 r. k_getPVC K w ns name = (w1, r) \<longrightarrow> claim w1 = claim w \<and> (\<forall>p. r = Inr p \<longrightarrow> claim w = Some p)) \<and>
     (\<forall>w w1 p r. k_updatePVC K w p = (w1, r) \<longrightarrow> meta_key (pvc_meta p) = (ns, name) \<longrightarrow>
        claim w1 = (if r = None then Some p else claim w))"

definition under_pressure :: "string \<Rightarrow> string \<Rightarrow> AutoExpandSpec \<Rightarrow> TaoNode \<Rightarrow> bool" where
  "under_pressure ns name ae tn \<longleftrightarrow> tn_namespace tn = ns \<and> tn_name tn = name \<and>
     cs_autoExpand (spec_chainStorage (tn_spec tn)) = Some ae \<and>
     sint (ae_thresholdPercent ae) \<le> sint (rs_diskUsagePercent (st_resources (tn_status tn)))"

definition claim_name :: "string \<Rightarrow> string" where "claim_name name = ''chain-data-'' @ name @ ''-0''"

definition claim_milli :: "quantity_ops \<Rightarrow> pvc \<Rightarrow> int" where
  "claim_milli Q p = sint (q_milliValue Q (storage_request p))"

lemma pressure_step:
  assumes laws: "claim_laws (env_client env) ns (claim_name name) claim" and tn: "under_pressure ns name ae tn"
    and Q: "\<forall>v. q_milliValue (env_quantities env) (q_newMilliQuantity (env_quantities env) v) = v"
    and ae: "sint (q_milliValue (env_quantities env) (ae_maxSize ae)) * 100 < 2 ^ 63"
      "10 \<le> sint (ae_incrementPercent ae)" "sint (ae_incrementPercent ae) \<le> 100"
    and p: "claim (ks_world s) = Some p" "pvc_requests p \<noteq> None" "meta_key (pvc_meta p) = (ns, claim_name name)" "10 \<le> claim_milli (env_quantities env) p"
      "claim_milli (env_quantities env) p \<le> sint (q_milliValue (env_quantities env) (ae_maxSize ae))"
    and run: "evaluateDiskPressure env tn s = (s1, err)"
  shows "\<exists>p'. claim (ks_world s1) = Some p' \<and> pvc_requests p' \<noteq> None \<and> pvc_meta p' = pvc_meta p \<and>
    claim_milli (env_quantities env) p \<le> claim_milli (env_quantities env) p' \<and>
    claim_milli (env_quantities env) p' \<le> sint (q_milliValue (env_quantities env) (ae_maxSize ae)) \<and>
    (err = None \<longrightarrow> min (claim_milli (env_quantities env) p + 1) (sint (q_milliValue (env_quantities env) (ae_maxSize ae)))
       \<le> claim_milli (env_quantities env) p')"
proof -
  let ?Q = "env_quantities env" and ?K = "env_client env"
  let ?cur = "q_milliValue ?Q (storage_request p)" and ?mx = "q_milliValue ?Q (ae_maxSize ae)"
  let ?new = "newMilliValue ?cur (ae_incrementPercent ae) ?mx"
  note tn = tn [unfolded under_pressure_def]
  obtain w1 r where get: "k_getPVC ?K (ks_world s) ns (claim_name name) = (w1, r)" by fastforce
  then have w1: "claim w1 = Some p" "\<And>q. r = Inr q \<Longrightarrow> q = p" using laws p(1) unfolding claim_laws_def by (metis option.inject)+
  show ?thesis
  proof (cases "r = Inr p \<and> ?cur <s ?mx")
    case False
    then have "ks_world s1 = w1 \<and> (err = None \<longrightarrow> ?mx \<le>s ?cur)"
      using run get tn w1(2) p(2)
      by (cases r) (auto simp: evaluateDiskPressure_def expandPVCPreemptively_def claim_name_def call_def Let_def sint_cmp)
    then show ?thesis using w1(1) p by (auto simp: claim_milli_def sint_cmp)
  next
    case True
    obtain m where m: "pvc_requests p = Some m" using p(2) by blast
    let ?p = "p\<lparr>pvc_requests := Some (m(''storage'' \<mapsto> q_newMilliQuantity ?Q ?new))\<rparr>"
    obtain w2 e where upd: "k_updatePVC ?K w1 ?p = (w2, e)" by fastforce
    then have w2: "claim w2 = (if e = None then Some ?p else Some p)"
      using laws w1(1) p(3) by (simp add: claim_laws_def)
    have new: "claim_milli ?Q ?p = sint ?new" using Q by (simp add: claim_milli_def storage_request_def)
    have grows: "sint ?cur < sint ?new" "sint ?new \<le> sint ?mx"
      using newMilliValue_grows [of ?cur "ae_incrementPercent ae" ?mx] True ae p(4,5) by (simp_all add: claim_milli_def sint_cmp)
    have "ks_world s1 = w2 \<and> (err = None \<longleftrightarrow> e = None)"
      using run get True upd tn m
      by (auto simp: evaluateDiskPressure_def expandPVCPreemptively_def claim_name_def call_def Let_def sint_cmp Eventf_def sample_def
          split: option.splits)
    then show ?thesis using w2 new grows p by (auto simp: claim_milli_def)
  qed
qed


text \<open>
  Disk pressure acts on the volume exactly as configured. Below the threshold, or at the
  maximal size, nothing is written. Above it, the one write is the claim of the node with its
  storage request replaced by the new size; the error of the read or of the write is reported.
\<close>

theorem evaluateDiskPressure_writes:
  assumes "cs_autoExpand (spec_chainStorage (tn_spec tn)) = Some ae"
    and "k_getPVC (env_client env) (ks_world s) (tn_namespace tn) (''chain-data-'' @ tn_name tn @ ''-0'') = (w, Inr p)"
    and "pvc_requests p = Some m" and "m ''storage'' = Some q"
  shows "let cur = q_milliValue (env_quantities env) q; mx = q_milliValue (env_quantities env) (ae_maxSize ae);
       out = evaluateDiskPressure env tn s
     in if sint (rs_diskUsagePercent (st_resources (tn_status tn))) < sint (ae_thresholdPercent ae) then out = (s, None)
        else if sint mx \<le> sint cur then out = (s\<lparr>ks_world := w\<rparr>, None)
        else (case k_updatePVC (env_client env) w (p\<lparr>pvc_requests := Some (m(''storage'' \<mapsto>
                  q_newMilliQuantity (env_quantities env) (newMilliValue cur (ae_incrementPercent ae) mx)))\<rparr>) of
                (w', err) \<Rightarrow> ks_world (fst out) = w' \<and> (snd out = None \<longleftrightarrow> err = None))"
  using assms
  by (simp add: evaluateDiskPressure_def expandPVCPreemptively_def storage_request_def call_def Let_def sint_cmp
      Eventf_def sample_def split: prod.splits option.splits)

definition sample_pvc :: pvc where
  "sample_pvc = \<lparr>pvc_meta = new_meta ''chain-data-node-0'' ''tao'' Map.empty,
     pvc_requests = Some [''storage'' \<mapsto> Quantity ''128849018880'']\<rparr>"

definition full_node :: TaoNode where
  "full_node = sample_node\<lparr>tn_status := (tn_status sample_node)\<lparr>st_resources :=
     (st_resources (tn_status sample_node))\<lparr>rs_diskUsagePercent := 90\<rparr>\<rparr>\<rparr>"

theorem evaluateDiskPressure_writes_witness:
  "let s = mem_state (empty_world\<lparr>mw_pvcs := [(''tao'', ''chain-data-node-0'') \<mapsto> sample_pvc]\<rparr>)
   in snd (evaluateDiskPressure mem_env full_node s) = None \<and>
      map_option storage_request (mw_pvcs (ks_world (fst (evaluateDiskPressure mem_env full_node s)))
        (''tao'', ''chain-data-node-0'')) = Some (Quantity ''154618822656000m'')"
proof -
  let ?w = "empty_world\<lparr>mw_pvcs := [(''tao'', ''chain-data-node-0'') \<mapsto> sample_pvc]\<rparr>"
  let ?ae = "\<lparr>ae_thresholdPercent = 80, ae_maxSize = Quantity ''214748364800'', ae_incrementPercent = 20\<rparr>"
  have ae: "cs_autoExpand (spec_chainStorage (tn_spec full_node)) = Some ?ae"
    by (simp add: full_node_def sample_node_def sample_spec_def)
  have get: "k_getPVC (env_client mem_env) (ks_world (mem_state ?w)) (tn_namespace full_node)
      (''chain-data-'' @ tn_name full_node @ ''-0'') = (?w, Inr sample_pvc)"
    by (simp add: mem_env_def mem_client_def mem_get_def mem_state_def full_node_def sample_node_def)
  have req: "pvc_requests sample_pvc = Some [''storage'' \<mapsto> Quantity ''128849018880'']"
    "[''storage'' \<mapsto> Quantity ''128849018880''] ''storage'' = Some (Quantity ''128849018880'')"
    by (simp_all add: sample_pvc_def)
  have disk: "sint (rs_diskUsagePercent (st_resources (tn_status full_node))) = 90"
    by (simp add: full_node_def sample_node_def)
  have milli: "q_milliValue (env_quantities mem_env) (Quantity ''128849018880'') = 128849018880000"
    "q_milliValue (env_quantities mem_env) (Quantity ''214748364800'') = 214748364800000"
    "newMilliValue 128849018880000 20 214748364800000 = 154618822656000"
    "q_newMilliQuantity (env_quantities mem_env) 154618822656000 = Quantity ''154618822656000m''"
    by code_simp+
  have upd: "k_updatePVC (env_client mem_env) ?w (sample_pvc\<lparr>pvc_requests :=
      Some [''storage'' \<mapsto> Quantity ''154618822656000m'']\<rparr>) =
    (?w\<lparr>mw_pvcs := [(''tao'', ''chain-data-node-0'') \<mapsto> sample_pvc\<lparr>pvc_requests :=
      Some [''storage'' \<mapsto> Quantity ''154618822656000m'']\<rparr>]\<rparr>, None)"
    by (simp add: mem_env_def mem_client_def mem_update_def sample_pvc_def new_meta_def meta_key_def)
  have "ks_world (fst (evaluateDiskPressure mem_env full_node (mem_state ?w))) =
      ?w\<lparr>mw_pvcs := [(''tao'', ''chain-data-node-0'') \<mapsto> sample_pvc\<lparr>pvc_requests :=
        Some [''storage'' \<mapsto> Quantity ''154618822656000m'']\<rparr>]\<rparr> \<and>
    snd (evaluateDiskPressure mem_env full_node (mem_state ?w)) = None"
    using evaluateDiskPressure_writes [OF ae get req] by (simp add: disk milli upd Let_def)
  then show ?thesis by (simp add: Let_def storage_request_def)
qed


end
