(* ===== verification/Validator_Guard.thy ===== *)
theory Validator_Guard
  imports Node_Helpers Kube_Memory
begin

text \<open>
  The guard against concurrent validators, \<open>internal/controller/validator_guard.go\<close>: a Kubernetes
  Lease per resource is created, renewed, taken over after expiry, or respected by deleting the pod.
\<close>

section \<open>Definitions\<close>

definition validatorLeaseDuration :: duration where
  "validatorLeaseDuration = 30 * second"

definition validator_lease_name :: "TaoNode \<Rightarrow> string" where
  "validator_lease_name tn = tn_name tn @ ''-validator-singleton''"

definition holder_identity :: "TaoNode \<Rightarrow> string" where
  "holder_identity tn = tn_namespace tn @ ''/'' @ tn_name tn"

definition lease_duration_seconds :: int32 where
  "lease_duration_seconds = word_of_int (sint validatorLeaseDuration div 1000000000)"

definition cordonValidatorPod ::
  "'w operator_env \<Rightarrow> TaoNode \<Rightarrow> ('w, 'a) kstate_scheme \<Rightarrow> ('w, 'a) kstate_scheme \<times> kerr option" where
  "cordonValidatorPod env tn s =
     (let podName = tn_name tn @ ''-0''
      in case call (\<lambda>w. k_getPod (env_client env) w (tn_namespace tn) podName) s of
           (s1, Inl e) \<Rightarrow> (s1, IgnoreNotFound e)
         | (s1, Inr pod) \<Rightarrow>
             (case call (\<lambda>w. k_deletePod (env_client env) w pod) s1 of
                (s2, err) \<Rightarrow> (s2, wrap_err (''cordon validator pod '' @ podName) err)))"

text \<open>Whether the guard applies: always on mainnet, elsewhere unless more than one is allowed.\<close>

definition singleton_enforced :: "TaoNode \<Rightarrow> bool" where
  "singleton_enforced tn \<longleftrightarrow> \<not> (tn_network tn \<noteq> ''mainnet'' \<and>
     (case spec_validator (tn_spec tn) of None \<Rightarrow> False | Some v \<Rightarrow> 1 <s val_maxConcurrentValidators v))"

definition lease_live :: "time \<Rightarrow> lease \<Rightarrow> bool" where
  "lease_live now l \<longleftrightarrow>
     (case (lease_renewTime l, lease_durationSeconds l) of
        (Some t, Some d) \<Rightarrow> now < time_add t (seconds32 d)
      | _ \<Rightarrow> False)"

definition new_validator_lease :: "time \<Rightarrow> TaoNode \<Rightarrow> lease" where
  "new_validator_lease now tn =
     \<lparr>lease_meta = new_meta (validator_lease_name tn) (tn_namespace tn) (labelsForNode tn),
      lease_holderIdentity = Some (holder_identity tn), lease_durationSeconds = Some lease_duration_seconds,
      lease_acquireTime = Some now, lease_renewTime = Some now\<rparr>"

definition ensureValidatorSingleton ::
  "'w operator_env \<Rightarrow> time \<Rightarrow> TaoNode \<Rightarrow> ('w, 'a) kstate_scheme \<Rightarrow> ('w, 'a) kstate_scheme \<times> kerr option" where
  "ensureValidatorSingleton env now tn s =
     (if tn_role tn \<noteq> RoleValidator then (s, None)
      else if \<not> singleton_enforced tn then (s, None)
      else
        let K = env_client env
        in case call (\<lambda>w. k_getLease K w (tn_namespace tn) (validator_lease_name tn)) s of
             (s1, Inl e) \<Rightarrow>
               if IsNotFound e then
                 let newLease = new_validator_lease now tn
                 in (case k_setControllerReference K tn (om_owners (lease_meta newLease)) of
                       Inl err \<Rightarrow> (s1, Some (Wrapped ''set owner reference on lease'' err))
                     | Inr owners \<Rightarrow>
                         (case call (\<lambda>w. k_createLease K w
                                 (newLease\<lparr>lease_meta := (lease_meta newLease)\<lparr>om_owners := owners\<rparr>\<rparr>)) s1 of
                            (s2, err) \<Rightarrow> (s2, wrap_err ''create validator Lease'' err)))
               else (s1, Some (Wrapped ''get validator Lease'' e))
           | (s1, Inr lease) \<Rightarrow>
               let currentHolder = (case lease_holderIdentity lease of None \<Rightarrow> '''' | Some h \<Rightarrow> h)
               in if currentHolder = holder_identity tn then
                    (case call (\<lambda>w. k_updateLease K w (lease\<lparr>lease_renewTime := Some now\<rparr>)) s1 of
                       (s2, err) \<Rightarrow> (s2, wrap_err ''renew validator Lease'' err))
                  else if lease_live now lease then
                    cordonValidatorPod env tn
                      (Eventf tn EventWarning ''ValidatorSingletonViolation''
                         (''Another validator already holds the singleton Lease ('' @ currentHolder @
                          ''). Cordon-and-alert applied.'') s1)
                  else
                    (case call (\<lambda>w. k_updateLease K w
                            (lease\<lparr>lease_holderIdentity := Some (holder_identity tn),
                                   lease_acquireTime := Some now, lease_renewTime := Some now\<rparr>)) s1 of
                       (s2, err) \<Rightarrow> (s2, wrap_err ''take over expired validator Lease'' err)))"

section \<open>The lease as a lock\<close>

text \<open>
  What the API server documents of leases and pods: reads and writes act on the object of that
  namespace and name, and pods are not leases. \<open>leases w\<close> are the leases of a world.
\<close>

definition lease_key :: "lease \<Rightarrow> string \<times> string" where
  "lease_key l = meta_key (lease_meta l)"

definition lease_laws :: "'w kclient \<Rightarrow> ('w \<Rightarrow> lease store) \<Rightarrow> bool" where
  "lease_laws K leases \<longleftrightarrow>
     (\<forall>w ns n. k_getLease K w ns n = (w, case leases w (ns, n) of None \<Rightarrow> Inl (NotFound n) | Some l \<Rightarrow> Inr l)) \<and>
     (\<forall>w l. leases w (lease_key l) = None \<longrightarrow>
        (\<exists>w'. k_createLease K w l = (w', None) \<and> leases w' = (leases w)(lease_key l \<mapsto> l))) \<and>
     (\<forall>w l. leases w (lease_key l) \<noteq> None \<longrightarrow>
        (\<exists>w'. k_updateLease K w l = (w', None) \<and> leases w' = (leases w)(lease_key l \<mapsto> l))) \<and>
     (\<forall>w ns n. leases (fst (k_getPod K w ns n)) = leases w) \<and>
     (\<forall>w p. leases (fst (k_deletePod K w p)) = leases w) \<and>
     (\<forall>tn. \<exists>owners. k_setControllerReference K tn [] = Inr owners)"

lemma mem_lease_laws: "lease_laws mem_client mw_leases"
  by (simp add: lease_laws_def mem_client_def mem_get_def mem_create_def mem_update_def mem_delete_def
      lease_key_def mem_setControllerReference_def Let_def split: option.splits)

text \<open>The lock: a holder and the end of its term. Claiming succeeds unless another holds it.\<close>

type_synonym lock = "(string \<times> time) option"

definition lock_of :: "lease option \<Rightarrow> lock" where
  "lock_of l = (case l of
     Some l \<Rightarrow> (case (lease_holderIdentity l, lease_renewTime l, lease_durationSeconds l) of
        (Some h, Some t, Some d) \<Rightarrow> Some (h, time_add t (seconds32 d))
      | _ \<Rightarrow> None)
   | None \<Rightarrow> None)"

definition claim_lock :: "string \<Rightarrow> time \<Rightarrow> duration \<Rightarrow> lock \<Rightarrow> lock" where
  "claim_lock me now term lk =
     (case lk of
        None \<Rightarrow> Some (me, time_add now term)
      | Some (h, till) \<Rightarrow> if h \<noteq> me \<and> now < till then lk else Some (me, time_add now term))"

text \<open>A lease as the guard writes them: holder, renewal and the fixed duration are present.\<close>

definition guard_lease :: "lease \<Rightarrow> bool" where
  "guard_lease l \<longleftrightarrow> lease_holderIdentity l \<noteq> None \<and> lease_renewTime l \<noteq> None \<and>
     lease_durationSeconds l = Some lease_duration_seconds"

lemma lease_term: "seconds32 lease_duration_seconds = validatorLeaseDuration"
  by code_simp

lemma cordon_leases:
  "lease_laws (env_client env) leases \<Longrightarrow> leases (ks_world (fst (cordonValidatorPod env tn s))) = leases (ks_world s)"
  by (auto simp: lease_laws_def cordonValidatorPod_def call_def Let_def split: prod.splits sum.splits)
    (metis fst_conv)+

text \<open>What the guard makes of the lease \<open>k\<close> of its resource, with the new lease \<open>l'\<close>.\<close>

definition guard_outcome ::
  "'w operator_env \<Rightarrow> ('w \<Rightarrow> lease store) \<Rightarrow> time \<Rightarrow> TaoNode \<Rightarrow> string \<times> string \<Rightarrow> ('w, 'a) kstate_scheme \<Rightarrow> lease \<Rightarrow> bool" where
  "guard_outcome env leases now tn k s l' \<longleftrightarrow>
     (let out = ensureValidatorSingleton env now tn s in
      leases (ks_world (fst out)) = (leases (ks_world s))(k \<mapsto> l') \<and> guard_lease l' \<and>
      lock_of (Some l') = claim_lock (holder_identity tn) now validatorLeaseDuration (lock_of (leases (ks_world s) k)) \<and>
      (if lease_holderIdentity l' = Some (holder_identity tn) then snd out = None
       else \<exists>s1. ks_world s1 = ks_world s \<and> out = cordonValidatorPod env tn s1))"

lemmas guard_defs = guard_outcome_def ensureValidatorSingleton_def call_def Let_def wrap_err_def lock_of_def
  claim_lock_def guard_lease_def lease_term

lemma guard_free:
  assumes laws: "lease_laws (env_client env) leases"
    and role: "tn_role tn = RoleValidator" and enf: "singleton_enforced tn"
    and key: "k = (tn_namespace tn, validator_lease_name tn)" and free: "leases (ks_world s) k = None"
  shows "\<exists>l'. guard_outcome env leases now tn k s l'"
proof -
  obtain owners where own: "k_setControllerReference (env_client env) tn [] = Inr owners"
    using laws unfolding lease_laws_def by metis
  let ?l = "(new_validator_lease now tn)\<lparr>lease_meta := (lease_meta (new_validator_lease now tn))\<lparr>om_owners := owners\<rparr>\<rparr>"
  have "lease_key ?l = k" by (simp add: key lease_key_def meta_key_def new_validator_lease_def new_meta_def)
  then obtain w' where "k_createLease (env_client env) (ks_world s) ?l = (w', None)"
    "leases w' = (leases (ks_world s))(k \<mapsto> ?l)"
    using laws free unfolding lease_laws_def by metis
  moreover have "k_getLease (env_client env) (ks_world s) (fst k) (snd k) = (ks_world s, Inl (NotFound (snd k)))"
    using laws free by (simp add: lease_laws_def)
  moreover have "om_owners (lease_meta (new_validator_lease now tn)) = []"
    by (simp add: new_validator_lease_def new_meta_def)
  ultimately show ?thesis
    using own by (intro exI [of _ ?l])
      (simp add: guard_defs role enf key free [unfolded key] new_validator_lease_def)
qed

lemma guard_held:
  assumes laws: "lease_laws (env_client env) leases"
    and role: "tn_role tn = RoleValidator" and enf: "singleton_enforced tn"
    and key: "k = (tn_namespace tn, validator_lease_name tn)"
    and held: "leases (ks_world s) k = Some l" and wf: "guard_lease l" "lease_key l = k"
  shows "\<exists>l'. guard_outcome env leases now tn k s l'"
proof -
  from wf(1) obtain h t where h: "lease_holderIdentity l = Some h" "lease_renewTime l = Some t"
    "lease_durationSeconds l = Some lease_duration_seconds" by (auto simp: guard_lease_def)
  have get: "k_getLease (env_client env) (ks_world s) (fst k) (snd k) = (ks_world s, Inr l)"
    using laws held by (simp add: lease_laws_def)
  have upd: "\<exists>w'. k_updateLease (env_client env) (ks_world s) l2 = (w', None) \<and> leases w' = (leases (ks_world s))(k \<mapsto> l2)"
    if "lease_key l2 = k" for l2
    using laws held that unfolding lease_laws_def by (metis option.distinct(1))
  have live: "lease_live now l \<longleftrightarrow> now < time_add t validatorLeaseDuration"
    by (simp add: lease_live_def h lease_term)
  note facts = guard_defs role enf key held [unfolded key] h live
  show ?thesis
  proof (cases "h \<noteq> holder_identity tn \<and> lease_live now l")
    case True
    let ?s1 = "Eventf tn EventWarning ''ValidatorSingletonViolation''
        (''Another validator already holds the singleton Lease ('' @ h @ ''). Cordon-and-alert applied.'')
        (s\<lparr>ks_world := ks_world s\<rparr>)"
    have "ensureValidatorSingleton env now tn s = cordonValidatorPod env tn ?s1"
      using get True by (simp add: ensureValidatorSingleton_def role enf key call_def Let_def h)
    moreover have "ks_world ?s1 = ks_world s" by (simp add: Eventf_def)
    moreover have "(leases (ks_world s))(k \<mapsto> l) = leases (ks_world s)" using held by auto
    ultimately show ?thesis
      using True wf(1) cordon_leases [OF laws, of tn ?s1] live
      by (intro exI [of _ l]) (auto simp: guard_outcome_def Let_def lock_of_def claim_lock_def h lease_term held)
  next
    case False
    let ?l = "if h = holder_identity tn then l\<lparr>lease_renewTime := Some now\<rparr>
      else l\<lparr>lease_holderIdentity := Some (holder_identity tn), lease_acquireTime := Some now, lease_renewTime := Some now\<rparr>"
    have "lease_key ?l = k" using wf(2) by (simp add: lease_key_def)
    from upd [OF this] show ?thesis
      using get False by (intro exI [of _ ?l]) (auto simp: facts split: if_splits)
  qed
qed

lemma guard_claims:
  assumes "lease_laws (env_client env) leases" and "tn_role tn = RoleValidator" and "singleton_enforced tn"
    and "k = (tn_namespace tn, validator_lease_name tn)"
    and "\<And>l. leases (ks_world s) k = Some l \<Longrightarrow> guard_lease l \<and> lease_key l = k"
  obtains l' where "guard_outcome env leases now tn k s l'"
  using assms(5) guard_free [OF assms(1-4)] guard_held [OF assms(1-4)]
  by (cases "leases (ks_world s) k") blast+

lemma lock_holder: "guard_lease l \<Longrightarrow> \<exists>h t. lock_of (Some l) = Some (h, t) \<and> lease_holderIdentity l = Some h"
  by (auto simp: guard_lease_def lock_of_def)

text \<open>
  C13. On the lease of a resource the guard refines a lock with a term of 30 seconds: a free or
  expired lock and the holder's own lock are claimed (and the guard succeeds), a lock held by
  another within its term is left alone and the guard only deletes the pod. No other lease changes.
\<close>

theorem guard_refines_lock:
  assumes "lease_laws (env_client env) leases"
    and "tn_role tn = RoleValidator" and "singleton_enforced tn"
    and "k = (tn_namespace tn, validator_lease_name tn)"
    and "\<And>l. leases (ks_world s) k = Some l \<Longrightarrow> guard_lease l \<and> lease_key l = k"
  shows "let out = ensureValidatorSingleton env now tn s; lk = lock_of (leases (ks_world (fst out)) k)
    in lk = claim_lock (holder_identity tn) now validatorLeaseDuration (lock_of (leases (ks_world s) k)) \<and>
       (\<forall>j. j \<noteq> k \<longrightarrow> leases (ks_world (fst out)) j = leases (ks_world s) j) \<and>
       (case lk of
          None \<Rightarrow> False
        | Some (h, _) \<Rightarrow> if h = holder_identity tn then snd out = None
            else \<exists>s1. ks_world s1 = ks_world s \<and> out = cordonValidatorPod env tn s1)"
proof -
  obtain l' where l': "guard_outcome env leases now tn k s l'" by (rule guard_claims [OF assms])
  moreover from l' have "guard_lease l'" by (simp add: guard_outcome_def Let_def)
  from lock_holder [OF this] obtain h t where h: "lock_of (Some l') = Some (h, t)" "lease_holderIdentity l' = Some h"
    by blast
  then have "claim_lock (holder_identity tn) now validatorLeaseDuration (lock_of (leases (ks_world s) k)) = Some (h, t)"
    using l' by (simp add: guard_outcome_def Let_def)
  ultimately show ?thesis using h unfolding guard_outcome_def Let_def by (auto split: if_splits)
qed

theorem guard_refines_lock_witness:
  "lock_of (mw_leases (ks_world (fst (ensureValidatorSingleton mem_env 7 sample_node (mem_state empty_world))))
     (''tao'', ''node-validator-singleton'')) = Some (''tao/node'', 30000000007)"
proof -
  have "tn_role sample_node = RoleValidator" "singleton_enforced sample_node"
    and key: "(''tao'', ''node-validator-singleton'') = (tn_namespace sample_node, validator_lease_name sample_node)"
    and id: "holder_identity sample_node = ''tao/node''"
    by (simp_all add: sample_node_def sample_spec_def singleton_enforced_def validator_lease_name_def holder_identity_def)
  moreover have "lease_laws (env_client mem_env) mw_leases" by (simp add: mem_env_def mem_lease_laws)
  moreover have "mw_leases (ks_world (mem_state empty_world)) k = None" for k
    by (simp add: mem_state_def empty_world_def)
  ultimately show ?thesis
    using guard_refines_lock [of mem_env mw_leases sample_node "(''tao'', ''node-validator-singleton'')" "mem_state empty_world" 7]
    by (simp add: Let_def lock_of_def claim_lock_def time_add_def validatorLeaseDuration_def sint_mult_id)
qed

lemma lease_name_inj: "validator_lease_name a = validator_lease_name b \<longleftrightarrow> tn_name a = tn_name b"
  by (simp add: validator_lease_name_def)

text \<open>
  C14. The lease belongs to one resource, not to a subnet: two mainnet validators of the same subnet
  with different names or namespaces never contend. Whoever goes first, the second guard succeeds
  as well, both hold their lock for the same term, and neither pod is deleted.
\<close>

theorem guard_per_resource:
  assumes laws: "lease_laws (env_client env) leases"
    and a: "tn_role a = RoleValidator" "tn_network a = ''mainnet''"
    and b: "tn_role b = RoleValidator" "tn_network b = ''mainnet''"
    and "spec_subnetID (tn_spec a) = spec_subnetID (tn_spec b)"
    and ne: "(tn_namespace a, tn_name a) \<noteq> (tn_namespace b, tn_name b)"
    and free: "leases (ks_world s) (tn_namespace a, validator_lease_name a) = None"
      "leases (ks_world s) (tn_namespace b, validator_lease_name b) = None"
  shows "let (s1, errA) = ensureValidatorSingleton env now a s; (s2, errB) = ensureValidatorSingleton env now b s1
    in errA = None \<and> errB = None \<and>
       lock_of (leases (ks_world s2) (tn_namespace a, validator_lease_name a)) =
         Some (holder_identity a, time_add now validatorLeaseDuration) \<and>
       lock_of (leases (ks_world s2) (tn_namespace b, validator_lease_name b)) =
         Some (holder_identity b, time_add now validatorLeaseDuration)"
proof -
  let ?ka = "(tn_namespace a, validator_lease_name a)" and ?kb = "(tn_namespace b, validator_lease_name b)"
  have neq: "?ka \<noteq> ?kb" using ne by (simp add: lease_name_inj)
  have enf: "singleton_enforced a" "singleton_enforced b" by (simp_all add: singleton_enforced_def a b)
  have fresh: "leases (ks_world (fst (ensureValidatorSingleton env now tn r))) (tn_namespace tn, validator_lease_name tn) = Some l' \<and>
      lock_of (Some l') = Some (holder_identity tn, time_add now validatorLeaseDuration) \<and>
      snd (ensureValidatorSingleton env now tn r) = None"
    if "guard_outcome env leases now tn (tn_namespace tn, validator_lease_name tn) r l'"
      "leases (ks_world r) (tn_namespace tn, validator_lease_name tn) = None" for tn r l'
    using that lock_holder [of l'] by (auto simp: guard_outcome_def Let_def claim_lock_def lock_of_def [of None] split: if_splits)
  obtain la where la: "guard_outcome env leases now a ?ka s la"
    using guard_free [OF laws a(1) enf(1) refl free(1)] by blast
  let ?s1 = "fst (ensureValidatorSingleton env now a s)"
  have freeb: "leases (ks_world ?s1) ?kb = None"
    using la neq free(2) by (auto simp: guard_outcome_def Let_def)
  then obtain lb where lb: "guard_outcome env leases now b ?kb ?s1 lb"
    using guard_free [OF laws b(1) enf(2) refl] by blast
  have "leases (ks_world (fst (ensureValidatorSingleton env now b ?s1))) ?ka = leases (ks_world ?s1) ?ka"
    using lb neq by (auto simp: guard_outcome_def Let_def)
  then show ?thesis
    using fresh [OF la free(1)] fresh [OF lb freeb] by (simp add: Let_def case_prod_unfold)
qed

theorem guard_per_resource_witness:
  "let b = sample_node\<lparr>tn_meta := (tn_meta sample_node)\<lparr>om_name := ''other''\<rparr>\<rparr>;
       (s1, errA) = ensureValidatorSingleton mem_env 7 sample_node (mem_state empty_world);
       (s2, errB) = ensureValidatorSingleton mem_env 7 b s1
   in errA = None \<and> errB = None"
proof -
  let ?b = "sample_node\<lparr>tn_meta := (tn_meta sample_node)\<lparr>om_name := ''other''\<rparr>\<rparr>"
  have "lease_laws (env_client mem_env) mw_leases" by (simp add: mem_env_def mem_lease_laws)
  then show ?thesis
    using guard_per_resource [of mem_env mw_leases sample_node ?b "mem_state empty_world" 7]
    by (simp add: sample_node_def sample_spec_def mem_state_def empty_world_def Let_def case_prod_unfold)
qed

end
