(* ===== verification/Analytics_Types.thy ===== *)
theory Analytics_Types
  imports Kube_Client
begin

text \<open>
  The rows of the analytics plane, \<open>internal/analytics/types.go\<close>: one record per struct, in the
  order of the fields, unsigned integers at their width, floating point as \<open>gofloat\<close>.
\<close>

record AnomalyScore =
  an_Type :: string
  an_Score :: gofloat
  an_Detail :: string
  an_DetectedAt :: time

record ChainTelemetryRow =
  ct_timestamp :: time
  ct_namespace :: string
  ct_nodeName :: string
  ct_network :: string
  ct_subnetID :: uint16
  ct_role :: string
  ct_currentBlock :: uint64
  ct_networkBlock :: uint64
  ct_blockLag :: int64
  ct_finalizedBlock :: uint64
  ct_peerCount :: uint16
  ct_runtimeVersion :: string
  ct_syncState :: string
  ct_blocksPerSecond :: gofloat
  ct_probeLatencyMs :: uint32
  ct_probeSuccess :: uint8
  ct_diskUsagePercent :: uint8
  ct_diskUsedBytes :: uint64
  ct_diskTotalBytes :: uint64
  ct_gpuUtilizationPercent :: uint8
  ct_gpuMemoryUsedBytes :: uint64
  ct_gpuTemperatureCelsius :: uint16

record ReconcileAuditRow =
  ra_timestamp :: time
  ra_namespace :: string
  ra_nodeName :: string
  ra_triggerType :: string
  ra_generation :: uint64
  ra_resourceVersion :: string
  ra_phaseBefore :: string
  ra_syncStateBefore :: string
  ra_blockLagBefore :: int64

record AnomalyRow =
  ano_timestamp :: time
  ano_namespace :: string
  ano_nodeName :: string
  ano_network :: string
  ano_subnetID :: uint16
  ano_anomalyType :: string
  ano_score :: gofloat
  ano_detail :: string

record FinOpsRow =
  fo_timestamp :: time
  fo_namespace :: string
  fo_nodeName :: string
  fo_network :: string
  fo_role :: string
  fo_estimatedMonthlyCostUSD :: gofloat
  fo_cpuCores :: gofloat
  fo_memoryGiB :: gofloat
  fo_storageGiB :: gofloat
  fo_gpuCount :: int32
  fo_isSpot :: bool
  fo_taoPerGPUHour :: gofloat
  fo_roiPercent :: gofloat

record DRRow =
  drr_timestamp :: time
  drr_namespace :: string
  drr_nodeName :: string
  drr_eventType :: string
  drr_backupSizeBytes :: int64
  drr_durationSeconds :: gofloat
  drr_status :: string
  drr_detail :: string

end
