(* ===== verification/Anomaly_Detector.thy ===== *)
theory Anomaly_Detector
  imports Analytics_Types
begin

text \<open>
  The anomaly detector, \<open>internal/analytics/anomaly_detector.go\<close>: the five scoring functions in
  IEEE arithmetic, and \<open>EvaluateNode\<close>, which collects their results as they arrive until all are
  there or the deadline has passed. The database is a parameter: what each query answers, or its
  error. The order of arrival and the point where the deadline cuts it off are an argument.
\<close>

section \<open>Definitions\<close>

record detector_db =
  db_blockLag :: "string \<Rightarrow> string \<Rightarrow> kerr + gofloat \<times> gofloat \<times> gofloat"
  db_peerCount :: "string \<Rightarrow> string \<Rightarrow> kerr + gofloat \<times> gofloat"
  db_diskUsage :: "string \<Rightarrow> string \<Rightarrow> kerr + gofloat"
  db_recoveries :: "string \<Rightarrow> string \<Rightarrow> kerr + uint64"
  db_probeLatency :: "string \<Rightarrow> string \<Rightarrow> kerr + gofloat \<times> gofloat"

definition anomaly :: "string \<Rightarrow> gofloat \<Rightarrow> string \<Rightarrow> AnomalyScore" where
  "anomaly ty score detail = \<lparr>an_Type = ty, an_Score = to_f32 score, an_Detail = detail, an_DetectedAt = time_zero\<rparr>"

definition blockLagAnomaly :: "detector_db \<Rightarrow> string \<Rightarrow> string \<Rightarrow> kerr + AnomalyScore" where
  "blockLagAnomaly db namespace nodeName =
     (case db_blockLag db namespace nodeName of
        Inl err \<Rightarrow> Inl (Wrapped ''block-lag anomaly query'' err)
      | Inr (mean, std, current) \<Rightarrow>
          let score =
            (if flt (Fin 0) std then
               (let z = fdiv64 (fsub64 current mean) std
                in fmin (Fin 1) (fmax (Fin 0) (fdiv64 z (Fin 3))))
             else if flt (Fin 10) current then Fin (1 / 2)
             else Fin 0)
          in Inr (anomaly ''block-lag'' score
               (''current='' @ fmt_f 0 current @ '' mean='' @ fmt_f 1 mean @ '' std='' @ fmt_f 1 std)))"

definition peerCountAnomaly :: "detector_db \<Rightarrow> string \<Rightarrow> string \<Rightarrow> kerr + AnomalyScore" where
  "peerCountAnomaly db namespace nodeName =
     (case db_peerCount db namespace nodeName of
        Inl err \<Rightarrow> Inl (Wrapped ''peer-count anomaly query'' err)
      | Inr (mean, minPeers) \<Rightarrow>
          let score =
            (if flt (Fin 0) mean then
               fmin (Fin 1) (fmax (Fin 0) (fdiv64 (fsub64 mean minPeers) mean))
             else if feq minPeers (Fin 0) then r64 (8 / 10)
             else Fin 0)
          in Inr (anomaly ''peer-count'' score
               (''min='' @ fmt_f 0 minPeers @ '' rolling_mean='' @ fmt_f 1 mean)))"

definition diskUsageAnomaly :: "detector_db \<Rightarrow> string \<Rightarrow> string \<Rightarrow> kerr + AnomalyScore" where
  "diskUsageAnomaly db namespace nodeName =
     (case db_diskUsage db namespace nodeName of
        Inl err \<Rightarrow> Inl (Wrapped ''disk-usage anomaly query'' err)
      | Inr pct \<Rightarrow>
          let score = (if flt (Fin 70) pct then fmin (Fin 1) (fdiv64 (fsub64 pct (Fin 70)) (Fin 30)) else Fin 0)
          in Inr (anomaly ''disk-usage'' score (''max_usage_pct='' @ fmt_f 0 pct)))"

definition recoveryFrequencyAnomaly :: "detector_db \<Rightarrow> string \<Rightarrow> string \<Rightarrow> kerr + AnomalyScore" where
  "recoveryFrequencyAnomaly db namespace nodeName =
     (case db_recoveries db namespace nodeName of
        Inl err \<Rightarrow> Inl (Wrapped ''recovery-frequency anomaly query'' err)
      | Inr cnt \<Rightarrow>
          let score = fmin (Fin 1) (fdiv64 (f64_of_int (uint cnt)) (Fin 5))
          in Inr (anomaly ''recovery-frequency'' score (''recoveries_last_hour='' @ fmt_int (uint cnt))))"

definition probeLatencyAnomaly :: "detector_db \<Rightarrow> string \<Rightarrow> string \<Rightarrow> kerr + AnomalyScore" where
  "probeLatencyAnomaly db namespace nodeName =
     (case db_probeLatency db namespace nodeName of
        Inl err \<Rightarrow> Inl (Wrapped ''probe-latency anomaly query'' err)
      | Inr (mean, p95) \<Rightarrow>
          let score = (if flt (Fin 1000) p95 then fmin (Fin 1) (fdiv64 (fsub64 p95 (Fin 1000)) (Fin 4000)) else Fin 0)
          in Inr (anomaly ''probe-latency'' score (''mean_ms='' @ fmt_f 0 mean @ '' p95_ms='' @ fmt_f 0 p95)))"

definition detector_queries :: "detector_db \<Rightarrow> string \<Rightarrow> string \<Rightarrow> (kerr + AnomalyScore) list" where
  "detector_queries db namespace nodeName =
     [blockLagAnomaly db namespace nodeName, peerCountAnomaly db namespace nodeName,
      diskUsageAnomaly db namespace nodeName, recoveryFrequencyAnomaly db namespace nodeName,
      probeLatencyAnomaly db namespace nodeName]"

fun collect_scores :: "time \<Rightarrow> (kerr + AnomalyScore) list \<Rightarrow> AnomalyScore list \<Rightarrow> AnomalyScore list" where
  "collect_scores now [] scores = scores"
| "collect_scores now (Inl err # rs) scores = collect_scores now rs scores"
| "collect_scores now (Inr a # rs) scores =
     collect_scores now rs
       (if flt (r32 (1 / 10)) (an_Score a) then scores @ [a\<lparr>an_DetectedAt := now\<rparr>] else scores)"

text \<open>\<open>arrivals\<close> lists the queries whose results are received before the deadline, in order.\<close>

definition EvaluateNode ::
  "detector_db \<Rightarrow> time \<Rightarrow> nat list \<Rightarrow> string \<Rightarrow> string \<Rightarrow> string \<Rightarrow> uint16 \<Rightarrow> AnomalyScore list \<times> kerr option" where
  "EvaluateNode db now arrivals namespace nodeName network subnetID =
     (collect_scores now (map (\<lambda>i. detector_queries db namespace nodeName ! i) arrivals) [], None)"

definition arrival_order :: "nat list \<Rightarrow> bool" where
  "arrival_order arrivals \<longleftrightarrow> distinct arrivals \<and> set arrivals \<subseteq> {..<5}"

section \<open>Properties\<close>

lemma collect_scores_eq:
  "collect_scores now rs acc = acc @ map (\<lambda>a. a\<lparr>an_DetectedAt := now\<rparr>)
     (filter (\<lambda>a. flt (r32 (1 / 10)) (an_Score a)) (List.map_filter (\<lambda>r. case r of Inl _ \<Rightarrow> None | Inr a \<Rightarrow> Some a) rs))"
  by (induction now rs acc rule: collect_scores.induct) (simp_all add: List.map_filter_def)

text \<open>Values not above one: rounding to \<open>float32\<close> keeps them so.\<close>

definition at_most_one :: "gofloat \<Rightarrow> bool" where
  "at_most_one v = (case v of Fin x \<Rightarrow> x \<le> 1 | PInf \<Rightarrow> False | _ \<Rightarrow> True)"

lemma r32_nonpos: "x < 0 \<Longrightarrow> r32 x = NInf \<or> (\<exists>r. r32 x = Fin r \<and> r \<le> 0)"
proof -
  assume "x < 0"
  let ?u = "pow2 (max (exponent2 \<bar>x\<bar>) (- 126) - int 24 + 1)"
  have "x / ?u \<le> of_int 0" using \<open>x < 0\<close> by (simp add: divide_nonpos_pos)
  then have "round_half_even (x / ?u) \<le> 0" by (rule round_half_even_le)
  then have "of_int (round_half_even (x / ?u)) * ?u \<le> 0" by (simp add: mult_nonpos_nonneg less_imp_le)
  with \<open>x < 0\<close> show ?thesis by (simp add: r32_def round_float_def Let_def)
qed

lemma at_most_one_to_f32: "at_most_one v \<Longrightarrow> at_most_one (to_f32 v)"
proof (cases v)
  case (Fin x)
  assume "at_most_one v"
  with Fin have "x \<le> 1" by (simp add: at_most_one_def)
  then show ?thesis
    using r32_unit [of x] r32_nonpos [of x] by (cases "0 \<le> x") (auto simp: Fin at_most_one_def)
qed (simp_all add: at_most_one_def)

lemma at_most_one_fmin: "at_most_one (fmin (Fin 1) z)"
  by (cases z) (auto simp: fmin_def at_most_one_def)

lemma at_most_one_const [simp]: "at_most_one (Fin 0)" "at_most_one (Fin (1 / 2))" "at_most_one (r64 (4 / 5))"
  using r64_unit [of "4 / 5"] by (auto simp: at_most_one_def)

lemma above_floor_unit: "at_most_one v \<Longrightarrow> flt (r32 (1 / 10)) v \<Longrightarrow> unit_float v"
  using r32_unit [of "1 / 10"] by (cases v) (auto simp: at_most_one_def)

text \<open>The contract the five queries share: the type they report, and a score not above one.\<close>

locale anomaly_query =
  fixes query :: "detector_db \<Rightarrow> string \<Rightarrow> string \<Rightarrow> kerr + AnomalyScore"
    and reported_type :: string
  assumes query_type: "query db ns n = Inr a \<Longrightarrow> an_Type a = reported_type"
    and query_bounded: "query db ns n = Inr a \<Longrightarrow> at_most_one (an_Score a)"
begin

lemma reported_unit: "query db ns n = Inr a \<Longrightarrow> flt (r32 (1 / 10)) (an_Score a) \<Longrightarrow> unit_float (an_Score a)"
  by (rule above_floor_unit [OF query_bounded])

end

lemmas score_facts = anomaly_def Let_def at_most_one_to_f32 at_most_one_fmin

interpretation block_lag: anomaly_query blockLagAnomaly "''block-lag''"
  by unfold_locales (auto simp: blockLagAnomaly_def score_facts split: sum.splits prod.splits)

interpretation peer_count: anomaly_query peerCountAnomaly "''peer-count''"
  by unfold_locales (auto simp: peerCountAnomaly_def score_facts split: sum.splits prod.splits)

interpretation disk_usage: anomaly_query diskUsageAnomaly "''disk-usage''"
  by unfold_locales (auto simp: diskUsageAnomaly_def score_facts split: sum.splits)

interpretation recovery_frequency: anomaly_query recoveryFrequencyAnomaly "''recovery-frequency''"
  by unfold_locales (auto simp: recoveryFrequencyAnomaly_def score_facts split: sum.splits)

interpretation probe_latency: anomaly_query probeLatencyAnomaly "''probe-latency''"
  by unfold_locales (auto simp: probeLatencyAnomaly_def score_facts split: sum.splits prod.splits)

definition detector_types :: "string list" where
  "detector_types = [''block-lag'', ''peer-count'', ''disk-usage'', ''recovery-frequency'', ''probe-latency'']"

lemma below_5: "i < 5 \<longleftrightarrow> i = 0 \<or> i = 1 \<or> i = 2 \<or> i = 3 \<or> i = (4 :: nat)"
  by linarith

lemma queries_typed:
  "i < 5 \<Longrightarrow> detector_queries db ns n ! i = Inr a \<Longrightarrow> an_Type a = detector_types ! i"
  unfolding below_5
  by (elim disjE) (simp_all add: detector_queries_def detector_types_def block_lag.query_type
      peer_count.query_type disk_usage.query_type recovery_frequency.query_type probe_latency.query_type)

lemma queries_unit:
  "i < 5 \<Longrightarrow> detector_queries db ns n ! i = Inr a \<Longrightarrow> flt (r32 (1 / 10)) (an_Score a) \<Longrightarrow> unit_float (an_Score a)"
  unfolding below_5
  by (elim disjE) (simp_all add: detector_queries_def block_lag.reported_unit
      peer_count.reported_unit disk_usage.reported_unit recovery_frequency.reported_unit probe_latency.reported_unit)

lemma distinct_collected:
  assumes "distinct arrivals" and "set arrivals \<subseteq> {..<5}"
  shows "distinct (map an_Type (List.map_filter (\<lambda>r. case r of Inl _ \<Rightarrow> None | Inr a \<Rightarrow> Some a)
    (map (\<lambda>i. detector_queries db ns n ! i) arrivals))) \<and>
    set (map an_Type (List.map_filter (\<lambda>r. case r of Inl _ \<Rightarrow> None | Inr a \<Rightarrow> Some a)
    (map (\<lambda>i. detector_queries db ns n ! i) arrivals))) \<subseteq> (!) detector_types ` set arrivals"
  using assms
proof (induction arrivals)
  case (Cons i js)
  have inj: "inj_on ((!) detector_types) {..<5}"
    by (rule inj_on_nth) (auto simp: detector_types_def)
  then have "detector_types ! i \<notin> (!) detector_types ` set js"
    using Cons.prems by (auto simp: inj_on_def)
  then show ?case
    using Cons queries_typed [of i db ns n] by (auto simp: List.map_filter_simps split: sum.splits)
qed (simp add: List.map_filter_simps)

text \<open>
  C26. Whatever the database answers (errors, NaN and infinite aggregates included), in whatever
  order the results arrive and wherever the deadline cuts them off, \<open>EvaluateNode\<close> returns at most one
  score per detector, each in the unit interval and above the noise floor of 0.1, stamped with the
  time of the call.
\<close>

theorem EvaluateNode_scores:
  assumes "arrival_order arrivals"
    and "scores = fst (EvaluateNode db now arrivals ns n net sub)"
  shows "distinct (map an_Type scores) \<and> set (map an_Type scores) \<subseteq> set detector_types \<and>
    (\<forall>a\<in>set scores. unit_float (an_Score a) \<and> flt (r32 (1 / 10)) (an_Score a) \<and> an_DetectedAt a = now)"
proof -
  let ?rs = "map (\<lambda>i. detector_queries db ns n ! i) arrivals"
  let ?as = "List.map_filter (\<lambda>r. case r of Inl _ \<Rightarrow> None | Inr a \<Rightarrow> Some a) ?rs"
  have scores: "scores = map (\<lambda>a. a\<lparr>an_DetectedAt := now\<rparr>) (filter (\<lambda>a. flt (r32 (1 / 10)) (an_Score a)) ?as)"
    using assms(2) by (simp add: EvaluateNode_def collect_scores_eq)
  have arr: "distinct arrivals" "set arrivals \<subseteq> {..<5}" using assms(1) by (simp_all add: arrival_order_def)
  have types: "map an_Type scores = map an_Type (filter (\<lambda>a. flt (r32 (1 / 10)) (an_Score a)) ?as)"
    by (simp add: scores comp_def)
  have "\<exists>i<5. detector_queries db ns n ! i = Inr a" if "a \<in> set ?as" for a
    using that arr(2) by (force simp: List.map_filter_def split: sum.splits)
  then have "unit_float (an_Score a)" if "a \<in> set ?as" "flt (r32 (1 / 10)) (an_Score a)" for a
    using that queries_unit by blast
  moreover have "(!) detector_types ` set arrivals \<subseteq> set detector_types"
    using arr(2) by (auto simp: detector_types_def subset_iff below_5)
  then have "set (map an_Type ?as) \<subseteq> set detector_types"
    using distinct_collected [OF arr, of db ns n] by (blast dest: subset_trans)
  then have "set (map an_Type scores) \<subseteq> set detector_types" unfolding types by auto
  ultimately show ?thesis
    using distinct_collected [OF arr, of db ns n] unfolding types
    by (auto simp: scores distinct_map_filter)
qed

definition sample_db :: detector_db where
  "sample_db =
     \<lparr>db_blockLag = (\<lambda>_ _. Inr (Fin 2, Fin 1, Fin 8)), db_peerCount = (\<lambda>_ _. Inr (NaN, Fin 0)),
      db_diskUsage = (\<lambda>_ _. Inr PInf), db_recoveries = (\<lambda>_ _. Inr 0),
      db_probeLatency = (\<lambda>_ _. Inl (OtherErr ''timeout''))\<rparr>"

theorem EvaluateNode_scores_witness:
  "distinct (map an_Type (fst (EvaluateNode sample_db 5 [4, 2, 0] ''tao'' ''node'' ''mainnet'' 1)))"
proof -
  have "arrival_order [4, 2, 0]" by code_simp
  from EvaluateNode_scores [OF this refl] show ?thesis by blast
qed

text \<open>
  \<open>EvaluateNode\<close> never reports an error: a failing database only means fewer scores, so its
  caller cannot tell an unreachable database from a healthy node.
\<close>

theorem EvaluateNode_never_fails:
  "snd (EvaluateNode db now arrivals ns n net sub) = None \<and>
   (list_all isl (detector_queries db ns n) \<and> list_all (\<lambda>i. i < 5) arrivals \<longrightarrow>
      fst (EvaluateNode db now arrivals ns n net sub) = [])"
proof -
  have "List.map_filter (\<lambda>r. case r of Inl _ \<Rightarrow> None | Inr a \<Rightarrow> Some a)
      (map (\<lambda>i. detector_queries db ns n ! i) arrivals) = []"
    if "list_all isl (detector_queries db ns n)" "list_all (\<lambda>i. i < 5) arrivals"
    using that(2)
  proof (induction arrivals)
    case (Cons i js)
    have "isl (detector_queries db ns n ! i)"
      using that(1) Cons.prems by (simp add: list_all_iff detector_queries_def below_5) fastforce
    with Cons show ?case by (auto simp: List.map_filter_simps isl_def)
  qed (simp add: List.map_filter_simps)
  then show ?thesis by (simp add: EvaluateNode_def collect_scores_eq)
qed

definition dead_db :: detector_db where
  "dead_db =
     \<lparr>db_blockLag = (\<lambda>_ _. Inl (OtherErr ''down'')), db_peerCount = (\<lambda>_ _. Inl (OtherErr ''down'')),
      db_diskUsage = (\<lambda>_ _. Inl (OtherErr ''down'')), db_recoveries = (\<lambda>_ _. Inl (OtherErr ''down'')),
      db_probeLatency = (\<lambda>_ _. Inl (OtherErr ''down''))\<rparr>"

theorem EvaluateNode_never_fails_witness:
  "EvaluateNode dead_db 5 [0, 1, 2, 3, 4] ''tao'' ''node'' ''mainnet'' 1 = ([], None)"
proof -
  have "list_all isl (detector_queries dead_db ''tao'' ''node'') \<and> list_all (\<lambda>i. i < 5) [0, 1, 2, 3, 4 :: nat]"
    by (simp add: detector_queries_def dead_db_def blockLagAnomaly_def peerCountAnomaly_def
        diskUsageAnomaly_def recoveryFrequencyAnomaly_def probeLatencyAnomaly_def)
  with EvaluateNode_never_fails [of dead_db 5 "[0, 1, 2, 3, 4]" "''tao''" "''node''" "''mainnet''" 1]
  show ?thesis by (metis prod.collapse)
qed

end
