(* ===== verification/Sync_State_Machine.thy ===== *)
theory Sync_State_Machine
  imports Snapshot_Manager Recovery_Limiter Analytics_Types
begin

text \<open>
  The sync state machine and the recovery strategies, \<open>internal/controller/sync_state_machine.go\<close>.
  The state of a handler is extended by the recovery limiter the reconcilers share. The \<open>switch\<close> of
  \<open>evaluateSyncState\<close> is a chain of conditionals in the order of its cases; its \<open>fallthrough\<close> from
  the case of a lost sync into the recovery case is the call of \<open>recover_or_fail\<close> in both.

  The locale \<open>recovery_strategy\<close> is the contract of the strategies the machine dispatches to.
\<close>

section \<open>Recovery strategies\<close>

record 'w recovery_state = "'w kstate" +
  ctl_limiter :: RecoveryRateLimiter

definition recoveryRestart ::
  "'w operator_env \<Rightarrow> TaoNode \<Rightarrow> ('w, 'a) kstate_scheme \<Rightarrow>
   ('w, 'a) kstate_scheme \<times> TaoNode \<times> ctrl_result \<times> kerr option" where
  "recoveryRestart env tn s =
     (let podName = tn_name tn @ ''-0''
      in case call (\<lambda>w. k_getPod (env_client env) w (tn_namespace tn) podName) s of
           (s1, Inl e) \<Rightarrow> (s1, tn, no_requeue, IgnoreNotFound e)
         | (s1, Inr pod) \<Rightarrow>
             (case call (\<lambda>w. k_deletePod (env_client env) w pod) s1 of
                (s2, Some e) \<Rightarrow> (s2, tn, no_requeue, Some (Wrapped ''delete pod for restart recovery'' e))
              | (s2, None) \<Rightarrow>
                  let s3 = sample (WithLabelValues recoveryTotal_desc [tn_name tn, tn_namespace tn, ''restart''] Inc) s2;
                      s4 = Eventf tn EventNormal ''RecoveryRestart''
                             (''Pod '' @ podName @ '' deleted for restart recovery (attempt '' @
                              fmt_d (tn_restarts tn) @ ''/'' @ fmt_d (sp_maxRestartAttempts (tn_policy tn)) @ '')'') s3
                  in (s4, tn, \<lparr>RequeueAfter = 60 * second\<rparr>, None)))"

definition recoveryCordonAndAlert ::
  "'w operator_env \<Rightarrow> time \<Rightarrow> TaoNode \<Rightarrow> ('w, 'a) kstate_scheme \<Rightarrow>
   ('w, 'a) kstate_scheme \<times> TaoNode \<times> ctrl_result \<times> kerr option" where
  "recoveryCordonAndAlert env now tn s =
     (let tn1 = setCondition (env_conditions env) now ''Ready'' ConditionFalse ''CordonAndAlert''
                  (''Node cordon-and-alert strategy invoked '' @ em_dash @ '' manual intervention required'')
                  (set_phase PhaseFailed tn);
          s1 = Eventf tn1 EventWarning ''NodeCordoned''
                 (''TaoNode cordoned: automatic recovery disabled (strategy: cordon-and-alert). '' @
                  ''Manual intervention required.'') s;
          s2 = sample (WithLabelValues recoveryTotal_desc [tn_name tn1, tn_namespace tn1, ''cordon-and-alert''] Inc) s1
      in (s2, tn1, \<lparr>RequeueAfter = 5 * minute\<rparr>, None))"

definition dispatchRecovery ::
  "'w operator_env \<Rightarrow> time \<Rightarrow> TaoNode \<Rightarrow> ('w, 'a) kstate_scheme \<Rightarrow>
   ('w, 'a) kstate_scheme \<times> TaoNode \<times> ctrl_result \<times> kerr option" where
  "dispatchRecovery env now tn s =
     (if sp_recoveryStrategy (tn_policy tn) = ''restart'' then recoveryRestart env tn s
      else if sp_recoveryStrategy (tn_policy tn) = ''snapshot-restore'' then recoverySnapshotRestore env now tn s
      else if sp_recoveryStrategy (tn_policy tn) = ''cordon-and-alert'' then recoveryCordonAndAlert env now tn s
      else recoveryRestart env tn s)"

definition executeRecovery ::
  "'w operator_env \<Rightarrow> time \<Rightarrow> TaoNode \<Rightarrow> ('w, 'a) recovery_state_scheme \<Rightarrow>
   ('w, 'a) recovery_state_scheme \<times> TaoNode \<times> ctrl_result \<times> kerr option" where
  "executeRecovery env now tn s =
     (let nodeKey = tn_namespace tn @ ''/'' @ tn_name tn;
          (rl, granted) = TryAcquire now nodeKey (ctl_limiter s);
          s1 = s\<lparr>ctl_limiter := rl\<rparr>
      in if \<not> granted then
           (Eventf tn EventNormal ''RecoveryThrottled''
              (''Recovery rate-limited ('' @ fmt_int (int (ActiveCount rl)) @ ''/'' @ fmt_int 5 @
               '' active), requeuing in 30s'') s1,
            tn, \<lparr>RequeueAfter = 30 * second\<rparr>, None)
         else
           let tn1 = set_phase PhaseRecovering tn;
               tn2 = tn1\<lparr>tn_status := (tn_status tn1)\<lparr>st_restartCount := tn_restarts tn1 + 1\<rparr>\<rparr>;
               (s2, tn3, result, err) = dispatchRecovery env now tn2 s1
           in if err \<noteq> None \<or> tn_phase tn3 = PhaseFailed
              then (s2\<lparr>ctl_limiter := Release nodeKey (ctl_limiter s2)\<rparr>, tn3, result, err)
              else (s2, tn3, result, err))"

section \<open>The state machine\<close>

definition is_synced :: "TaoNode \<Rightarrow> ChainHealthResult \<Rightarrow> bool" where
  "is_synced tn health \<longleftrightarrow>
     h_networkBlock health - h_currentBlock health \<le>s sp_maxBlockLag (tn_policy tn) \<and>
     h_syncState health = ''in-sync''"

definition has_critical :: "AnomalyScore list \<Rightarrow> bool" where
  "has_critical anomalies = list_ex (\<lambda>a. fle (r32 (7 / 10)) (an_Score a)) anomalies"

definition record_health_metrics ::
  "TaoNode \<Rightarrow> ChainHealthResult \<Rightarrow> AnomalyScore list \<Rightarrow> ('w, 'a) kstate_scheme \<Rightarrow> ('w, 'a) kstate_scheme" where
  "record_health_metrics tn health anomalies s =
     (let lag = h_networkBlock health - h_currentBlock health;
          s1 = sample (WithLabelValues blockLag_desc [tn_name tn, tn_namespace tn, tn_network tn] (SetTo (f64_of_int (sint lag)))) s;
          s2 = sample (WithLabelValues peerCount_desc [tn_name tn, tn_namespace tn, tn_network tn]
                 (SetTo (f64_of_int (sint (h_peerCount health))))) s1;
          s3 = sample (WithLabelValues syncState_desc [tn_name tn, tn_namespace tn, tn_network tn]
                 (SetTo (if is_synced tn health then Fin 1 else Fin 0))) s2
      in fold (\<lambda>a. sample (WithLabelValues anomalyScore_desc [tn_name tn, tn_namespace tn, an_Type a] (SetTo (an_Score a)))) anomalies s3)"

definition recover_or_fail ::
  "'w operator_env \<Rightarrow> time \<Rightarrow> TaoNode \<Rightarrow> ('w, 'a) recovery_state_scheme \<Rightarrow>
   ('w, 'a) recovery_state_scheme \<times> TaoNode \<times> ctrl_result \<times> kerr option" where
  "recover_or_fail env now tn s =
     (if sp_maxRestartAttempts (tn_policy tn) \<le>s tn_restarts tn then
        let tn1 = setCondition (env_conditions env) now ''Ready'' ConditionFalse ''MaxRestartsExceeded''
                    (''Restart count '' @ fmt_d (tn_restarts tn) @ '' exceeded max '' @
                     fmt_d (sp_maxRestartAttempts (tn_policy tn))) (set_phase PhaseFailed tn)
        in (Eventf tn1 EventWarning ''NodeFailed''
              (''TaoNode failed: restart budget exhausted after '' @ fmt_d (tn_restarts tn1) @ '' attempts'') s,
            tn1, no_requeue, None)
      else executeRecovery env now tn s)"

definition evaluateSyncState ::
  "'w operator_env \<Rightarrow> time \<Rightarrow> TaoNode \<Rightarrow> ChainHealthResult \<Rightarrow> AnomalyScore list \<Rightarrow> ('w, 'a) recovery_state_scheme \<Rightarrow>
   ('w, 'a) recovery_state_scheme \<times> TaoNode \<times> ctrl_result \<times> kerr option" where
  "evaluateSyncState env now tn health anomalies s0 =
     (let C = env_conditions env;
          blockLagVal = h_networkBlock health - h_currentBlock health;
          maxLag = sp_maxBlockLag (tn_policy tn);
          isSynced = is_synced tn health;
          hasCriticalAnomaly = has_critical anomalies;
          probeInterval = \<lparr>RequeueAfter = seconds32 (sp_probeIntervalSeconds (tn_policy tn))\<rparr>;
          s = record_health_metrics tn health anomalies s0
      in if tn_phase tn = PhasePending then
           (s, setCondition C now ''Synced'' ConditionFalse ''InitialSync'' ''Node is syncing from genesis or snapshot''
                 (set_phase PhaseSyncing tn),
            probeInterval, None)
         else if isSynced \<and> \<not> hasCriticalAnomaly then
           let s1 = (if tn_phase tn \<noteq> PhaseSynced then
                       Eventf tn EventNormal ''NodeSynced''
                         (''Node is in-sync (lag: '' @ fmt_d blockLagVal @ '' blocks, peers: '' @
                          fmt_d (h_peerCount health) @ '')'') s
                     else s);
               tn1 = set_phase PhaseSynced tn;
               tn2 = tn1\<lparr>tn_status := (tn_status tn1)\<lparr>st_syncState := (st_syncState (tn_status tn1))
                       \<lparr>sss_lastSyncedAt := Some now, sss_syncPercentage := ''100%''\<rparr>\<rparr>\<rparr>
           in (s1, setCondition C now ''Synced'' ConditionTrue ''InSync'' (''Block lag: '' @ fmt_d blockLagVal) tn2,
               no_requeue, None)
         else if \<not> isSynced \<and> tn_phase tn = PhaseSynced then
           let s1 = Eventf tn EventWarning ''NodeDegraded''
                      (''Sync lost: block lag '' @ fmt_d blockLagVal @ '' exceeds threshold '' @ fmt_d maxLag) s;
               tn1 = setCondition C now ''Synced'' ConditionFalse ''SyncLost''
                       (''Block lag '' @ fmt_d blockLagVal @ '' > maxBlockLag '' @ fmt_d maxLag) (set_phase PhaseDegraded tn)
           in recover_or_fail env now tn1 s1
         else if tn_phase tn = PhaseDegraded \<or> hasCriticalAnomaly then
           recover_or_fail env now tn s
         else if tn_phase tn = PhaseRecovering then
           let syncTimeoutDuration = minutes32 (sp_syncTimeoutMinutes (tn_policy tn));
               tn1 =
                 (case st_lastReconcileTime (tn_status tn) of
                    Some t \<Rightarrow>
                      if syncTimeoutDuration <s since now t then
                        setCondition C now ''Ready'' ConditionFalse ''RecoveryTimeout''
                          (''Recovery exceeded '' @ fmt_duration syncTimeoutDuration @ '' timeout'')
                          (set_phase PhaseFailed tn)
                      else tn
                  | None \<Rightarrow> tn)
           in (s, tn1, \<lparr>RequeueAfter = 30 * second\<rparr>, None)
         else
           let tn1 =
                 (if 0 <s h_networkBlock health then
                    let progress = fmul64 (fdiv64 (f64_of_int (sint (h_currentBlock health)))
                                             (f64_of_int (sint (h_networkBlock health)))) (Fin 100)
                    in tn\<lparr>tn_status := (tn_status tn)\<lparr>st_syncState := (st_syncState (tn_status tn))
                          \<lparr>sss_syncPercentage := fmt_f 1 progress @ ''%''\<rparr>\<rparr>\<rparr>
                  else tn)
           in (s, setCondition C now ''Synced'' ConditionFalse ''Syncing''
                    (''Block '' @ fmt_d (h_currentBlock health) @ '' / '' @ fmt_d (h_networkBlock health) @
                     '' (lag: '' @ fmt_d blockLagVal @ '')'') tn1,
               probeInterval, None))"

section \<open>The contract of the strategies\<close>

lemma logs_frame [simp]:
  "ks_world (Eventf tn ty r m s) = ks_world s" "ks_world (sample x s) = ks_world s"
  "ctl_limiter (Eventf tn ty r m t) = ctl_limiter t" "ctl_limiter (sample x t) = ctl_limiter t"
  by (simp_all add: Eventf_def sample_def)

lemma call_limiter [simp]: "ctl_limiter (fst (call f t)) = ctl_limiter t"
  by (simp add: call_def split: prod.splits)

lemma metrics_frame [simp]:
  "ks_world (record_health_metrics tn h as s) = ks_world s"
  "ctl_limiter (record_health_metrics tn h as t) = ctl_limiter t"
proof -
  have "ks_world (fold (\<lambda>a. sample (g a)) as s) = ks_world s" for g :: "AnomalyScore \<Rightarrow> metric_sample" and s :: "('a, 'b) kstate_scheme"
    by (induction as arbitrary: s) simp_all
  then show "ks_world (record_health_metrics tn h as s) = ks_world s"
    by (simp add: record_health_metrics_def Let_def)
  have "ctl_limiter (fold (\<lambda>a. sample (g a)) as t) = ctl_limiter t" for g :: "AnomalyScore \<Rightarrow> metric_sample"
    and t :: "('c, 'd) recovery_state_scheme"
    by (induction as arbitrary: t) simp_all
  then show "ctl_limiter (record_health_metrics tn h as t) = ctl_limiter t"
    by (simp add: record_health_metrics_def Let_def)
qed

text \<open>
  A strategy leaves the limiter, the identity, the specification and the restart count of the
  resource alone, and ends in the phase it stands for.
\<close>

locale recovery_strategy =
  fixes strategy :: "'w operator_env \<Rightarrow> time \<Rightarrow> TaoNode \<Rightarrow> ('w, 'a) recovery_state_scheme \<Rightarrow>
      ('w, 'a) recovery_state_scheme \<times> TaoNode \<times> ctrl_result \<times> kerr option"
    and final :: TaoNodePhase
  assumes strategy_limiter: "strategy env now tn s = (s', tn', res, err) \<Longrightarrow> ctl_limiter s' = ctl_limiter s"
    and strategy_keeps: "strategy env now tn s = (s', tn', res, err) \<Longrightarrow>
      tn_meta tn' = tn_meta tn \<and> tn_spec tn' = tn_spec tn \<and> tn_restarts tn' = tn_restarts tn"
    and strategy_phase: "strategy env now tn s = (s', tn', res, err) \<Longrightarrow> tn_phase tn = PhaseRecovering \<Longrightarrow>
      tn_phase tn' = final"
begin

lemma strategy_outcome:
  assumes "strategy env now tn s = (s', tn', res, err)" and "tn_phase tn = PhaseRecovering"
  shows "ctl_limiter s' = ctl_limiter s \<and> tn_meta tn' = tn_meta tn \<and> tn_spec tn' = tn_spec tn \<and>
    tn_restarts tn' = tn_restarts tn \<and> tn_phase tn' = final"
  using strategy_limiter [OF assms(1)] strategy_keeps [OF assms(1)] strategy_phase [OF assms] by blast

end

interpretation restart: recovery_strategy "\<lambda>env now. recoveryRestart env" PhaseRecovering
  by unfold_locales
    (auto simp: recoveryRestart_def Let_def call_def split: prod.splits sum.splits option.splits)

interpretation cordon: recovery_strategy recoveryCordonAndAlert PhaseFailed
  by unfold_locales (auto simp: recoveryCordonAndAlert_def Let_def)

lemma delete_snapshots_limiter:
  "ctl_limiter (fst (delete_snapshots K vs s)) = ctl_limiter s"
  by (induction K vs s rule: delete_snapshots.induct)
    (auto simp: call_def split: prod.splits option.splits)

lemma prune_limiter: "ctl_limiter (fst (pruneOldSnapshots env tn s)) = ctl_limiter s"
  by (auto simp: pruneOldSnapshots_def Let_def call_def delete_snapshots_limiter
      split: option.splits prod.splits sum.splits)

lemma triggerSnapshot_limiter: "ctl_limiter (fst (triggerSnapshot env now tn reason s)) = ctl_limiter s"
  by (auto simp: triggerSnapshot_def Let_def call_def case_prod_unfold prune_limiter split: option.splits)

lemma triggerSnapshot_keeps:
  "tn_meta (fst (snd (triggerSnapshot env now tn reason s))) = tn_meta tn"
  "tn_spec (fst (snd (triggerSnapshot env now tn reason s))) = tn_spec tn"
  "tn_restarts (fst (snd (triggerSnapshot env now tn reason s))) = tn_restarts tn"
  "tn_phase (fst (snd (triggerSnapshot env now tn reason s))) = tn_phase tn"
  by (auto simp: triggerSnapshot_def Let_def call_def case_prod_unfold record_snapshot_def split: option.splits)

lemmas trigger_frame = triggerSnapshot_limiter triggerSnapshot_keeps

interpretation snapshot_restore: recovery_strategy recoverySnapshotRestore PhaseRecovering
proof (unfold_locales, goal_cases)
  case (1 env now tn s s' tn' res err)
  then show ?case
    by (auto simp: recoverySnapshotRestore_def Let_def call_def case_prod_unfold trigger_frame
        split: option.splits sum.splits)
next
  case (2 env now tn s s' tn' res err)
  then show ?case
    by (auto simp: recoverySnapshotRestore_def Let_def call_def case_prod_unfold trigger_frame
        split: option.splits sum.splits)
next
  case (3 env now tn s s' tn' res err)
  then show ?case
    by (auto simp: recoverySnapshotRestore_def Let_def call_def case_prod_unfold trigger_frame
        split: option.splits sum.splits)
qed

text \<open>The phase a recovery ends in.\<close>

definition strategy_target :: "TaoNode \<Rightarrow> TaoNodePhase" where
  "strategy_target tn =
     (if sp_recoveryStrategy (tn_policy tn) = ''cordon-and-alert'' then PhaseFailed else PhaseRecovering)"

lemma dispatch_outcome:
  assumes "dispatchRecovery env now tn s = (s', tn', res, err)" and "tn_phase tn = PhaseRecovering"
  shows "ctl_limiter s' = ctl_limiter s \<and> tn_meta tn' = tn_meta tn \<and> tn_spec tn' = tn_spec tn \<and>
    tn_restarts tn' = tn_restarts tn \<and> tn_phase tn' = strategy_target tn"
  using assms restart.strategy_outcome [of env tn s s' tn' res err]
    snapshot_restore.strategy_outcome [of env now tn s s' tn' res err]
    cordon.strategy_outcome [of env now tn s s' tn' res err]
  unfolding dispatchRecovery_def strategy_target_def by (auto split: if_splits)

section \<open>What one evaluation does\<close>

definition node_key :: "TaoNode \<Rightarrow> string" where
  "node_key tn = tn_namespace tn @ ''/'' @ tn_name tn"

lemma executeRecovery_outcome:
  assumes "executeRecovery env now tn s = (s', tn', res, err)"
    and "TryAcquire now (node_key tn) (ctl_limiter s) = (rl, granted)"
  shows "tn_meta tn' = tn_meta tn \<and> tn_spec tn' = tn_spec tn \<and>
    (if granted then
       tn_phase tn' = strategy_target tn \<and> tn_restarts tn' = tn_restarts tn + 1 \<and>
       ctl_limiter s' = (if err \<noteq> None \<or> strategy_target tn = PhaseFailed then Release (node_key tn) rl else rl)
     else tn' = tn \<and> ks_world s' = ks_world s \<and> ctl_limiter s' = rl \<and> err = None)"
proof (cases granted)
  case False
  with assms show ?thesis by (auto simp: executeRecovery_def node_key_def Let_def)
next
  case True
  let ?tn = "tn\<lparr>tn_status := (tn_status tn)\<lparr>st_phase := PhaseRecovering, st_restartCount := tn_restarts tn + 1\<rparr>\<rparr>"
  obtain s2 tn3 r e where d: "dispatchRecovery env now ?tn (s\<lparr>ctl_limiter := rl\<rparr>) = (s2, tn3, r, e)"
    by (metis prod_cases4)
  have "strategy_target ?tn = strategy_target tn" by (simp add: strategy_target_def)
  with dispatch_outcome [OF d] have out: "ctl_limiter s2 = rl" "tn_meta tn3 = tn_meta tn" "tn_spec tn3 = tn_spec tn"
    "tn_restarts tn3 = tn_restarts tn + 1" "tn_phase tn3 = strategy_target tn" by auto
  have "executeRecovery env now tn s =
    (if e \<noteq> None \<or> strategy_target tn = PhaseFailed then s2\<lparr>ctl_limiter := Release (node_key tn) rl\<rparr> else s2, tn3, r, e)"
    using assms(2) True d out(1,5) by (simp add: executeRecovery_def node_key_def Let_def)
  with assms(1) True out show ?thesis by auto
qed

text \<open>When a recovery is due, and when one is attempted.\<close>

definition recovery_due :: "TaoNode \<Rightarrow> ChainHealthResult \<Rightarrow> AnomalyScore list \<Rightarrow> bool" where
  "recovery_due tn h as \<longleftrightarrow> tn_phase tn \<noteq> PhasePending \<and>
     (has_critical as \<or> \<not> is_synced tn h \<and> tn_phase tn \<in> {PhaseSynced, PhaseDegraded})"

definition budget_left :: "TaoNode \<Rightarrow> bool" where
  "budget_left tn \<longleftrightarrow> sint (tn_restarts tn) < sint (sp_maxRestartAttempts (tn_policy tn))"

definition recovery_attempted ::
  "time \<Rightarrow> TaoNode \<Rightarrow> ChainHealthResult \<Rightarrow> AnomalyScore list \<Rightarrow> RecoveryRateLimiter \<Rightarrow> bool" where
  "recovery_attempted now tn h as rl \<longleftrightarrow>
     recovery_due tn h as \<and> budget_left tn \<and> snd (TryAcquire now (node_key tn) rl)"

definition recovery_timed_out :: "time \<Rightarrow> TaoNode \<Rightarrow> bool" where
  "recovery_timed_out now tn \<longleftrightarrow> (case st_lastReconcileTime (tn_status tn) of
     None \<Rightarrow> False | Some t \<Rightarrow> minutes32 (sp_syncTimeoutMinutes (tn_policy tn)) <s since now t)"

text \<open>The transition function of the phases.\<close>

definition next_phase ::
  "time \<Rightarrow> TaoNode \<Rightarrow> ChainHealthResult \<Rightarrow> AnomalyScore list \<Rightarrow> RecoveryRateLimiter \<Rightarrow> TaoNodePhase" where
  "next_phase now tn h as rl =
     (if tn_phase tn = PhasePending then PhaseSyncing
      else if is_synced tn h \<and> \<not> has_critical as then PhaseSynced
      else if recovery_due tn h as then
        (if \<not> budget_left tn then PhaseFailed
         else if recovery_attempted now tn h as rl then strategy_target tn
         else if \<not> is_synced tn h \<and> tn_phase tn = PhaseSynced then PhaseDegraded
         else tn_phase tn)
      else if tn_phase tn = PhaseRecovering \<and> recovery_timed_out now tn then PhaseFailed
      else tn_phase tn)"

definition attempts_limiter :: "time \<Rightarrow> string \<Rightarrow> RecoveryRateLimiter \<Rightarrow> RecoveryRateLimiter \<Rightarrow> bool" where
  "attempts_limiter now k rl rl' \<longleftrightarrow>
     rl' = fst (TryAcquire now k rl) \<or> rl' = Release k (fst (TryAcquire now k rl))"

lemma recover_or_fail_outcome:
  assumes "recover_or_fail env now tn s = (s', tn', res, err)"
  shows "tn_meta tn' = tn_meta tn \<and> tn_spec tn' = tn_spec tn \<and>
    (if budget_left tn then
       attempts_limiter now (node_key tn) (ctl_limiter s) (ctl_limiter s') \<and>
       (if snd (TryAcquire now (node_key tn) (ctl_limiter s))
        then tn_phase tn' = strategy_target tn \<and> tn_restarts tn' = tn_restarts tn + 1
        else tn' = tn \<and> ks_world s' = ks_world s \<and> err = None)
     else tn_phase tn' = PhaseFailed \<and> tn_restarts tn' = tn_restarts tn \<and> ks_world s' = ks_world s \<and>
       ctl_limiter s' = ctl_limiter s \<and> err = None)"
proof (cases "budget_left tn")
  case True
  then have "executeRecovery env now tn s = (s', tn', res, err)"
    using assms by (simp add: recover_or_fail_def budget_left_def sint_cmp)
  from executeRecovery_outcome [OF this prod.collapse [symmetric]] True show ?thesis
    by (auto simp: attempts_limiter_def split: if_splits)
next
  case False
  then show ?thesis
    using assms by (auto simp: recover_or_fail_def budget_left_def sint_cmp Let_def)
qed

lemma evaluate_due:
  assumes "recovery_due tn h as"
  shows "\<exists>tn1 s2. evaluateSyncState env now tn h as s = recover_or_fail env now tn1 s2 \<and>
    tn_meta tn1 = tn_meta tn \<and> tn_spec tn1 = tn_spec tn \<and> tn_restarts tn1 = tn_restarts tn \<and>
    ks_world s2 = ks_world s \<and> ctl_limiter s2 = ctl_limiter s \<and>
    tn_phase tn1 = (if \<not> is_synced tn h \<and> tn_phase tn = PhaseSynced then PhaseDegraded else tn_phase tn)"
proof (cases "\<not> is_synced tn h \<and> tn_phase tn = PhaseSynced")
  case True
  let ?lag = "h_networkBlock h - h_currentBlock h" and ?max = "sp_maxBlockLag (tn_policy tn)"
  have "evaluateSyncState env now tn h as s = recover_or_fail env now
     (setCondition (env_conditions env) now ''Synced'' ConditionFalse ''SyncLost''
        (''Block lag '' @ fmt_d ?lag @ '' > maxBlockLag '' @ fmt_d ?max) (set_phase PhaseDegraded tn))
     (Eventf tn EventWarning ''NodeDegraded''
        (''Sync lost: block lag '' @ fmt_d ?lag @ '' exceeds threshold '' @ fmt_d ?max)
        (record_health_metrics tn h as s))"
    using True by (simp add: evaluateSyncState_def Let_def)
  then show ?thesis using True by (intro exI conjI) (assumption, simp_all)
next
  case False
  with assms have "evaluateSyncState env now tn h as s = recover_or_fail env now tn (record_health_metrics tn h as s)"
    unfolding evaluateSyncState_def recovery_due_def Let_def by auto
  then show ?thesis using False by (intro exI conjI) (assumption, auto)
qed

lemma evaluate_not_due:
  assumes "\<not> recovery_due tn h as"
  shows "\<exists>s2 tn1 res. evaluateSyncState env now tn h as s = (s2, tn1, res, None) \<and>
    tn_meta tn1 = tn_meta tn \<and> tn_spec tn1 = tn_spec tn \<and> tn_restarts tn1 = tn_restarts tn \<and>
    ks_world s2 = ks_world s \<and> ctl_limiter s2 = ctl_limiter s \<and> tn_phase tn1 = next_phase now tn h as (ctl_limiter s)"
proof -
  consider "tn_phase tn = PhasePending" | "tn_phase tn \<noteq> PhasePending" "is_synced tn h" "\<not> has_critical as"
    | "tn_phase tn = PhaseRecovering" "\<not> is_synced tn h" "\<not> has_critical as"
    | "tn_phase tn \<notin> {PhasePending, PhaseSynced, PhaseDegraded, PhaseRecovering}" "\<not> is_synced tn h" "\<not> has_critical as"
    using assms unfolding recovery_due_def by blast
  then show ?thesis
    using assms
    by cases (simp_all add: evaluateSyncState_def next_phase_def recovery_due_def recovery_timed_out_def Let_def
        split: option.split)
qed

text \<open>The outcome of an evaluation, in one statement for all that follows.\<close>

lemma machine_step:
  assumes "evaluateSyncState env now tn h as s = (s', tn', res, err)"
  shows "tn_meta tn' = tn_meta tn \<and> tn_spec tn' = tn_spec tn \<and>
    tn_phase tn' = next_phase now tn h as (ctl_limiter s) \<and>
    tn_restarts tn' = (if recovery_attempted now tn h as (ctl_limiter s) then tn_restarts tn + 1 else tn_restarts tn) \<and>
    (if recovery_due tn h as \<and> budget_left tn then attempts_limiter now (node_key tn) (ctl_limiter s) (ctl_limiter s')
     else ctl_limiter s' = ctl_limiter s) \<and>
    (\<not> recovery_attempted now tn h as (ctl_limiter s) \<longrightarrow> ks_world s' = ks_world s \<and> err = None)"
proof (cases "recovery_due tn h as")
  case False
  from evaluate_not_due [OF this, of env now s] assms False show ?thesis
    by (auto simp: recovery_attempted_def)
next
  case True
  from evaluate_due [OF this, of env now s] obtain tn1 s2 where
    ev: "recover_or_fail env now tn1 s2 = (s', tn', res, err)" and
    tn1: "tn_meta tn1 = tn_meta tn" "tn_spec tn1 = tn_spec tn" "tn_restarts tn1 = tn_restarts tn"
      "ks_world s2 = ks_world s" "ctl_limiter s2 = ctl_limiter s"
      "tn_phase tn1 = (if \<not> is_synced tn h \<and> tn_phase tn = PhaseSynced then PhaseDegraded else tn_phase tn)"
    using assms by auto
  have eqs: "budget_left tn1 = budget_left tn" "strategy_target tn1 = strategy_target tn" "node_key tn1 = node_key tn"
    by (simp_all add: budget_left_def strategy_target_def node_key_def tn1)
  have "\<not> (is_synced tn h \<and> \<not> has_critical as)" "tn_phase tn \<noteq> PhasePending"
    using True by (auto simp: recovery_due_def)
  with recover_or_fail_outcome [OF ev] True show ?thesis
    by (auto simp: eqs tn1 recovery_attempted_def next_phase_def split: if_splits)
qed

section \<open>Properties of the machine\<close>

text \<open>
  The transitions the comment of \<open>evaluateSyncState\<close> and the README draw; besides, any phase may become
  \<open>Failed\<close>.
\<close>

definition diagram :: "(TaoNodePhase \<times> TaoNodePhase) list" where
  "diagram = [(PhasePending, PhaseSyncing), (PhaseSyncing, PhaseSynced), (PhaseSynced, PhaseDegraded),
     (PhaseDegraded, PhaseRecovering), (PhaseRecovering, PhaseSyncing)]"

text \<open>
  C10. The phase after an evaluation, against the documented diagram. The phase is the value of the
  transition function \<open>next_phase\<close>, and identity and specification are never touched. A change of phase is
  an edge of the diagram, a failure, or one of three the diagram does not draw: a node whose sync is lost
  goes from Synced through Degraded to Recovering within one evaluation; a node in sync without a critical
  anomaly becomes Synced from every phase but Pending; and a critical anomaly starts a recovery from every
  phase but Pending. Two documented transitions do not exist in the code: a recovering node never becomes
  Syncing, and a synced node that is in sync never becomes Degraded, whatever its anomalies. A phase
  becomes Failed only with the budget spent, under the cordon-and-alert strategy, or by a recovery past its
  timeout.
\<close>

theorem evaluateSyncState_phase:
  assumes "evaluateSyncState env now tn h as s = (s', tn', res, err)"
  shows "tn_phase tn' = next_phase now tn h as (ctl_limiter s) \<and> tn_meta tn' = tn_meta tn \<and> tn_spec tn' = tn_spec tn \<and>
    (tn_phase tn' = tn_phase tn \<or> (tn_phase tn, tn_phase tn') \<in> set diagram \<or> tn_phase tn' = PhaseFailed \<or>
     tn_phase tn = PhaseSynced \<and> \<not> is_synced tn h \<and> tn_phase tn' = PhaseRecovering \<or>
     tn_phase tn \<noteq> PhasePending \<and> is_synced tn h \<and> \<not> has_critical as \<and> tn_phase tn' = PhaseSynced \<or>
     tn_phase tn \<noteq> PhasePending \<and> has_critical as \<and> tn_phase tn' = PhaseRecovering) \<and>
    (tn_phase tn = PhaseRecovering \<longrightarrow> tn_phase tn' \<noteq> PhaseSyncing) \<and>
    (tn_phase tn = PhaseSynced \<and> is_synced tn h \<longrightarrow> tn_phase tn' \<noteq> PhaseDegraded) \<and>
    (tn_phase tn' = PhaseFailed \<longrightarrow> tn_phase tn = PhaseFailed \<or> \<not> budget_left tn \<or>
       sp_recoveryStrategy (tn_policy tn) = ''cordon-and-alert'' \<or>
       tn_phase tn = PhaseRecovering \<and> recovery_timed_out now tn)"
proof -
  have target: "strategy_target tn \<in> {PhaseRecovering, PhaseFailed}"
    "strategy_target tn = PhaseFailed \<Longrightarrow> sp_recoveryStrategy (tn_policy tn) = ''cordon-and-alert''"
    by (auto simp: strategy_target_def split: if_splits)
  have "tn_phase tn' = next_phase now tn h as (ctl_limiter s)" "tn_meta tn' = tn_meta tn" "tn_spec tn' = tn_spec tn"
    using machine_step [OF assms] by blast+
  then show ?thesis
    using target by (cases "tn_phase tn") (auto simp: next_phase_def recovery_due_def diagram_def split: if_splits)
qed

definition sample_health :: ChainHealthResult where
  "sample_health = \<lparr>h_currentBlock = 100, h_networkBlock = 200, h_finalizedBlock = 90, h_peerCount = 3,
     h_syncState = ''syncing'', h_runtimeVersion = ''v1'', h_epoch = 1, h_probeLatency = second,
     h_diskUsagePercent = 40, h_diskUsedBytes = 0, h_diskTotalBytes = 0, h_gpuUtilPercent = 0,
     h_gpuMemUsedBytes = 0, h_gpuTempCelsius = 0\<rparr>"

definition mem_recovery_state :: "mem_world \<Rightarrow> mem_world recovery_state" where
  "mem_recovery_state w = \<lparr>ks_world = w, ks_events = [], ks_metrics = [], ctl_limiter = NewRecoveryRateLimiter 5 (2 * minute)\<rparr>"

theorem evaluateSyncState_phase_witness:
  "tn_phase (fst (snd (evaluateSyncState mem_env 9 (set_phase PhaseSynced sample_node) sample_health []
     (mem_recovery_state empty_world)))) = PhaseRecovering"
proof -
  let ?out = "evaluateSyncState mem_env 9 (set_phase PhaseSynced sample_node) sample_health [] (mem_recovery_state empty_world)"
  obtain s' tn' res err where out: "?out = (s', tn', res, err)" by (metis prod_cases4)
  have "next_phase 9 (set_phase PhaseSynced sample_node) sample_health [] (ctl_limiter (mem_recovery_state empty_world)) = PhaseRecovering"
    by code_simp
  with evaluateSyncState_phase [OF out] show ?thesis by (simp add: out)
qed

text \<open>
  The cluster is touched only by an attempted recovery: if none is due, the budget is spent or
  the limiter refuses, an evaluation makes no change to the world and reports no error. In
  particular a node in sync without a critical anomaly is never disturbed.
\<close>

theorem evaluateSyncState_quiet:
  assumes "evaluateSyncState env now tn h as s = (s', tn', res, err)"
    and "\<not> recovery_due tn h as \<or> \<not> budget_left tn \<or> \<not> snd (TryAcquire now (node_key tn) (ctl_limiter s))"
  shows "ks_world s' = ks_world s \<and> err = None \<and> tn_restarts tn' = tn_restarts tn"
  using machine_step [OF assms(1)] assms(2) by (auto simp: recovery_attempted_def)

theorem evaluateSyncState_quiet_witness:
  "ks_world (fst (evaluateSyncState mem_env 9 sample_node sample_health [] (mem_recovery_state empty_world))) = empty_world"
proof -
  obtain s' tn' res err where out: "evaluateSyncState mem_env 9 sample_node sample_health []
      (mem_recovery_state empty_world) = (s', tn', res, err)" by (metis prod_cases4)
  have "\<not> recovery_due sample_node sample_health []" by code_simp
  with evaluateSyncState_quiet [OF out] show ?thesis unfolding out by (simp add: mem_recovery_state_def)
qed

text \<open>Evaluations of a whole fleet, one after another, sharing the world and the limiter.\<close>

fun fleet_run ::
  "'w operator_env \<Rightarrow> (time \<times> TaoNode \<times> ChainHealthResult \<times> AnomalyScore list) list \<Rightarrow> 'w recovery_state \<Rightarrow> 'w recovery_state" where
  "fleet_run env [] s = s"
| "fleet_run env ((now, tn, h, as) # evs) s = fleet_run env evs (fst (evaluateSyncState env now tn h as s))"

lemma evaluate_limiter_ops:
  "\<exists>ops. ctl_limiter (fst (evaluateSyncState env now tn h as s)) = fst (gate_run TryAcquire Release ops (ctl_limiter s))"
proof -
  obtain s' tn' res err where ev: "evaluateSyncState env now tn h as s = (s', tn', res, err)" by (metis prod_cases4)
  have "ctl_limiter s' = ctl_limiter s \<or> attempts_limiter now (node_key tn) (ctl_limiter s) (ctl_limiter s')"
    using machine_step [OF ev] by (auto split: if_splits)
  then have "\<exists>ops\<in>{[], [Acquire now (node_key tn)], [Acquire now (node_key tn), Done (node_key tn)]}.
      ctl_limiter s' = fst (gate_run TryAcquire Release ops (ctl_limiter s))"
    by (auto simp: attempts_limiter_def case_prod_unfold Let_def)
  then show ?thesis unfolding ev fst_conv by blast
qed

lemma gate_run_append:
  "fst (gate_run acq rel (xs @ ys) s) = fst (gate_run acq rel ys (fst (gate_run acq rel xs s)))"
proof (induction xs arbitrary: s)
  case (Cons x xs)
  then show ?case by (cases x) (simp_all add: case_prod_unfold Let_def)
qed simp

lemma fleet_limiter_ops:
  "\<exists>ops. ctl_limiter (fleet_run env evs s) = fst (gate_run TryAcquire Release ops (ctl_limiter s))"
proof (induction env evs s rule: fleet_run.induct)
  case (1 env s)
  show ?case by (intro exI [of _ "[]"]) simp
next
  case (2 env now tn h as evs s)
  obtain xs where "ctl_limiter (fst (evaluateSyncState env now tn h as s)) = fst (gate_run TryAcquire Release xs (ctl_limiter s))"
    using evaluate_limiter_ops by blast
  moreover obtain ys where "ctl_limiter (fleet_run env ((now, tn, h, as) # evs) s) =
      fst (gate_run TryAcquire Release ys (ctl_limiter (fst (evaluateSyncState env now tn h as s))))"
    using 2 by auto
  ultimately show ?case by (intro exI [of _ "xs @ ys"]) (simp add: gate_run_append)
qed

text \<open>
  However many nodes are evaluated, in whatever order and with whatever outcome, the recoveries
  in flight across the fleet never exceed the cap the limiter was created with: every change the
  state machine makes to the limiter is a sequence of \<open>TryAcquire\<close> and \<open>Release\<close> calls.
\<close>

theorem fleet_recovery_cap:
  assumes "ctl_limiter s = NewRecoveryRateLimiter m d" and "0 \<le> m"
  shows "int (ActiveCount (ctl_limiter (fleet_run env evs s))) \<le> m"
proof -
  obtain ops where "ctl_limiter (fleet_run env evs s) = fst (gate_run TryAcquire Release ops (NewRecoveryRateLimiter m d))"
    using fleet_limiter_ops [of env evs s] assms(1) by metis
  then show ?thesis using limiter_within_cap [OF assms(2)] by simp
qed

theorem fleet_recovery_cap_witness:
  "int (ActiveCount (ctl_limiter (fleet_run mem_env (replicate 7 (9, set_phase PhaseDegraded sample_node, sample_health, []))
     (mem_recovery_state empty_world)))) \<le> 5"
  by (rule fleet_recovery_cap) (simp_all add: mem_recovery_state_def)

end
