(* ===== verification/Gpu_FinOps.thy ===== *)
theory Gpu_FinOps
  imports Node_Helpers Kube_Memory
begin

text \<open>
  GPU scheduling, \<open>internal/controller/gpu_advisor.go\<close>, and the cost estimate,
  \<open>internal/controller/finops_estimator.go\<close>. Costs are computed in \<open>float64\<close>; the constant
  factors of an expression are converted one by one, in the order of the source.
\<close>

section \<open>GPU scheduling\<close>

definition gpuResourceName :: "string \<Rightarrow> string" where
  "gpuResourceName gpuType = (if gpuType = ''amd-gpu'' then ''amd.com/gpu'' else ''nvidia.com/gpu'')"

definition buildGPUResourceRequirements :: "quantity_ops \<Rightarrow> GPUSpec option \<Rightarrow> resource_requirements" where
  "buildGPUResourceRequirements Q gpu =
     (case gpu of
        None \<Rightarrow> \<lparr>rr_requests = None, rr_limits = None\<rparr>
      | Some gpu \<Rightarrow>
          let gpuRes = gpuResourceName (gpu_type gpu); qty = q_newQuantity Q (scast (gpu_count gpu))
          in \<lparr>rr_requests = Some [gpuRes \<mapsto> qty], rr_limits = Some [gpuRes \<mapsto> qty]\<rparr>)"

definition buildGPUTolerations :: "GPUSpec option \<Rightarrow> toleration list" where
  "buildGPUTolerations gpu =
     (case gpu of
        None \<Rightarrow> []
      | Some gpu \<Rightarrow>
          [\<lparr>tol_key = ''nvidia.com/gpu'', tol_operator = ''Exists'', tol_value = '''', tol_effect = ''NoSchedule''\<rparr>] @
          (if gpu_spotTolerant gpu then
             [\<lparr>tol_key = ''cloud.google.com/gke-spot'', tol_operator = ''Equal'', tol_value = ''true'',
               tol_effect = ''NoSchedule''\<rparr>,
              \<lparr>tol_key = ''kubernetes.azure.com/scalesetpriority'', tol_operator = ''Equal'', tol_value = ''spot'',
               tol_effect = ''NoSchedule''\<rparr>]
           else []))"

definition buildGPUNodeAffinity :: "GPUSpec option \<Rightarrow> node_affinity option" where
  "buildGPUNodeAffinity gpu =
     (case gpu of
        None \<Rightarrow> None
      | Some gpu \<Rightarrow>
          let required = \<lparr>sr_key = ''nvidia.com/gpu.product'', sr_operator = ''In'', sr_values = [gpu_type gpu]\<rparr>;
              affinity = \<lparr>na_required = Some [[required]], na_preferred = []\<rparr>
          in Some (if gpu_fallbackToCPU gpu
                   then affinity\<lparr>na_required := None, na_preferred := [(100, [required])]\<rparr>
                   else affinity))"

definition nonnil :: "resource_list option \<Rightarrow> resource_list" where
  "nonnil m = (case m of None \<Rightarrow> Map.empty | Some m \<Rightarrow> m)"

definition mergeResourceRequirements ::
  "resource_requirements \<Rightarrow> resource_requirements \<Rightarrow> resource_requirements" where
  "mergeResourceRequirements base gpu =
     \<lparr>rr_requests = Some (nonnil (rr_requests base) ++ nonnil (rr_requests gpu)),
      rr_limits = Some (nonnil (rr_limits base) ++ nonnil (rr_limits gpu))\<rparr>"

definition updateGPUStatus ::
  "TaoNode \<Rightarrow> ChainHealthResult \<Rightarrow> ('w, 'a) kstate_scheme \<Rightarrow> ('w, 'a) kstate_scheme \<times> TaoNode" where
  "updateGPUStatus tn health s =
     (if 0 < h_gpuUtilPercent health then
        let util = ucast (h_gpuUtilPercent health) :: int32;
            tn1 = tn\<lparr>tn_status := (tn_status tn)\<lparr>st_resources :=
                    (st_resources (tn_status tn))\<lparr>rs_gpuUtilizationPercent := Some util\<rparr>\<rparr>\<rparr>
        in (sample (WithLabelValues gpuUtilization_desc [tn_name tn, tn_namespace tn] (SetTo (f64_of_int (sint util)))) s, tn1)
      else (s, tn))"

section \<open>The cost estimate\<close>

definition cpuCostPerCorePerHour :: gofloat where "cpuCostPerCorePerHour = r64 (5 / 100)"

definition memCostPerGiBPerHour :: gofloat where "memCostPerGiBPerHour = r64 (6 / 1000)"

definition storageCostPerGiBPerMonth :: gofloat where "storageCostPerGiBPerMonth = r64 (1 / 10)"

definition gpuCostPerGPUPerHour :: gofloat where "gpuCostPerGPUPerHour = r64 (25 / 10)"

definition hoursPerMonth :: gofloat where "hoursPerMonth = r64 730"

definition parseQuantityFloat :: "quantity_ops \<Rightarrow> quantity \<Rightarrow> gofloat" where
  "parseQuantityFloat Q q = fdiv64 (f64_of_int (sint (q_milliValue Q q))) (r64 1000)"

definition quantityToGiB :: "quantity_ops \<Rightarrow> quantity \<Rightarrow> gofloat" where
  "quantityToGiB Q q = fdiv64 (f64_of_int (sint (q_value Q q))) (r64 (1024 * 1024 * 1024))"

definition resourceValue :: "quantity_ops \<Rightarrow> resource_list option \<Rightarrow> string \<Rightarrow> string \<Rightarrow> gofloat" where
  "resourceValue Q reqs res defaultVal =
     (case reqs of
        None \<Rightarrow> parseQuantityFloat Q (Quantity defaultVal)
      | Some m \<Rightarrow>
          (case m res of
             Some q \<Rightarrow> parseQuantityFloat Q q
           | None \<Rightarrow> parseQuantityFloat Q (Quantity defaultVal)))"

definition resourceGiB :: "quantity_ops \<Rightarrow> resource_list option \<Rightarrow> string \<Rightarrow> gofloat" where
  "resourceGiB Q reqs res =
     (case reqs of
        None \<Rightarrow> Fin 0
      | Some m \<Rightarrow> (case m res of Some q \<Rightarrow> quantityToGiB Q q | None \<Rightarrow> Fin 0))"

definition estimateMonthlyCostUSD :: "quantity_ops \<Rightarrow> TaoNode \<Rightarrow> gofloat" where
  "estimateMonthlyCostUSD Q tn =
     (let total = Fin 0;
          cpuReq = resourceValue Q (rr_requests (spec_resources (tn_spec tn))) ''cpu'' ''0'';
          memReq = resourceGiB Q (rr_requests (spec_resources (tn_spec tn))) ''memory'';
          total = fadd64 total (fmul64 (fmul64 cpuReq cpuCostPerCorePerHour) hoursPerMonth);
          total = fadd64 total (fmul64 (fmul64 memReq memCostPerGiBPerHour) hoursPerMonth);
          storageGiB = quantityToGiB Q (cs_size (spec_chainStorage (tn_spec tn)));
          total = fadd64 total (fmul64 storageGiB storageCostPerGiBPerMonth)
      in case spec_gpu (tn_spec tn) of
           None \<Rightarrow> total
         | Some gpu \<Rightarrow>
             let cnt = f64_of_int (sint (gpu_count gpu));
                 gpuCost = fmul64 (fmul64 cnt gpuCostPerGPUPerHour) hoursPerMonth;
                 total = fadd64 total gpuCost
             in if gpu_spotTolerant gpu then fsub64 total (fmul64 gpuCost (r64 (70 / 100))) else total)"

definition formatMonthlyCost :: "gofloat \<Rightarrow> string" where
  "formatMonthlyCost usd =
     (if fle (r64 1000) usd then ''$'' @ fmt_f 0 usd @ ''/mo'' else ''$'' @ fmt_f 2 usd @ ''/mo'')"

definition updateFinOpsStatus ::
  "quantity_ops \<Rightarrow> TaoNode \<Rightarrow> ('w, 'a) kstate_scheme \<Rightarrow> ('w, 'a) kstate_scheme \<times> TaoNode" where
  "updateFinOpsStatus Q tn s =
     (let cost = estimateMonthlyCostUSD Q tn;
          tn1 = tn\<lparr>tn_status := (tn_status tn)\<lparr>st_resources :=
                  (st_resources (tn_status tn))\<lparr>rs_estimatedMonthlyUSD := formatMonthlyCost cost\<rparr>\<rparr>\<rparr>
      in (sample (WithLabelValues estimatedMonthlyCost_desc [tn_name tn, tn_namespace tn, tn_network tn] (SetTo cost)) s, tn1))"

end
