(* ===== verification/Pod_Builder.thy ===== *)
theory Pod_Builder
  imports Gpu_FinOps Go_Sha256 "HOL-Library.List_Lexorder" "HOL-Library.Char_ord"
begin

text \<open>
  The pure builders of the workload, \<open>internal/controller/statefulset_builder.go\<close>: the chain
  specification registry, the command line of the node, the init and main containers, the drift
  test of the volume claims and the hash of the arguments. \<open>equality.Semantic.DeepEqual\<close> is the
  parameter \<open>E\<close>, one function per type it is used on.
\<close>

section \<open>Chain specification and arguments\<close>

definition SubtensorChainSpec :: "(string \<times> string) list" where
  "SubtensorChainSpec =
     [(''mainnet'', ''finney''), (''finney'', ''finney''), (''testnet'', ''test_finney''),
      (''test_finney'', ''test_finney''), (''test-finney'', ''test_finney''), (''local'', ''local''),
      (''dev'', ''dev''), (''devnet'', ''dev'')]"

definition ResolveChainSpec :: "string \<Rightarrow> string \<times> bool" where
  "ResolveChainSpec network =
     (let normalized = to_lower (trim_space network)
      in case map_of SubtensorChainSpec normalized of
           Some builtIn \<Rightarrow> (builtIn, False)
         | None \<Rightarrow> (''/data/chain-spec/raw_spec.json'', True))"

record SubstrateArgs =
  sa_chainSpec :: string
  sa_role :: string
  sa_rpcPort :: int32
  sa_p2pPort :: int32
  sa_prometheusPort :: int32
  sa_nodeName :: string
  sa_keystorePath :: string
  sa_extraArgs :: "string list"

definition Build :: "SubstrateArgs \<Rightarrow> string list" where
  "Build s =
     [''--chain='' @ sa_chainSpec s,
      ''--base-path=/data'',
      ''--rpc-port='' @ fmt_d (sa_rpcPort s),
      ''--rpc-external'',
      ''--rpc-methods=Safe'',
      ''--port='' @ fmt_d (sa_p2pPort s),
      ''--prometheus-port='' @ fmt_d (sa_prometheusPort s),
      ''--prometheus-external''] @
     (if sa_keystorePath s \<noteq> '''' then [''--keystore-path='' @ sa_keystorePath s] else []) @
     (if to_lower (sa_role s) = ''validator'' then [''--validator'']
      else if to_lower (sa_role s) = ''archive'' then [''--pruning=archive'', ''--sync=full'']
      else []) @
     (if sa_nodeName s \<noteq> '''' then [''--name='' @ sa_nodeName s] else []) @
     sa_extraArgs s"

section \<open>Containers\<close>

definition subtensorUID :: int64 where "subtensorUID = 1000"

definition subtensorGID :: int64 where "subtensorGID = 1000"

definition chainDataVolume :: string where "chainDataVolume = ''chain-data''"

definition no_resources :: resource_requirements where
  "no_resources = \<lparr>rr_requests = None, rr_limits = None\<rparr>"

definition zero_container :: container where
  "zero_container =
     \<lparr>con_name = '''', con_image = '''', con_command = [], con_args = [], con_ports = [], con_env = [],
      con_resources = no_resources, con_volumeMounts = [],
      con_securityContext = \<lparr>sc_runAsUser = None, sc_runAsGroup = None, sc_runAsNonRoot = None,
        sc_allowPrivilegeEscalation = None, sc_readOnlyRootFilesystem = None, sc_capDrop = [], sc_capAdd = [],
        sc_seccomp = None\<rparr>,
      con_startupProbe = None, con_livenessProbe = None, con_readinessProbe = None\<rparr>"

definition buildInitContainer :: "string \<Rightarrow> container" where
  "buildInitContainer img =
     zero_container
     \<lparr>con_name := ''volume-permissions'',
      con_image := img,
      con_command := [''/bin/sh'', ''-c''],
      con_args := [''mkdir -p /data/chains && chown -R '' @ fmt_d subtensorUID @ '':'' @ fmt_d subtensorGID @ '' /data''],
      con_volumeMounts := [\<lparr>vm_name = chainDataVolume, vm_mountPath = ''/data'', vm_readOnly = False\<rparr>],
      con_securityContext :=
        \<lparr>sc_runAsUser = Some 0, sc_runAsGroup = Some 0, sc_runAsNonRoot = None,
         sc_allowPrivilegeEscalation = Some False, sc_readOnlyRootFilesystem = Some True,
         sc_capDrop = [''ALL''], sc_capAdd = [''CHOWN'', ''DAC_OVERRIDE''], sc_seccomp = None\<rparr>,
      con_resources := \<lparr>rr_requests = None, rr_limits = Some [''cpu'' \<mapsto> Quantity ''100m'', ''memory'' \<mapsto> Quantity ''64Mi'']\<rparr>\<rparr>"

definition buildKeyInjectorInitContainer :: container where
  "buildKeyInjectorInitContainer =
     zero_container
     \<lparr>con_name := ''key-injector'',
      con_image := ''busybox:1.36-musl'',
      con_command := [''/bin/sh'', ''-c''],
      con_args :=
        [''cp /secrets/hotkey /keystore/hotkey && '' @
         ''chmod 0400 /keystore/hotkey && '' @
         ''chown 1000:1000 /keystore/hotkey && '' @
         ''KEY_SIZE=$(wc -c < /keystore/hotkey) && '' @
         ''if [ '' @ [CHR 0x22] @ ''$KEY_SIZE'' @ [CHR 0x22] @ '' -lt 20 ]; then '' @
         ''echo '' @ [CHR 0x22] @ ''ERROR: Hotkey too small (${KEY_SIZE} bytes)'' @ [CHR 0x22] @ '' && exit 1; fi && '' @
         ''echo '' @ [CHR 0x22] @ ''Key injected (${KEY_SIZE} bytes)'' @ [CHR 0x22]],
      con_volumeMounts :=
        [\<lparr>vm_name = ''hotkey-secret'', vm_mountPath = ''/secrets'', vm_readOnly = True\<rparr>,
         \<lparr>vm_name = ''keystore'', vm_mountPath = ''/keystore'', vm_readOnly = False\<rparr>],
      con_securityContext :=
        \<lparr>sc_runAsUser = Some 0, sc_runAsGroup = None, sc_runAsNonRoot = None,
         sc_allowPrivilegeEscalation = Some False, sc_readOnlyRootFilesystem = Some True,
         sc_capDrop = [''ALL''], sc_capAdd = [''CHOWN'', ''DAC_OVERRIDE''], sc_seccomp = None\<rparr>,
      con_resources :=
        \<lparr>rr_requests = Some [''cpu'' \<mapsto> Quantity ''10m'', ''memory'' \<mapsto> Quantity ''16Mi''],
         rr_limits = Some [''cpu'' \<mapsto> Quantity ''50m'', ''memory'' \<mapsto> Quantity ''32Mi'']\<rparr>\<rparr>"

definition buildMainContainer ::
  "string \<Rightarrow> resource_requirements \<Rightarrow> string list \<Rightarrow> bool \<Rightarrow> bool \<Rightarrow> container" where
  "buildMainContainer img resources cliArgs needsExternalSpec hasHotkey =
     (let volumeMounts =
        [\<lparr>vm_name = chainDataVolume, vm_mountPath = ''/data'', vm_readOnly = False\<rparr>] @
        (if needsExternalSpec
         then [\<lparr>vm_name = ''chain-spec'', vm_mountPath = ''/data/chain-spec'', vm_readOnly = True\<rparr>] else []) @
        (if hasHotkey
         then [\<lparr>vm_name = ''keystore'', vm_mountPath = ''/keystore'', vm_readOnly = True\<rparr>] else [])
      in zero_container
         \<lparr>con_name := ''node'',
          con_image := img,
          con_args := cliArgs,
          con_ports :=
            [\<lparr>cp_name = ''rpc'', cp_containerPort = 9944, cp_protocol = ''TCP''\<rparr>,
             \<lparr>cp_name = ''p2p'', cp_containerPort = 30333, cp_protocol = ''TCP''\<rparr>,
             \<lparr>cp_name = ''metrics'', cp_containerPort = 9615, cp_protocol = ''TCP''\<rparr>],
          con_resources := resources,
          con_volumeMounts := volumeMounts,
          con_securityContext :=
            \<lparr>sc_runAsUser = Some subtensorUID, sc_runAsGroup = Some subtensorGID, sc_runAsNonRoot = Some True,
             sc_allowPrivilegeEscalation = Some False, sc_readOnlyRootFilesystem = Some True,
             sc_capDrop = [''ALL''], sc_capAdd = [], sc_seccomp = Some ''RuntimeDefault''\<rparr>,
          con_startupProbe := Some
            \<lparr>pr_handler = TCPSocket (StrVal ''rpc''), pr_initialDelaySeconds = 10, pr_periodSeconds = 10,
             pr_timeoutSeconds = 0, pr_failureThreshold = 180\<rparr>,
          con_livenessProbe := Some
            \<lparr>pr_handler = TCPSocket (StrVal ''p2p''), pr_initialDelaySeconds = 60, pr_periodSeconds = 30,
             pr_timeoutSeconds = 5, pr_failureThreshold = 5\<rparr>,
          con_readinessProbe := Some
            \<lparr>pr_handler = HTTPGet ''/health'' (StrVal ''rpc'') ''HTTP'', pr_initialDelaySeconds = 30,
             pr_periodSeconds = 15, pr_timeoutSeconds = 5, pr_failureThreshold = 3\<rparr>\<rparr>)"

section \<open>Drift and hashing\<close>

record semantic_eq =
  eq_claimSpec :: "volume_claim_spec \<Rightarrow> volume_claim_spec \<Rightarrow> bool"
  eq_selector :: "(string \<rightharpoonup> string) \<Rightarrow> (string \<rightharpoonup> string) \<Rightarrow> bool"
  eq_labels :: "(string \<rightharpoonup> string) \<Rightarrow> (string \<rightharpoonup> string) \<Rightarrow> bool"
  eq_replicas :: "int32 \<Rightarrow> int32 \<Rightarrow> bool"
  eq_updateStrategy :: "string \<Rightarrow> string \<Rightarrow> bool"
  eq_template :: "pod_template \<Rightarrow> pod_template \<Rightarrow> bool"

text \<open>As documented, semantic equality is reflexive.\<close>

definition semantic_laws :: "semantic_eq \<Rightarrow> bool" where
  "semantic_laws E \<longleftrightarrow> (\<forall>x. eq_claimSpec E x x) \<and> (\<forall>x. eq_selector E x x) \<and> (\<forall>x. eq_labels E x x) \<and>
     (\<forall>x. eq_replicas E x x) \<and> (\<forall>x. eq_updateStrategy E x x) \<and> (\<forall>x. eq_template E x x)"

definition vctDriftDetected :: "semantic_eq \<Rightarrow> stateful_set \<Rightarrow> stateful_set \<Rightarrow> bool" where
  "vctDriftDetected E existing desired =
     (if length (sts_volumeClaimTemplates existing) \<noteq> length (sts_volumeClaimTemplates desired) then True
      else list_ex (\<lambda>(a, b). \<not> eq_claimSpec E (vct_spec a) (vct_spec b))
             (zip (sts_volumeClaimTemplates existing) (sts_volumeClaimTemplates desired)))"

definition hashArgs :: "string list \<Rightarrow> string" where
  "hashArgs args = hex_encode (take 8 (sha256 (join [CHR 0x00] (sort args))))"

definition ptrFSGroupChangePolicy :: "string \<Rightarrow> string option" where
  "ptrFSGroupChangePolicy p = Some p"

section \<open>Properties\<close>

lemma char_lower_idem: "char_lower (char_lower c) = char_lower c"
proof -
  let ?n = "of_char c :: nat"
  have "of_char (char_of (?n + 32)) = ?n + 32" if "65 \<le> ?n" "?n \<le> 90"
    using that by (simp add: of_char_of)
  then show ?thesis by (auto simp: char_lower_def Let_def)
qed

lemma to_lower_idem: "to_lower (to_lower s) = to_lower s"
  by (simp add: to_lower_def char_lower_idem)

text \<open>
  The network names are resolved without regard to case and surrounding spaces: every spelling
  of a name that agrees after trimming and lower-casing resolves alike. The answer is either one
  of the four built-in specifications, with no external file, or the path of the mounted file.
\<close>

theorem ResolveChainSpec_normal:
  assumes "to_lower (trim_space a) = to_lower (trim_space b)"
  shows "ResolveChainSpec a = ResolveChainSpec b \<and>
    (ResolveChainSpec a \<in> {(''finney'', False), (''test_finney'', False), (''local'', False), (''dev'', False)} \<or>
     ResolveChainSpec a = (''/data/chain-spec/raw_spec.json'', True))"
proof -
  have "map_of SubtensorChainSpec n = Some b \<Longrightarrow> b \<in> {''finney'', ''test_finney'', ''local'', ''dev''}" for n b
    by (auto simp: SubtensorChainSpec_def split: if_splits)
  then show ?thesis using assms by (auto simp: ResolveChainSpec_def Let_def split: option.splits)
qed

theorem ResolveChainSpec_normal_witness:
  "ResolveChainSpec '' TestNet '' = ResolveChainSpec ''testnet'' \<and> ResolveChainSpec ''testnet'' = (''test_finney'', False)"
proof -
  have "to_lower (trim_space '' TestNet '') = to_lower (trim_space ''testnet'')" by code_simp
  moreover have "ResolveChainSpec ''testnet'' = (''test_finney'', False)" by code_simp
  ultimately show ?thesis using ResolveChainSpec_normal [of "'' TestNet ''" "''testnet''"] by blast
qed

lemma length_sha_round: "length st = 8 \<Longrightarrow> length (sha_round kw st) = 8"
  by (cases "(kw, st)" rule: sha_round.cases) (simp_all add: Let_def)

lemma length_sha_rounds: "length st = 8 \<Longrightarrow> length (fold sha_round kws st) = 8"
  by (induction kws arbitrary: st) (simp_all add: length_sha_round)

lemma length_sha_blocks: "length st = 8 \<Longrightarrow> length (sha_blocks ws st) = 8"
proof (induction ws st rule: sha_blocks.induct)
  case (1 ws st)
  then show ?case by (subst sha_blocks.simps) (simp add: sha_block_def length_sha_rounds)
qed

lemma length_sha256: "length (sha256 s) = 32"
proof -
  have "length (primes_upto 19) = 8" by code_simp
  then have "length sha_H0 = 8" by (simp add: sha_H0_def)
  then have "length (sha_blocks ws sha_H0) = 8" for ws by (rule length_sha_blocks)
  then show ?thesis by (simp add: sha256_def length_concat comp_def sum_list_triv)
qed

definition lower_hex :: "char set" where
  "lower_hex = set ''0123456789abcdef''"

lemma hex_digit_lower: "0 \<le> d \<Longrightarrow> d < 16 \<Longrightarrow> hex_digit d \<in> lower_hex"
proof -
  assume "0 \<le> d" "d < 16"
  then have "d \<in> set [0..15]" by simp
  moreover have "list_all (\<lambda>d. hex_digit d \<in> lower_hex) [0..15]" unfolding lower_hex_def by code_simp
  ultimately show ?thesis by (simp only: list_all_iff)
qed

lemma hex_encode_lower: "set (hex_encode s) \<subseteq> lower_hex"
proof -
  have "hex_digit ((of_char c :: int) div 16) \<in> lower_hex"
    "hex_digit ((of_char c :: int) mod 16) \<in> lower_hex" for c
  proof -
    have "0 \<le> (of_char c :: int)" "(of_char c :: int) < 256"
      using of_char_mod_256 [of c, where 'a = int] pos_mod_bound [of 256 "of_char c :: int"]
        pos_mod_sign [of 256 "of_char c :: int"] by simp_all
    then have "0 \<le> (of_char c :: int) div 16" "(of_char c :: int) div 16 < 16" by simp_all
    then show "hex_digit ((of_char c :: int) div 16) \<in> lower_hex" by (rule hex_digit_lower)
    show "hex_digit ((of_char c :: int) mod 16) \<in> lower_hex" by (rule hex_digit_lower) simp_all
  qed
  then show ?thesis unfolding hex_encode_def by auto
qed

text \<open>
  The hash of the arguments does not depend on their order and always has 16 characters, all
  lower-case hexadecimal digits.
\<close>

theorem hashArgs_order:
  assumes "mset args = mset args'"
  shows "hashArgs args = hashArgs args' \<and> length (hashArgs args) = 16 \<and>
    set (hashArgs args) \<subseteq> lower_hex"
proof -
  have "sort args = sort args'" using assms by (intro properties_for_sort) simp_all
  then show ?thesis
    using hex_encode_lower by (simp add: hashArgs_def length_sha256)
qed

theorem hashArgs_order_witness:
  "hashArgs [''--a'', ''--b''] = hashArgs [''--b'', ''--a'']"
  using hashArgs_order [of "[''--a'', ''--b'']" "[''--b'', ''--a'']"] by simp

end
