(* ===== verification/Workload_Manager.thy ===== *)
theory Workload_Manager
  imports Pod_Builder
begin

text \<open>
  The owned workload objects, \<open>internal/controller/workload_manager.go\<close>: service account, headless
  service, service monitor, and the stateful set with its pod template, created, updated in place
  or replaced.
\<close>

section \<open>Accounts, services, monitors\<close>

definition own_by :: "'w kclient \<Rightarrow> TaoNode \<Rightarrow> owned_meta \<Rightarrow> kerr + owned_meta" where
  "own_by K tn m =
     (case k_setControllerReference K tn (om_owners m) of
        Inl e \<Rightarrow> Inl e
      | Inr owners \<Rightarrow> Inr (m\<lparr>om_owners := owners\<rparr>))"

definition ensureServiceAccount ::
  "'w operator_env \<Rightarrow> TaoNode \<Rightarrow> ('w, 'a) kstate_scheme \<Rightarrow> ('w, 'a) kstate_scheme \<times> kerr option" where
  "ensureServiceAccount env tn s =
     (let sa = \<lparr>sa_meta = new_meta (tn_name tn @ ''-sa'') (tn_namespace tn) (labelsForNode tn)\<rparr>
      in call (\<lambda>w. k_createOrUpdateSA (env_client env) w sa
           (\<lambda>sa. map_sum id (\<lambda>m. sa\<lparr>sa_meta := m\<rparr>) (own_by (env_client env) tn (sa_meta sa)))) s)"

definition ensureHeadlessService ::
  "'w operator_env \<Rightarrow> TaoNode \<Rightarrow> ('w, 'a) kstate_scheme \<Rightarrow> ('w, 'a) kstate_scheme \<times> kerr option" where
  "ensureHeadlessService env tn s =
     (let svc = \<lparr>svc_meta = new_meta (tn_name tn @ ''-headless'') (tn_namespace tn) (labelsForNode tn),
                svc_clusterIP = '''', svc_selector = Map.empty, svc_ports = [], svc_publishNotReadyAddresses = False\<rparr>
      in call (\<lambda>w. k_createOrUpdateService (env_client env) w svc
           (\<lambda>svc. map_sum id
              (\<lambda>m. svc\<lparr>svc_clusterIP := ''None'', svc_selector := labelsForNode tn,
                     svc_ports :=
                       [\<lparr>svp_name = ''p2p'', svp_port = 30333, svp_protocol = ''TCP''\<rparr>,
                        \<lparr>svp_name = ''rpc'', svp_port = 9944, svp_protocol = ''TCP''\<rparr>,
                        \<lparr>svp_name = ''metrics'', svp_port = 9615, svp_protocol = ''TCP''\<rparr>],
                     svc_publishNotReadyAddresses := True, svc_meta := m\<rparr>)
              (own_by (env_client env) tn (svc_meta svc)))) s)"

definition convertLabels :: "(string \<rightharpoonup> string) \<Rightarrow> (string \<rightharpoonup> string)" where
  "convertLabels labels = (\<lambda>k. labels k)"

definition monitoring_on :: "TaoNode \<Rightarrow> bool" where
  "monitoring_on tn \<longleftrightarrow> (case spec_monitoring (tn_spec tn) of None \<Rightarrow> False | Some m \<Rightarrow> mon_enabled m)"

definition ensureServiceMonitor ::
  "'w operator_env \<Rightarrow> TaoNode \<Rightarrow> ('w, 'a) kstate_scheme \<Rightarrow> ('w, 'a) kstate_scheme \<times> kerr option" where
  "ensureServiceMonitor env tn s =
     (if \<not> monitoring_on tn then (s, None)
      else
        let sm = \<lparr>sm_meta = new_meta (tn_name tn) (tn_namespace tn) Map.empty, sm_matchLabels = Map.empty, sm_endpoints = []\<rparr>
        in (case call (\<lambda>w. k_createOrUpdateMonitor (env_client env) w sm
                (\<lambda>sm. map_sum id
                   (\<lambda>m. sm\<lparr>sm_meta := m, sm_matchLabels := convertLabels (labelsForNode tn),
                          sm_endpoints := [\<lparr>me_port = ''metrics'', me_interval = ''30s'', me_path = ''/metrics''\<rparr>]\<rparr>)
                   (own_by (env_client env) tn ((sm_meta sm)\<lparr>om_labels := labelsForNode tn\<rparr>)))) s of
              (s1, err) \<Rightarrow> (s1, wrap_err ''create or update ServiceMonitor'' err)))"

section \<open>The pod\<close>

definition chainProbePort :: int32 where "chainProbePort = 9616"

definition requiresHotkeyMaterial :: "TaoNode \<Rightarrow> bool" where
  "requiresHotkeyMaterial tn =
     (case tn_role tn of
        RoleValidator \<Rightarrow> (case spec_validator (tn_spec tn) of None \<Rightarrow> False | Some v \<Rightarrow> val_hotKeySecret v \<noteq> '''')
      | RoleMiner \<Rightarrow> (case spec_validator (tn_spec tn) of None \<Rightarrow> False | Some v \<Rightarrow> val_hotKeySecret v \<noteq> '''')
      | _ \<Rightarrow> False)"

definition buildInitContainers :: "TaoNode \<Rightarrow> string \<Rightarrow> container list" where
  "buildInitContainers tn img =
     [buildInitContainer img] @ (if requiresHotkeyMaterial tn then [buildKeyInjectorInitContainer] else [])"

definition sidecar_security :: security_context where
  "sidecar_security =
     \<lparr>sc_runAsUser = None, sc_runAsGroup = None, sc_runAsNonRoot = None,
      sc_allowPrivilegeEscalation = Some False, sc_readOnlyRootFilesystem = Some True,
      sc_capDrop = [''ALL''], sc_capAdd = [], sc_seccomp = None\<rparr>"

definition buildMetricsSidecar :: "TaoNode \<Rightarrow> container" where
  "buildMetricsSidecar tn =
     (let port = (case spec_monitoring (tn_spec tn) of None \<Rightarrow> 9615 | Some m \<Rightarrow> mon_port m)
      in zero_container
         \<lparr>con_name := ''metrics'',
          con_image := ''prom/node-exporter:v1.8.1'',
          con_ports := [\<lparr>cp_name = ''metrics'', cp_containerPort = port, cp_protocol = ''TCP''\<rparr>],
          con_args :=
            [''--web.listen-address=:'' @ fmt_d port,
             ''--collector.disable-defaults'',
             ''--collector.textfile'',
             ''--collector.textfile.directory=/var/lib/node-exporter''],
          con_resources :=
            \<lparr>rr_requests = Some [''cpu'' \<mapsto> Quantity ''25m'', ''memory'' \<mapsto> Quantity ''32Mi''],
             rr_limits = Some [''cpu'' \<mapsto> Quantity ''50m'', ''memory'' \<mapsto> Quantity ''64Mi'']\<rparr>,
          con_securityContext := sidecar_security\<rparr>)"

definition chainProbeSidecar :: container where
  "chainProbeSidecar =
     zero_container
     \<lparr>con_name := ''chain-probe'',
      con_image := ''ghcr.io/claudiobotelhosb/taonode-guardian-probe:latest'',
      con_ports := [\<lparr>cp_name = ''probe'', cp_containerPort = chainProbePort, cp_protocol = ''TCP''\<rparr>],
      con_env := [(''NODE_RPC_URL'', ''http://localhost:9944''), (''PROBE_PORT'', fmt_d chainProbePort)],
      con_resources :=
        \<lparr>rr_requests = Some [''cpu'' \<mapsto> Quantity ''50m'', ''memory'' \<mapsto> Quantity ''64Mi''],
         rr_limits = Some [''cpu'' \<mapsto> Quantity ''100m'', ''memory'' \<mapsto> Quantity ''128Mi'']\<rparr>,
      con_securityContext := sidecar_security,
      con_readinessProbe := Some
        \<lparr>pr_handler = HTTPGet ''/readyz'' (IntVal chainProbePort) '''', pr_initialDelaySeconds = 5,
         pr_periodSeconds = 10, pr_timeoutSeconds = 0, pr_failureThreshold = 0\<rparr>\<rparr>"

definition buildContainers ::
  "TaoNode \<Rightarrow> string \<Rightarrow> resource_requirements \<Rightarrow> string list \<Rightarrow> bool \<Rightarrow> container list" where
  "buildContainers tn img resources cliArgs needsExternalSpec =
     [buildMainContainer img resources cliArgs needsExternalSpec (requiresHotkeyMaterial tn), chainProbeSidecar] @
     (if monitoring_on tn then [buildMetricsSidecar tn] else [])"

definition hotkey_secret_name :: "TaoNode \<Rightarrow> string" where
  "hotkey_secret_name tn = (case spec_validator (tn_spec tn) of None \<Rightarrow> '''' | Some v \<Rightarrow> val_hotKeySecret v)"

text \<open>File mode 0400 is 256 in decimal.\<close>

definition buildVolumes :: "TaoNode \<Rightarrow> bool \<Rightarrow> volume list" where
  "buildVolumes tn needsExternalSpec =
     [\<lparr>vol_name = ''probe-tmp'', vol_source = EmptyDirDefault\<rparr>] @
     (if needsExternalSpec
      then [\<lparr>vol_name = ''chain-spec'', vol_source = ConfigMapSource (tn_name tn @ ''-chainspec'')\<rparr>] else []) @
     (if requiresHotkeyMaterial tn
      then [\<lparr>vol_name = ''hotkey-secret'',
             vol_source = SecretSource (hotkey_secret_name tn) 256 [(''hotkey'', ''hotkey'', 256)]\<rparr>,
            \<lparr>vol_name = ''keystore'', vol_source = EmptyDirMemory (Quantity ''1Mi'')\<rparr>]
      else [])"

definition node_args :: "TaoNode \<Rightarrow> string list" where
  "node_args tn =
     Build \<lparr>sa_chainSpec = fst (ResolveChainSpec (tn_network tn)), sa_role = role_string (tn_role tn),
            sa_rpcPort = 9944, sa_p2pPort = 30333, sa_prometheusPort = 9615, sa_nodeName = tn_name tn,
            sa_keystorePath = (if requiresHotkeyMaterial tn then ''/keystore'' else ''''), sa_extraArgs = []\<rparr>"

definition node_annotations :: "TaoNode \<Rightarrow> string \<rightharpoonup> string" where
  "node_annotations tn =
     (let annotations = (annotationsForNode tn)(''tao.guardian.io/args-hash'' \<mapsto> hashArgs (node_args tn))
      in if requiresHotkeyMaterial tn \<and> st_hotkeyHash (tn_status tn) \<noteq> ''''
         then annotations(''tao.guardian.io/hotkey-hash'' \<mapsto> st_hotkeyHash (tn_status tn))
         else annotations)"

definition node_pod_spec :: "'w operator_env \<Rightarrow> TaoNode \<Rightarrow> pod_spec" where
  "node_pod_spec env tn =
     (let img = imageForNode (env_defaultImage env) tn;
          needsExternalSpec = snd (ResolveChainSpec (tn_network tn));
          nodeResources =
            (case spec_gpu (tn_spec tn) of
               None \<Rightarrow> spec_resources (tn_spec tn)
             | Some gpu \<Rightarrow> mergeResourceRequirements (spec_resources (tn_spec tn))
                            (buildGPUResourceRequirements (env_quantities env) (Some gpu)));
          affinity = buildGPUNodeAffinity (spec_gpu (tn_spec tn));
          tolerations = spec_tolerations (tn_spec tn) @ buildGPUTolerations (spec_gpu (tn_spec tn))
      in \<lparr>ps_securityContext = \<lparr>psc_runAsNonRoot = True, psc_runAsUser = subtensorUID, psc_fsGroup = subtensorGID,
            psc_fsGroupChangePolicy = ''OnRootMismatch'', psc_seccomp = ''RuntimeDefault''\<rparr>,
          ps_serviceAccountName = tn_name tn @ ''-sa'',
          ps_automountServiceAccountToken = False,
          ps_terminationGracePeriodSeconds = 120,
          ps_initContainers = buildInitContainers tn img,
          ps_containers = buildContainers tn img nodeResources (node_args tn) needsExternalSpec,
          ps_volumes = buildVolumes tn needsExternalSpec,
          ps_tolerations = tolerations,
          ps_nodeSelector = spec_nodeSelector (tn_spec tn),
          ps_affinity = affinity\<rparr>)"

definition desiredStatefulSetForNode :: "'w operator_env \<Rightarrow> TaoNode \<Rightarrow> kerr + stateful_set" where
  "desiredStatefulSetForNode env tn =
     (let labels = labelsForNode tn;
          sts =
            \<lparr>sts_meta = new_meta (tn_name tn) (tn_namespace tn) labels,
             sts_replicas = 1,
             sts_serviceName = tn_name tn @ ''-headless'',
             sts_selector = labels,
             sts_updateStrategy = (if tn_role tn = RoleValidator then ''OnDelete'' else ''RollingUpdate''),
             sts_volumeClaimTemplates =
               [\<lparr>vct_name = chainDataVolume, vct_labels = labels,
                 vct_spec = \<lparr>vcs_accessModes = [''ReadWriteOnce''],
                   vcs_storageClassName = Some (cs_storageClass (spec_chainStorage (tn_spec tn))),
                   vcs_requests = Some [''storage'' \<mapsto> cs_size (spec_chainStorage (tn_spec tn))],
                   vcs_volumeMode = None\<rparr>\<rparr>],
             sts_template = \<lparr>pt_labels = labels, pt_annotations = node_annotations tn, pt_spec = node_pod_spec env tn\<rparr>\<rparr>
      in map_sum id (\<lambda>m. sts\<lparr>sts_meta := m\<rparr>) (own_by (env_client env) tn (sts_meta sts)))"

section \<open>Reconciling the stateful set\<close>

definition statefulSetStructuralChanges :: "semantic_eq \<Rightarrow> stateful_set \<Rightarrow> stateful_set \<Rightarrow> bool" where
  "statefulSetStructuralChanges E current desired \<longleftrightarrow>
     sts_serviceName current \<noteq> sts_serviceName desired \<or>
     \<not> eq_selector E (sts_selector current) (sts_selector desired)"

definition statefulSetNeedsMutableUpdate :: "semantic_eq \<Rightarrow> stateful_set \<Rightarrow> stateful_set \<Rightarrow> bool" where
  "statefulSetNeedsMutableUpdate E current desired \<longleftrightarrow>
     \<not> eq_labels E (om_labels (sts_meta current)) (om_labels (sts_meta desired)) \<or>
     \<not> eq_replicas E (sts_replicas current) (sts_replicas desired) \<or>
     \<not> eq_updateStrategy E (sts_updateStrategy current) (sts_updateStrategy desired) \<or>
     \<not> eq_template E (sts_template current) (sts_template desired)"

definition copyMutableStatefulSetFields :: "stateful_set \<Rightarrow> stateful_set \<Rightarrow> stateful_set" where
  "copyMutableStatefulSetFields dst src =
     dst\<lparr>sts_meta := (sts_meta dst)\<lparr>om_labels := om_labels (sts_meta src)\<rparr>,
         sts_replicas := sts_replicas src,
         sts_updateStrategy := sts_updateStrategy src,
         sts_template := sts_template src\<rparr>"

definition update_in_place ::
  "'w operator_env \<Rightarrow> semantic_eq \<Rightarrow> stateful_set \<Rightarrow> 'w \<Rightarrow> 'w \<times> kerr option" where
  "update_in_place env E desired w =
     (case k_getStatefulSet (env_client env) w (om_namespace (sts_meta desired)) (om_name (sts_meta desired)) of
        (w1, Inl e) \<Rightarrow> (w1, Some e)
      | (w1, Inr latest) \<Rightarrow>
          if \<not> statefulSetNeedsMutableUpdate E latest desired then (w1, None)
          else k_updateStatefulSet (env_client env) w1 (copyMutableStatefulSetFields latest desired))"

definition ensureNodeWorkload ::
  "'w operator_env \<Rightarrow> semantic_eq \<Rightarrow> TaoNode \<Rightarrow> ('w, 'a) kstate_scheme \<Rightarrow> ('w, 'a) kstate_scheme \<times> kerr option" where
  "ensureNodeWorkload env E tn s =
     (case desiredStatefulSetForNode env tn of
        Inl e \<Rightarrow> (s, Some (Wrapped ''build desired StatefulSet'' e))
      | Inr desired \<Rightarrow>
          let K = env_client env; ns = om_namespace (sts_meta desired); name = om_name (sts_meta desired)
          in (case call (\<lambda>w. k_getStatefulSet K w ns name) s of
                (s1, Inl e) \<Rightarrow>
                  if IsNotFound e then call (\<lambda>w. k_createStatefulSet K w desired) s1 else (s1, Some e)
              | (s1, Inr current) \<Rightarrow>
                  if vctDriftDetected E current desired \<or> statefulSetStructuralChanges E current desired then
                    let (s2, delErr) =
                          (if om_deletionTimestamp (sts_meta current) = None
                           then call (\<lambda>w. k_deleteStatefulSetOrphan K w current) s1 else (s1, None));
                        fatal = (case delErr of None \<Rightarrow> None | Some e \<Rightarrow> IgnoreNotFound e)
                    in (case fatal of
                          Some e \<Rightarrow> (s2, Some (Wrapped (''orphan-delete StatefulSet '' @ om_name (sts_meta current)) e))
                        | None \<Rightarrow>
                            call (\<lambda>w. k_createStatefulSet K w
                              (desired\<lparr>sts_meta := (sts_meta desired)\<lparr>om_resourceVersion := ''''\<rparr>\<rparr>)) s2)
                  else call (k_retryOnConflict K (update_in_place env E desired)) s1))"

section \<open>Properties of the pod\<close>

definition mounts :: "container \<Rightarrow> string list" where
  "mounts c = map vm_name (con_volumeMounts c)"

lemmas container_defs = buildInitContainer_def buildKeyInjectorInitContainer_def buildMainContainer_def
  chainProbeSidecar_def buildMetricsSidecar_def zero_container_def chainDataVolume_def

lemmas pod_defs = node_pod_spec_def buildInitContainers_def buildContainers_def buildVolumes_def Let_def

lemma keystore_arg:
  "''--keystore-path=/keystore'' \<in> set (node_args tn) \<longleftrightarrow> requiresHotkeyMaterial tn"
  by (auto simp: node_args_def Build_def)

text \<open>
  C20. Isolation of the key material. For every resource: no running container mounts the hotkey
  secret, and of the init containers only the key injector does, read-only; the secret volume and
  the memory-backed keystore exist exactly when the role needs keys and a secret is named; the
  running containers mount the keystore read-only; and the node is pointed at the keystore exactly
  then.
\<close>

theorem workload_key_isolation:
  "let p = node_pod_spec env tn in
   list_all (\<lambda>c. ''hotkey-secret'' \<notin> set (mounts c)) (ps_containers p) \<and>
   list_all (\<lambda>c. ''hotkey-secret'' \<in> set (mounts c) \<longrightarrow> con_name c = ''key-injector'' \<and>
      list_all (\<lambda>m. vm_name m = ''hotkey-secret'' \<longrightarrow> vm_readOnly m) (con_volumeMounts c)) (ps_initContainers p) \<and>
   list_all (\<lambda>c. list_all (\<lambda>m. vm_name m = ''keystore'' \<longrightarrow> vm_readOnly m) (con_volumeMounts c)) (ps_containers p) \<and>
   list_ex (\<lambda>v. case vol_source v of SecretSource _ _ _ \<Rightarrow> True | _ \<Rightarrow> False) (ps_volumes p) = requiresHotkeyMaterial tn \<and>
   list_all (\<lambda>v. vol_name v = ''keystore'' \<longrightarrow> vol_source v = EmptyDirMemory (Quantity ''1Mi'')) (ps_volumes p) \<and>
   (\<forall>c\<in>set (ps_containers p). con_name c = ''node'' \<longrightarrow>
      (''--keystore-path=/keystore'' \<in> set (con_args c)) = requiresHotkeyMaterial tn)"
  by (cases "requiresHotkeyMaterial tn"; cases "snd (ResolveChainSpec (tn_network tn))"; cases "monitoring_on tn")
    (simp_all add: pod_defs container_defs mounts_def keystore_arg)

theorem workload_key_isolation_witness:
  "list_all (\<lambda>c. ''hotkey-secret'' \<notin> set (mounts c)) (ps_containers (node_pod_spec mem_env sample_node)) \<and>
   list_ex (\<lambda>v. case vol_source v of SecretSource _ _ _ \<Rightarrow> True | _ \<Rightarrow> False)
     (ps_volumes (node_pod_spec mem_env sample_node))"
proof -
  have "requiresHotkeyMaterial sample_node" by code_simp
  then show ?thesis using workload_key_isolation [of mem_env sample_node] unfolding Let_def by blast
qed

text \<open>
  C21. Least privilege. Every container of the pod drops all capabilities, forbids privilege
  escalation and has a read-only root file system; the running containers add no capability and
  the init containers at most \<open>CHOWN\<close> and \<open>DAC_OVERRIDE\<close>; the node runs as user 1000, never as
  root; no service account token is mounted.
\<close>

theorem workload_least_privilege:
  "let p = node_pod_spec env tn; sc = con_securityContext in
   list_all (\<lambda>c. sc_capDrop (sc c) = [''ALL''] \<and> sc_allowPrivilegeEscalation (sc c) = Some False \<and>
      sc_readOnlyRootFilesystem (sc c) = Some True) (ps_initContainers p @ ps_containers p) \<and>
   list_all (\<lambda>c. sc_capAdd (sc c) = []) (ps_containers p) \<and>
   list_all (\<lambda>c. set (sc_capAdd (sc c)) \<subseteq> {''CHOWN'', ''DAC_OVERRIDE''}) (ps_initContainers p) \<and>
   list_all (\<lambda>c. (case sc_runAsUser (sc c) of Some u \<Rightarrow> u | None \<Rightarrow> psc_runAsUser (ps_securityContext p)) = 1000 \<and>
      (case sc_runAsNonRoot (sc c) of Some b \<Rightarrow> b | None \<Rightarrow> psc_runAsNonRoot (ps_securityContext p))) (ps_containers p) \<and>
   \<not> ps_automountServiceAccountToken p"
  by (cases "requiresHotkeyMaterial tn"; cases "monitoring_on tn")
    (simp_all add: pod_defs container_defs sidecar_security_def subtensorUID_def)

lemma map_sum_Inr: "map_sum id f x = Inr y \<longleftrightarrow> (\<exists>z. x = Inr z \<and> y = f z)"
  by (cases x) auto

lemma desired_iff:
  "desiredStatefulSetForNode env tn = Inr d \<longleftrightarrow>
   (\<exists>m. own_by (env_client env) tn (new_meta (tn_name tn) (tn_namespace tn) (labelsForNode tn)) = Inr m \<and>
     d = \<lparr>sts_meta = m, sts_replicas = 1, sts_serviceName = tn_name tn @ ''-headless'', sts_selector = labelsForNode tn,
       sts_updateStrategy = (if tn_role tn = RoleValidator then ''OnDelete'' else ''RollingUpdate''),
       sts_volumeClaimTemplates =
         [\<lparr>vct_name = chainDataVolume, vct_labels = labelsForNode tn,
           vct_spec = \<lparr>vcs_accessModes = [''ReadWriteOnce''],
             vcs_storageClassName = Some (cs_storageClass (spec_chainStorage (tn_spec tn))),
             vcs_requests = Some [''storage'' \<mapsto> cs_size (spec_chainStorage (tn_spec tn))],
                   vcs_volumeMode = None\<rparr>\<rparr>],
       sts_template = \<lparr>pt_labels = labelsForNode tn, pt_annotations = node_annotations tn, pt_spec = node_pod_spec env tn\<rparr>\<rparr>)"
  by (auto simp: desiredStatefulSetForNode_def Let_def map_sum_Inr)

text \<open>
  C22. The pod is closed: every mount of every container names a volume of the pod or the claim
  template of the stateful set, and the volume names are distinct.
\<close>

theorem workload_mounts_resolved:
  assumes "desiredStatefulSetForNode env tn = Inr sts"
  shows "let p = pt_spec (sts_template sts);
       names = map vol_name (ps_volumes p) @ map vct_name (sts_volumeClaimTemplates sts)
     in distinct names \<and> list_all (\<lambda>c. set (mounts c) \<subseteq> set names) (ps_initContainers p @ ps_containers p)"
proof -
  have sts: "sts_template sts = \<lparr>pt_labels = labelsForNode tn, pt_annotations = node_annotations tn, pt_spec = node_pod_spec env tn\<rparr>"
    "map vct_name (sts_volumeClaimTemplates sts) = [chainDataVolume]"
    using assms by (auto simp: desired_iff)
  show ?thesis
    unfolding sts Let_def
    by (cases "requiresHotkeyMaterial tn"; cases "snd (ResolveChainSpec (tn_network tn))"; cases "monitoring_on tn")
      (simp_all add: pod_defs container_defs mounts_def)
qed

text \<open>
  No argument of the node is one of the flags newer node binaries reject (\<open>--ws-port\<close>,
  \<open>--ws-external\<close>, \<open>--rpc-cors\<close>), whatever the network, role and name of the resource.
\<close>

theorem workload_no_removed_flags:
  "list_all (\<lambda>a. \<not> has_prefix a ''--ws-port'' \<and> \<not> has_prefix a ''--ws-external'' \<and> \<not> has_prefix a ''--rpc-cors'') (node_args tn)"
  by (simp add: node_args_def Build_def has_prefix_def)

theorem workload_mounts_resolved_witness:
  "\<exists>sts. desiredStatefulSetForNode mem_env sample_node = Inr sts \<and>
     distinct (map vol_name (ps_volumes (pt_spec (sts_template sts))) @ map vct_name (sts_volumeClaimTemplates sts))"
proof -
  have "\<exists>m. own_by (env_client mem_env) sample_node
      (new_meta (tn_name sample_node) (tn_namespace sample_node) (labelsForNode sample_node)) = Inr m"
    by (simp add: own_by_def mem_env_def mem_client_def mem_setControllerReference_def new_meta_def)
  then obtain sts where sts: "desiredStatefulSetForNode mem_env sample_node = Inr sts" by (auto simp: desired_iff)
  with workload_mounts_resolved [OF sts] show ?thesis unfolding Let_def by blast
qed

section \<open>The stateful set on an API server\<close>

text \<open>
  What the API server documents of volume claim templates: a stored template always has a volume mode,
  \<open>Filesystem\<close> when it was created without one. Every set that is read back shows it. And what
  \<open>equality.Semantic.DeepEqual\<close> documents of the volume mode, a pointer to a string: it is compared like
  every other field, so a set mode differs from an unset one.
\<close>

definition sts_key :: "stateful_set \<Rightarrow> string \<times> string" where
  "sts_key x = meta_key (sts_meta x)"

definition modes_set :: "stateful_set \<Rightarrow> bool" where
  "modes_set x \<longleftrightarrow> list_all (\<lambda>t. vcs_volumeMode (vct_spec t) \<noteq> None) (sts_volumeClaimTemplates x)"

definition server_defaults :: "'w kclient \<Rightarrow> bool" where
  "server_defaults K \<longleftrightarrow> (\<forall>w ns n x. snd (k_getStatefulSet K w ns n) = Inr x \<longrightarrow> modes_set x)"

definition compares_mode :: "semantic_eq \<Rightarrow> bool" where
  "compares_mode E \<longleftrightarrow> (\<forall>x y. eq_claimSpec E x y \<longrightarrow> vcs_volumeMode x = vcs_volumeMode y)"

text \<open>The server records every write of a stateful set with its answer; a read records nothing.\<close>

definition records_sets :: "'w kclient \<Rightarrow> ('w \<Rightarrow> set_event list) \<Rightarrow> bool" where
  "records_sets K tr \<longleftrightarrow>
     (\<forall>w ns n. tr (fst (k_getStatefulSet K w ns n)) = tr w) \<and>
     (\<forall>w x. tr (fst (k_createStatefulSet K w x)) = tr w @ [SetCreated x (snd (k_createStatefulSet K w x))]) \<and>
     (\<forall>w x. tr (fst (k_deleteStatefulSetOrphan K w x)) = tr w @ [SetOrphaned x (snd (k_deleteStatefulSetOrphan K w x))])"

lemma desired_meta:
  assumes "desiredStatefulSetForNode env tn = Inr d"
  shows "om_namespace (sts_meta d) = tn_namespace tn" "om_name (sts_meta d) = tn_name tn"
    "om_resourceVersion (sts_meta d) = ''''"
  using assms by (auto simp: desired_iff own_by_def new_meta_def split: sum.splits)

text \<open>A template the operator builds has no volume mode, so a stored set is always taken to have drifted.\<close>

lemma stored_set_drifts:
  assumes "desiredStatefulSetForNode env tn = Inr d" and "modes_set c" and "compares_mode E"
  shows "vctDriftDetected E c d"
proof (cases "sts_volumeClaimTemplates c")
  case (Cons t ts)
  then show ?thesis using assms by (cases ts) (auto simp: desired_iff vctDriftDetected_def modes_set_def compares_mode_def)
qed (use assms(1) in \<open>auto simp: desired_iff vctDriftDetected_def\<close>)

text \<open>
  The runs of the workload step that are possible, with what the step sends, the answers and its result:
  the read failed; no live set was found and one was created; the live set \<open>c\<close> could not be orphaned; it was
  orphaned (or had gone) and a set was created.
\<close>

inductive replace_protocol ::
  "kerr + stateful_set \<Rightarrow> stateful_set \<Rightarrow> set_event list \<Rightarrow> kerr option \<Rightarrow> bool" for found d where
  read_failed: "found = Inl e \<Longrightarrow> \<not> IsNotFound e \<Longrightarrow> replace_protocol found d [] (Some e)"
| created: "found = Inl e \<Longrightarrow> IsNotFound e \<Longrightarrow> replace_protocol found d [SetCreated d r] r"
| dying: "found = Inr c \<Longrightarrow> om_deletionTimestamp (sts_meta c) \<noteq> None \<Longrightarrow> replace_protocol found d [SetCreated d r] r"
| not_orphaned: "found = Inr c \<Longrightarrow> om_deletionTimestamp (sts_meta c) = None \<Longrightarrow> \<not> IsNotFound e \<Longrightarrow>
    replace_protocol found d [SetOrphaned c (Some e)] (Some (Wrapped (''orphan-delete StatefulSet '' @ om_name (sts_meta c)) e))"
| replaced: "found = Inr c \<Longrightarrow> om_deletionTimestamp (sts_meta c) = None \<Longrightarrow> (case o' of None \<Rightarrow> True | Some e \<Rightarrow> IsNotFound e) \<Longrightarrow>
    replace_protocol found d [SetOrphaned c o', SetCreated d r] r"

inductive_cases replace_protocol_elim: "replace_protocol found d es r"

text \<open>
  C19. On a real API server every reconcile replaces the workload. The server gives each stored claim
  template a volume mode, the operator builds its template without one and compares the two exactly, so
  the immutable templates always count as drifted. Whatever the cluster answers, a run of the step that
  finds a live stateful set deletes it, orphaning its pods, and creates it anew; no run ever updates a set
  in place, and every run that reports success has created a set. The step reports the first failure.
\<close>

theorem workload_always_replaced:
  assumes "server_defaults (env_client env)" and "compares_mode E" and "records_sets (env_client env) tr"
    and d: "desiredStatefulSetForNode env tn = Inr d"
    and run: "ensureNodeWorkload env E tn s = (s', err)"
  shows "\<exists>es. tr (ks_world s') = tr (ks_world s) @ es \<and>
    replace_protocol (snd (k_getStatefulSet (env_client env) (ks_world s) (tn_namespace tn) (tn_name tn))) d es err \<and>
    (err = None \<longrightarrow> SetCreated d None \<in> set es)"
proof -
  let ?K = "env_client env"
  note m = desired_meta [OF d]
  have same: "d\<lparr>sts_meta := (sts_meta d)\<lparr>om_resourceVersion := ''''\<rparr>\<rparr> = d"
  proof -
    have "(sts_meta d)\<lparr>om_resourceVersion := ''''\<rparr> = sts_meta d" by (rule owned_meta.equality) (simp_all add: m(3))
    then show ?thesis by simp
  qed
  obtain w1 found where get: "k_getStatefulSet ?K (ks_world s) (tn_namespace tn) (tn_name tn) = (w1, found)" by fastforce
  have w1: "tr w1 = tr (ks_world s)" using assms(3) get unfolding records_sets_def by (metis fst_conv)
  have create: "tr (fst (k_createStatefulSet ?K w d)) = tr w @ [SetCreated d (snd (k_createStatefulSet ?K w d))]" for w
    using assms(3) by (simp add: records_sets_def)
  have orphan: "tr (fst (k_deleteStatefulSetOrphan ?K w c)) = tr w @ [SetOrphaned c (snd (k_deleteStatefulSetOrphan ?K w c))]" for w c
    using assms(3) by (simp add: records_sets_def)
  show ?thesis
  proof (cases found)
    case (Inl e)
    then have r: "(s', err) = (if IsNotFound e then (s\<lparr>ks_world := fst (k_createStatefulSet ?K w1 d)\<rparr>, snd (k_createStatefulSet ?K w1 d))
        else (s\<lparr>ks_world := w1\<rparr>, Some e))"
      using run get by (auto simp: ensureNodeWorkload_def d m call_def Let_def split: if_splits prod.splits)
    show ?thesis
    proof (cases "IsNotFound e")
      case True
      then show ?thesis using r Inl get w1 create by (intro exI [of _ "[SetCreated d err]"]) (auto intro: created)
    next
      case False
      then show ?thesis using r Inl get w1 by (intro exI [of _ "[]"]) (auto intro: read_failed)
    qed
  next
    case (Inr c)
    have "modes_set c" using assms(1) get Inr unfolding server_defaults_def by (metis snd_conv)
    then have drift: "vctDriftDetected E c d" using stored_set_drifts [OF d] assms(2) by simp
    show ?thesis
    proof (cases "om_deletionTimestamp (sts_meta c)")
      case (Some t)
      then have "(s', err) = (s\<lparr>ks_world := fst (k_createStatefulSet ?K w1 d)\<rparr>, snd (k_createStatefulSet ?K w1 d))"
        using run get Inr drift by (auto simp: ensureNodeWorkload_def d m call_def Let_def same split: prod.splits)
      then show ?thesis using Inr get w1 create Some by (intro exI [of _ "[SetCreated d err]"]) (auto intro: dying)
    next
      case None
      obtain w2 o' where del: "k_deleteStatefulSetOrphan ?K w1 c = (w2, o')" by fastforce
      have w2: "tr w2 = tr (ks_world s) @ [SetOrphaned c o']" using orphan [of w1 c] del w1 by simp
      have r: "(s', err) = (case (case o' of None \<Rightarrow> None | Some e \<Rightarrow> IgnoreNotFound e) of
          Some e \<Rightarrow> (s\<lparr>ks_world := w2\<rparr>, Some (Wrapped (''orphan-delete StatefulSet '' @ om_name (sts_meta c)) e))
        | None \<Rightarrow> (s\<lparr>ks_world := fst (k_createStatefulSet ?K w2 d)\<rparr>, snd (k_createStatefulSet ?K w2 d)))"
        using run get Inr drift None del
        by (auto simp: ensureNodeWorkload_def d m call_def Let_def same split: option.splits prod.splits)
      show ?thesis
      proof (cases "case o' of None \<Rightarrow> True | Some e \<Rightarrow> IsNotFound e")
        case True
        then show ?thesis using r Inr get w2 create None
          by (intro exI [of _ "[SetOrphaned c o', SetCreated d err]"])
            (auto simp: IgnoreNotFound_def split: option.splits intro: replaced)
      next
        case False
        then obtain e where e: "o' = Some e" "\<not> IsNotFound e" by (cases o') auto
        have "replace_protocol (Inr c) d [SetOrphaned c (Some e)]
            (Some (Wrapped (''orphan-delete StatefulSet '' @ om_name (sts_meta c)) e))"
          by (rule not_orphaned [OF refl None e(2)])
        moreover have "err = Some (Wrapped (''orphan-delete StatefulSet '' @ om_name (sts_meta c)) e)" "s' = s\<lparr>ks_world := w2\<rparr>"
          using r e by (simp_all add: IgnoreNotFound_def del: append_Cons append_Nil)
        ultimately show ?thesis using get Inr w2 e(1) by (intro exI [of _ "[SetOrphaned c o']"]) (simp del: append_Cons append_Nil)
      qed
    qed
  qed
qed

text \<open>Structural equality as the semantic equality, and an in-memory server that fills in the volume mode and keeps a record.\<close>

definition plain_semantic_eq :: semantic_eq where
  "plain_semantic_eq = \<lparr>eq_claimSpec = (=), eq_selector = (=), eq_labels = (=), eq_replicas = (=),
     eq_updateStrategy = (=), eq_template = (=)\<rparr>"

lemma plain_semantic_laws: "semantic_laws plain_semantic_eq" "compares_mode plain_semantic_eq"
  by (simp_all add: semantic_laws_def compares_mode_def plain_semantic_eq_def)

definition fill_mode :: "volume_claim_template \<Rightarrow> volume_claim_template" where
  "fill_mode t = t\<lparr>vct_spec := (vct_spec t)\<lparr>vcs_volumeMode :=
     (case vcs_volumeMode (vct_spec t) of None \<Rightarrow> Some ''Filesystem'' | Some m \<Rightarrow> Some m)\<rparr>\<rparr>"

definition fill_modes :: "stateful_set \<Rightarrow> stateful_set" where
  "fill_modes x = x\<lparr>sts_volumeClaimTemplates := map fill_mode (sts_volumeClaimTemplates x)\<rparr>"

definition logged :: "(stateful_set \<Rightarrow> kerr option \<Rightarrow> set_event) \<Rightarrow> (mem_world, stateful_set) kput \<Rightarrow> (mem_world, stateful_set) kput" where
  "logged ev f w x = (case f w x of (w1, r) \<Rightarrow> (w1\<lparr>mw_log := mw_log w @ [ev x r]\<rparr>, r))"

definition default_client :: "mem_world kclient" where
  "default_client = mem_client\<lparr>
     k_getStatefulSet := (\<lambda>w ns n. (w, case mw_sets w (ns, n) of None \<Rightarrow> Inl (NotFound n) | Some x \<Rightarrow> Inr (fill_modes x))),
     k_createStatefulSet := logged SetCreated (mem_create mw_sets mw_sets_update sts_key),
     k_deleteStatefulSetOrphan := logged SetOrphaned (mem_delete mw_sets mw_sets_update sts_key)\<rparr>"

definition default_env :: "mem_world operator_env" where
  "default_env = mem_env\<lparr>env_client := default_client\<rparr>"

lemma default_client_laws: "server_defaults default_client" "records_sets default_client mw_log"
  by (auto simp: server_defaults_def records_sets_def default_client_def modes_set_def fill_modes_def fill_mode_def logged_def
      list_all_iff case_prod_unfold split: option.splits)

text \<open>The set the operator itself has just created, without any change to the resource, is replaced again.\<close>

theorem workload_always_replaced_witness:
  "\<exists>d s1 c r e. desiredStatefulSetForNode default_env sample_node = Inr d \<and>
     ensureNodeWorkload default_env plain_semantic_eq sample_node
       (mem_state (empty_world\<lparr>mw_sets := [(''tao'', ''node'') \<mapsto> d]\<rparr>)) = (s1, r) \<and>
     SetOrphaned c e \<in> set (mw_log (ks_world s1))"
proof -
  have "\<exists>m. own_by (env_client default_env) sample_node
      (new_meta (tn_name sample_node) (tn_namespace sample_node) (labelsForNode sample_node)) = Inr m"
    by (simp add: own_by_def default_env_def default_client_def mem_client_def mem_setControllerReference_def new_meta_def)
  then obtain d where d: "desiredStatefulSetForNode default_env sample_node = Inr d" by (auto simp: desired_iff)
  let ?s = "mem_state (empty_world\<lparr>mw_sets := [(''tao'', ''node'') \<mapsto> d]\<rparr>)"
  have env: "env_client default_env = default_client" by (simp add: default_env_def)
  obtain s1 r where run: "ensureNodeWorkload default_env plain_semantic_eq sample_node ?s = (s1, r)" by fastforce
  have laws: "server_defaults (env_client default_env)" "records_sets (env_client default_env) mw_log"
    using default_client_laws env by simp_all
  have found: "snd (k_getStatefulSet (env_client default_env) (ks_world ?s) (tn_namespace sample_node) (tn_name sample_node)) = Inr (fill_modes d)"
    by (simp add: env default_client_def mem_state_def sample_node_def)
  have live: "om_deletionTimestamp (sts_meta (fill_modes d)) = None"
    using d by (auto simp: desired_iff own_by_def new_meta_def fill_modes_def split: sum.splits)
  have start: "mw_log (ks_world ?s) = []" by (simp add: mem_state_def empty_world_def)
  obtain es where "mw_log (ks_world s1) = es" "replace_protocol (Inr (fill_modes d)) d es r"
    using workload_always_replaced [OF laws(1) plain_semantic_laws(2) laws(2) d run] unfolding found start by auto
  then have "\<exists>e. SetOrphaned (fill_modes d) e \<in> set (mw_log (ks_world s1))"
    using live by (auto elim!: replace_protocol_elim)
  with d run show ?thesis by blast
qed

end
