(* ===== verification/Clickhouse_Tables.thy ===== *)
theory Clickhouse_Tables
  imports Analytics_Types Kube_Client
begin

text \<open>
  The analytics tables: their schemas, \<open>internal/analytics/schema.go\<close>, and the functions that
  insert batches of rows into them, \<open>internal/analytics/flush.go\<close>. The ClickHouse driver is a
  parameter: statements act on a database, and whether the context is cancelled is passed along.

  The locale \<open>ch_table\<close> is the contract between a table's columns, the \<open>ch:\<close> tags of its row type
  (\<open>types.go\<close>) and the arguments its flush function appends; it is interpreted for the five tables.
\<close>

section \<open>The driver\<close>

datatype ch_type = DateTime64 nat string | LowCardinality ch_type | StringType | BoolType
  | UInt8 | UInt16 | UInt32 | UInt64 | Int32 | Int64 | Float32 | Float64

text \<open>A Go value handed to the driver, by its Go type.\<close>

datatype ch_value = VTime time | VString string | VBool bool | VUInt8 uint8 | VUInt16 uint16
  | VUInt32 uint32 | VUInt64 uint64 | VInt32 int32 | VInt64 int64 | VFloat32 gofloat | VFloat64 gofloat

text \<open>
  The driver's calls; the first argument tells whether the context is cancelled. A batch is
  prepared for an \<open>INSERT\<close> statement, filled row by row and sent.
\<close>

record ('d, 'b) ch_conn =
  ch_exec :: "bool \<Rightarrow> 'd \<Rightarrow> string \<Rightarrow> 'd \<times> kerr option"
  ch_prepareBatch :: "bool \<Rightarrow> 'd \<Rightarrow> string \<Rightarrow> 'd \<times> (kerr + 'b)"
  ch_append :: "'b \<Rightarrow> ch_value list \<Rightarrow> kerr + 'b"
  ch_send :: "bool \<Rightarrow> 'd \<Rightarrow> 'b \<Rightarrow> 'd \<times> kerr option"

section \<open>Schemas\<close>

record table_schema =
  ts_name :: string
  ts_width :: nat
  ts_columns :: "(string \<times> ch_type) list"
  ts_orderBy :: "string list"
  ts_ttlDays :: nat

definition SchemaVersion :: string where "SchemaVersion = ''v001''"

definition chain_telemetry :: table_schema where
  "chain_telemetry =
     \<lparr>ts_name = ''chain_telemetry'', ts_width = 24, ts_columns =
      [(''timestamp'', DateTime64 3 ''UTC''), (''namespace'', LowCardinality StringType),
       (''node_name'', LowCardinality StringType), (''network'', LowCardinality StringType),
       (''subnet_id'', UInt16), (''role'', LowCardinality StringType),
       (''current_block'', UInt64), (''network_block'', UInt64),
       (''block_lag'', Int64), (''finalized_block'', UInt64),
       (''peer_count'', UInt16), (''runtime_version'', LowCardinality StringType),
       (''sync_state'', LowCardinality StringType), (''blocks_per_second'', Float32),
       (''probe_latency_ms'', UInt32), (''probe_success'', UInt8),
       (''disk_usage_percent'', UInt8), (''disk_used_bytes'', UInt64),
       (''disk_total_bytes'', UInt64), (''gpu_utilization_percent'', UInt8),
       (''gpu_memory_used_bytes'', UInt64), (''gpu_temperature_celsius'', UInt16)],
      ts_orderBy = [''namespace'', ''node_name'', ''timestamp''], ts_ttlDays = 30\<rparr>"

definition reconcile_audit :: table_schema where
  "reconcile_audit =
     \<lparr>ts_name = ''reconcile_audit'', ts_width = 17, ts_columns =
      [(''timestamp'', DateTime64 3 ''UTC''), (''namespace'', LowCardinality StringType),
       (''node_name'', LowCardinality StringType), (''trigger_type'', LowCardinality StringType),
       (''generation'', UInt64), (''resource_version'', StringType),
       (''phase_before'', LowCardinality StringType), (''sync_state_before'', LowCardinality StringType),
       (''block_lag_before'', Int64)],
      ts_orderBy = [''namespace'', ''node_name'', ''timestamp''], ts_ttlDays = 90\<rparr>"

definition anomaly_scores :: table_schema where
  "anomaly_scores =
     \<lparr>ts_name = ''anomaly_scores'', ts_width = 13, ts_columns =
      [(''timestamp'', DateTime64 3 ''UTC''), (''namespace'', LowCardinality StringType),
       (''node_name'', LowCardinality StringType), (''network'', LowCardinality StringType),
       (''subnet_id'', UInt16), (''anomaly_type'', LowCardinality StringType),
       (''score'', Float32), (''detail'', StringType)],
      ts_orderBy = [''namespace'', ''node_name'', ''anomaly_type'', ''timestamp''], ts_ttlDays = 30\<rparr>"

definition finops_metrics :: table_schema where
  "finops_metrics =
     \<lparr>ts_name = ''finops_metrics'', ts_width = 27, ts_columns =
      [(''timestamp'', DateTime64 3 ''UTC''), (''namespace'', LowCardinality StringType),
       (''node_name'', LowCardinality StringType), (''network'', LowCardinality StringType),
       (''role'', LowCardinality StringType), (''estimated_monthly_cost_usd'', Float64),
       (''cpu_cores'', Float64), (''memory_gib'', Float64),
       (''storage_gib'', Float64), (''gpu_count'', Int32),
       (''is_spot'', BoolType), (''tao_per_gpu_hour'', Float64),
       (''roi_percent'', Float64)],
      ts_orderBy = [''namespace'', ''node_name'', ''timestamp''], ts_ttlDays = 365\<rparr>"

definition dr_events :: table_schema where
  "dr_events =
     \<lparr>ts_name = ''dr_events'', ts_width = 17, ts_columns =
      [(''timestamp'', DateTime64 3 ''UTC''), (''namespace'', LowCardinality StringType),
       (''node_name'', LowCardinality StringType), (''event_type'', LowCardinality StringType),
       (''backup_size_bytes'', Int64), (''duration_seconds'', Float64),
       (''status'', LowCardinality StringType), (''detail'', StringType)],
      ts_orderBy = [''namespace'', ''node_name'', ''timestamp''], ts_ttlDays = 365\<rparr>"

definition tableSchemas :: "(string \<times> table_schema) list" where
  "tableSchemas =
     [(''chain_telemetry'', chain_telemetry), (''reconcile_audit'', reconcile_audit),
      (''anomaly_scores'', anomaly_scores), (''finops_metrics'', finops_metrics), (''dr_events'', dr_events)]"

text \<open>The text of a statement, with the alignment of the column list.\<close>

fun type_text :: "ch_type \<Rightarrow> string" where
  "type_text (DateTime64 n tz) = ''DateTime64('' @ fmt_int (int n) @ '', '' @ [CHR 0x27] @ tz @ [CHR 0x27] @ '')''"
| "type_text (LowCardinality t) = ''LowCardinality('' @ type_text t @ '')''"
| "type_text StringType = ''String''"
| "type_text BoolType = ''Bool''"
| "type_text UInt8 = ''UInt8''"
| "type_text UInt16 = ''UInt16''"
| "type_text UInt32 = ''UInt32''"
| "type_text UInt64 = ''UInt64''"
| "type_text Int32 = ''Int32''"
| "type_text Int64 = ''Int64''"
| "type_text Float32 = ''Float32''"
| "type_text Float64 = ''Float64''"

definition column_text :: "nat \<Rightarrow> string \<times> ch_type \<Rightarrow> string" where
  "column_text w c = ''    '' @ fst c @ replicate (max 1 (w - length (fst c))) (CHR '' '') @ type_text (snd c)"

definition ddl :: "table_schema \<Rightarrow> string" where
  "ddl t =
     (let newline = [CHR 0x0A]
      in newline @ ''CREATE TABLE IF NOT EXISTS '' @ ts_name t @ '' ('' @ newline @
         join ('','' @ newline) (map (column_text (ts_width t)) (ts_columns t)) @ newline @
         '') ENGINE = MergeTree()'' @ newline @
         ''PARTITION BY toYYYYMM(timestamp)'' @ newline @
         ''ORDER BY ('' @ join '', '' (ts_orderBy t) @ '')'' @ newline @
         ''TTL timestamp + INTERVAL '' @ fmt_int (int (ts_ttlDays t)) @ '' DAY'' @ newline @
         ''SETTINGS index_granularity = 8192'')"

text \<open>
  Go iterates a map in no fixed order, so the order of the tables is an argument; the code runs
  with some permutation of \<open>tableSchemas\<close>.
\<close>

fun ApplySchema ::
  "('d, 'b) ch_conn \<Rightarrow> bool \<Rightarrow> (string \<times> table_schema) list \<Rightarrow> 'd \<Rightarrow> 'd \<times> kerr option" where
  "ApplySchema conn cancelled [] d = (d, None)"
| "ApplySchema conn cancelled ((table, t) # order) d =
     (case ch_exec conn cancelled d (ddl t) of
        (d1, Some e) \<Rightarrow>
          (d1, Some (Wrapped (''apply schema for table \"'' @ table @ ''\" (version '' @ SchemaVersion @ '')'') e))
      | (d1, None) \<Rightarrow> ApplySchema conn cancelled order d1)"

section \<open>Rows and their flush functions\<close>

text \<open>The fields of the row types with their \<open>ch:\<close> tags.\<close>

definition telemetry_tagged :: "ChainTelemetryRow \<Rightarrow> (string \<times> ch_value) list" where
  "telemetry_tagged r =
     [(''timestamp'', VTime (ct_timestamp r)), (''namespace'', VString (ct_namespace r)),
      (''node_name'', VString (ct_nodeName r)), (''network'', VString (ct_network r)),
      (''subnet_id'', VUInt16 (ct_subnetID r)), (''role'', VString (ct_role r)),
      (''current_block'', VUInt64 (ct_currentBlock r)), (''network_block'', VUInt64 (ct_networkBlock r)),
      (''block_lag'', VInt64 (ct_blockLag r)), (''finalized_block'', VUInt64 (ct_finalizedBlock r)),
      (''peer_count'', VUInt16 (ct_peerCount r)), (''runtime_version'', VString (ct_runtimeVersion r)),
      (''sync_state'', VString (ct_syncState r)), (''blocks_per_second'', VFloat32 (ct_blocksPerSecond r)),
      (''probe_latency_ms'', VUInt32 (ct_probeLatencyMs r)), (''probe_success'', VUInt8 (ct_probeSuccess r)),
      (''disk_usage_percent'', VUInt8 (ct_diskUsagePercent r)), (''disk_used_bytes'', VUInt64 (ct_diskUsedBytes r)),
      (''disk_total_bytes'', VUInt64 (ct_diskTotalBytes r)), (''gpu_utilization_percent'', VUInt8 (ct_gpuUtilizationPercent r)),
      (''gpu_memory_used_bytes'', VUInt64 (ct_gpuMemoryUsedBytes r)), (''gpu_temperature_celsius'', VUInt16 (ct_gpuTemperatureCelsius r))]"

definition reconcileAudit_tagged :: "ReconcileAuditRow \<Rightarrow> (string \<times> ch_value) list" where
  "reconcileAudit_tagged r =
     [(''timestamp'', VTime (ra_timestamp r)), (''namespace'', VString (ra_namespace r)),
      (''node_name'', VString (ra_nodeName r)), (''trigger_type'', VString (ra_triggerType r)),
      (''generation'', VUInt64 (ra_generation r)), (''resource_version'', VString (ra_resourceVersion r)),
      (''phase_before'', VString (ra_phaseBefore r)), (''sync_state_before'', VString (ra_syncStateBefore r)),
      (''block_lag_before'', VInt64 (ra_blockLagBefore r))]"

definition anomaly_tagged :: "AnomalyRow \<Rightarrow> (string \<times> ch_value) list" where
  "anomaly_tagged r =
     [(''timestamp'', VTime (ano_timestamp r)), (''namespace'', VString (ano_namespace r)),
      (''node_name'', VString (ano_nodeName r)), (''network'', VString (ano_network r)),
      (''subnet_id'', VUInt16 (ano_subnetID r)), (''anomaly_type'', VString (ano_anomalyType r)),
      (''score'', VFloat32 (ano_score r)), (''detail'', VString (ano_detail r))]"

definition finOps_tagged :: "FinOpsRow \<Rightarrow> (string \<times> ch_value) list" where
  "finOps_tagged r =
     [(''timestamp'', VTime (fo_timestamp r)), (''namespace'', VString (fo_namespace r)),
      (''node_name'', VString (fo_nodeName r)), (''network'', VString (fo_network r)),
      (''role'', VString (fo_role r)), (''estimated_monthly_cost_usd'', VFloat64 (fo_estimatedMonthlyCostUSD r)),
      (''cpu_cores'', VFloat64 (fo_cpuCores r)), (''memory_gib'', VFloat64 (fo_memoryGiB r)),
      (''storage_gib'', VFloat64 (fo_storageGiB r)), (''gpu_count'', VInt32 (fo_gpuCount r)),
      (''is_spot'', VBool (fo_isSpot r)), (''tao_per_gpu_hour'', VFloat64 (fo_taoPerGPUHour r)),
      (''roi_percent'', VFloat64 (fo_roiPercent r))]"

definition dr_tagged :: "DRRow \<Rightarrow> (string \<times> ch_value) list" where
  "dr_tagged r =
     [(''timestamp'', VTime (drr_timestamp r)), (''namespace'', VString (drr_namespace r)),
      (''node_name'', VString (drr_nodeName r)), (''event_type'', VString (drr_eventType r)),
      (''backup_size_bytes'', VInt64 (drr_backupSizeBytes r)), (''duration_seconds'', VFloat64 (drr_durationSeconds r)),
      (''status'', VString (drr_status r)), (''detail'', VString (drr_detail r))]"

text \<open>The shared shape of the flush functions: prepare, append every row, send.\<close>

fun append_rows :: "('d, 'b) ch_conn \<Rightarrow> ('r \<Rightarrow> ch_value list) \<Rightarrow> 'r list \<Rightarrow> 'b \<Rightarrow> kerr + 'b" where
  "append_rows conn args [] b = Inr b"
| "append_rows conn args (r # rs) b =
     (case ch_append conn b (args r) of Inl e \<Rightarrow> Inl e | Inr b1 \<Rightarrow> append_rows conn args rs b1)"

definition flush_batch ::
  "('d, 'b) ch_conn \<Rightarrow> string \<Rightarrow> ('r \<Rightarrow> ch_value list) \<Rightarrow> bool \<Rightarrow> 'r list \<Rightarrow> 'd \<Rightarrow> 'd \<times> kerr option" where
  "flush_batch conn stmt args cancelled rows d =
     (case ch_prepareBatch conn cancelled d stmt of
        (d1, Inl e) \<Rightarrow> (d1, Some e)
      | (d1, Inr batch) \<Rightarrow>
          (case append_rows conn args rows batch of
             Inl e \<Rightarrow> (d1, Some e)
           | Inr batch1 \<Rightarrow> ch_send conn cancelled d1 batch1))"

definition telemetry_args :: "ChainTelemetryRow \<Rightarrow> ch_value list" where
  "telemetry_args r =
     [VTime (ct_timestamp r), VString (ct_namespace r), VString (ct_nodeName r),
      VString (ct_network r), VUInt16 (ct_subnetID r), VString (ct_role r),
      VUInt64 (ct_currentBlock r), VUInt64 (ct_networkBlock r), VInt64 (ct_blockLag r),
      VUInt64 (ct_finalizedBlock r), VUInt16 (ct_peerCount r), VString (ct_runtimeVersion r),
      VString (ct_syncState r), VFloat32 (ct_blocksPerSecond r), VUInt32 (ct_probeLatencyMs r),
      VUInt8 (ct_probeSuccess r), VUInt8 (ct_diskUsagePercent r), VUInt64 (ct_diskUsedBytes r),
      VUInt64 (ct_diskTotalBytes r), VUInt8 (ct_gpuUtilizationPercent r), VUInt64 (ct_gpuMemoryUsedBytes r),
      VUInt16 (ct_gpuTemperatureCelsius r)]"

definition flushTelemetryBatch :: "('d, 'b) ch_conn \<Rightarrow> bool \<Rightarrow> ChainTelemetryRow list \<Rightarrow> 'd \<Rightarrow> 'd \<times> kerr option" where
  "flushTelemetryBatch conn = flush_batch conn ''INSERT INTO chain_telemetry'' telemetry_args"

definition reconcileAudit_args :: "ReconcileAuditRow \<Rightarrow> ch_value list" where
  "reconcileAudit_args r =
     [VTime (ra_timestamp r), VString (ra_namespace r), VString (ra_nodeName r),
      VString (ra_triggerType r), VUInt64 (ra_generation r), VString (ra_resourceVersion r),
      VString (ra_phaseBefore r), VString (ra_syncStateBefore r), VInt64 (ra_blockLagBefore r)]"

definition flushReconcileAuditBatch :: "('d, 'b) ch_conn \<Rightarrow> bool \<Rightarrow> ReconcileAuditRow list \<Rightarrow> 'd \<Rightarrow> 'd \<times> kerr option" where
  "flushReconcileAuditBatch conn = flush_batch conn ''INSERT INTO reconcile_audit'' reconcileAudit_args"

definition anomaly_args :: "AnomalyRow \<Rightarrow> ch_value list" where
  "anomaly_args r =
     [VTime (ano_timestamp r), VString (ano_namespace r), VString (ano_nodeName r),
      VString (ano_network r), VUInt16 (ano_subnetID r), VString (ano_anomalyType r),
      VFloat32 (ano_score r), VString (ano_detail r)]"

definition flushAnomalyBatch :: "('d, 'b) ch_conn \<Rightarrow> bool \<Rightarrow> AnomalyRow list \<Rightarrow> 'd \<Rightarrow> 'd \<times> kerr option" where
  "flushAnomalyBatch conn = flush_batch conn ''INSERT INTO anomaly_scores'' anomaly_args"

definition finOps_args :: "FinOpsRow \<Rightarrow> ch_value list" where
  "finOps_args r =
     [VTime (fo_timestamp r), VString (fo_namespace r), VString (fo_nodeName r),
      VString (fo_network r), VString (fo_role r), VFloat64 (fo_estimatedMonthlyCostUSD r),
      VFloat64 (fo_cpuCores r), VFloat64 (fo_memoryGiB r), VFloat64 (fo_storageGiB r),
      VInt32 (fo_gpuCount r), VBool (fo_isSpot r), VFloat64 (fo_taoPerGPUHour r),
      VFloat64 (fo_roiPercent r)]"

definition flushFinOpsBatch :: "('d, 'b) ch_conn \<Rightarrow> bool \<Rightarrow> FinOpsRow list \<Rightarrow> 'd \<Rightarrow> 'd \<times> kerr option" where
  "flushFinOpsBatch conn = flush_batch conn ''INSERT INTO finops_metrics'' finOps_args"

definition dr_args :: "DRRow \<Rightarrow> ch_value list" where
  "dr_args r =
     [VTime (drr_timestamp r), VString (drr_namespace r), VString (drr_nodeName r),
      VString (drr_eventType r), VInt64 (drr_backupSizeBytes r), VFloat64 (drr_durationSeconds r),
      VString (drr_status r), VString (drr_detail r)]"

definition flushDRBatch :: "('d, 'b) ch_conn \<Rightarrow> bool \<Rightarrow> DRRow list \<Rightarrow> 'd \<Rightarrow> 'd \<times> kerr option" where
  "flushDRBatch conn = flush_batch conn ''INSERT INTO dr_events'' dr_args"

section \<open>The contract of a table\<close>

text \<open>The Go types the driver accepts for a column type.\<close>

fun fits :: "ch_value \<Rightarrow> ch_type \<Rightarrow> bool" where
  "fits v (LowCardinality t) = fits v t"
| "fits (VTime _) (DateTime64 _ _) = True"
| "fits (VString _) StringType = True"
| "fits (VBool _) BoolType = True"
| "fits (VUInt8 _) UInt8 = True"
| "fits (VUInt16 _) UInt16 = True"
| "fits (VUInt32 _) UInt32 = True"
| "fits (VUInt64 _) UInt64 = True"
| "fits (VInt32 _) Int32 = True"
| "fits (VInt64 _) Int64 = True"
| "fits (VFloat32 _) Float32 = True"
| "fits (VFloat64 _) Float64 = True"
| "fits _ _ = False"

text \<open>
  What the driver documents of a batch, with \<open>cols b\<close> its column types and \<open>contents b\<close> the rows
  appended so far: a batch prepared for a table has the table's columns and is empty; a row whose
  values fit the columns is accepted.
\<close>

definition driver_laws ::
  "('d, 'b) ch_conn \<Rightarrow> ('b \<Rightarrow> ch_type list) \<Rightarrow> ('b \<Rightarrow> ch_value list list) \<Rightarrow> bool" where
  "driver_laws conn cols contents \<longleftrightarrow>
     (\<forall>t\<in>snd ` set tableSchemas. \<forall>cancelled d d' b.
        ch_prepareBatch conn cancelled d (''INSERT INTO '' @ ts_name t) = (d', Inr b) \<longrightarrow>
        cols b = map snd (ts_columns t) \<and> contents b = []) \<and>
     (\<forall>b vs. list_all2 fits vs (cols b) \<longrightarrow>
        (\<exists>b'. ch_append conn b vs = Inr b' \<and> cols b' = cols b \<and> contents b' = contents b @ [vs]))"

text \<open>
  A flush is complete when it can only fail where the server does: if no batch can be prepared
  it reports that, and otherwise its outcome is that of sending a batch which holds exactly the
  given rows, in their order, each as the values of its tagged fields.
\<close>

definition flush_complete ::
  "('d, 'b) ch_conn \<Rightarrow> ('b \<Rightarrow> ch_value list list) \<Rightarrow> table_schema \<Rightarrow> ('r \<Rightarrow> (string \<times> ch_value) list) \<Rightarrow>
   (bool \<Rightarrow> 'r list \<Rightarrow> 'd \<Rightarrow> 'd \<times> kerr option) \<Rightarrow> bool" where
  "flush_complete conn contents t tagged flush \<longleftrightarrow>
     (\<forall>cancelled rows d.
        case ch_prepareBatch conn cancelled d (''INSERT INTO '' @ ts_name t) of
          (d1, Inl e) \<Rightarrow> flush cancelled rows d = (d1, Some e)
        | (d1, Inr b) \<Rightarrow> \<exists>b1. contents b1 = map (\<lambda>r. map snd (tagged r)) rows \<and>
            flush cancelled rows d = ch_send conn cancelled d1 b1)"

locale ch_table =
  fixes t :: table_schema
    and tagged :: "'r \<Rightarrow> (string \<times> ch_value) list"
    and args :: "'r \<Rightarrow> ch_value list"
  assumes known: "t \<in> snd ` set tableSchemas"
    and tags: "map fst (tagged r) = map fst (ts_columns t)"
    and args_tagged: "args r = map snd (tagged r)"
    and types: "list_all2 fits (args r) (map snd (ts_columns t))"
begin

lemma append_rows_all:
  assumes laws: "driver_laws conn cols contents" and cols: "cols b = map snd (ts_columns t)"
  shows "\<exists>b1. append_rows conn args rows b = Inr b1 \<and> contents b1 = contents b @ map args rows"
  using cols
proof (induction rows arbitrary: b)
  case (Cons r rows)
  obtain b' where b': "ch_append conn b (args r) = Inr b'" "cols b' = cols b" "contents b' = contents b @ [args r]"
    using laws types [of r] Cons.prems unfolding driver_laws_def by metis
  from Cons.IH [of b'] b' Cons.prems show ?case by auto
qed simp

lemma complete:
  assumes laws: "driver_laws conn cols contents"
  shows "flush_complete conn contents t tagged (flush_batch conn (''INSERT INTO '' @ ts_name t) args)"
  unfolding flush_complete_def
proof (intro allI)
  fix cancelled rows d
  let ?p = "ch_prepareBatch conn cancelled d (''INSERT INTO '' @ ts_name t)"
  obtain d1 a where p: "?p = (d1, a)" by fastforce
  show "case ?p of
      (d1, Inl e) \<Rightarrow> flush_batch conn (''INSERT INTO '' @ ts_name t) args cancelled rows d = (d1, Some e)
    | (d1, Inr b) \<Rightarrow> \<exists>b1. contents b1 = map (\<lambda>r. map snd (tagged r)) rows \<and>
        flush_batch conn (''INSERT INTO '' @ ts_name t) args cancelled rows d = ch_send conn cancelled d1 b1"
  proof (cases a)
    case (Inl e)
    with p show ?thesis by (simp add: flush_batch_def)
  next
    case (Inr b)
    with p laws known have "cols b = map snd (ts_columns t)" "contents b = []"
      unfolding driver_laws_def by metis+
    with append_rows_all [OF laws, of b rows] obtain b1 where
      b1: "append_rows conn args rows b = Inr b1" "contents b1 = map args rows" by auto
    moreover have "args = (\<lambda>r. map snd (tagged r))" using args_tagged by blast
    ultimately show ?thesis using p Inr by (auto simp: flush_batch_def)
  qed
qed

end

lemmas table_defs = chain_telemetry_def reconcile_audit_def anomaly_scores_def finops_metrics_def dr_events_def

lemmas row_defs = telemetry_tagged_def telemetry_args_def reconcileAudit_tagged_def reconcileAudit_args_def
  anomaly_tagged_def anomaly_args_def finOps_tagged_def finOps_args_def dr_tagged_def dr_args_def

interpretation tele: ch_table chain_telemetry telemetry_tagged telemetry_args
  by unfold_locales (simp_all add: tableSchemas_def table_defs row_defs)

interpretation audit: ch_table reconcile_audit reconcileAudit_tagged reconcileAudit_args
  by unfold_locales (simp_all add: tableSchemas_def table_defs row_defs)

interpretation anom: ch_table anomaly_scores anomaly_tagged anomaly_args
  by unfold_locales (simp_all add: tableSchemas_def table_defs row_defs)

interpretation fino: ch_table finops_metrics finOps_tagged finOps_args
  by unfold_locales (simp_all add: tableSchemas_def table_defs row_defs)

interpretation drev: ch_table dr_events dr_tagged dr_args
  by unfold_locales (simp_all add: tableSchemas_def table_defs row_defs)

lemma table_names [simp]:
  "ts_name chain_telemetry = ''chain_telemetry''" "ts_name reconcile_audit = ''reconcile_audit''"
  "ts_name anomaly_scores = ''anomaly_scores''" "ts_name finops_metrics = ''finops_metrics''"
  "ts_name dr_events = ''dr_events''"
  by (simp_all add: table_defs)

text \<open>
  C27. The inserts agree with the schema. For every table the columns of its \<open>CREATE TABLE\<close> are the
  \<open>ch:\<close> tags of its row type, in order, and every flush function is complete: it appends the
  fields under exactly these columns with types the driver accepts, so no batch is ever lost to a
  rejected row.
\<close>

theorem flush_functions_complete:
  assumes laws: "driver_laws conn cols contents"
  shows "(\<forall>r. map fst (telemetry_tagged r) = map fst (ts_columns chain_telemetry)) \<and>
    (\<forall>r. map fst (reconcileAudit_tagged r) = map fst (ts_columns reconcile_audit)) \<and>
    (\<forall>r. map fst (anomaly_tagged r) = map fst (ts_columns anomaly_scores)) \<and>
    (\<forall>r. map fst (finOps_tagged r) = map fst (ts_columns finops_metrics)) \<and>
    (\<forall>r. map fst (dr_tagged r) = map fst (ts_columns dr_events)) \<and>
    flush_complete conn contents chain_telemetry telemetry_tagged (flushTelemetryBatch conn) \<and>
    flush_complete conn contents reconcile_audit reconcileAudit_tagged (flushReconcileAuditBatch conn) \<and>
    flush_complete conn contents anomaly_scores anomaly_tagged (flushAnomalyBatch conn) \<and>
    flush_complete conn contents finops_metrics finOps_tagged (flushFinOpsBatch conn) \<and>
    flush_complete conn contents dr_events dr_tagged (flushDRBatch conn)"
proof -
  have names: "''INSERT INTO chain_telemetry'' = ''INSERT INTO '' @ ts_name chain_telemetry"
    "''INSERT INTO reconcile_audit'' = ''INSERT INTO '' @ ts_name reconcile_audit"
    "''INSERT INTO anomaly_scores'' = ''INSERT INTO '' @ ts_name anomaly_scores"
    "''INSERT INTO finops_metrics'' = ''INSERT INTO '' @ ts_name finops_metrics"
    "''INSERT INTO dr_events'' = ''INSERT INTO '' @ ts_name dr_events"
    by simp_all
  show ?thesis
    unfolding flushTelemetryBatch_def flushReconcileAuditBatch_def flushAnomalyBatch_def flushFinOpsBatch_def
      flushDRBatch_def names
    by (intro conjI allI tele.complete [OF laws] audit.complete [OF laws] anom.complete [OF laws]
        fino.complete [OF laws] drev.complete [OF laws] tele.tags audit.tags anom.tags fino.tags drev.tags)
qed

text \<open>An in-memory database: the rows of each table, and batches that check every row.\<close>

type_synonym mem_db = "string \<Rightarrow> ch_value list list"

definition mem_conn :: "(mem_db, table_schema \<times> ch_value list list) ch_conn" where
  "mem_conn =
     \<lparr>ch_exec = (\<lambda>cancelled d stmt. (d, if cancelled then Some (OtherErr ''context canceled'') else None)),
      ch_prepareBatch = (\<lambda>cancelled d stmt.
        (d, if cancelled then Inl (OtherErr ''context canceled'')
            else case find (\<lambda>t. stmt = ''INSERT INTO '' @ ts_name (snd t)) tableSchemas of
                   None \<Rightarrow> Inl (OtherErr ''unknown table'')
                 | Some t \<Rightarrow> Inr (snd t, []))),
      ch_append = (\<lambda>(t, rows) vs.
        if list_all2 fits vs (map snd (ts_columns t)) then Inr (t, rows @ [vs]) else Inl (OtherErr ''bad row'')),
      ch_send = (\<lambda>cancelled d (t, rows).
        if cancelled then (d, Some (OtherErr ''context canceled'')) else (d(ts_name t := d (ts_name t) @ rows), None))\<rparr>"

lemma mem_prepare:
  "(n, t) \<in> set tableSchemas \<Longrightarrow> ch_prepareBatch mem_conn False d (''INSERT INTO '' @ ts_name t) = (d, Inr (t, []))"
  by (auto simp: mem_conn_def tableSchemas_def)

lemma mem_driver_laws: "driver_laws mem_conn (\<lambda>b. map snd (ts_columns (fst b))) snd"
proof -
  have "cancelled = False" if "ch_prepareBatch mem_conn cancelled d s = (d', Inr b)" for cancelled d s d' b
    using that by (auto simp: mem_conn_def split: if_splits)
  moreover have "\<exists>b'. ch_append mem_conn b vs = Inr b' \<and> fst b' = fst b \<and> snd b' = snd b @ [vs]"
    if "list_all2 fits vs (map snd (ts_columns (fst b)))" for b vs
    using that by (auto simp: mem_conn_def split: prod.splits)
  ultimately show ?thesis
    unfolding driver_laws_def using mem_prepare by fastforce
qed

definition sample_dr_row :: DRRow where
  "sample_dr_row = \<lparr>drr_timestamp = 0, drr_namespace = ''default'', drr_nodeName = ''n'', drr_eventType = ''backup'',
     drr_backupSizeBytes = 1, drr_durationSeconds = Fin 1, drr_status = ''success'', drr_detail = ''''\<rparr>"

theorem flush_functions_complete_witness:
  "\<exists>b. snd b = [map snd (dr_tagged sample_dr_row)] \<and>
     flushDRBatch mem_conn False [sample_dr_row] (\<lambda>_. []) = ch_send mem_conn False (\<lambda>_. []) b"
proof -
  have "ch_prepareBatch mem_conn False (\<lambda>_. []) (''INSERT INTO '' @ ts_name dr_events) = ((\<lambda>_. []), Inr (dr_events, []))"
    by (rule mem_prepare [of "''dr_events''"]) (simp add: tableSchemas_def)
  moreover have "flush_complete mem_conn snd dr_events dr_tagged (flushDRBatch mem_conn)"
    using flush_functions_complete [OF mem_driver_laws] by blast
  ultimately show ?thesis
    unfolding flush_complete_def
    by (auto dest!: spec [of _ False] spec [of _ "[sample_dr_row]"] spec [of _ "\<lambda>_. []"])
qed

end
