(* ===== verification/Batch_Writer.thy ===== *)
theory Batch_Writer
  imports Clickhouse_Tables
begin

text \<open>
  The asynchronous writer, \<open>internal/analytics/batch_writer.go\<close>, and its flush loop, \<open>flush.go\<close>.

  Every table has a pipeline of its own: a bounded channel, the local buffer of its flush
  goroutine, its place in the loop, and the metrics under the table's label. The non-blocking
  \<open>Push\<close> methods and the loop run concurrently, so a pipeline is a labelled step relation: each
  iteration of the loop's \<open>select\<close> is one step, chosen freely among the cases that are ready, and
  pushes and the cancellation of the context come in between. The labels record what happened to
  the rows, and the properties are about the labels of whole runs.
\<close>

section \<open>Pipelines\<close>

definition defaultChannelSize :: nat where "defaultChannelSize = 4096"

definition defaultFlushInterval :: duration where "defaultFlushInterval = 5 * second"

text \<open>Where the goroutine is: in the outer \<open>select\<close>, in the drain loop, or returned.\<close>

datatype loop_state = Looping | Draining | Returned

record 'r pipeline =
  pl_ch :: "'r list"
  pl_closed :: bool
  pl_buf :: "'r list"
  pl_loop :: loop_state
  pl_flushErrors :: nat
  pl_rowsWritten :: nat
  pl_flushes :: nat
  pl_backlog :: nat

definition new_pipeline :: "'r pipeline" where
  "new_pipeline = \<lparr>pl_ch = [], pl_closed = False, pl_buf = [], pl_loop = Looping, pl_flushErrors = 0,
     pl_rowsWritten = 0, pl_flushes = 0, pl_backlog = 0\<rparr>"

definition push :: "'r \<Rightarrow> 'r pipeline \<Rightarrow> 'r pipeline" where
  "push row p =
     (if length (pl_ch p) < defaultChannelSize then p\<lparr>pl_ch := pl_ch p @ [row]\<rparr>
      else p\<lparr>pl_flushErrors := pl_flushErrors p + 1\<rparr>)"

type_synonym ('d, 'r) flush_fn = "bool \<Rightarrow> 'r list \<Rightarrow> 'd \<Rightarrow> 'd \<times> kerr option"

definition doFlush :: "('d, 'r) flush_fn \<Rightarrow> bool \<Rightarrow> 'd \<Rightarrow> 'r pipeline \<Rightarrow> 'd \<times> 'r pipeline" where
  "doFlush flushFn cancelled d p =
     (if pl_buf p = [] then (d, p)
      else
        let rows = pl_buf p; p1 = p\<lparr>pl_buf := []\<rparr>
        in case flushFn cancelled rows d of
             (d1, Some e) \<Rightarrow> (d1, p1\<lparr>pl_flushErrors := pl_flushErrors p1 + 1\<rparr>)
           | (d1, None) \<Rightarrow> (d1, p1\<lparr>pl_flushes := pl_flushes p1 + 1, pl_rowsWritten := pl_rowsWritten p1 + length rows\<rparr>))"

section \<open>The writer\<close>

record BatchWriter =
  bw_telemetry :: "ChainTelemetryRow pipeline"
  bw_reconcileAudit :: "ReconcileAuditRow pipeline"
  bw_anomalies :: "AnomalyRow pipeline"
  bw_finops :: "FinOpsRow pipeline"
  bw_dr :: "DRRow pipeline"

definition NewBatchWriter :: BatchWriter where
  "NewBatchWriter = \<lparr>bw_telemetry = new_pipeline, bw_reconcileAudit = new_pipeline, bw_anomalies = new_pipeline,
     bw_finops = new_pipeline, bw_dr = new_pipeline\<rparr>"

definition PushTelemetry :: "ChainTelemetryRow \<Rightarrow> BatchWriter \<Rightarrow> BatchWriter" where
  "PushTelemetry row w = w\<lparr>bw_telemetry := push row (bw_telemetry w)\<rparr>"

definition PushReconcileAudit :: "ReconcileAuditRow \<Rightarrow> BatchWriter \<Rightarrow> BatchWriter" where
  "PushReconcileAudit row w = w\<lparr>bw_reconcileAudit := push row (bw_reconcileAudit w)\<rparr>"

definition PushAnomaly :: "AnomalyRow \<Rightarrow> BatchWriter \<Rightarrow> BatchWriter" where
  "PushAnomaly row w = w\<lparr>bw_anomalies := push row (bw_anomalies w)\<rparr>"

definition PushFinOps :: "FinOpsRow \<Rightarrow> BatchWriter \<Rightarrow> BatchWriter" where
  "PushFinOps row w = w\<lparr>bw_finops := push row (bw_finops w)\<rparr>"

definition PushDREvent :: "DRRow \<Rightarrow> BatchWriter \<Rightarrow> BatchWriter" where
  "PushDREvent row w = w\<lparr>bw_dr := push row (bw_dr w)\<rparr>"

definition NeedLeaderElection :: "BatchWriter \<Rightarrow> bool" where
  "NeedLeaderElection w = False"

section \<open>The flush loop\<close>

text \<open>
  What a step does to rows: a row is accepted or dropped, a row moves from the channel to the
  buffer, a batch is handed to the flush function with or without success.
\<close>

datatype 'r label = Accept 'r | Drop 'r | Cancel | Move | Flush "'r list" bool | Silent

definition push_label :: "'r \<Rightarrow> 'r pipeline \<Rightarrow> 'r label" where
  "push_label row p = (if length (pl_ch p) < defaultChannelSize then Accept row else Drop row)"

text \<open>A step of the process around one pipeline; the state has the context, the database and the pipeline.\<close>

record ('d, 'r) flow =
  fl_cancelled :: bool
  fl_db :: 'd
  fl_pipe :: "'r pipeline"

definition flush_label :: "('d, 'r) flush_fn \<Rightarrow> ('d, 'r) flow \<Rightarrow> 'r label" where
  "flush_label F s =
     (if pl_buf (fl_pipe s) = [] then Silent
      else Flush (pl_buf (fl_pipe s)) (snd (F (fl_cancelled s) (pl_buf (fl_pipe s)) (fl_db s)) = None))"

definition after_flush :: "('d, 'r) flush_fn \<Rightarrow> loop_state \<Rightarrow> ('d, 'r) flow \<Rightarrow> ('d, 'r) flow" where
  "after_flush F l s =
     (case doFlush F (fl_cancelled s) (fl_db s) (fl_pipe s) of
        (d, p) \<Rightarrow> s\<lparr>fl_db := d, fl_pipe := p\<lparr>pl_loop := l\<rparr>\<rparr>)"

inductive flushLoop :: "('d, 'r) flush_fn \<Rightarrow> ('d, 'r) flow \<Rightarrow> 'r label \<Rightarrow> ('d, 'r) flow \<Rightarrow> bool"
  for F where
  ctx_done: "\<lbrakk>pl_loop (fl_pipe s) = Looping; fl_cancelled s\<rbrakk>
    \<Longrightarrow> flushLoop F s Silent (s\<lparr>fl_pipe := (fl_pipe s)\<lparr>pl_loop := Draining\<rparr>\<rparr>)"
| drain_row: "\<lbrakk>pl_loop (fl_pipe s) = Draining; pl_ch (fl_pipe s) = row # rows\<rbrakk>
    \<Longrightarrow> flushLoop F s Move (s\<lparr>fl_pipe := (fl_pipe s)\<lparr>pl_ch := rows, pl_buf := pl_buf (fl_pipe s) @ [row]\<rparr>\<rparr>)"
| drain_end: "\<lbrakk>pl_loop (fl_pipe s) = Draining; pl_ch (fl_pipe s) = []\<rbrakk>
    \<Longrightarrow> flushLoop F s (flush_label F s) (after_flush F Returned s)"
| recv: "\<lbrakk>pl_loop (fl_pipe s) = Looping; pl_ch (fl_pipe s) = row # rows\<rbrakk>
    \<Longrightarrow> flushLoop F s Move (s\<lparr>fl_pipe := (fl_pipe s)\<lparr>pl_ch := rows, pl_buf := pl_buf (fl_pipe s) @ [row],
          pl_backlog := length rows\<rparr>\<rparr>)"
| recv_closed: "\<lbrakk>pl_loop (fl_pipe s) = Looping; pl_ch (fl_pipe s) = []; pl_closed (fl_pipe s)\<rbrakk>
    \<Longrightarrow> flushLoop F s (flush_label F s) (after_flush F Returned s)"
| tick: "pl_loop (fl_pipe s) = Looping \<Longrightarrow> flushLoop F s (flush_label F s) (after_flush F Looping s)"

text \<open>
  The loop together with its environment: callers push, the manager cancels the context, and the
  other tables' goroutines use the same database.
\<close>

inductive flow_step :: "('d, 'r) flush_fn \<Rightarrow> ('d, 'r) flow \<Rightarrow> 'r label \<Rightarrow> ('d, 'r) flow \<Rightarrow> bool"
  for F where
  loop: "flushLoop F s l s' \<Longrightarrow> flow_step F s l s'"
| pushed: "flow_step F s (push_label row (fl_pipe s)) (s\<lparr>fl_pipe := push row (fl_pipe s)\<rparr>)"
| cancel: "flow_step F s Cancel (s\<lparr>fl_cancelled := True\<rparr>)"
| other: "flow_step F s Silent (s\<lparr>fl_db := d\<rparr>)"

inductive flow_run :: "('d, 'r) flush_fn \<Rightarrow> ('d, 'r) flow \<Rightarrow> 'r label list \<Rightarrow> ('d, 'r) flow \<Rightarrow> bool"
  for F where
  run_nil: "flow_run F s [] s"
| run_snoc: "flow_run F s ls s' \<Longrightarrow> flow_step F s' l s'' \<Longrightarrow> flow_run F s (ls @ [l]) s''"

inductive_cases flushLoopE: "flushLoop F s l s'"
inductive_cases flow_stepE: "flow_step F s l s'"

definition new_flow :: "'d \<Rightarrow> ('d, 'r) flow" where
  "new_flow d = \<lparr>fl_cancelled = False, fl_db = d, fl_pipe = new_pipeline\<rparr>"

section \<open>Accounting of rows\<close>

fun accepted :: "'r label list \<Rightarrow> 'r list" where
  "accepted [] = []"
| "accepted (Accept r # ls) = r # accepted ls"
| "accepted (_ # ls) = accepted ls"

fun batches :: "'r label list \<Rightarrow> ('r list \<times> bool) list" where
  "batches [] = []"
| "batches (Flush rows ok # ls) = (rows, ok) # batches ls"
| "batches (_ # ls) = batches ls"

definition dropped :: "'r label list \<Rightarrow> nat" where
  "dropped ls = length (filter (\<lambda>l. case l of Drop _ \<Rightarrow> True | _ \<Rightarrow> False) ls)"

definition written :: "'r label list \<Rightarrow> 'r list" where
  "written ls = concat (map fst (filter snd (batches ls)))"

definition failed_batches :: "'r label list \<Rightarrow> nat" where
  "failed_batches ls = length (filter (\<lambda>b. \<not> snd b) (batches ls))"

lemma accepted_append [simp]: "accepted (a @ b) = accepted a @ accepted b"
  by (induction a rule: accepted.induct) auto

lemma batches_append [simp]: "batches (a @ b) = batches a @ batches b"
  by (induction a rule: batches.induct) auto

text \<open>The bookkeeping a run keeps.\<close>

definition balanced :: "'r label list \<Rightarrow> ('d, 'r) flow \<Rightarrow> bool" where
  "balanced ls s \<longleftrightarrow>
     accepted ls = concat (map fst (batches ls)) @ pl_buf (fl_pipe s) @ pl_ch (fl_pipe s) \<and>
     length (pl_ch (fl_pipe s)) \<le> defaultChannelSize \<and>
     pl_flushErrors (fl_pipe s) = dropped ls + failed_batches ls \<and>
     pl_rowsWritten (fl_pipe s) = length (written ls) \<and>
     \<not> pl_closed (fl_pipe s) \<and> (pl_loop (fl_pipe s) \<noteq> Looping \<longrightarrow> fl_cancelled s)"

lemma balanced_flush:
  assumes "balanced ls s" and "l = Looping \<or> fl_cancelled s"
  shows "balanced (ls @ [flush_label F s]) (after_flush F l s)"
  using assms
  by (auto simp: balanced_def flush_label_def after_flush_def doFlush_def Let_def dropped_def failed_batches_def
      written_def split: prod.splits option.splits)

lemma balanced_step: "balanced ls s \<Longrightarrow> flow_step F s l s' \<Longrightarrow> balanced (ls @ [l]) s'"
proof (elim flow_stepE)
  assume b: "balanced ls s" and "flushLoop F s l s'"
  then show ?thesis
  proof (elim flushLoopE, goal_cases)
    case 3
    then show ?case using balanced_flush [of ls s Returned] by (auto simp: balanced_def)
  next
    case 5
    then show ?case by (simp add: balanced_def)
  next
    case 6
    then show ?case using balanced_flush [of ls s Looping] by auto
  qed (auto simp: balanced_def dropped_def failed_batches_def written_def)
qed (auto simp: balanced_def push_def push_label_def dropped_def failed_batches_def written_def defaultChannelSize_def)

lemma run_balanced: "flow_run F s0 ls s \<Longrightarrow> s0 = new_flow d \<Longrightarrow> balanced ls s"
proof (induction rule: flow_run.induct)
  case (run_nil s)
  then show ?case by (simp add: balanced_def new_flow_def new_pipeline_def dropped_def failed_batches_def written_def)
next
  case (run_snoc s ls s' l s'')
  then show ?case using balanced_step by blast
qed

section \<open>The whole writer\<close>

text \<open>
  \<open>Start\<close> runs the five loops over one connection; the manager's context is shared. A label names
  the table it concerns.
\<close>

record 'd writer_flow =
  wf_cancelled :: bool
  wf_db :: 'd
  wf_writer :: BatchWriter

datatype writer_label = WCancel | WTelemetry "ChainTelemetryRow label" | WAudit "ReconcileAuditRow label"
  | WAnomaly "AnomalyRow label" | WFinOps "FinOpsRow label" | WDR "DRRow label"

definition flow_of :: "'d writer_flow \<Rightarrow> 'r pipeline \<Rightarrow> ('d, 'r) flow" where
  "flow_of s p = \<lparr>fl_cancelled = wf_cancelled s, fl_db = wf_db s, fl_pipe = p\<rparr>"

inductive Start :: "('d, 'b) ch_conn \<Rightarrow> 'd writer_flow \<Rightarrow> writer_label \<Rightarrow> 'd writer_flow \<Rightarrow> bool"
  for conn where
  ctx_cancel: "Start conn s WCancel (s\<lparr>wf_cancelled := True\<rparr>)"
| telemetry_push: "Start conn s (WTelemetry (push_label row (bw_telemetry (wf_writer s))))
    (s\<lparr>wf_writer := PushTelemetry row (wf_writer s)\<rparr>)"
| audit_push: "Start conn s (WAudit (push_label row (bw_reconcileAudit (wf_writer s))))
    (s\<lparr>wf_writer := PushReconcileAudit row (wf_writer s)\<rparr>)"
| anomaly_push: "Start conn s (WAnomaly (push_label row (bw_anomalies (wf_writer s))))
    (s\<lparr>wf_writer := PushAnomaly row (wf_writer s)\<rparr>)"
| finops_push: "Start conn s (WFinOps (push_label row (bw_finops (wf_writer s))))
    (s\<lparr>wf_writer := PushFinOps row (wf_writer s)\<rparr>)"
| dr_push: "Start conn s (WDR (push_label row (bw_dr (wf_writer s))))
    (s\<lparr>wf_writer := PushDREvent row (wf_writer s)\<rparr>)"
| telemetry_loop: "flushLoop (flushTelemetryBatch conn) (flow_of s (bw_telemetry (wf_writer s))) l f
    \<Longrightarrow> Start conn s (WTelemetry l) (s\<lparr>wf_db := fl_db f, wf_writer := (wf_writer s)\<lparr>bw_telemetry := fl_pipe f\<rparr>\<rparr>)"
| audit_loop: "flushLoop (flushReconcileAuditBatch conn) (flow_of s (bw_reconcileAudit (wf_writer s))) l f
    \<Longrightarrow> Start conn s (WAudit l) (s\<lparr>wf_db := fl_db f, wf_writer := (wf_writer s)\<lparr>bw_reconcileAudit := fl_pipe f\<rparr>\<rparr>)"
| anomaly_loop: "flushLoop (flushAnomalyBatch conn) (flow_of s (bw_anomalies (wf_writer s))) l f
    \<Longrightarrow> Start conn s (WAnomaly l) (s\<lparr>wf_db := fl_db f, wf_writer := (wf_writer s)\<lparr>bw_anomalies := fl_pipe f\<rparr>\<rparr>)"
| finops_loop: "flushLoop (flushFinOpsBatch conn) (flow_of s (bw_finops (wf_writer s))) l f
    \<Longrightarrow> Start conn s (WFinOps l) (s\<lparr>wf_db := fl_db f, wf_writer := (wf_writer s)\<lparr>bw_finops := fl_pipe f\<rparr>\<rparr>)"
| dr_loop: "flushLoop (flushDRBatch conn) (flow_of s (bw_dr (wf_writer s))) l f
    \<Longrightarrow> Start conn s (WDR l) (s\<lparr>wf_db := fl_db f, wf_writer := (wf_writer s)\<lparr>bw_dr := fl_pipe f\<rparr>\<rparr>)"

inductive writer_run :: "('d, 'b) ch_conn \<Rightarrow> 'd writer_flow \<Rightarrow> writer_label list \<Rightarrow> 'd writer_flow \<Rightarrow> bool"
  for conn where
  writer_nil: "writer_run conn s [] s"
| writer_snoc: "writer_run conn s ls s' \<Longrightarrow> Start conn s' l s'' \<Longrightarrow> writer_run conn s (ls @ [l]) s''"

definition new_writer :: "'d \<Rightarrow> 'd writer_flow" where
  "new_writer d = \<lparr>wf_cancelled = False, wf_db = d, wf_writer = NewBatchWriter\<rparr>"

text \<open>The labels of one table, the others being silent.\<close>

fun telemetry_label :: "writer_label \<Rightarrow> ChainTelemetryRow label" where
  "telemetry_label WCancel = Cancel" | "telemetry_label (WTelemetry l) = l" | "telemetry_label _ = Silent"

fun audit_label :: "writer_label \<Rightarrow> ReconcileAuditRow label" where
  "audit_label WCancel = Cancel" | "audit_label (WAudit l) = l" | "audit_label _ = Silent"

fun anomaly_label :: "writer_label \<Rightarrow> AnomalyRow label" where
  "anomaly_label WCancel = Cancel" | "anomaly_label (WAnomaly l) = l" | "anomaly_label _ = Silent"

fun finops_label :: "writer_label \<Rightarrow> FinOpsRow label" where
  "finops_label WCancel = Cancel" | "finops_label (WFinOps l) = l" | "finops_label _ = Silent"

fun dr_label :: "writer_label \<Rightarrow> DRRow label" where
  "dr_label WCancel = Cancel" | "dr_label (WDR l) = l" | "dr_label _ = Silent"

lemma flushLoop_keeps_cancelled: "flushLoop F s l s' \<Longrightarrow> fl_cancelled s' = fl_cancelled s"
  by (elim flushLoopE) (auto simp: after_flush_def split: prod.splits)

text \<open>A table's view of the writer: its own steps, and what the rest does to it.\<close>

lemma flow_step_intros:
  "flushLoop F (flow_of s p) l f \<Longrightarrow> flow_step F (flow_of s p) l (flow_of (s\<lparr>wf_db := fl_db f, wf_writer := w\<rparr>) (fl_pipe f))"
  "flow_step F (flow_of s p) Silent (flow_of (s\<lparr>wf_db := d, wf_writer := w\<rparr>) p)"
  "flow_step F (flow_of s p) Silent (flow_of (s\<lparr>wf_writer := w\<rparr>) p)"
  "flow_step F (flow_of s p) Cancel (flow_of (s\<lparr>wf_cancelled := True\<rparr>) p)"
  "flow_step F (flow_of s p) (push_label row p) (flow_of (s\<lparr>wf_writer := w\<rparr>) (push row p))"
proof -
  show "flow_step F (flow_of s p) l (flow_of (s\<lparr>wf_db := fl_db f, wf_writer := w\<rparr>) (fl_pipe f))"
    if f: "flushLoop F (flow_of s p) l f"
  proof -
    from flushLoop_keeps_cancelled [OF f] have "flow_of (s\<lparr>wf_db := fl_db f, wf_writer := w\<rparr>) (fl_pipe f) = f"
      by (simp add: flow_of_def)
    with f loop show ?thesis by metis
  qed
  show "flow_step F (flow_of s p) Silent (flow_of (s\<lparr>wf_db := d, wf_writer := w\<rparr>) p)"
    using other [of F "flow_of s p" d] by (simp add: flow_of_def)
  show "flow_step F (flow_of s p) Silent (flow_of (s\<lparr>wf_writer := w\<rparr>) p)"
    using other [of F "flow_of s p" "wf_db s"] by (simp add: flow_of_def)
  show "flow_step F (flow_of s p) Cancel (flow_of (s\<lparr>wf_cancelled := True\<rparr>) p)"
    using cancel [of F "flow_of s p"] by (simp add: flow_of_def)
  show "flow_step F (flow_of s p) (push_label row p) (flow_of (s\<lparr>wf_writer := w\<rparr>) (push row p))"
    using pushed [of F "flow_of s p" row] by (simp add: flow_of_def)
qed

lemmas push_defs = PushTelemetry_def PushReconcileAudit_def PushAnomaly_def PushFinOps_def PushDREvent_def

lemma writer_step_views:
  assumes "Start conn s l s'"
  shows "flow_step (flushTelemetryBatch conn) (flow_of s (bw_telemetry (wf_writer s))) (telemetry_label l)
      (flow_of s' (bw_telemetry (wf_writer s')))"
    and "flow_step (flushReconcileAuditBatch conn) (flow_of s (bw_reconcileAudit (wf_writer s))) (audit_label l)
      (flow_of s' (bw_reconcileAudit (wf_writer s')))"
    and "flow_step (flushAnomalyBatch conn) (flow_of s (bw_anomalies (wf_writer s))) (anomaly_label l)
      (flow_of s' (bw_anomalies (wf_writer s')))"
    and "flow_step (flushFinOpsBatch conn) (flow_of s (bw_finops (wf_writer s))) (finops_label l)
      (flow_of s' (bw_finops (wf_writer s')))"
    and "flow_step (flushDRBatch conn) (flow_of s (bw_dr (wf_writer s))) (dr_label l)
      (flow_of s' (bw_dr (wf_writer s')))"
  using assms by (cases; simp add: push_defs flow_step_intros)+

lemma writer_run_views:
  assumes "writer_run conn s ls s'"
  shows "flow_run (flushTelemetryBatch conn) (flow_of s (bw_telemetry (wf_writer s))) (map telemetry_label ls)
      (flow_of s' (bw_telemetry (wf_writer s')))"
    and "flow_run (flushReconcileAuditBatch conn) (flow_of s (bw_reconcileAudit (wf_writer s))) (map audit_label ls)
      (flow_of s' (bw_reconcileAudit (wf_writer s')))"
    and "flow_run (flushAnomalyBatch conn) (flow_of s (bw_anomalies (wf_writer s))) (map anomaly_label ls)
      (flow_of s' (bw_anomalies (wf_writer s')))"
    and "flow_run (flushFinOpsBatch conn) (flow_of s (bw_finops (wf_writer s))) (map finops_label ls)
      (flow_of s' (bw_finops (wf_writer s')))"
    and "flow_run (flushDRBatch conn) (flow_of s (bw_dr (wf_writer s))) (map dr_label ls)
      (flow_of s' (bw_dr (wf_writer s')))"
  using assms by (induction, auto intro: run_nil run_snoc writer_step_views)

text \<open>
  The account of one table: the accepted rows are, in the order of their acceptance, those handed
  to the database in batches, then the buffered, then the queued ones; the channel is bounded;
  \<open>FlushErrors\<close> counts the dropped rows and the failed batches, \<open>RowsWritten\<close> the rows of the
  successful batches.
\<close>

definition accounted :: "'r label list \<Rightarrow> 'r pipeline \<Rightarrow> bool" where
  "accounted ls p \<longleftrightarrow>
     accepted ls = concat (map fst (batches ls)) @ pl_buf p @ pl_ch p \<and>
     length (pl_ch p) \<le> defaultChannelSize \<and>
     pl_flushErrors p = dropped ls + failed_batches ls \<and>
     pl_rowsWritten p = length (written ls)"

lemma new_writer_views [simp]:
  "flow_of (new_writer d) (bw_telemetry (wf_writer (new_writer d))) = new_flow d"
  "flow_of (new_writer d) (bw_reconcileAudit (wf_writer (new_writer d))) = new_flow d"
  "flow_of (new_writer d) (bw_anomalies (wf_writer (new_writer d))) = new_flow d"
  "flow_of (new_writer d) (bw_finops (wf_writer (new_writer d))) = new_flow d"
  "flow_of (new_writer d) (bw_dr (wf_writer (new_writer d))) = new_flow d"
  by (simp_all add: flow_of_def new_flow_def new_writer_def NewBatchWriter_def)

lemma run_accounted: "flow_run F (new_flow d) ls (flow_of s p) \<Longrightarrow> accounted ls p"
  using run_balanced [of F "new_flow d" ls "flow_of s p" d] by (simp add: balanced_def accounted_def flow_of_def)

text \<open>
  C4. No row is lost or reordered without a count. In every run of the writer, whatever the
  interleaving of the callers and the five loops and whatever the database answers, the account of
  every table holds.
\<close>

theorem writer_accounts:
  assumes "writer_run conn (new_writer d) ls s"
  shows "accounted (map telemetry_label ls) (bw_telemetry (wf_writer s)) \<and>
    accounted (map audit_label ls) (bw_reconcileAudit (wf_writer s)) \<and>
    accounted (map anomaly_label ls) (bw_anomalies (wf_writer s)) \<and>
    accounted (map finops_label ls) (bw_finops (wf_writer s)) \<and>
    accounted (map dr_label ls) (bw_dr (wf_writer s))"
proof -
  note views = writer_run_views [OF assms, unfolded new_writer_views]
  show ?thesis
    by (intro conjI run_accounted [OF views(1)] run_accounted [OF views(2)] run_accounted [OF views(3)]
        run_accounted [OF views(4)] run_accounted [OF views(5)])
qed

section \<open>Shutdown\<close>

text \<open>
  A driver that honours the context, as \<open>database\<close> drivers for Go document, prepares no batch once
  the context is cancelled.
\<close>

definition honours_context :: "('d, 'b) ch_conn \<Rightarrow> bool" where
  "honours_context conn \<longleftrightarrow> (\<forall>d stmt. \<exists>e. snd (ch_prepareBatch conn True d stmt) = Inl e)"

lemma flush_cancelled:
  "honours_context conn \<Longrightarrow> snd (flush_batch conn stmt args True rows d) \<noteq> None"
proof -
  assume "honours_context conn"
  then obtain e where "snd (ch_prepareBatch conn True d stmt) = Inl e" unfolding honours_context_def by blast
  then show ?thesis by (simp add: flush_batch_def prod.case_eq_if)
qed

lemma cancelled_step:
  assumes F: "\<And>rows d. snd (F True rows d) \<noteq> None" and c: "fl_cancelled s" and st: "flow_step F s l s'"
  shows "fl_cancelled s' \<and> (\<forall>b\<in>set (batches [l]). \<not> snd b)"
  using st
proof (elim flow_stepE)
  assume l: "flushLoop F s l s'"
  have "\<forall>b\<in>set (batches [flush_label F s]). \<not> snd b"
    using c F by (cases "pl_buf (fl_pipe s) = []") (simp_all add: flush_label_def)
  then have "\<forall>b\<in>set (batches [l]). \<not> snd b" using l by (elim flushLoopE) simp_all
  then show ?thesis using c flushLoop_keeps_cancelled [OF l] by simp
qed (auto simp: push_label_def c)

lemma cancelled_run:
  assumes F: "\<And>rows d. snd (F True rows d) \<noteq> None"
  shows "flow_run F s ls s' \<Longrightarrow> fl_cancelled s \<Longrightarrow> fl_cancelled s' \<and> (\<forall>b\<in>set (batches ls). \<not> snd b)"
proof (induction rule: flow_run.induct)
  case (run_snoc s ls s' l s'')
  then show ?case using cancelled_step [of F s' l s''] F by auto
qed simp

lemma flow_run_split:
  "flow_run F s (xs @ ys) s' \<Longrightarrow> \<exists>t. flow_run F s xs t \<and> flow_run F t ys s'"
proof (induction ys arbitrary: s' rule: rev_induct)
  case (snoc y ys)
  from snoc.prems obtain t where t: "flow_run F s (xs @ ys) t" "flow_step F t y s'"
    by (cases rule: flow_run.cases) (auto simp flip: append_assoc)
  with snoc.IH show ?case by (meson run_snoc)
qed (auto intro: run_nil)

lemma written_after_cancel:
  assumes F: "\<And>rows d. snd (F True rows d) \<noteq> None" and run: "flow_run F s (before @ Cancel # after) s'"
  shows "written (before @ Cancel # after) = written before"
proof -
  from flow_run_split [of F s "before @ [Cancel]" after s'] run obtain t where
    t: "flow_run F s (before @ [Cancel]) t" "flow_run F t after s'" by auto
  from t(1) obtain u where "flow_step F u Cancel t"
    by (cases rule: flow_run.cases) auto
  then have "fl_cancelled t"
    by (elim flow_stepE flushLoopE) (auto simp: push_label_def flush_label_def split: if_splits)
  with cancelled_run [OF F t(2)] have "filter snd (batches after) = []" by (auto simp: filter_empty_conv)
  then show ?thesis by (simp add: written_def)
qed

text \<open>
  C39. What shutdown costs. The final flushes of the loops run under the context that has just been
  cancelled, so with a driver that honours the context no row is written after the cancellation:
  in every run, what every table has written in the end is what it had written before. The rows
  buffered and queued at that moment, which the drain hands to the flush functions, are lost.
\<close>

theorem shutdown_writes_nothing:
  assumes ctx: "honours_context conn" and run: "writer_run conn (new_writer d) (before @ WCancel # after) s"
  shows "written (map telemetry_label (before @ WCancel # after)) = written (map telemetry_label before) \<and>
    written (map audit_label (before @ WCancel # after)) = written (map audit_label before) \<and>
    written (map anomaly_label (before @ WCancel # after)) = written (map anomaly_label before) \<and>
    written (map finops_label (before @ WCancel # after)) = written (map finops_label before) \<and>
    written (map dr_label (before @ WCancel # after)) = written (map dr_label before)"
proof -
  have F: "snd (flushTelemetryBatch conn True r1 d) \<noteq> None" "snd (flushReconcileAuditBatch conn True r2 d) \<noteq> None"
    "snd (flushAnomalyBatch conn True r3 d) \<noteq> None" "snd (flushFinOpsBatch conn True r4 d) \<noteq> None"
    "snd (flushDRBatch conn True r5 d) \<noteq> None" for r1 r2 r3 r4 r5 d
    using flush_cancelled [OF ctx]
    by (simp_all add: flushTelemetryBatch_def flushReconcileAuditBatch_def flushAnomalyBatch_def
        flushFinOpsBatch_def flushDRBatch_def)
  note v = writer_run_views [OF run, simplified]
  show ?thesis
    using written_after_cancel [OF F(1) v(1)] written_after_cancel [OF F(2) v(2)] written_after_cancel [OF F(3) v(3)]
      written_after_cancel [OF F(4) v(4)] written_after_cancel [OF F(5) v(5)] by simp
qed

text \<open>A run in which a row is accepted, the context is cancelled, and the drain fails.\<close>

definition shutdown_labels :: "writer_label list" where
  "shutdown_labels = [WDR (Accept sample_dr_row)] @ WCancel #
     [WDR Silent, WDR Move, WDR (Flush [sample_dr_row] False)]"

lemma mem_honours_context: "honours_context mem_conn"
  by (simp add: honours_context_def mem_conn_def)

lemma shutdown_run:
  "\<exists>s. writer_run mem_conn (new_writer (\<lambda>_. [])) shutdown_labels s \<and> pl_loop (bw_dr (wf_writer s)) = Returned"
proof -
  let ?r = sample_dr_row
  let ?p1 = "new_pipeline\<lparr>pl_ch := [?r]\<rparr>"
  let ?s0 = "new_writer (\<lambda>_. []) :: mem_db writer_flow"
  let ?w = "\<lambda>p. \<lparr>wf_cancelled = True, wf_db = (\<lambda>_. []), wf_writer = NewBatchWriter\<lparr>bw_dr := p\<rparr>\<rparr> :: mem_db writer_flow"
  let ?p2 = "?p1\<lparr>pl_loop := Draining\<rparr>"
  let ?p3 = "?p2\<lparr>pl_ch := [], pl_buf := [?r]\<rparr>"
  let ?p4 = "?p3\<lparr>pl_buf := [], pl_flushErrors := 1, pl_loop := Returned\<rparr>"
  have 1: "Start mem_conn ?s0 (WDR (Accept ?r)) ((?w ?p1)\<lparr>wf_cancelled := False\<rparr>)"
    using dr_push [of mem_conn ?s0 ?r]
    by (simp add: new_writer_def NewBatchWriter_def PushDREvent_def push_def push_label_def new_pipeline_def
        defaultChannelSize_def)
  have 2: "Start mem_conn ((?w ?p1)\<lparr>wf_cancelled := False\<rparr>) WCancel (?w ?p1)"
    using ctx_cancel [of mem_conn "(?w ?p1)\<lparr>wf_cancelled := False\<rparr>"] by simp
  have step: "Start mem_conn (?w p) (WDR l) (?w q)"
    if "flushLoop (flushDRBatch mem_conn) (flow_of (?w p) p) l (flow_of (?w p) q)" for p q l
    using dr_loop [of mem_conn "?w p" l "flow_of (?w p) q"] that by (simp add: flow_of_def)
  have "flushLoop (flushDRBatch mem_conn) (flow_of (?w ?p1) ?p1) Silent (flow_of (?w ?p1) ?p2)"
    using ctx_done [of "flow_of (?w ?p1) ?p1" "flushDRBatch mem_conn"] by (simp add: flow_of_def new_pipeline_def)
  then have 3: "Start mem_conn (?w ?p1) (WDR Silent) (?w ?p2)"
    by (rule step)
  have "flushLoop (flushDRBatch mem_conn) (flow_of (?w ?p2) ?p2) Move (flow_of (?w ?p2) ?p3)"
    using drain_row [of "flow_of (?w ?p2) ?p2" ?r "[]" "flushDRBatch mem_conn"] by (simp add: flow_of_def new_pipeline_def)
  then have 4: "Start mem_conn (?w ?p2) (WDR Move) (?w ?p3)"
    by (rule step)
  have "flushDRBatch mem_conn True [?r] (\<lambda>_. []) = ((\<lambda>_. []), Some (OtherErr ''context canceled''))"
    by (simp add: flushDRBatch_def flush_batch_def mem_conn_def)
  then have "flushLoop (flushDRBatch mem_conn) (flow_of (?w ?p3) ?p3) (Flush [?r] False) (flow_of (?w ?p3) ?p4)"
    using drain_end [of "flow_of (?w ?p3) ?p3" "flushDRBatch mem_conn"]
    by (simp add: flow_of_def new_pipeline_def flush_label_def after_flush_def doFlush_def)
  then have 5: "Start mem_conn (?w ?p3) (WDR (Flush [?r] False)) (?w ?p4)"
    by (rule step)
  have "writer_run mem_conn ?s0 shutdown_labels (?w ?p4)"
    using writer_snoc [OF writer_snoc [OF writer_snoc [OF writer_snoc [OF writer_snoc [OF writer_nil 1] 2] 3] 4] 5]
    by (simp add: shutdown_labels_def)
  then show ?thesis by (intro exI [of _ "?w ?p4"]) simp
qed

theorem writer_accounts_witness:
  "\<exists>s. writer_run mem_conn (new_writer (\<lambda>_. [])) shutdown_labels s \<and> pl_flushErrors (bw_dr (wf_writer s)) = 1"
proof -
  obtain s where s: "writer_run mem_conn (new_writer (\<lambda>_. [])) shutdown_labels s" using shutdown_run by blast
  from writer_accounts [OF s] have "pl_flushErrors (bw_dr (wf_writer s)) = 1"
    by (simp add: accounted_def shutdown_labels_def dropped_def failed_batches_def)
  with s show ?thesis by blast
qed

theorem shutdown_writes_nothing_witness:
  "\<exists>s. writer_run mem_conn (new_writer (\<lambda>_. [])) shutdown_labels s \<and> pl_loop (bw_dr (wf_writer s)) = Returned \<and>
     accepted (map dr_label shutdown_labels) = [sample_dr_row] \<and> written (map dr_label shutdown_labels) = []"
proof -
  obtain s where s: "writer_run mem_conn (new_writer (\<lambda>_. [])) shutdown_labels s"
    "pl_loop (bw_dr (wf_writer s)) = Returned" using shutdown_run by blast
  have "written (map dr_label shutdown_labels) = []"
    using shutdown_writes_nothing [OF mem_honours_context s(1) [unfolded shutdown_labels_def]]
    by (simp add: shutdown_labels_def written_def)
  moreover have "accepted (map dr_label shutdown_labels) = [sample_dr_row]" by (simp add: shutdown_labels_def)
  ultimately show ?thesis using s by blast
qed

end
