(* ===== verification/Go_Json.thy ===== *)
theory Go_Json
  imports Go_Float
begin

text \<open>
  What the operator uses of Go's \<open>encoding/json\<close>, \<open>strconv.ParseFloat\<close> and \<open>net/http\<close>: the syntax
  of JSON texts with escapes, surrogate pairs and the repair of invalid UTF-8, decoding into the
  fields of a struct (exact names first, then without regard to case; unknown names are skipped;
  \<open>null\<close> leaves a field alone; a value of another type or out of range is an error), and requests
  and responses. The length guards of the parser never fire, as \<open>parse_shorter\<close> shows; they
  make its recursion visibly terminating.
\<close>

section \<open>Values and characters\<close>

datatype json = JNull | JBool bool | JNum string | JStr string | JArr "json list" | JObj "(string \<times> json) list"

definition byte :: "char \<Rightarrow> nat" where "byte c = of_char c"

definition is_digit :: "char \<Rightarrow> bool" where
  "is_digit c \<longleftrightarrow> 48 \<le> byte c \<and> byte c \<le> 57"

definition is_hex :: "char \<Rightarrow> bool" where
  "is_hex c \<longleftrightarrow> is_digit c \<or> (97 \<le> byte (char_lower c) \<and> byte (char_lower c) \<le> 102)"

definition hex_value :: "char \<Rightarrow> nat" where
  "hex_value c = (if is_digit c then byte c - 48 else byte (char_lower c) - 87)"

definition json_space :: "char \<Rightarrow> bool" where
  "json_space c \<longleftrightarrow> byte c \<in> {32, 9, 10, 13}"

definition skip_ws :: "string \<Rightarrow> string" where "skip_ws = dropWhile json_space"

section \<open>Strings\<close>

text \<open>After an opening quote: the raw text up to the closing quote, and the rest.\<close>

fun scan_string :: "string \<Rightarrow> (string \<times> string) option" where
  "scan_string [] = None"
| "scan_string (c # cs) =
     (if byte c = 34 then Some ([], cs)
      else if byte c = 92 then
        (case cs of
           [] \<Rightarrow> None
         | e # r \<Rightarrow>
             if e = CHR ''u'' then
               (if 4 \<le> length r \<and> list_all is_hex (take 4 r)
                then map_option (\<lambda>(raw, rest). (c # e # take 4 r @ raw, rest)) (scan_string (drop 4 r)) else None)
             else if byte e \<in> {34, 92} \<or> e \<in> set ''/bfnrt''
             then map_option (\<lambda>(raw, rest). (c # e # raw, rest)) (scan_string r)
             else None)
      else if byte c < 32 then None
      else map_option (\<lambda>(raw, rest). (c # raw, rest)) (scan_string cs))"

definition utf8 :: "nat \<Rightarrow> string" where
  "utf8 r =
     (if r < 0x80 then [char_of r]
      else if r < 0x800 then [char_of (0xC0 + r div 64), char_of (0x80 + r mod 64)]
      else if r < 0x10000 then [char_of (0xE0 + r div 4096), char_of (0x80 + r div 64 mod 64), char_of (0x80 + r mod 64)]
      else [char_of (0xF0 + r div 262144), char_of (0x80 + r div 4096 mod 64), char_of (0x80 + r div 64 mod 64),
            char_of (0x80 + r mod 64)])"

definition replacement :: string where "replacement = utf8 0xFFFD"

text \<open>The length of the UTF-8 sequence at the front of a text; 0 if it is invalid.\<close>

definition rune_length :: "string \<Rightarrow> nat" where
  "rune_length s =
     (let b = (\<lambda>i. if i < length s then byte (s ! i) else 0);
          cont = (\<lambda>i. 0x80 \<le> b i \<and> b i \<le> 0xBF)
      in if s = [] then 0
         else if b 0 < 0x80 then 1
         else if 0xC2 \<le> b 0 \<and> b 0 \<le> 0xDF then (if cont 1 then 2 else 0)
         else if 0xE0 \<le> b 0 \<and> b 0 \<le> 0xEF then
           (if cont 1 \<and> cont 2 \<and> (b 0 = 0xE0 \<longrightarrow> 0xA0 \<le> b 1) \<and> (b 0 = 0xED \<longrightarrow> b 1 \<le> 0x9F) then 3 else 0)
         else if 0xF0 \<le> b 0 \<and> b 0 \<le> 0xF4 then
           (if cont 1 \<and> cont 2 \<and> cont 3 \<and> (b 0 = 0xF0 \<longrightarrow> 0x90 \<le> b 1) \<and> (b 0 = 0xF4 \<longrightarrow> b 1 \<le> 0x8F) then 4 else 0)
         else 0)"

definition unescape :: "char \<Rightarrow> char" where
  "unescape e =
     (if e = CHR ''b'' then CHR 0x08 else if e = CHR ''f'' then CHR 0x0C else if e = CHR ''n'' then CHR 0x0A
      else if e = CHR ''r'' then CHR 0x0D else if e = CHR ''t'' then CHR 0x09 else e)"

definition hex4 :: "string \<Rightarrow> nat" where
  "hex4 s = foldl (\<lambda>a c. 16 * a + hex_value c) 0 (take 4 s)"

text \<open>The value of a raw string. A surrogate without its partner becomes the replacement character.\<close>

function unquote :: "string \<Rightarrow> string" where
  "unquote s =
     (case s of
        [] \<Rightarrow> []
      | c # cs \<Rightarrow>
          if byte c = 92 \<and> cs \<noteq> [] then
            (if hd cs = CHR ''u'' then
               let r = hex4 (tl cs); rest = drop 4 (tl cs)
               in if 0xD800 \<le> r \<and> r \<le> 0xDFFF then
                    (if has_prefix rest (CHR 0x5C # ''u'') \<and> r \<le> 0xDBFF \<and>
                        0xDC00 \<le> hex4 (drop 2 rest) \<and> hex4 (drop 2 rest) \<le> 0xDFFF
                     then utf8 ((r - 0xD800) * 1024 + (hex4 (drop 2 rest) - 0xDC00) + 0x10000) @ unquote (drop 6 rest)
                     else replacement @ unquote rest)
                  else utf8 r @ unquote rest
             else unescape (hd cs) # unquote (tl cs))
          else if rune_length s = 0 then replacement @ unquote cs
          else take (rune_length s) s @ unquote (drop (rune_length s) s))"
  by pat_completeness auto
termination by (relation "measure length") (auto simp: neq_Nil_conv)

declare unquote.simps [simp del]

section \<open>Numbers\<close>

text \<open>The literal of a number at the front of a text, and the rest.\<close>

definition scan_digits :: "string \<Rightarrow> (string \<times> string) option" where
  "scan_digits s = (if takeWhile is_digit s = [] then None else Some (takeWhile is_digit s, dropWhile is_digit s))"

definition scan_int :: "string \<Rightarrow> (string \<times> string) option" where
  "scan_int s =
     (case s of
        [] \<Rightarrow> None
      | c # r \<Rightarrow> if c = CHR ''0'' then Some ([c], r) else scan_digits s)"

definition scan_frac :: "string \<Rightarrow> (string \<times> string) option" where
  "scan_frac s =
     (case s of
        [] \<Rightarrow> Some ([], [])
      | c # r \<Rightarrow> if c = CHR ''.'' then map_option (apfst (\<lambda>d. c # d)) (scan_digits r) else Some ([], s))"

definition scan_exp :: "string \<Rightarrow> (string \<times> string) option" where
  "scan_exp s =
     (case s of
        [] \<Rightarrow> Some ([], [])
      | c # r \<Rightarrow>
          if char_lower c = CHR ''e'' then
            (if r \<noteq> [] \<and> hd r \<in> {CHR ''+'', CHR ''-''} then map_option (apfst (\<lambda>d. c # hd r # d)) (scan_digits (tl r))
             else map_option (apfst (\<lambda>d. c # d)) (scan_digits r))
          else Some ([], s))"

definition scan_number :: "string \<Rightarrow> (string \<times> string) option" where
  "scan_number s =
     (let (sgn, s0) = (if has_prefix s ''-'' then (''-'', tl s) else ('''', s))
      in case scan_int s0 of
           None \<Rightarrow> None
         | Some (i, s1) \<Rightarrow>
             (case scan_frac s1 of
                None \<Rightarrow> None
              | Some (f, s2) \<Rightarrow>
                  (case scan_exp s2 of
                     None \<Rightarrow> None
                   | Some (e, s3) \<Rightarrow> Some (sgn @ i @ f @ e, s3))))"

definition pow10 :: "int \<Rightarrow> rat" where
  "pow10 e = (if 0 \<le> e then 10 ^ nat e else 1 / 10 ^ nat (- e))"

section \<open>Texts\<close>

definition max_depth :: nat where "max_depth = 10000"

function (sequential) parse_value :: "nat \<Rightarrow> string \<Rightarrow> (json \<times> string) option"
  and parse_members :: "nat \<Rightarrow> string \<Rightarrow> ((string \<times> json) list \<times> string) option"
  and parse_elems :: "nat \<Rightarrow> string \<Rightarrow> (json list \<times> string) option" where
  "parse_value d s0 =
     (case skip_ws s0 of
        [] \<Rightarrow> None
      | c # s \<Rightarrow>
          if length s0 \<le> length s then None
          else if c = CHR ''{'' then
            (if max_depth \<le> d then None
             else if has_prefix (skip_ws s) ''}'' then Some (JObj [], tl (skip_ws s))
             else map_option (apfst JObj) (parse_members (Suc d) s))
          else if c = CHR ''['' then
            (if max_depth \<le> d then None
             else if has_prefix (skip_ws s) '']'' then Some (JArr [], tl (skip_ws s))
             else map_option (apfst JArr) (parse_elems (Suc d) s))
          else if byte c = 34 then map_option (apfst (JStr \<circ> unquote)) (scan_string s)
          else if has_prefix (c # s) ''true'' then Some (JBool True, drop 3 s)
          else if has_prefix (c # s) ''false'' then Some (JBool False, drop 4 s)
          else if has_prefix (c # s) ''null'' then Some (JNull, drop 3 s)
          else map_option (apfst JNum) (scan_number (c # s)))"
| "parse_members d s0 =
     (case skip_ws s0 of
        [] \<Rightarrow> None
      | c # s \<Rightarrow>
          if byte c \<noteq> 34 then None
          else case scan_string s of
                 None \<Rightarrow> None
               | Some (k, r1) \<Rightarrow>
                   let r2 = skip_ws r1
                   in if \<not> has_prefix r2 '':'' \<or> length s0 \<le> length (tl r2) then None
                      else case parse_value d (tl r2) of
                             None \<Rightarrow> None
                           | Some (v, r3) \<Rightarrow>
                               let r4 = skip_ws r3
                               in if has_prefix r4 ''}'' then Some ([(unquote k, v)], tl r4)
                                  else if has_prefix r4 '','' \<and> length (tl r4) < length s0
                                  then map_option (apfst (\<lambda>m. (unquote k, v) # m)) (parse_members d (tl r4))
                                  else None)"
| "parse_elems d s0 =
     (case parse_value d s0 of
        None \<Rightarrow> None
      | Some (v, r1) \<Rightarrow>
          let r2 = skip_ws r1
          in if has_prefix r2 '']'' then Some ([v], tl r2)
             else if has_prefix r2 '','' \<and> length (tl r2) < length s0
             then map_option (apfst (\<lambda>vs. v # vs)) (parse_elems d (tl r2))
             else None)"
  by pat_completeness auto
termination
  by (relation "measure (\<lambda>x. case x of Inl (d, s) \<Rightarrow> 2 * length s | Inr (Inl (d, s)) \<Rightarrow> 2 * length s + 1
    | Inr (Inr (d, s)) \<Rightarrow> 2 * length s + 1)") auto

declare parse_value.simps [simp del] parse_members.simps [simp del] parse_elems.simps [simp del]

text \<open>\<open>json.Unmarshal\<close> reads a whole text, \<open>Decoder.Decode\<close> the first value of a stream.\<close>

definition Unmarshal :: "string \<Rightarrow> json option" where
  "Unmarshal s = (case parse_value 0 s of Some (v, r) \<Rightarrow> if skip_ws r = [] then Some v else None | None \<Rightarrow> None)"

definition Decode :: "string \<Rightarrow> json option" where
  "Decode s = map_option fst (parse_value 0 s)"

section \<open>The parser consumes its input\<close>

lemma skip_ws_length: "length (skip_ws s) \<le> length s"
  by (simp add: skip_ws_def length_dropWhile_le)

lemma skip_ws_Cons: "skip_ws s = c # r \<Longrightarrow> length r < length s"
  using skip_ws_length [of s] by simp

lemma prefix1: "has_prefix s [c] \<longleftrightarrow> (\<exists>r. s = c # r)"
  by (simp add: has_prefix_iff)

lemma map_pair_Some: "map_option (\<lambda>(a, b). (f a, b)) x = Some (y, r) \<longleftrightarrow> (\<exists>a. x = Some (a, r) \<and> y = f a)"
  by (cases x) auto

lemma scan_string_shorter: "scan_string s = Some (raw, rest) \<Longrightarrow> length rest < length s"
proof (induction s arbitrary: raw rest rule: scan_string.induct)
  case (2 c cs)
  consider "byte c = 34" | "byte c = 92" | "byte c \<noteq> 34" "byte c \<noteq> 92" by blast
  then show ?case
  proof cases
    case 2
    then obtain e r where "cs = e # r" using "2.prems" by (cases cs) auto
    then show ?thesis
      using 2 "2.prems" "2.IH"(1) [of e r] "2.IH"(2) [of e r] by (auto simp: map_pair_Some split: if_splits)
  next
    case 3
    then show ?thesis using "2.prems" "2.IH"(3) by (auto simp: map_pair_Some split: if_splits)
  qed (use "2.prems" in simp)
qed simp

lemma scan_digits_shorter: "scan_digits s = Some (x, r) \<Longrightarrow> length r < length s"
  by (cases s) (auto simp: scan_digits_def le_imp_less_Suc length_dropWhile_le split: if_splits)

lemma scan_number_shorter: "scan_number s = Some (x, r) \<Longrightarrow> length r < length s"
proof -
  assume n: "scan_number s = Some (x, r)"
  have *: "length r < length s0" if i: "scan_int s0 = Some (i, s1)" and f: "scan_frac s1 = Some (f, s2)"
    and e: "scan_exp s2 = Some (e, r)" for s0 s1 s2 i f e
  proof -
    have "length s1 < length s0"
      using i scan_digits_shorter [of s0] by (auto simp: scan_int_def split: list.splits if_splits)
    moreover have "length s2 \<le> length s1"
      using f scan_digits_shorter by (fastforce simp: scan_frac_def split: list.splits if_splits)
    moreover have "length r \<le> length s2"
      using e scan_digits_shorter by (fastforce simp: scan_exp_def split: list.splits if_splits)
    ultimately show ?thesis by simp
  qed
  show ?thesis
    using n * [of s] * [of "tl s"] by (fastforce simp: scan_number_def split: if_splits option.splits)
qed

text \<open>One level of the recursion, given the claim for shorter texts.\<close>

lemma value_level:
  assumes p: "parse_value d s0 = Some (v, r)"
    and m: "\<And>s d m r. length s < length s0 \<Longrightarrow> parse_members d s = Some (m, r) \<Longrightarrow> length r < length s"
    and e: "\<And>s d vs r. length s < length s0 \<Longrightarrow> parse_elems d s = Some (vs, r) \<Longrightarrow> length r < length s"
  shows "length r < length s0"
proof -
  obtain c s where c: "skip_ws s0 = c # s" using p by (auto simp: parse_value.simps split: list.splits)
  have len: "length s < length s0" using skip_ws_Cons [OF c] .
  have ws: "length (tl (skip_ws s)) \<le> length s" using skip_ws_length [of s] by simp
  have "length r \<le> length s"
    using p c len ws m [OF len, of "Suc d"] e [OF len, of "Suc d"] scan_string_shorter [of s]
      scan_number_shorter [of "c # s"]
    by (subst (asm) parse_value.simps) (fastforce split: if_splits)
  with len show ?thesis by simp
qed

lemma members_level:
  assumes p: "parse_members d s0 = Some (m, r)"
    and v: "\<And>s d v r. length s < length s0 \<Longrightarrow> parse_value d s = Some (v, r) \<Longrightarrow> length r < length s"
    and m: "\<And>s d m r. length s < length s0 \<Longrightarrow> parse_members d s = Some (m, r) \<Longrightarrow> length r < length s"
  shows "length r < length s0"
proof -
  obtain c s where c: "skip_ws s0 = c # s" using p by (auto simp: parse_members.simps split: list.splits)
  obtain k r1 where k: "scan_string s = Some (k, r1)"
    using p c by (auto simp: parse_members.simps split: if_splits option.splits)
  let ?r2 = "tl (skip_ws r1)"
  have r2: "length ?r2 < length s0" "byte c = 34" "has_prefix (skip_ws r1) '':''"
    using p c k by (auto simp: parse_members.simps Let_def split: if_splits)
  obtain w r3 where r3: "parse_value d ?r2 = Some (w, r3)"
    using p c k r2 by (auto simp: parse_members.simps Let_def split: if_splits option.splits)
  have "length (tl (skip_ws r3)) \<le> length r3" using skip_ws_length [of r3] by simp
  with v [OF r2(1) r3] r2(1) have r4: "length (tl (skip_ws r3)) < length s0" by simp
  show ?thesis
    using p c k r2 r3 r4 m [OF r4, of d]
    by (fastforce simp: parse_members.simps [of d s0] Let_def split: if_splits)
qed

lemma elems_level:
  assumes p: "parse_elems d s0 = Some (vs, r)"
    and v: "\<And>d v r. parse_value d s0 = Some (v, r) \<Longrightarrow> length r < length s0"
    and e: "\<And>s d vs r. length s < length s0 \<Longrightarrow> parse_elems d s = Some (vs, r) \<Longrightarrow> length r < length s"
  shows "length r < length s0"
proof -
  obtain w r1 where r1: "parse_value d s0 = Some (w, r1)"
    using p by (auto simp: parse_elems.simps split: option.splits)
  have "length (tl (skip_ws r1)) \<le> length r1" using skip_ws_length [of r1] by simp
  with v [OF r1] have r2: "length (tl (skip_ws r1)) < length s0" by simp
  show ?thesis
    using p r1 r2 e [OF r2, of d] by (fastforce simp: parse_elems.simps [of d s0] Let_def split: if_splits)
qed

lemma parse_shorter:
  "(\<forall>d v r. parse_value d s = Some (v, r) \<longrightarrow> length r < length s) \<and>
   (\<forall>d m r. parse_members d s = Some (m, r) \<longrightarrow> length r < length s) \<and>
   (\<forall>d vs r. parse_elems d s = Some (vs, r) \<longrightarrow> length r < length s)"
proof (induction s rule: length_induct)
  case (1 s)
  have v: "length r < length s" if "parse_value d s = Some (v, r)" for d v r
    using value_level [OF that] 1 by blast
  have "length r < length s" if "parse_members d s = Some (m, r)" for d m r
    using members_level [OF that] 1 by blast
  moreover have "length r < length s" if "parse_elems d s = Some (vs, r)" for d vs r
    using elems_level [OF that] v 1 by blast
  ultimately show ?case using v by blast
qed

section \<open>Decoding into structs\<close>

text \<open>
  Names are folded as \<open>encoding/json\<close> does for fields with ASCII names: letters without regard to
  case, and the long s and the Kelvin sign as the letters they fold to.
\<close>

function fold_name :: "string \<Rightarrow> string" where
  "fold_name s =
     (case s of
        [] \<Rightarrow> []
      | c # cs \<Rightarrow>
          if has_prefix s [CHR 0xC5, CHR 0xBF] then CHR ''s'' # fold_name (drop 2 s)
          else if has_prefix s [CHR 0xE2, CHR 0x84, CHR 0xAA] then CHR ''k'' # fold_name (drop 3 s)
          else char_lower c # fold_name cs)"
  by pat_completeness auto
termination by (relation "measure length") (auto simp: has_prefix_iff)

declare fold_name.simps [simp del]

text \<open>A decoder of a field takes the value and the struct so far; \<open>None\<close> is an error.\<close>

type_synonym 'a fields = "(string \<times> (json \<Rightarrow> 'a \<Rightarrow> 'a option)) list"

definition field_for :: "'a fields \<Rightarrow> string \<Rightarrow> (json \<Rightarrow> 'a \<Rightarrow> 'a option) option" where
  "field_for fs k =
     (case map_of fs k of
        Some f \<Rightarrow> Some f
      | None \<Rightarrow> map_option snd (find (\<lambda>f. fold_name (fst f) = fold_name k) fs))"

fun decode_members :: "'a fields \<Rightarrow> (string \<times> json) list \<Rightarrow> 'a \<Rightarrow> 'a option" where
  "decode_members fs [] x = Some x"
| "decode_members fs ((k, v) # ms) x =
     (case field_for fs k of
        None \<Rightarrow> decode_members fs ms x
      | Some f \<Rightarrow> (case f v x of None \<Rightarrow> None | Some y \<Rightarrow> decode_members fs ms y))"

fun decode_struct :: "'a fields \<Rightarrow> json \<Rightarrow> 'a \<Rightarrow> 'a option" where
  "decode_struct fs JNull x = Some x"
| "decode_struct fs (JObj ms) x = decode_members fs ms x"
| "decode_struct fs _ x = None"

fun string_field :: "(string \<Rightarrow> 'a \<Rightarrow> 'a) \<Rightarrow> json \<Rightarrow> 'a \<Rightarrow> 'a option" where
  "string_field upd JNull x = Some x"
| "string_field upd (JStr s) x = Some (upd s x)"
| "string_field upd _ x = None"

fun bool_field :: "(bool \<Rightarrow> 'a \<Rightarrow> 'a) \<Rightarrow> json \<Rightarrow> 'a \<Rightarrow> 'a option" where
  "bool_field upd JNull x = Some x"
| "bool_field upd (JBool b) x = Some (upd b x)"
| "bool_field upd _ x = None"

text \<open>\<open>strconv.ParseInt\<close> and \<open>ParseUint\<close> on the literal of a number.\<close>

definition parse_int :: "string \<Rightarrow> int option" where
  "parse_int s =
     (let ds = (if has_prefix s ''-'' then tl s else s)
      in if ds \<noteq> [] \<and> list_all is_digit ds
         then Some (if has_prefix s ''-'' then - read_digits ds 0 else read_digits ds 0) else None)"

fun int_field :: "nat \<Rightarrow> (int \<Rightarrow> 'a \<Rightarrow> 'a) \<Rightarrow> json \<Rightarrow> 'a \<Rightarrow> 'a option" where
  "int_field w upd JNull x = Some x"
| "int_field w upd (JNum s) x =
     (case parse_int s of
        Some i \<Rightarrow> if - (2 ^ (w - 1)) \<le> i \<and> i < 2 ^ (w - 1) then Some (upd i x) else None
      | None \<Rightarrow> None)"
| "int_field w upd _ x = None"

fun uint_field :: "nat \<Rightarrow> (int \<Rightarrow> 'a \<Rightarrow> 'a) \<Rightarrow> json \<Rightarrow> 'a \<Rightarrow> 'a option" where
  "uint_field w upd JNull x = Some x"
| "uint_field w upd (JNum s) x =
     (if has_prefix s ''-'' then None
      else case parse_int s of
             Some i \<Rightarrow> if i < 2 ^ w then Some (upd i x) else None
           | None \<Rightarrow> None)"
| "uint_field w upd _ x = None"

section \<open>Floating-point literals\<close>

text \<open>
  \<open>strconv.ParseFloat(s, 32)\<close>: decimal and hexadecimal literals, underscores between digits,
  infinities and NaN; \<open>None\<close> is a syntax or range error. The digits of the mantissa are read into
  an integer together with the number of digits after the point.
\<close>

fun mantissa :: "nat \<Rightarrow> bool \<Rightarrow> string \<Rightarrow> int \<times> nat \<times> bool \<times> string" where
  "mantissa base dot [] = (0, 0, False, [])"
| "mantissa base dot (c # cs) =
     (if c = CHR ''_'' then mantissa base dot cs
      else if c = CHR ''.'' \<and> \<not> dot then mantissa base True cs
      else if is_digit c \<or> (base = 16 \<and> is_hex c) then
        (let (m, n, saw, r) = mantissa base dot cs;
             ds = length (filter (\<lambda>c. is_hex c) (take (length cs - length r) cs))
         in (int (hex_value c) * int base ^ ds + m, n + (if dot then 1 else 0), True, r))
      else (0, 0, False, c # cs))"

fun exponent_digits :: "string \<Rightarrow> int \<Rightarrow> int \<times> string" where
  "exponent_digits [] e = (e, [])"
| "exponent_digits (c # cs) e =
     (if c = CHR ''_'' then exponent_digits cs e
      else if is_digit c then exponent_digits cs (10 * e + int (hex_value c))
      else (e, c # cs))"

fun underscores_ok :: "bool \<Rightarrow> char \<Rightarrow> string \<Rightarrow> bool" where
  "underscores_ok hex prev [] = (prev \<noteq> CHR ''_'')"
| "underscores_ok hex prev (c # cs) =
     (if is_digit c \<or> (hex \<and> is_hex c) then underscores_ok hex (CHR ''0'') cs
      else if c = CHR ''_'' then prev = CHR ''0'' \<and> underscores_ok hex (CHR ''_'') cs
      else prev \<noteq> CHR ''_'' \<and> underscores_ok hex (CHR ''!'') cs)"

definition unsigned_literal :: "string \<Rightarrow> rat option" where
  "unsigned_literal s =
     (let hex = has_prefix (to_lower s) ''0x'';
          body = (if hex then drop 2 s else s);
          base = (if hex then 16 else 10);
          (m, n, saw, r) = mantissa base False body;
          marker = (if hex then CHR ''p'' else CHR ''e'');
          scaled = (\<lambda>e. of_int m * (if hex then pow2 (e - 4 * int n) else pow10 (e - int n)));
          ok = (CHR ''_'' \<in> set s \<longrightarrow> underscores_ok hex (if hex then CHR ''0'' else CHR ''!'') body)
      in if \<not> saw \<or> \<not> ok then None
         else if r = [] then (if hex then None else Some (scaled 0))
         else if char_lower (hd r) \<noteq> marker then None
         else
           let r1 = tl r;
               neg = has_prefix r1 ''-'';
               r2 = (if has_prefix r1 ''+'' \<or> neg then tl r1 else r1);
               (e, r3) = exponent_digits r2 0
           in if r2 = [] \<or> \<not> is_digit (hd r2) \<or> r3 \<noteq> [] then None else Some (scaled (if neg then - e else e)))"

definition ParseFloat32 :: "string \<Rightarrow> gofloat option" where
  "ParseFloat32 s =
     (let neg = has_prefix s ''-'';
          body = (if has_prefix s ''+'' \<or> neg then tl s else s)
      in if to_lower body \<in> {''inf'', ''infinity''} then Some (if neg then NInf else PInf)
         else if to_lower s = ''nan'' then Some NaN
         else case unsigned_literal body of
                None \<Rightarrow> None
              | Some x \<Rightarrow> (case r32 (if neg then - x else x) of Fin y \<Rightarrow> Some (Fin y) | _ \<Rightarrow> None))"

fun float32_field :: "(gofloat \<Rightarrow> 'a \<Rightarrow> 'a) \<Rightarrow> json \<Rightarrow> 'a \<Rightarrow> 'a option" where
  "float32_field upd JNull x = Some x"
| "float32_field upd (JNum s) x = map_option (\<lambda>f. upd f x) (ParseFloat32 s)"
| "float32_field upd _ x = None"

section \<open>HTTP\<close>

text \<open>
  Requests carry the value that is encoded as their JSON body. Building a request fails on an
  invalid URL, and sending it acts on the world; both are the transport's, a parameter.
\<close>

record 'b http_request =
  rq_method :: string
  rq_url :: string
  rq_headers :: "(string \<times> string) list"
  rq_body :: "'b option"

record http_response =
  rs_status :: int
  rs_body :: string

record ('w, 'b, 'e) http_ops =
  http_new :: "string \<Rightarrow> string \<Rightarrow> 'e option"
  http_do :: "'b http_request \<Rightarrow> 'w \<Rightarrow> 'w \<times> ('e + http_response)"

end
