(* ===== verification/Ai_Advisor.thy ===== *)
theory Ai_Advisor
  imports Go_Json Analytics_Types Kube_Client
begin

text \<open>
  The advisory plane, \<open>internal/ai\<close>: the wire and incident types, the prompts, the client of the
  inference server, the parser of its reports, the rate limiter in front of it, and the Discord
  notifier. The HTTP transport is a parameter; JSON decoding is that of \<open>Go_Json\<close>. The text of the
  JSON library's own error messages is abbreviated.
\<close>

section \<open>Types\<close>

record OllamaOptions =
  oo_temperature :: gofloat
  oo_numPredict :: int
  oo_topP :: gofloat
  oo_seed :: int

record OllamaRequest =
  orq_model :: string
  orq_prompt :: string
  orq_system :: string
  orq_stream :: bool
  orq_format :: string
  orq_options :: "OllamaOptions option"

record OllamaResponse =
  ors_model :: string
  ors_response :: string
  ors_done :: bool
  ors_createdAt :: string
  ors_totalDurationNs :: int64
  ors_promptEvalCount :: int64
  ors_promptEvalDuration :: int64
  ors_evalCount :: int64
  ors_evalDuration :: int64

record TelemetryPoint =
  tp_timestamp :: time
  tp_blockLag :: int64
  tp_peerCount :: int32
  tp_syncState :: string
  tp_diskUsagePct :: uint8

record PastIncident =
  pi_timestamp :: time
  pi_severity :: string
  pi_category :: string
  pi_resolution :: string

record RecoveryEvent =
  re_timestamp :: time
  re_strategy :: string
  re_outcome :: string

record IncidentContext =
  ic_nodeName :: string
  ic_namespace :: string
  ic_network :: string
  ic_subnetID :: int32
  ic_role :: string
  ic_currentPhase :: string
  ic_anomalyScores :: "AnomalyScore list"
  ic_recentTelemetry :: "TelemetryPoint list"
  ic_pastIncidents :: "PastIncident list"
  ic_recoveryHistory :: "RecoveryEvent list"

record IncidentReport =
  ir_severity :: string
  ir_summary :: string
  ir_rootCauseCategory :: string
  ir_recommendedAction :: string
  ir_confidence :: gofloat

record embedField =
  ef_name :: string
  ef_value :: string
  ef_inline :: bool

record embedFooter =
  ft_text :: string

record discordEmbed =
  de_title :: string
  de_description :: string
  de_color :: int
  de_fields :: "embedField list"
  de_footer :: "embedFooter option"
  de_timestamp :: string

record discordWebhookBody =
  dw_username :: string
  dw_embeds :: "discordEmbed list"

datatype ai_payload = OllamaBody OllamaRequest | DiscordBody discordWebhookBody

type_synonym 'w ai_http = "('w, ai_payload, kerr) http_ops"

section \<open>Prompts\<close>

definition systemPrompt :: string where
  "systemPrompt =
     join [CHR 0x0A]
       [''You are a senior Site Reliability Engineer (SRE) specializing in Bittensor blockchain infrastructure running on Kubernetes. You analyze anomaly data from subnet node operators and produce concise, actionable incident reports.'',
        '''',
        ''STRICT OUTPUT RULES:'',
        ''1. Respond with ONLY a valid JSON object. No markdown code fences, no preamble, no trailing text.'',
        ''2. Use exactly these five fields with these exact key names.'',
        ''3. All string values must be non-empty.'',
        '''',
        ''Required JSON schema:'',
        ''{'',
        ''  \"severity\": \"critical|high|medium|low\",'',
        ''  \"summary\": \"<one sentence describing the incident>\",'',
        ''  \"root_cause_category\": \"sync-loss|network-partition|disk-pressure|gpu-fault|config-error|unknown\",'',
        ''  \"recommended_action\": \"<specific Kubernetes or node-level remediation command or procedure>\",'',
        ''  \"confidence\": <float 0.0'' @ utf8 0x2013 @ ''1.0>'',
        ''}'',
        '''',
        ''Severity guidelines:'',
        ''- critical: risk of validator slashing, data loss, or complete sync failure'',
        ''- high: node is degraded with active block lag or isolation risk'',
        ''- medium: anomaly detected but node is still functional'',
        ''- low: early warning signal, no immediate action required'',
        '''',
        ''Confidence guidelines:'',
        ''- 0.9'' @ utf8 0x2013 @ ''1.0: multiple corroborating signals, clear root cause'',
        ''- 0.6'' @ utf8 0x2013 @ ''0.8: likely root cause, some uncertainty'',
        ''- 0.3'' @ utf8 0x2013 @ ''0.5: ambiguous signals, best-effort diagnosis'',
        ''- 0.0'' @ utf8 0x2013 @ ''0.2: insufficient data'']"

definition bullet :: string where "bullet = utf8 0x2022"

definition fmt_clock :: "time \<Rightarrow> string" where
  "fmt_clock t = (let c = civil_of t in
     pad_left 2 (civ_hour c) @ '':'' @ pad_left 2 (civ_min c) @ '':'' @ pad_left 2 (civ_sec c) @ '' UTC'')"

text \<open>The template: a section appears when its list is not empty; each item is on a line of its own.\<close>

definition score_line :: "AnomalyScore \<Rightarrow> string" where
  "score_line a = [CHR 0x0A] @ ''  '' @ bullet @ '' '' @ an_Type a @ '': '' @ fmt_f 3 (an_Score a) @ '' '' @ em_dash @ '' '' @ an_Detail a"

definition telemetry_line :: "TelemetryPoint \<Rightarrow> string" where
  "telemetry_line p = [CHR 0x0A] @ ''  '' @ bullet @ '' '' @ fmt_clock (tp_timestamp p) @ '' | block_lag='' @ fmt_d (tp_blockLag p) @
     '' peers='' @ fmt_d (tp_peerCount p) @ '' disk_pct='' @ fmt_int (uint (tp_diskUsagePct p)) @ ''% state='' @ tp_syncState p"

definition incident_line :: "PastIncident \<Rightarrow> string" where
  "incident_line p = [CHR 0x0A] @ ''  '' @ bullet @ '' '' @ fmt_date (pi_timestamp p) @ '' ['' @ pi_severity p @ ''] '' @
     pi_category p @ '': '' @ pi_resolution p"

definition recovery_line :: "RecoveryEvent \<Rightarrow> string" where
  "recovery_line p = [CHR 0x0A] @ ''  '' @ bullet @ '' '' @ fmt_date (re_timestamp p) @ '' strategy='' @ re_strategy p @
     '' outcome='' @ re_outcome p"

definition prompt_section :: "string \<Rightarrow> ('a \<Rightarrow> string) \<Rightarrow> 'a list \<Rightarrow> string" where
  "prompt_section title line xs = (if xs = [] then '''' else [CHR 0x0A, CHR 0x0A] @ title @ concat (map line xs))"

definition buildUserPrompt :: "IncidentContext \<Rightarrow> kerr + string" where
  "buildUserPrompt ic = Inr
     (join [CHR 0x0A]
        [''TaoNode Incident '' @ em_dash @ '' Analysis Request'',
         '''',
         ''Node:     '' @ ic_nodeName ic @ '' (namespace: '' @ ic_namespace ic @ '')'',
         ''Network:  '' @ ic_network ic @ '' | Subnet ID: '' @ fmt_d (ic_subnetID ic),
         ''Role:     '' @ ic_role ic,
         ''Phase:    '' @ ic_currentPhase ic,
         '''',
         ''Anomaly Scores (noise floor > 0.1, sorted by severity):''] @
      concat (map score_line (ic_anomalyScores ic)) @
      prompt_section ''Recent Telemetry:'' telemetry_line (ic_recentTelemetry ic) @
      prompt_section ''Past Incidents on this node:'' incident_line (ic_pastIncidents ic) @
      prompt_section ''Recovery History:'' recovery_line (ic_recoveryHistory ic) @
      [CHR 0x0A, CHR 0x0A] @ ''Produce the JSON incident report.'')"

section \<open>The inference client\<close>

definition json_error :: string where "json_error = ''invalid JSON''"

definition ollamaGeneratePath :: string where "ollamaGeneratePath = ''/api/generate''"
definition maxErrorBodyBytes :: nat where "maxErrorBodyBytes = 2048"

record ollamaClient =
  oc_baseURL :: string
  oc_timeout :: duration

definition trim_right_char :: "char \<Rightarrow> string \<Rightarrow> string" where
  "trim_right_char c s = rev (dropWhile (\<lambda>d. d = c) (rev s))"

definition newOllamaClient :: "string \<Rightarrow> duration \<Rightarrow> ollamaClient" where
  "newOllamaClient endpoint timeout = \<lparr>oc_baseURL = trim_right_char (CHR ''/'') endpoint, oc_timeout = timeout\<rparr>"

definition zero_OllamaResponse :: OllamaResponse where
  "zero_OllamaResponse = \<lparr>ors_model = '''', ors_response = '''', ors_done = False, ors_createdAt = '''',
     ors_totalDurationNs = 0, ors_promptEvalCount = 0, ors_promptEvalDuration = 0, ors_evalCount = 0, ors_evalDuration = 0\<rparr>"

definition OllamaResponse_fields :: "OllamaResponse fields" where
  "OllamaResponse_fields =
     [(''model'', string_field (\<lambda>v r. r\<lparr>ors_model := v\<rparr>)),
      (''response'', string_field (\<lambda>v r. r\<lparr>ors_response := v\<rparr>)),
      (''done'', bool_field (\<lambda>v r. r\<lparr>ors_done := v\<rparr>)),
      (''created_at'', string_field (\<lambda>v r. r\<lparr>ors_createdAt := v\<rparr>)),
      (''total_duration'', int_field 64 (\<lambda>v r. r\<lparr>ors_totalDurationNs := word_of_int v\<rparr>)),
      (''prompt_eval_count'', int_field 64 (\<lambda>v r. r\<lparr>ors_promptEvalCount := word_of_int v\<rparr>)),
      (''prompt_eval_duration'', int_field 64 (\<lambda>v r. r\<lparr>ors_promptEvalDuration := word_of_int v\<rparr>)),
      (''eval_count'', int_field 64 (\<lambda>v r. r\<lparr>ors_evalCount := word_of_int v\<rparr>)),
      (''eval_duration'', int_field 64 (\<lambda>v r. r\<lparr>ors_evalDuration := word_of_int v\<rparr>))]"

definition generate ::
  "'w ai_http \<Rightarrow> ollamaClient \<Rightarrow> OllamaRequest \<Rightarrow> 'w \<Rightarrow> 'w \<times> (kerr + OllamaResponse)" where
  "generate H c req w =
     (let url = oc_baseURL c @ ollamaGeneratePath
      in case http_new H ''POST'' url of
           Some e \<Rightarrow> (w, Inl (Wrapped ''build ollama http request'' e))
         | None \<Rightarrow>
             (case http_do H \<lparr>rq_method = ''POST'', rq_url = url,
                 rq_headers = [(''Content-Type'', ''application/json''), (''Accept'', ''application/json'')],
                 rq_body = Some (OllamaBody req)\<rparr> w of
                (w1, Inl e) \<Rightarrow> (w1, Inl (Wrapped ''ollama http call'' e))
              | (w1, Inr resp) \<Rightarrow>
                  if rs_status resp \<noteq> 200 then
                    (w1, Inl (OtherErr (''ollama returned HTTP '' @ fmt_int (rs_status resp) @ '': '' @
                       trim_space (take maxErrorBodyBytes (rs_body resp)))))
                  else
                    (w1, case Decode (rs_body resp) of
                           None \<Rightarrow> Inl (Wrapped ''decode ollama response'' (OtherErr json_error))
                         | Some v \<Rightarrow>
                             (case decode_struct OllamaResponse_fields v zero_OllamaResponse of
                                None \<Rightarrow> Inl (Wrapped ''decode ollama response'' (OtherErr json_error))
                              | Some r \<Rightarrow> Inr r))))"

section \<open>Reports\<close>

text \<open>The text before and after the first occurrence of a separator.\<close>

fun cut :: "string \<Rightarrow> string \<Rightarrow> (string \<times> string) option" where
  "cut sep [] = (if sep = [] then Some ([], []) else None)"
| "cut sep (c # cs) =
     (if has_prefix (c # cs) sep then Some ([], drop (length sep) (c # cs))
      else map_option (apfst (\<lambda>b. c # b)) (cut sep cs))"

definition fence :: string where "fence = ''```''"

definition re_space :: "char \<Rightarrow> bool" where
  "re_space c \<longleftrightarrow> byte c \<in> {9, 10, 12, 13, 32}"

text \<open>
  The group of the first match of \<open>markdownFenceRE\<close>: fence, optional \<open>json\<close>, white space, and the
  shortest text before the next fence. Neither \<open>json\<close> nor white space contains a backtick, so
  the greedy parts never have to give anything back.
\<close>

definition markdownFenceRE :: "string \<Rightarrow> string option" where
  "markdownFenceRE s =
     (case cut fence s of
        None \<Rightarrow> None
      | Some (_, r) \<Rightarrow>
          let r1 = (if has_prefix r ''json'' then drop 4 r else r)
          in map_option fst (cut fence (dropWhile re_space r1)))"

definition braces :: "string \<Rightarrow> string" where
  "braces s =
     (let a = dropWhile (\<lambda>c. c \<noteq> CHR ''{'') s
      in if CHR ''}'' \<in> set a then rev (dropWhile (\<lambda>c. c \<noteq> CHR ''}'') (rev a)) else s)"

definition zero_IncidentReport :: IncidentReport where
  "zero_IncidentReport = \<lparr>ir_severity = '''', ir_summary = '''', ir_rootCauseCategory = '''', ir_recommendedAction = '''',
     ir_confidence = Fin 0\<rparr>"

definition IncidentReport_fields :: "IncidentReport fields" where
  "IncidentReport_fields =
     [(''severity'', string_field (\<lambda>v r. r\<lparr>ir_severity := v\<rparr>)),
      (''summary'', string_field (\<lambda>v r. r\<lparr>ir_summary := v\<rparr>)),
      (''root_cause_category'', string_field (\<lambda>v r. r\<lparr>ir_rootCauseCategory := v\<rparr>)),
      (''recommended_action'', string_field (\<lambda>v r. r\<lparr>ir_recommendedAction := v\<rparr>)),
      (''confidence'', float32_field (\<lambda>v r. r\<lparr>ir_confidence := v\<rparr>))]"

definition parseReport :: "string \<Rightarrow> kerr + IncidentReport" where
  "parseReport raw =
     (let cleaned = (case markdownFenceRE raw of Some m \<Rightarrow> m | None \<Rightarrow> raw);
          cleaned = braces (trim_space cleaned)
      in case Option.bind (Unmarshal cleaned) (\<lambda>v. decode_struct IncidentReport_fields v zero_IncidentReport) of
           None \<Rightarrow>
             let preview = (if 300 < length raw then take 300 raw @ ellipsis else raw)
             in Inl (OtherErr (''parse LLM report (unmarshal): '' @ json_error @ '' | raw: '' @ preview))
         | Some report \<Rightarrow>
             let report = (if flt (ir_confidence report) (Fin 0) then report\<lparr>ir_confidence := Fin 0\<rparr> else report);
                 report = (if flt (Fin 1) (ir_confidence report) then report\<lparr>ir_confidence := Fin 1\<rparr> else report)
             in Inr report)"

section \<open>The advisor and its rate limiter\<close>

record advisorRateLimiter =
  al_calls :: int
  al_maxCalls :: int
  al_window :: duration
  al_resetAt :: time

definition newAdvisorRateLimiter :: "int \<Rightarrow> duration \<Rightarrow> time \<Rightarrow> advisorRateLimiter" where
  "newAdvisorRateLimiter maxCallsPerWindow window now =
     \<lparr>al_calls = 0, al_maxCalls = maxCallsPerWindow, al_window = window, al_resetAt = time_add now window\<rparr>"

definition allow :: "time \<Rightarrow> advisorRateLimiter \<Rightarrow> advisorRateLimiter \<times> bool" where
  "allow now r =
     (let r = (if al_resetAt r < now then r\<lparr>al_calls := 0, al_resetAt := time_add now (al_window r)\<rparr> else r)
      in if al_maxCalls r \<le> al_calls r then (r, False) else (r\<lparr>al_calls := al_calls r + 1\<rparr>, True))"

record Config =
  cfg_ollamaEndpoint :: string
  cfg_model :: string
  cfg_requestTimeout :: duration
  cfg_maxCallsPerMinute :: int

record Advisor =
  adv_client :: ollamaClient
  adv_model :: string
  adv_limiter :: advisorRateLimiter

definition NewAdvisor :: "Config \<Rightarrow> time \<Rightarrow> kerr + Advisor" where
  "NewAdvisor cfg now =
     (if cfg_ollamaEndpoint cfg = '''' then Inl (OtherErr ''OllamaEndpoint must not be empty'')
      else
        let model = (if cfg_model cfg = '''' then ''llama3.2'' else cfg_model cfg);
            timeout = (if cfg_requestTimeout cfg = 0 then 30 * second else cfg_requestTimeout cfg);
            maxCalls = (if cfg_maxCallsPerMinute cfg = 0 then 5 else cfg_maxCallsPerMinute cfg)
        in Inr \<lparr>adv_client = newOllamaClient (cfg_ollamaEndpoint cfg) timeout, adv_model = model,
                adv_limiter = newAdvisorRateLimiter maxCalls minute now\<rparr>)"

definition AnalyzeIncident ::
  "'w ai_http \<Rightarrow> time \<Rightarrow> IncidentContext \<Rightarrow> Advisor \<Rightarrow> 'w \<Rightarrow> Advisor \<times> 'w \<times> (kerr + IncidentReport option)" where
  "AnalyzeIncident H now ic a w =
     (let (lim, ok) = allow now (adv_limiter a); a1 = a\<lparr>adv_limiter := lim\<rparr>
      in if \<not> ok then (a1, w, Inr None)
         else case buildUserPrompt ic of
                Inl e \<Rightarrow> (a1, w, Inl (Wrapped ''build incident prompt'' e))
              | Inr userPrompt \<Rightarrow>
                  let req = \<lparr>orq_model = adv_model a1, orq_prompt = userPrompt, orq_system = systemPrompt, orq_stream = False,
                        orq_format = ''json'', orq_options = Some \<lparr>oo_temperature = r32 (1 / 10), oo_numPredict = 512,
                        oo_topP = Fin 0, oo_seed = 0\<rparr>\<rparr>
                  in (case generate H (adv_client a1) req w of
                        (w1, Inl e) \<Rightarrow> (a1, w1, Inl (Wrapped ''ollama inference'' e))
                      | (w1, Inr resp) \<Rightarrow> (a1, w1, map_sum id Some (parseReport (ors_response resp)))))"

section \<open>The notifier\<close>

definition discordEmbedColor :: "(string \<times> int) list" where
  "discordEmbedColor = [(''critical'', 15158332), (''high'', 15105570), (''medium'', 16312092), (''low'', 3447003)]"

definition defaultEmbedColor :: int where "defaultEmbedColor = 8421504"

definition severityToEmoji :: "string \<Rightarrow> string" where
  "severityToEmoji severity =
     (let s = to_lower severity
      in if s = ''critical'' then utf8 0x1F534 else if s = ''high'' then utf8 0x1F7E0
         else if s = ''medium'' then utf8 0x1F7E1 else if s = ''low'' then utf8 0x1F7E2 else utf8 0x26AA)"

record Notifier =
  nt_webhookURL :: string

definition NewNotifier :: "string \<Rightarrow> kerr + Notifier" where
  "NewNotifier webhookURL =
     (if trim_space webhookURL = '''' then Inl (OtherErr ''discord webhookURL must not be empty'')
      else Inr \<lparr>nt_webhookURL = webhookURL\<rparr>)"

definition buildEmbed :: "time \<Rightarrow> IncidentReport \<Rightarrow> IncidentContext \<Rightarrow> discordEmbed" where
  "buildEmbed now report ic =
     (let color = (case map_of discordEmbedColor (to_lower (ir_severity report)) of Some c \<Rightarrow> c | None \<Rightarrow> defaultEmbedColor);
          title = severityToEmoji (ir_severity report) @ '' ['' @ to_upper (ir_severity report) @ ''] '' @
                  ic_namespace ic @ ''/'' @ ic_nodeName ic;
          fields =
            [\<lparr>ef_name = ''Root Cause'', ef_value = ''`'' @ ir_rootCauseCategory report @ ''`'', ef_inline = True\<rparr>,
             \<lparr>ef_name = ''Confidence'', ef_value = fmt_f 0 (fmul32 (ir_confidence report) (Fin 100)) @ ''%'', ef_inline = True\<rparr>,
             \<lparr>ef_name = ''Phase'', ef_value = ''`'' @ ic_currentPhase ic @ ''`'', ef_inline = True\<rparr>,
             \<lparr>ef_name = ''Recommended Action'', ef_value = ir_recommendedAction report, ef_inline = False\<rparr>];
          scores = concat (map (\<lambda>a. if fle (r32 (4 / 10)) (an_Score a)
                     then bullet @ '' `'' @ an_Type a @ ''` '' @ utf8 0x2192 @ '' '' @ fmt_f 2 (an_Score a) @ [CHR 0x0A] else '''')
                     (ic_anomalyScores ic));
          fields = (if scores \<noteq> '''' then fields @ [\<lparr>ef_name = ''Active Anomaly Scores'', ef_value = scores, ef_inline = False\<rparr>]
                    else fields)
      in \<lparr>de_title = title, de_description = ir_summary report, de_color = color, de_fields = fields,
          de_footer = Some \<lparr>ft_text = ''TaoNode Guardian AI Advisor  '' @ bullet @ ''  '' @ ic_network ic @ ''/'' @ ic_role ic @
            ''  '' @ bullet @ ''  subnet '' @ fmt_d (ic_subnetID ic)\<rparr>,
          de_timestamp = fmt_rfc3339 now\<rparr>)"

definition Send ::
  "'w ai_http \<Rightarrow> time \<Rightarrow> Notifier \<Rightarrow> IncidentReport option \<Rightarrow> IncidentContext \<Rightarrow> 'w \<Rightarrow> 'w \<times> kerr option" where
  "Send H now n report ic w =
     (case report of
        None \<Rightarrow> (w, None)
      | Some report \<Rightarrow>
          let body = \<lparr>dw_username = ''TaoNode Guardian'', dw_embeds = [buildEmbed now report ic]\<rparr>
          in (case http_new H ''POST'' (nt_webhookURL n) of
                Some e \<Rightarrow> (w, Some (Wrapped ''build discord request'' e))
              | None \<Rightarrow>
                  (case http_do H \<lparr>rq_method = ''POST'', rq_url = nt_webhookURL n,
                      rq_headers = [(''Content-Type'', ''application/json'')], rq_body = Some (DiscordBody body)\<rparr> w of
                     (w1, Inl e) \<Rightarrow> (w1, Some (Wrapped ''discord webhook POST'' e))
                   | (w1, Inr resp) \<Rightarrow>
                       if rs_status resp \<noteq> 204 \<and> rs_status resp \<noteq> 200
                       then (w1, Some (OtherErr (''discord webhook returned HTTP '' @ fmt_int (rs_status resp) @ '': '' @
                              trim_space (take 512 (rs_body resp)))))
                       else (w1, None))))"

section \<open>The rate of inference calls\<close>

text \<open>The times of the granted calls, for calls at the given times.\<close>

fun granted :: "time list \<Rightarrow> advisorRateLimiter \<Rightarrow> time list" where
  "granted [] r = []"
| "granted (t # ts) r =
     (case allow t r of (r1, ok) \<Rightarrow> (if ok then [t] else []) @ granted ts r1)"

definition calls_between :: "time \<Rightarrow> time \<Rightarrow> time list \<Rightarrow> nat" where
  "calls_between a b ts = length (filter (\<lambda>t. a \<le> t \<and> t \<le> b) ts)"

lemma allow_cases:
  assumes "allow t r = (r1, ok)" and "0 \<le> al_calls r"
  shows "0 \<le> al_calls r1" "al_maxCalls r1 = al_maxCalls r" "al_window r1 = al_window r"
    "t \<le> al_resetAt r \<Longrightarrow> al_resetAt r1 = al_resetAt r \<and> (ok \<longrightarrow> al_calls r1 = al_calls r + 1 \<and> al_calls r < al_maxCalls r) \<and> (\<not> ok \<longrightarrow> r1 = r)"
    "al_resetAt r < t \<Longrightarrow> al_resetAt r1 = t + sint (al_window r) \<and> nat (al_maxCalls r - al_calls r1) + (if ok then 1 else 0) = nat (al_maxCalls r)"
  using assms by (auto simp: allow_def time_add_def Let_def split: if_splits)

lemma granted_set: "set (granted ts r) \<subseteq> set ts"
  by (induction ts r rule: granted.induct) (auto split: prod.splits if_splits)

lemma granted_none_after: "\<forall>t\<in>set ts. b < t \<Longrightarrow> calls_between a b (granted ts r) = 0"
  using granted_set [of ts r] by (fastforce simp: calls_between_def filter_empty_conv)

lemma granted_same_window:
  "sorted ts \<Longrightarrow> b \<le> al_resetAt r \<Longrightarrow> 0 \<le> al_calls r \<Longrightarrow> calls_between a b (granted ts r) \<le> nat (al_maxCalls r - al_calls r)"
proof (induction ts r rule: granted.induct)
  case (2 t ts r)
  obtain r1 ok where r1: "allow t r = (r1, ok)" by fastforce
  note facts = allow_cases [OF r1 "2.prems"(3)]
  show ?case
  proof (cases "t \<le> b")
    case True
    with "2.prems" facts have "calls_between a b (granted ts r1) \<le> nat (al_maxCalls r1 - al_calls r1)"
      using "2.IH" [OF r1 [symmetric]] by simp
    with True "2.prems"(2) r1 facts show ?thesis by (cases ok) (auto simp: calls_between_def)
  next
    case False
    with "2.prems" have "\<forall>x\<in>set (t # ts). b < x" by auto
    from granted_none_after [OF this] show ?thesis by simp
  qed
qed (simp add: calls_between_def)

lemma granted_two_windows:
  "sorted ts \<Longrightarrow> \<forall>t\<in>set ts. a \<le> t \<Longrightarrow> 0 \<le> al_calls r \<Longrightarrow> b = a + sint (al_window r) \<Longrightarrow>
   calls_between a b (granted ts r) \<le> nat (al_maxCalls r - al_calls r) + nat (al_maxCalls r)"
proof (induction ts r rule: granted.induct)
  case (2 t ts r)
  obtain r1 ok where r1: "allow t r = (r1, ok)" by fastforce
  note facts = allow_cases [OF r1 "2.prems"(3)]
  have head: "calls_between a b (granted (t # ts) r) \<le> (if ok then 1 else 0) + calls_between a b (granted ts r1)"
    using r1 by (simp add: calls_between_def)
  show ?case
  proof (cases "t \<le> al_resetAt r")
    case True
    have "calls_between a b (granted ts r1) \<le> nat (al_maxCalls r1 - al_calls r1) + nat (al_maxCalls r1)"
      using 2 r1 facts by simp
    with True head facts show ?thesis by (cases ok) auto
  next
    case False
    with facts(5) "2.prems" have "b \<le> al_resetAt r1" by simp
    then have "calls_between a b (granted ts r1) \<le> nat (al_maxCalls r1 - al_calls r1)"
      using granted_same_window "2.prems"(1) facts(1) by simp
    with False head facts show ?thesis by (cases ok) auto
  qed
qed (simp add: calls_between_def)

text \<open>
  C28. The load on the inference server is bounded. However the callers' requests arrive, any period
  as long as the limiter's window contains at most twice \<open>maxCalls\<close> granted calls.
\<close>

theorem advisor_rate:
  assumes "sorted ts" and "0 \<le> al_calls r"
  shows "calls_between a (a + sint (al_window r)) (granted ts r) \<le> 2 * nat (al_maxCalls r)"
  using assms
proof (induction ts r rule: granted.induct)
  case (2 t ts r)
  obtain r1 ok where r1: "allow t r = (r1, ok)" by fastforce
  note facts = allow_cases [OF r1 "2.prems"(2)]
  show ?case
  proof (cases "t < a")
    case True
    with 2 r1 facts show ?thesis by (simp add: calls_between_def)
  next
    case False
    with "2.prems" have "\<forall>x\<in>set (t # ts). a \<le> x" by auto
    from granted_two_windows [OF "2.prems"(1) this "2.prems"(2) refl] "2.prems"(2) show ?thesis by simp
  qed
qed (simp add: calls_between_def)

theorem advisor_rate_witness:
  "let r = newAdvisorRateLimiter 2 minute 0; ts = [0, 1, 2, 60000000000, 60000000001, 60000000002, 60000000003]
   in calls_between 1 (1 + sint (al_window r)) (granted ts r) \<le> 4 \<and> granted ts r = [0, 1, 60000000001, 60000000002]"
proof -
  let ?r = "newAdvisorRateLimiter 2 minute 0"
  let ?ts = "[0, 1, 2, 60000000000, 60000000001, 60000000002, 60000000003] :: time list"
  have "calls_between 1 (1 + sint (al_window ?r)) (granted ?ts ?r) \<le> 2 * nat (al_maxCalls ?r)"
    by (rule advisor_rate) (simp_all add: newAdvisorRateLimiter_def)
  moreover have "granted ?ts ?r = [0, 1, 60000000001, 60000000002]" by code_simp
  ultimately show ?thesis by (simp add: newAdvisorRateLimiter_def)
qed

section \<open>Reports in their wrappings\<close>

lemma dropWhile_front: "\<not> P c \<Longrightarrow> dropWhile P (p @ c # r) = dropWhile P p @ c # r"
  by (induction p) auto

lemma set_dropWhile_subset: "set (dropWhile P xs) \<subseteq> set xs"
  by (induction xs) auto

lemma trim_right_back: "\<not> is_space c \<Longrightarrow> trim_right (p @ c # q) = p @ c # trim_right q"
  using dropWhile_front [of is_space c "rev q" "rev p"] by (simp add: trim_right_def)

lemma set_trim_right: "set (trim_right s) \<subseteq> set s"
  using set_dropWhile_subset [of is_space "rev s"] by (simp add: trim_right_def)

lemma brace_not_space: "\<not> is_space (CHR ''{'')" "\<not> is_space (CHR ''}'')"
  by code_simp+

lemma braces_object:
  assumes "CHR ''{'' \<notin> set p" and "CHR ''}'' \<notin> set q"
  shows "braces (trim_space (p @ (CHR ''{'' # x @ ''}'') @ q)) = CHR ''{'' # x @ ''}''"
proof -
  let ?obj = "CHR ''{'' # x @ ''}''"
  have "trim_space (p @ ?obj @ q) = trim_right (trim_left p @ CHR ''{'' # x @ ''}'' @ q)"
    using dropWhile_front [of is_space "CHR ''{''" p "x @ ''}'' @ q"] brace_not_space(1)
    by (simp add: trim_space_def trim_left_def)
  also have "\<dots> = trim_left p @ CHR ''{'' # x @ CHR ''}'' # trim_right q"
    using trim_right_back [of "CHR ''}''" "trim_left p @ CHR ''{'' # x" q] brace_not_space(2) by simp
  finally have t: "trim_space (p @ ?obj @ q) = trim_left p @ CHR ''{'' # x @ CHR ''}'' # trim_right q" .
  have "dropWhile (\<lambda>c. c \<noteq> CHR ''{'') (trim_left p) = []"
    using assms(1) set_dropWhile_subset [of is_space p] by (auto simp: trim_left_def)
  then have a: "dropWhile (\<lambda>c. c \<noteq> CHR ''{'') (trim_space (p @ ?obj @ q)) = CHR ''{'' # x @ CHR ''}'' # trim_right q"
    unfolding t by (simp add: dropWhile_front)
  have "dropWhile (\<lambda>c. c \<noteq> CHR ''}'') (rev (trim_right q)) = []"
    using assms(2) set_trim_right [of q] by auto
  then have "dropWhile (\<lambda>c. c \<noteq> CHR ''}'') (rev (trim_right q) @ CHR ''}'' # rev (CHR ''{'' # x)) = CHR ''}'' # rev (CHR ''{'' # x)"
    by (simp add: dropWhile_front)
  then show ?thesis unfolding braces_def a Let_def by simp
qed

lemma cut_none: "CHR ''`'' \<notin> set s \<Longrightarrow> cut fence s = None"
  by (induction s) (auto simp: fence_def has_prefix_iff)

lemma cut_fence: "CHR ''`'' \<notin> set s \<Longrightarrow> cut fence (s @ ''```'' @ r) = Some (s, r)"
  by (induction s) (auto simp: fence_def has_prefix_iff)

definition unwrapped :: "string \<Rightarrow> string" where
  "unwrapped raw = braces (trim_space (case markdownFenceRE raw of Some m \<Rightarrow> m | None \<Rightarrow> raw))"

lemma parseReport_success:
  "parseReport raw = Inr rep \<longleftrightarrow>
   (\<exists>r. Option.bind (Unmarshal (unwrapped raw)) (\<lambda>v. decode_struct IncidentReport_fields v zero_IncidentReport) = Some r \<and>
     rep = (let r = (if flt (ir_confidence r) (Fin 0) then r\<lparr>ir_confidence := Fin 0\<rparr> else r)
            in if flt (Fin 1) (ir_confidence r) then r\<lparr>ir_confidence := Fin 1\<rparr> else r))"
  by (auto simp: parseReport_def unwrapped_def Let_def split: option.splits)

lemma unwrapped_plain:
  assumes "CHR ''`'' \<notin> set (p @ (CHR ''{'' # x @ ''}'') @ q)" and "CHR ''{'' \<notin> set p" and "CHR ''}'' \<notin> set q"
  shows "unwrapped (p @ (CHR ''{'' # x @ ''}'') @ q) = CHR ''{'' # x @ ''}''"
  using cut_none [OF assms(1)] braces_object [OF assms(2,3)] by (simp add: unwrapped_def markdownFenceRE_def)

lemma unwrapped_fenced:
  assumes "CHR ''`'' \<notin> set intro" and "CHR ''`'' \<notin> set (p @ (CHR ''{'' # x @ ''}'') @ q)"
    and "CHR ''{'' \<notin> set p" and "CHR ''}'' \<notin> set q"
  shows "unwrapped (intro @ ''```json'' @ p @ (CHR ''{'' # x @ ''}'') @ q @ ''```'' @ rest) = CHR ''{'' # x @ ''}''"
proof -
  let ?obj = "CHR ''{'' # x @ ''}''"
  have 1: "cut fence (intro @ ''```json'' @ p @ ?obj @ q @ ''```'' @ rest) = Some (intro, ''json'' @ p @ ?obj @ q @ ''```'' @ rest)"
    using cut_fence [OF assms(1), of "''json'' @ p @ ?obj @ q @ ''```'' @ rest"] by simp
  let ?p = "dropWhile re_space p"
  have "\<not> re_space (CHR ''{'')" by code_simp
  then have 2: "dropWhile re_space (p @ ?obj @ q @ ''```'' @ rest) = (?p @ ?obj @ q) @ ''```'' @ rest"
    using dropWhile_front [of re_space "CHR ''{''" p "x @ ''}'' @ q @ ''```'' @ rest"] by simp
  have 3: "CHR ''`'' \<notin> set (?p @ ?obj @ q)" "CHR ''{'' \<notin> set ?p"
    using assms(2,3) set_dropWhile_subset [of re_space p] by auto
  have "markdownFenceRE (intro @ ''```json'' @ p @ ?obj @ q @ ''```'' @ rest) = Some (?p @ ?obj @ q)"
    unfolding markdownFenceRE_def 1 using cut_fence [OF 3(1), of rest] 2 by (simp add: has_prefix_def)
  then show ?thesis using braces_object [OF 3(2) assms(4)] by (simp add: unwrapped_def)
qed

text \<open>
  C29. The parser of model output sees through the usual wrappings. An object without backticks
  gives the same report alone, with text before and after it (no opening brace before, no closing
  one after), and inside the first \<open>```json\<close> fence of a longer answer, whatever follows the fence.
\<close>

theorem parseReport_unwraps:
  assumes obj: "obj = CHR ''{'' # x @ ''}''" and tick: "CHR ''`'' \<notin> set intro" "CHR ''`'' \<notin> set (p @ obj @ q)"
    and brace: "CHR ''{'' \<notin> set p" "CHR ''}'' \<notin> set q"
  shows "(parseReport (p @ obj @ q) = Inr rep \<longleftrightarrow> parseReport obj = Inr rep) \<and>
    (parseReport (intro @ ''```json'' @ p @ obj @ q @ ''```'' @ rest) = Inr rep \<longleftrightarrow> parseReport obj = Inr rep)"
proof -
  have "unwrapped obj = obj" using unwrapped_plain [of "[]" x "[]"] tick(2) obj by simp
  then show ?thesis
    unfolding parseReport_success
    using unwrapped_plain [OF tick(2) [unfolded obj] brace] unwrapped_fenced [OF tick(1) tick(2) [unfolded obj] brace, of rest] obj
    by simp
qed

definition sample_report :: string where
  "sample_report = ''{\"severity\":\"high\",\"confidence\":1.5}''"

theorem parseReport_unwraps_witness:
  "parseReport (''Here it is: ```json'' @ [CHR 0x0A] @ sample_report @ ''```'' @ '' Anything else?'') =
     Inr \<lparr>ir_severity = ''high'', ir_summary = '''', ir_rootCauseCategory = '''', ir_recommendedAction = '''', ir_confidence = Fin 1\<rparr>"
proof -
  let ?rep = "\<lparr>ir_severity = ''high'', ir_summary = '''', ir_rootCauseCategory = '''', ir_recommendedAction = '''', ir_confidence = Fin 1\<rparr>"
  have "parseReport sample_report = Inr ?rep" by code_simp
  moreover have "sample_report = CHR ''{'' # butlast (tl sample_report) @ ''}''" by (simp add: sample_report_def)
  ultimately show ?thesis
    using parseReport_unwraps [of sample_report "butlast (tl sample_report)" "''Here it is: ''" "[CHR 0x0A]" "[]" ?rep "'' Anything else?''"]
    by (simp add: sample_report_def)
qed

section \<open>Confidence\<close>

lemma scan_number_head: "scan_number s = Some (lit, r) \<Longrightarrow> lit \<noteq> [] \<and> (hd lit = CHR ''-'' \<or> is_digit (hd lit))"
proof -
  assume n: "scan_number s = Some (lit, r)"
  have "i \<noteq> [] \<and> is_digit (hd i)" if "scan_int s0 = Some (i, s1)" for s0 i s1
  proof -
    have "is_digit (CHR ''0'')" by code_simp
    with that show ?thesis
      by (cases s0) (auto simp: scan_int_def scan_digits_def split: if_splits)
  qed
  with n show ?thesis by (fastforce simp: scan_number_def split: if_splits option.splits)
qed

lemma value_num:
  "parse_value d s0 = Some (JNum lit, r) \<Longrightarrow> lit \<noteq> [] \<and> (hd lit = CHR ''-'' \<or> is_digit (hd lit))"
proof -
  assume p: "parse_value d s0 = Some (JNum lit, r)"
  then obtain c s where "skip_ws s0 = c # s" by (auto simp: parse_value.simps split: list.splits)
  with p have "scan_number (c # s) = Some (lit, r)"
    by (subst (asm) parse_value.simps) (auto split: if_splits)
  then show ?thesis by (rule scan_number_head)
qed

definition proper_number :: "json \<Rightarrow> bool" where
  "proper_number v = (case v of JNum lit \<Rightarrow> lit \<noteq> [] \<and> (hd lit = CHR ''-'' \<or> is_digit (hd lit)) | _ \<Rightarrow> True)"

lemma parsed_proper: "parse_value d s = Some (v, r) \<Longrightarrow> proper_number v"
  using value_num by (cases v) (auto simp: proper_number_def)

lemma members_proper: "parse_members d s = Some (m, r) \<Longrightarrow> \<forall>kv\<in>set m. proper_number (snd kv)"
proof (induction s arbitrary: d m r rule: length_induct)
  case (1 s)
  obtain c s1 where c: "skip_ws s = c # s1" "byte c = 34"
    using 1(2) by (auto simp: parse_members.simps split: list.splits if_splits)
  obtain k r1 where k: "scan_string s1 = Some (k, r1)"
    using 1(2) c by (auto simp: parse_members.simps split: option.splits)
  let ?r2 = "tl (skip_ws r1)"
  have r2: "\<not> length s \<le> length ?r2" "has_prefix (skip_ws r1) '':''"
    using 1(2) c k by (auto simp: parse_members.simps Let_def split: if_splits)
  obtain w r3 where r3: "parse_value d ?r2 = Some (w, r3)"
    using 1(2) c k r2 by (auto simp: parse_members.simps Let_def split: option.splits)
  have "m = [(unquote k, w)] \<or> (\<exists>m1. m = (unquote k, w) # m1 \<and> length (tl (skip_ws r3)) < length s \<and> (\<exists>r. parse_members d (tl (skip_ws r3)) = Some (m1, r)))"
    using 1(2) c k r2 r3 by (auto simp: parse_members.simps [of d s] Let_def split: if_splits)
  with 1(1) parsed_proper [OF r3] show ?case by fastforce
qed

lemma not_nan: "lit \<noteq> [] \<Longrightarrow> hd lit = CHR ''-'' \<or> is_digit (hd lit) \<Longrightarrow> ParseFloat32 lit \<noteq> Some NaN"
proof -
  assume a: "lit \<noteq> []" "hd lit = CHR ''-'' \<or> is_digit (hd lit)"
  have "char_lower (hd lit) \<noteq> CHR ''n''"
  proof
    assume "char_lower (hd lit) = CHR ''n''"
    moreover have "char_lower (hd lit) = hd lit"
      using a(2) by (auto simp: char_lower_def is_digit_def byte_def)
    ultimately show False using a(2) by (auto simp: is_digit_def byte_def)
  qed
  then have "to_lower lit \<noteq> ''nan''" using a(1) by (cases lit) (auto simp: to_lower_def)
  then show ?thesis by (auto simp: ParseFloat32_def Let_def split: option.splits gofloat.splits)
qed

lemma field_for_in: "field_for fs k = Some f \<Longrightarrow> \<exists>n. (n, f) \<in> set fs"
  by (auto simp: field_for_def find_Some_iff split: option.splits dest: map_of_SomeD) (metis nth_mem prod.collapse)

lemma field_keeps_number:
  assumes f: "(n, f) \<in> set IncidentReport_fields" and v: "proper_number v" and r: "ir_confidence r \<noteq> NaN"
    and e: "f v r = Some r1"
  shows "ir_confidence r1 \<noteq> NaN"
  using f e r v not_nan by (cases v) (auto simp: IncidentReport_fields_def proper_number_def)

lemma decode_keeps_number:
  "decode_members IncidentReport_fields ms r = Some r1 \<Longrightarrow> \<forall>kv\<in>set ms. proper_number (snd kv) \<Longrightarrow>
   ir_confidence r \<noteq> NaN \<Longrightarrow> ir_confidence r1 \<noteq> NaN"
proof (induction ms arbitrary: r)
  case (Cons kv ms)
  obtain k v where kv: "kv = (k, v)" by fastforce
  show ?case
  proof (cases "field_for IncidentReport_fields k")
    case None
    with Cons kv show ?thesis by auto
  next
    case (Some f)
    then obtain n where "(n, f) \<in> set IncidentReport_fields" using field_for_in by blast
    moreover obtain r2 where "f v r = Some r2" "decode_members IncidentReport_fields ms r2 = Some r1"
      using Cons.prems(1) Some kv by (auto split: option.splits)
    ultimately show ?thesis
      using Cons field_keeps_number [of n f v r r2] kv by auto
  qed
qed simp

lemma unmarshal_members:
  assumes "Unmarshal s = Some (JObj ms)"
  shows "\<forall>kv\<in>set ms. proper_number (snd kv)"
proof -
  obtain r where p: "parse_value 0 s = Some (JObj ms, r)"
    using assms by (auto simp: Unmarshal_def split: option.splits if_splits)
  then obtain c s1 where "skip_ws s = c # s1" by (auto simp: parse_value.simps split: list.splits)
  with p have "ms = [] \<or> (\<exists>r. parse_members (Suc 0) s1 = Some (ms, r))"
    by (subst (asm) parse_value.simps) (auto split: if_splits)
  with members_proper show ?thesis by fastforce
qed

text \<open>
  Whatever the model answers, a report that is accepted has a confidence between 0 and 1, and
  it comes from a JSON object or the literal \<open>null\<close> (which gives the empty report); every other
  answer is an error.
\<close>

theorem parseReport_confidence:
  "case parseReport raw of
     Inl e \<Rightarrow> True
   | Inr rep \<Rightarrow> (\<exists>c. ir_confidence rep = Fin c \<and> 0 \<le> c \<and> c \<le> 1) \<and>
       (Unmarshal (unwrapped raw) = Some JNull \<or> (\<exists>ms. Unmarshal (unwrapped raw) = Some (JObj ms)))"
proof (cases "parseReport raw")
  case (Inr rep)
  then obtain r v where v: "Unmarshal (unwrapped raw) = Some v" "decode_struct IncidentReport_fields v zero_IncidentReport = Some r"
    and rep: "rep = (let r = (if flt (ir_confidence r) (Fin 0) then r\<lparr>ir_confidence := Fin 0\<rparr> else r)
            in if flt (Fin 1) (ir_confidence r) then r\<lparr>ir_confidence := Fin 1\<rparr> else r)"
    unfolding parseReport_success by (auto simp: bind_eq_Some_conv)
  have "ir_confidence r \<noteq> NaN"
  proof (cases v)
    case (JObj ms)
    then show ?thesis
      using v unmarshal_members decode_keeps_number [of ms zero_IncidentReport r] by (auto simp: zero_IncidentReport_def)
  qed (use v in \<open>auto simp: zero_IncidentReport_def\<close>)
  then have "\<exists>c. ir_confidence rep = Fin c \<and> 0 \<le> c \<and> c \<le> 1"
    unfolding rep by (cases "ir_confidence r") (auto simp: Let_def)
  moreover have "v = JNull \<or> (\<exists>ms. v = JObj ms)" using v(2) by (cases v) auto
  ultimately show ?thesis using Inr v(1) by auto
qed simp

end
