(* ===== verification/Reconciler.thy ===== *)
theory Reconciler
  imports Sync_State_Machine Workload_Manager Storage_Manager Validator_Guard Anomaly_Detector Circuit_Breaker
    Batch_Writer Ai_Advisor
begin

text \<open>
  The reconcile loop, \<open>internal/controller/taonode_controller.go\<close>, and the chain probe,
  \<open>internal/controller/chain_probe.go\<close>, which compose the components of the controller.

  The state of a handler is extended by the planes the reconcilers share: the circuit breaker, the
  batch writer and the advisor, each of which may be absent, and the advisory goroutines that were
  launched. A goroutine runs later as an operation of its own, \<open>run_advisory\<close>. The operator-wide
  services are fixed for a run: besides those of \<open>operator_env\<close> semantic equality, the finalizer
  helpers of controller-runtime, the HTTP transport, the detector's database with the order in which
  its answers arrive, and the latency the clock measures for the probe.
\<close>

section \<open>State and services\<close>

record finalizer_ops =
  fin_contains :: "string list \<Rightarrow> string \<Rightarrow> bool"
  fin_add :: "string list \<Rightarrow> string \<Rightarrow> string list"
  fin_remove :: "string list \<Rightarrow> string \<Rightarrow> string list"

text \<open>As documented: adding and removing act on the set of finalizers.\<close>

definition finalizer_laws :: "finalizer_ops \<Rightarrow> bool" where
  "finalizer_laws F \<longleftrightarrow>
     (\<forall>l x. fin_contains F l x \<longleftrightarrow> x \<in> set l) \<and>
     (\<forall>l x. set (fin_add F l x) = insert x (set l)) \<and>
     (\<forall>l x. set (fin_remove F l x) = set l - {x})"

record 'w controller_env =
  ce_env :: "'w operator_env"
  ce_semantic :: semantic_eq
  ce_finalizers :: finalizer_ops
  ce_http :: "'w ai_http"
  ce_detector :: "detector_db option"
  ce_arrivals :: "nat list"
  ce_latency :: duration

record 'w controller_state = "'w recovery_state" +
  ctl_breaker :: "CircuitBreaker option"
  ctl_writer :: "BatchWriter option"
  ctl_advisor :: "Advisor option"
  ctl_tasks :: "(TaoNode \<times> IncidentContext) list"

definition finalizerName :: string where "finalizerName = ''tao.guardian.io/finalizer''"

section \<open>The chain probe\<close>

definition zero_ChainHealthResult :: ChainHealthResult where
  "zero_ChainHealthResult = \<lparr>h_currentBlock = 0, h_networkBlock = 0, h_finalizedBlock = 0, h_peerCount = 0,
     h_syncState = '''', h_runtimeVersion = '''', h_epoch = 0, h_probeLatency = 0, h_diskUsagePercent = 0,
     h_diskUsedBytes = 0, h_diskTotalBytes = 0, h_gpuUtilPercent = 0, h_gpuMemUsedBytes = 0, h_gpuTempCelsius = 0\<rparr>"

definition ChainHealthResult_fields :: "ChainHealthResult fields" where
  "ChainHealthResult_fields =
     [(''currentBlock'', int_field 64 (\<lambda>v r. r\<lparr>h_currentBlock := word_of_int v\<rparr>)),
      (''networkBlock'', int_field 64 (\<lambda>v r. r\<lparr>h_networkBlock := word_of_int v\<rparr>)),
      (''finalizedBlock'', int_field 64 (\<lambda>v r. r\<lparr>h_finalizedBlock := word_of_int v\<rparr>)),
      (''peerCount'', int_field 32 (\<lambda>v r. r\<lparr>h_peerCount := word_of_int v\<rparr>)),
      (''syncState'', string_field (\<lambda>v r. r\<lparr>h_syncState := v\<rparr>)),
      (''runtimeVersion'', string_field (\<lambda>v r. r\<lparr>h_runtimeVersion := v\<rparr>)),
      (''epoch'', int_field 64 (\<lambda>v r. r\<lparr>h_epoch := word_of_int v\<rparr>)),
      (''diskUsagePercent'', int_field 32 (\<lambda>v r. r\<lparr>h_diskUsagePercent := word_of_int v\<rparr>)),
      (''diskUsedBytes'', uint_field 64 (\<lambda>v r. r\<lparr>h_diskUsedBytes := word_of_int v\<rparr>)),
      (''diskTotalBytes'', uint_field 64 (\<lambda>v r. r\<lparr>h_diskTotalBytes := word_of_int v\<rparr>)),
      (''gpuUtilPercent'', uint_field 8 (\<lambda>v r. r\<lparr>h_gpuUtilPercent := word_of_int v\<rparr>)),
      (''gpuMemUsedBytes'', uint_field 64 (\<lambda>v r. r\<lparr>h_gpuMemUsedBytes := word_of_int v\<rparr>)),
      (''gpuTempCelsius'', uint_field 16 (\<lambda>v r. r\<lparr>h_gpuTempCelsius := word_of_int v\<rparr>))]"

definition decode_health :: "string \<Rightarrow> ChainHealthResult option" where
  "decode_health body =
     Option.bind (Decode body) (\<lambda>v. decode_struct ChainHealthResult_fields v zero_ChainHealthResult)"

definition probeChainHealth ::
  "'w controller_env \<Rightarrow> TaoNode \<Rightarrow> ('w, 'a) kstate_scheme \<Rightarrow> ('w, 'a) kstate_scheme \<times> (kerr + ChainHealthResult)" where
  "probeChainHealth E tn s =
     (let podName = tn_name tn @ ''-0''; H = ce_http E
      in case call (\<lambda>w. k_getPod (env_client (ce_env E)) w (tn_namespace tn) podName) s of
           (s1, Inl e) \<Rightarrow> (s1, Inl (Wrapped (''get pod '' @ tn_namespace tn @ ''/'' @ podName) e))
         | (s1, Inr pod) \<Rightarrow>
             if pod_podIP pod = '''' then
               (s1, Inl (OtherErr (''pod '' @ tn_namespace tn @ ''/'' @ podName @ '' has no IP assigned yet'')))
             else
               let probeURL = ''http://'' @ pod_podIP pod @ '':'' @ fmt_d chainProbePort @ ''/health''
               in (case http_new H ''GET'' probeURL of
                     Some e \<Rightarrow> (s1, Inl (Wrapped ''build probe request'' e))
                   | None \<Rightarrow>
                       (case call (http_do H \<lparr>rq_method = ''GET'', rq_url = probeURL, rq_headers = [], rq_body = None\<rparr>) s1 of
                          (s2, Inl e) \<Rightarrow> (s2, Inl (Wrapped (''probe '' @ probeURL) e))
                        | (s2, Inr resp) \<Rightarrow>
                            if rs_status resp \<noteq> 200
                            then (s2, Inl (OtherErr (''probe returned HTTP '' @ fmt_int (rs_status resp))))
                            else (case decode_health (rs_body resp) of
                                    None \<Rightarrow> (s2, Inl (Wrapped (''decode probe response from '' @ probeURL) (OtherErr json_error)))
                                  | Some result \<Rightarrow> (s2, Inr (result\<lparr>h_probeLatency := ce_latency E\<rparr>))))))"

section \<open>Guards before provisioning\<close>

definition quoted :: "string \<Rightarrow> string" where "quoted s = [CHR 0x22] @ s @ [CHR 0x22]"

definition workloadManagerRole :: string where "workloadManagerRole = ''taonode-guardian-workload-manager''"

definition validateNamespacePermissions ::
  "'w operator_env \<Rightarrow> time \<Rightarrow> TaoNode \<Rightarrow> ('w, 'a) kstate_scheme \<Rightarrow> ('w, 'a) kstate_scheme \<times> TaoNode \<times> kerr option" where
  "validateNamespacePermissions env now tn s =
     (let C = env_conditions env
      in case call (\<lambda>w. k_getRole (env_client env) w (tn_namespace tn) workloadManagerRole) s of
           (s1, Inl err) \<Rightarrow>
             if IsNotFound err then
               let msg = ''RBAC Role '' @ quoted workloadManagerRole @ '' not found in namespace '' @ quoted (tn_namespace tn) @
                     ''. SRE action required: apply config/rbac/role-workload-manager.yaml with kubectl -n '' @ tn_namespace tn @
                     '' and re-apply the RoleBinding.'';
                   tn1 = setCondition C now ''NamespaceReady'' ConditionFalse ''InsufficientPermissions'' msg tn
               in (Eventf tn1 EventWarning ''NamespaceRBACMissing'' msg s1, tn1, Some err)
             else if IsForbidden err then
               let msg = ''Cannot verify RBAC Role '' @ quoted workloadManagerRole @ '' in namespace '' @ quoted (tn_namespace tn) @
                     '' because the controller ServiceAccount lacks read access to roles.rbac.authorization.k8s.io. '' @
                     ''Fix the production RBAC bundle before provisioning workloads.'';
                   tn1 = setCondition C now ''NamespaceReady'' ConditionFalse ''RBACValidationForbidden'' msg tn
               in (Eventf tn1 EventWarning ''NamespaceRBACValidationForbidden'' msg s1, tn1, Some err)
             else (s1, tn, Some (Wrapped ''check namespace RBAC'' err))
         | (s1, Inr _) \<Rightarrow>
             (s1, setCondition C now ''NamespaceReady'' ConditionTrue ''RBACReady''
                    (''Workload-manager Role present in namespace '' @ tn_namespace tn) tn, None))"

definition set_hotkeyHash :: "string \<Rightarrow> TaoNode \<Rightarrow> TaoNode" where
  "set_hotkeyHash h tn = tn\<lparr>tn_status := (tn_status tn)\<lparr>st_hotkeyHash := h\<rparr>\<rparr>"

definition validateHotkeySecret ::
  "'w operator_env \<Rightarrow> time \<Rightarrow> TaoNode \<Rightarrow> ('w, 'a) kstate_scheme \<Rightarrow> ('w, 'a) kstate_scheme \<times> TaoNode \<times> kerr option" where
  "validateHotkeySecret env now tn s =
     (let C = env_conditions env; secretName = hotkey_secret_name tn
      in if tn_role tn \<noteq> RoleValidator \<and> tn_role tn \<noteq> RoleMiner then (s, set_hotkeyHash '''' tn, None)
         else if secretName = '''' then
           (s, set_hotkeyHash '''' tn,
            Some (OtherErr (''hotkey secret reference is required for role '' @ role_string (tn_role tn))))
         else case call (\<lambda>w. k_getSecret (env_client env) w (tn_namespace tn) secretName) s of
                (s1, Inl err) \<Rightarrow>
                  let tn1 = set_hotkeyHash '''' tn
                  in if IsNotFound err then
                       (s1, setCondition C now ''HotkeyAvailable'' ConditionFalse ''SecretNotFound''
                          (''Secret '' @ secretName @ '' not found in namespace '' @ tn_namespace tn @
                           ''. Create it via ExternalSecret or kubectl.'') tn1, Some err)
                     else (s1, tn1, Some (Wrapped ''check hotkey secret'' err))
              | (s1, Inr secret) \<Rightarrow>
                  (case sec_data secret ''hotkey'' of
                     None \<Rightarrow> (s1, set_hotkeyHash '''' tn,
                       Some (OtherErr (''secret '' @ secretName @ '' exists but missing '' @ [CHR 0x27] @ ''hotkey'' @ [CHR 0x27] @ '' data key'')))
                   | Some keyData \<Rightarrow>
                       let hashPrefix = ''sha256:'' @ hex_encode (take 8 (sha256 keyData))
                       in (s1, setCondition C now ''HotkeyAvailable'' ConditionTrue ''SecretValid''
                             (''Hotkey secret '' @ secretName @ '' validated (size_bytes: '' @ fmt_int (int (length keyData)) @
                              '', hash: '' @ hashPrefix @ '')'') (set_hotkeyHash hashPrefix tn), None)))"

section \<open>Persisting the status\<close>

definition put_status :: "'w operator_env \<Rightarrow> TaoNode \<Rightarrow> TaoNodeStatus \<Rightarrow> 'w \<Rightarrow> 'w \<times> kerr option" where
  "put_status env tn desiredStatus w =
     (case k_getTaoNode (env_client env) w (tn_namespace tn) (tn_name tn) of
        (w1, Inl e) \<Rightarrow> (w1, Some e)
      | (w1, Inr latest) \<Rightarrow> k_updateTaoNodeStatus (env_client env) w1 (latest\<lparr>tn_status := desiredStatus\<rparr>))"

definition updateStatusAndRequeue ::
  "'w operator_env \<Rightarrow> TaoNode \<Rightarrow> duration \<Rightarrow> ('w, 'a) kstate_scheme \<Rightarrow> ('w, 'a) kstate_scheme \<times> ctrl_result \<times> kerr option" where
  "updateStatusAndRequeue env tn after s =
     (case call (k_retryOnConflict (env_client env) (put_status env tn (tn_status tn))) s of
        (s1, Some e) \<Rightarrow> if IsNotFound e then (s1, no_requeue, None)
                        else (s1, no_requeue, Some (Wrapped ''update TaoNode status'' e))
      | (s1, None) \<Rightarrow> (s1, \<lparr>RequeueAfter = after\<rparr>, None))"

section \<open>Finalization\<close>

definition deleteLeaseIfExists ::
  "'w operator_env \<Rightarrow> string \<Rightarrow> string \<Rightarrow> ('w, 'a) kstate_scheme \<Rightarrow> ('w, 'a) kstate_scheme \<times> kerr option" where
  "deleteLeaseIfExists env namespace name s =
     (case call (\<lambda>w. k_getLease (env_client env) w namespace name) s of
        (s1, Inl e) \<Rightarrow> (s1, IgnoreNotFound e)
      | (s1, Inr lease) \<Rightarrow> call (\<lambda>w. k_deleteLease (env_client env) w lease) s1)"

definition final_snapshot ::
  "'w operator_env \<Rightarrow> time \<Rightarrow> TaoNode \<Rightarrow> ('w, 'a) kstate_scheme \<Rightarrow> ('w, 'a) kstate_scheme \<times> TaoNode" where
  "final_snapshot env now tn s =
     (case spec_snapshotPolicy (tn_spec tn) of
        Some policy \<Rightarrow>
          if snp_onSyncLoss policy
          then (case triggerSnapshot env now tn ''pre-deletion'' s of (s1, tn1, err) \<Rightarrow> (s1, tn1))
          else (s, tn)
      | None \<Rightarrow> (s, tn))"

definition handleFinalization ::
  "'w controller_env \<Rightarrow> time \<Rightarrow> TaoNode \<Rightarrow> ('w, 'a) kstate_scheme \<Rightarrow> ('w, 'a) kstate_scheme \<times> ctrl_result \<times> kerr option" where
  "handleFinalization E now tn s =
     (let env = ce_env E; F = ce_finalizers E
      in if \<not> fin_contains F (om_finalizers (tn_meta tn)) finalizerName then (s, no_requeue, None)
         else
           let (s1, tn1) = final_snapshot env now tn s;
               s2 = (if tn_role tn1 = RoleValidator
                     then fst (deleteLeaseIfExists env (tn_namespace tn1) (tn_name tn1 @ ''-validator-singleton'') s1) else s1);
               s3 = Eventf tn1 EventNormal ''Finalized'' ''TaoNode resources cleaned up, removing finalizer'' s2;
               tn2 = tn1\<lparr>tn_meta := (tn_meta tn1)\<lparr>om_finalizers := fin_remove F (om_finalizers (tn_meta tn1)) finalizerName\<rparr>\<rparr>
           in (case call (\<lambda>w. k_updateTaoNode (env_client env) w tn2) s3 of
                 (s4, Some e) \<Rightarrow> (s4, no_requeue, Some (Wrapped ''remove finalizer'' e))
               | (s4, None) \<Rightarrow> (s4, no_requeue, None)))"

section \<open>Analytics\<close>

definition duration_seconds :: "duration \<Rightarrow> gofloat" where
  "duration_seconds d =
     (let ns = sint d
      in fadd64 (f64_of_int (ns sdiv 1000000000)) (fdiv64 (f64_of_int (ns smod 1000000000)) (r64 1000000000)))"

definition buildTelemetryRow :: "time \<Rightarrow> TaoNode \<Rightarrow> ChainHealthResult \<Rightarrow> ChainTelemetryRow" where
  "buildTelemetryRow now tn health =
     (let blocksPerSecond =
            (if 0 <s h_probeLatency health
             then fdiv32 (f32_of_int (sint (h_currentBlock health))) (to_f32 (duration_seconds (h_probeLatency health)))
             else Fin 0)
      in \<lparr>ct_timestamp = now, ct_namespace = tn_namespace tn, ct_nodeName = tn_name tn, ct_network = tn_network tn,
          ct_subnetID = ucast (spec_subnetID (tn_spec tn)), ct_role = role_string (tn_role tn),
          ct_currentBlock = h_currentBlock health, ct_networkBlock = h_networkBlock health,
          ct_blockLag = h_networkBlock health - h_currentBlock health,
          ct_finalizedBlock = h_finalizedBlock health, ct_peerCount = ucast (h_peerCount health),
          ct_runtimeVersion = h_runtimeVersion health, ct_syncState = h_syncState health,
          ct_blocksPerSecond = blocksPerSecond,
          ct_probeLatencyMs = ucast (quot64 (h_probeLatency health) 1000000),
          ct_probeSuccess = 1, ct_diskUsagePercent = ucast (h_diskUsagePercent health),
          ct_diskUsedBytes = h_diskUsedBytes health, ct_diskTotalBytes = h_diskTotalBytes health,
          ct_gpuUtilizationPercent = h_gpuUtilPercent health, ct_gpuMemoryUsedBytes = h_gpuMemUsedBytes health,
          ct_gpuTemperatureCelsius = h_gpuTempCelsius health\<rparr>)"

definition buildReconcileAuditRow :: "time \<Rightarrow> TaoNode \<Rightarrow> ReconcileAuditRow" where
  "buildReconcileAuditRow now tn =
     \<lparr>ra_timestamp = now, ra_namespace = tn_namespace tn, ra_nodeName = tn_name tn, ra_triggerType = ''periodic'',
      ra_generation = om_generation (tn_meta tn), ra_resourceVersion = om_resourceVersion (tn_meta tn),
      ra_phaseBefore = phase_string (tn_phase tn), ra_syncStateBefore = sss_state (st_syncState (tn_status tn)),
      ra_blockLagBefore = sss_blockLag (st_syncState (tn_status tn))\<rparr>"

definition update_analytics :: "(AnalyticsStatusBlock \<Rightarrow> AnalyticsStatusBlock) \<Rightarrow> TaoNode \<Rightarrow> TaoNode" where
  "update_analytics f tn = tn\<lparr>tn_status := (tn_status tn)\<lparr>st_analytics := map_option f (st_analytics (tn_status tn))\<rparr>\<rparr>"

definition connected_status :: "time \<Rightarrow> TaoNode \<Rightarrow> TaoNode" where
  "connected_status now tn =
     (let blk = (case st_analytics (tn_status tn) of None \<Rightarrow> zero_AnalyticsStatusBlock | Some b \<Rightarrow> b)
      in tn\<lparr>tn_status := (tn_status tn)\<lparr>st_analytics := Some (blk\<lparr>asb_connected := True, asb_lastIngestionTime := Some now\<rparr>)\<rparr>\<rparr>)"

definition detect_anomalies ::
  "'w controller_env \<Rightarrow> time \<Rightarrow> TaoNode \<Rightarrow> CircuitBreaker \<Rightarrow> ('w, 'a) controller_state_scheme \<Rightarrow>
   ('w, 'a) controller_state_scheme \<times> TaoNode \<times> AnomalyScore list" where
  "detect_anomalies E now tn cb s =
     (let C = env_conditions (ce_env E)
      in case (ce_detector E, spec_analytics (tn_spec tn)) of
           (Some db, Some an) \<Rightarrow>
             if (case an_anomalyDetection an of None \<Rightarrow> False | Some ad \<Rightarrow> ad_enabled ad) then
               let (scores, err) = EvaluateNode db now (ce_arrivals E) (tn_namespace tn) (tn_name tn) (tn_network tn)
                     (ucast (spec_subnetID (tn_spec tn)));
                   s1 = sample (WithLabelValues anomalyEvaluationDuration_desc [tn_name tn, tn_namespace tn] Observe) s
               in (case err of
                     Some e \<Rightarrow>
                       (s1\<lparr>ctl_breaker := Some (RecordFailure now cb)\<rparr>,
                        update_analytics (\<lambda>b. b\<lparr>asb_connected := False\<rparr>)
                          (setCondition C now ''AnalyticsAvailable'' ConditionFalse ''QueryFailed'' (error_text e) tn), [])
                   | None \<Rightarrow>
                       (s1\<lparr>ctl_breaker := Some (RecordSuccess cb)\<rparr>,
                        setCondition C now ''AnalyticsAvailable'' ConditionTrue ''Connected'' ''Analytics plane healthy'' tn, scores))
             else (s, tn, [])
         | _ \<Rightarrow> (s, tn, []))"

definition reconcileWithAnalytics ::
  "'w controller_env \<Rightarrow> time \<Rightarrow> TaoNode \<Rightarrow> ChainHealthResult \<Rightarrow> ('w, 'a) controller_state_scheme \<Rightarrow>
   ('w, 'a) controller_state_scheme \<times> TaoNode \<times> AnomalyScore list" where
  "reconcileWithAnalytics E now tn health s =
     (case spec_analytics (tn_spec tn) of
        None \<Rightarrow> (s, tn, [])
      | Some an \<Rightarrow>
          if \<not> an_enabled an then (s, tn, [])
          else case (ctl_writer s, ctl_breaker s) of
                 (Some writer, Some breaker) \<Rightarrow>
                   let (cb, allowed) = Allow now breaker; s1 = s\<lparr>ctl_breaker := Some cb\<rparr>
                   in if \<not> allowed then
                        (sample (WithLabelValues analyticsGracefulDegradations_desc [] Inc) s1,
                         setCondition (env_conditions (ce_env E)) now ''AnalyticsAvailable'' ConditionFalse ''CircuitBreakerOpen''
                           ''ClickHouse circuit open, operating in reactive-only mode'' tn, [])
                      else
                        let writer = PushTelemetry (buildTelemetryRow now tn health) writer;
                            writer = (if ing_reconcileAudit (an_ingestion an)
                                      then PushReconcileAudit (buildReconcileAuditRow now tn) writer else writer)
                        in detect_anomalies E now (connected_status now tn) cb (s1\<lparr>ctl_writer := Some writer\<rparr>)
               | _ \<Rightarrow> (s, tn, []))"

section \<open>Advisories\<close>

definition buildIncidentContext :: "TaoNode \<Rightarrow> AnomalyScore list \<Rightarrow> IncidentContext" where
  "buildIncidentContext tn anomalies =
     \<lparr>ic_nodeName = tn_name tn, ic_namespace = tn_namespace tn, ic_network = tn_network tn,
      ic_subnetID = spec_subnetID (tn_spec tn), ic_role = role_string (tn_role tn),
      ic_currentPhase = phase_string (tn_phase tn), ic_anomalyScores = anomalies,
      ic_recentTelemetry = [], ic_pastIncidents = [], ic_recoveryHistory = []\<rparr>"

definition advisory_threshold :: "AIAdvisorSpec \<Rightarrow> gofloat" where
  "advisory_threshold ai =
     (if ai_minAnomalyScoreForAdvisory ai = '''' then r32 (6 / 10)
      else case ParseFloat32 (ai_minAnomalyScoreForAdvisory ai) of Some parsed \<Rightarrow> parsed | None \<Rightarrow> r32 (6 / 10))"

text \<open>The launched goroutine keeps a copy of the resource and its context.\<close>

definition maybeRequestAIAdvisory ::
  "TaoNode \<Rightarrow> AnomalyScore list \<Rightarrow> ('w, 'a) controller_state_scheme \<Rightarrow> ('w, 'a) controller_state_scheme" where
  "maybeRequestAIAdvisory tn anomalies s =
     (case (ctl_advisor s, spec_aiAdvisor (tn_spec tn)) of
        (Some _, Some ai) \<Rightarrow>
          if ai_enabled ai \<and> list_ex (\<lambda>a. fle (advisory_threshold ai) (an_Score a)) anomalies
          then s\<lparr>ctl_tasks := ctl_tasks s @ [(tn, buildIncidentContext tn anomalies)]\<rparr> else s
      | _ \<Rightarrow> s)"

definition put_advisory :: "'w operator_env \<Rightarrow> TaoNode \<Rightarrow> AIAdvisoryStatus \<Rightarrow> 'w \<Rightarrow> 'w \<times> kerr option" where
  "put_advisory env tn desired w =
     (case k_getTaoNode (env_client env) w (tn_namespace tn) (tn_name tn) of
        (w1, Inl e) \<Rightarrow> (w1, Some e)
      | (w1, Inr latest) \<Rightarrow>
          k_updateTaoNodeStatus (env_client env) w1 (latest\<lparr>tn_status := (tn_status latest)\<lparr>st_aiAdvisory := Some desired\<rparr>\<rparr>))"

definition updateAIAdvisoryStatus ::
  "'w operator_env \<Rightarrow> time \<Rightarrow> TaoNode \<Rightarrow> IncidentReport \<Rightarrow> ('w, 'a) kstate_scheme \<Rightarrow> ('w, 'a) kstate_scheme \<times> kerr option" where
  "updateAIAdvisoryStatus env now tn report s =
     (let desired = \<lparr>aas_lastReport = Some \<lparr>irs_timestamp = Some now, irs_severity = ir_severity report,
            irs_summary = ir_summary report, irs_rootCauseCategory = ir_rootCauseCategory report,
            irs_recommendedAction = ir_recommendedAction report, irs_confidence = fmt_f 2 (ir_confidence report)\<rparr>,
            aas_modelAvailable = True, aas_inferencesTotal24h = 0, aas_avgInferenceLatencyMs = 0\<rparr>
      in call (k_retryOnConflict (env_client env) (put_advisory env tn desired)) s)"

definition sendNotifications ::
  "TaoNode \<Rightarrow> IncidentReport \<Rightarrow> ('w, 'a) kstate_scheme \<Rightarrow> ('w, 'a) kstate_scheme" where
  "sendNotifications tn report s =
     (case Option.bind (spec_aiAdvisor (tn_spec tn)) ai_notificationChannels of
        None \<Rightarrow> s
      | Some channels \<Rightarrow>
          if nc_kubernetesEvents channels then
            Eventf tn EventWarning ''AIIncidentReport''
              (''['' @ ir_severity report @ ''] '' @ ir_summary report @ '' '' @ em_dash @ '' '' @ ir_recommendedAction report @
               '' (confidence: '' @ fmt_f 0 (fmul32 (ir_confidence report) (Fin 100)) @ ''%)'') s
          else s)"

definition run_advisory ::
  "'w controller_env \<Rightarrow> time \<Rightarrow> TaoNode \<times> IncidentContext \<Rightarrow> ('w, 'a) controller_state_scheme \<Rightarrow> ('w, 'a) controller_state_scheme" where
  "run_advisory E now task s =
     (case ctl_advisor s of
        None \<Rightarrow> s
      | Some advisor \<Rightarrow>
          let (tn, ic) = task;
              (advisor1, w, answer) = AnalyzeIncident (ce_http E) now ic advisor (ks_world s);
              s1 = s\<lparr>ks_world := w, ctl_advisor := Some advisor1\<rparr>
          in (case answer of
                Inl e \<Rightarrow> s1
              | Inr None \<Rightarrow> s1
              | Inr (Some report) \<Rightarrow> sendNotifications tn report (fst (updateAIAdvisoryStatus (ce_env E) now tn report s1))))"

section \<open>The reconcile loop\<close>

definition deletion_requested :: "TaoNode \<Rightarrow> bool" where
  "deletion_requested tn = (case om_deletionTimestamp (tn_meta tn) of None \<Rightarrow> False | Some t \<Rightarrow> t \<noteq> time_zero)"

definition observe :: "TaoNode \<Rightarrow> ChainHealthResult \<Rightarrow> TaoNode" where
  "observe tn health =
     (let st = tn_status tn
      in tn\<lparr>tn_status := st
           \<lparr>st_syncState := (st_syncState st)\<lparr>sss_currentBlock := h_currentBlock health, sss_networkBlock := h_networkBlock health,
              sss_blockLag := h_networkBlock health - h_currentBlock health, sss_state := h_syncState health\<rparr>,
            st_chain := (st_chain st)\<lparr>chs_peerCount := h_peerCount health, chs_finalizedBlock := h_finalizedBlock health,
              chs_runtimeVersion := h_runtimeVersion health, chs_epoch := h_epoch health\<rparr>,
            st_resources := (st_resources st)\<lparr>rs_diskUsagePercent := h_diskUsagePercent health\<rparr>\<rparr>\<rparr>)"

definition score_status :: "AnomalyScore \<Rightarrow> AnomalyScoreStatus" where
  "score_status a = \<lparr>ass_type = an_Type a, ass_score = fmt_f 3 (an_Score a), ass_detail = an_Detail a,
     ass_detectedAt = Some (an_DetectedAt a)\<rparr>"

definition record_scores :: "AnomalyScore list \<Rightarrow> TaoNode \<Rightarrow> TaoNode" where
  "record_scores scores tn =
     (if scores = [] then tn else update_analytics (\<lambda>b. b\<lparr>asb_anomalyScores := map score_status scores\<rparr>) tn)"

text \<open>Steps 5 and 6: the resource and the anomalies the state machine sees.\<close>

definition observed_input ::
  "'w controller_env \<Rightarrow> time \<Rightarrow> TaoNode \<Rightarrow> ChainHealthResult \<Rightarrow> ('w, 'a) controller_state_scheme \<Rightarrow>
   ('w, 'a) controller_state_scheme \<times> TaoNode \<times> AnomalyScore list" where
  "observed_input E now tn0 health s0 =
     (let (s1, tn1, anomalyScores) = reconcileWithAnalytics E now tn0 health s0;
          tn2 = observe tn1 health;
          (s2, tn3) = updateGPUStatus tn2 health s1;
          (s3, tn4) = updateFinOpsStatus (env_quantities (ce_env E)) tn3 s2
      in (s3, record_scores anomalyScores tn4, anomalyScores))"

text \<open>Steps 5 to 10, after a successful probe.\<close>

definition reconcile_probed ::
  "'w controller_env \<Rightarrow> time \<Rightarrow> TaoNode \<Rightarrow> ChainHealthResult \<Rightarrow> ('w, 'a) controller_state_scheme \<Rightarrow>
   ('w, 'a) controller_state_scheme \<times> ctrl_result \<times> kerr option" where
  "reconcile_probed E now tn0 health s0 =
     (let env = ce_env E;
          (s3, tn5, anomalyScores) = observed_input E now tn0 health s0
      in case evaluateSyncState env now tn5 health anomalyScores s3 of
           (s4, tn6, result, Some e) \<Rightarrow> (s4, no_requeue, Some e)
         | (s4, tn6, result, None) \<Rightarrow>
             let (s5, diskErr) = evaluateDiskPressure env tn6 s4;
                 s6 = maybeRequestAIAdvisory tn6 anomalyScores s5;
                 tn7 = tn6\<lparr>tn_status := (tn_status tn6)
                         \<lparr>st_observedGeneration := om_generation (tn_meta tn6), st_lastReconcileTime := Some now\<rparr>\<rparr>;
                 s7 = sample (WithLabelValues reconcileDuration_desc [tn_name tn7, tn_namespace tn7, ''success''] Observe) s6
             in if 0 <s RequeueAfter result then updateStatusAndRequeue env tn7 (RequeueAfter result) s7
                else updateStatusAndRequeue env tn7 (seconds32 (sp_probeIntervalSeconds (tn_policy tn7))) s7)"

text \<open>Step 4, and the rest of step 3 once the workload may be provisioned.\<close>

definition reconcile_probe ::
  "'w controller_env \<Rightarrow> time \<Rightarrow> TaoNode \<Rightarrow> ('w, 'a) controller_state_scheme \<Rightarrow>
   ('w, 'a) controller_state_scheme \<times> ctrl_result \<times> kerr option" where
  "reconcile_probe E now tn s =
     (let env = ce_env E; C = env_conditions env
      in case probeChainHealth E tn s of
           (s1, Inl e) \<Rightarrow>
             let tn1 = setCondition C now ''ProbeSucceeded'' ConditionFalse ''ProbeFailed'' (error_text e) tn
             in updateStatusAndRequeue env tn1 (if tn_phase tn1 = PhasePending then 15 * second else 30 * second) s1
         | (s1, Inr health) \<Rightarrow>
             reconcile_probed E now (setCondition C now ''ProbeSucceeded'' ConditionTrue ''ProbeOK'' ''Chain probe succeeded'' tn) health s1)"

definition reconcile_workload ::
  "'w controller_env \<Rightarrow> time \<Rightarrow> TaoNode \<Rightarrow> ('w, 'a) controller_state_scheme \<Rightarrow>
   ('w, 'a) controller_state_scheme \<times> ctrl_result \<times> kerr option" where
  "reconcile_workload E now tn s =
     (let env = ce_env E
      in case ensureNodeWorkload env (ce_semantic E) tn s of
           (s1, Some e) \<Rightarrow> (s1, no_requeue, Some (Wrapped ''ensure StatefulSet'' e))
         | (s1, None) \<Rightarrow>
             let s2 = (if monitoring_on tn then fst (ensureServiceMonitor env tn s1) else s1)
             in if tn_role tn = RoleValidator then
                  (case ensureValidatorSingleton env now tn s2 of
                     (s3, Some e) \<Rightarrow> (s3, no_requeue, Some (Wrapped ''ensure validator singleton'' e))
                   | (s3, None) \<Rightarrow> reconcile_probe E now tn s3)
                else reconcile_probe E now tn s2)"

definition reconcile_owned ::
  "'w controller_env \<Rightarrow> time \<Rightarrow> TaoNode \<Rightarrow> ('w, 'a) controller_state_scheme \<Rightarrow>
   ('w, 'a) controller_state_scheme \<times> ctrl_result \<times> kerr option" where
  "reconcile_owned E now tn s =
     (let env = ce_env E
      in case ensureServiceAccount env tn s of
           (s1, Some e) \<Rightarrow> (s1, no_requeue, Some (Wrapped ''ensure ServiceAccount'' e))
         | (s1, None) \<Rightarrow>
             (case ensureHeadlessService env tn s1 of
                (s2, Some e) \<Rightarrow> (s2, no_requeue, Some (Wrapped ''ensure headless Service'' e))
              | (s2, None) \<Rightarrow>
                  (case validateNamespacePermissions env now tn s2 of
                     (s3, tn1, Some e) \<Rightarrow> updateStatusAndRequeue env tn1 (60 * second) s3
                   | (s3, tn1, None) \<Rightarrow>
                       (case validateHotkeySecret env now tn1 s3 of
                          (s4, tn2, Some e) \<Rightarrow> updateStatusAndRequeue env tn2 (30 * second) s4
                        | (s4, tn2, None) \<Rightarrow> reconcile_workload E now tn2 s4))))"

definition Reconcile ::
  "'w controller_env \<Rightarrow> time \<Rightarrow> string \<Rightarrow> string \<Rightarrow> ('w, 'a) controller_state_scheme \<Rightarrow>
   ('w, 'a) controller_state_scheme \<times> ctrl_result \<times> kerr option" where
  "Reconcile E now namespace name s =
     (let env = ce_env E; F = ce_finalizers E
      in case call (\<lambda>w. k_getTaoNode (env_client env) w namespace name) s of
           (s1, Inl e) \<Rightarrow> (s1, no_requeue, IgnoreNotFound e)
         | (s1, Inr tn) \<Rightarrow>
             if deletion_requested tn then handleFinalization E now tn s1
             else if \<not> fin_contains F (om_finalizers (tn_meta tn)) finalizerName then
               (case call (\<lambda>w. k_updateTaoNode (env_client env) w
                    (tn\<lparr>tn_meta := (tn_meta tn)\<lparr>om_finalizers := fin_add F (om_finalizers (tn_meta tn)) finalizerName\<rparr>\<rparr>)) s1 of
                  (s2, Some e) \<Rightarrow> (s2, no_requeue, Some (Wrapped ''add finalizer'' e))
                | (s2, None) \<Rightarrow> (s2, no_requeue, None))
             else
               let tn1 = (if tn_phase tn = PhaseNone then set_phase PhasePending tn else tn)
               in reconcile_owned E now tn1 s1)"

section \<open>Which calls a handler makes\<close>

text \<open>
  A view of the world, such as its stateful sets, and the calls that leave it alone: those on other
  objects, the writes of stateful sets, and the writes of the resource.
\<close>

definition keeps :: "('w \<Rightarrow> 'v) \<Rightarrow> ('w \<Rightarrow> 'w \<times> 'r) \<Rightarrow> bool" where
  "keeps f g \<longleftrightarrow> (\<forall>w. f (fst (g w)) = f w)"

definition side_calls :: "'w kclient \<Rightarrow> ('w \<Rightarrow> 'v) \<Rightarrow> bool" where
  "side_calls K f \<longleftrightarrow>
     (\<forall>w ns n. f (fst (k_getTaoNode K w ns n)) = f w) \<and> (\<forall>w ns n. f (fst (k_getPod K w ns n)) = f w) \<and>
     (\<forall>w x. f (fst (k_deletePod K w x)) = f w) \<and> (\<forall>w ns n. f (fst (k_getPVC K w ns n)) = f w) \<and>
     (\<forall>w x. f (fst (k_updatePVC K w x)) = f w) \<and> (\<forall>w ns n. f (fst (k_getLease K w ns n)) = f w) \<and>
     (\<forall>w x. f (fst (k_createLease K w x)) = f w) \<and> (\<forall>w x. f (fst (k_updateLease K w x)) = f w) \<and>
     (\<forall>w x. f (fst (k_deleteLease K w x)) = f w) \<and> (\<forall>w ns l. f (fst (k_listSnapshots K w ns l)) = f w) \<and>
     (\<forall>w x. f (fst (k_createSnapshot K w x)) = f w) \<and> (\<forall>w x. f (fst (k_deleteSnapshot K w x)) = f w) \<and>
     (\<forall>w ns n. f (fst (k_getRole K w ns n)) = f w) \<and> (\<forall>w ns n. f (fst (k_getSecret K w ns n)) = f w) \<and>
     (\<forall>w ns n. f (fst (k_getStatefulSet K w ns n)) = f w) \<and>
     (\<forall>w x m. f (fst (k_createOrUpdateSA K w x m)) = f w) \<and>
     (\<forall>w x m. f (fst (k_createOrUpdateService K w x m)) = f w) \<and>
     (\<forall>w x m. f (fst (k_createOrUpdateMonitor K w x m)) = f w) \<and>
     (\<forall>g. keeps f g \<longrightarrow> keeps f (k_retryOnConflict K g))"

definition set_calls :: "'w kclient \<Rightarrow> ('w \<Rightarrow> 'v) \<Rightarrow> bool" where
  "set_calls K f \<longleftrightarrow> (\<forall>w x. f (fst (k_createStatefulSet K w x)) = f w) \<and>
     (\<forall>w x. f (fst (k_updateStatefulSet K w x)) = f w) \<and> (\<forall>w x. f (fst (k_deleteStatefulSetOrphan K w x)) = f w)"

definition node_calls :: "'w kclient \<Rightarrow> ('w \<Rightarrow> 'v) \<Rightarrow> bool" where
  "node_calls K f \<longleftrightarrow> (\<forall>w x. f (fst (k_updateTaoNode K w x)) = f w) \<and> (\<forall>w x. f (fst (k_updateTaoNodeStatus K w x)) = f w)"

lemma side_simps:
  assumes "side_calls K f"
  shows "f (fst (k_getTaoNode K w ns n)) = f w" "f (fst (k_getPod K w ns n)) = f w" "f (fst (k_deletePod K w pod)) = f w"
    "f (fst (k_getPVC K w ns n)) = f w" "f (fst (k_updatePVC K w pvc)) = f w" "f (fst (k_getLease K w ns n)) = f w"
    "f (fst (k_createLease K w l)) = f w" "f (fst (k_updateLease K w l)) = f w" "f (fst (k_deleteLease K w l)) = f w"
    "f (fst (k_listSnapshots K w ns sel)) = f w" "f (fst (k_createSnapshot K w v)) = f w"
    "f (fst (k_deleteSnapshot K w v)) = f w" "f (fst (k_getRole K w ns n)) = f w" "f (fst (k_getSecret K w ns n)) = f w"
    "f (fst (k_getStatefulSet K w ns n)) = f w" "f (fst (k_createOrUpdateSA K w sa m1)) = f w"
    "f (fst (k_createOrUpdateService K w svc m2)) = f w" "f (fst (k_createOrUpdateMonitor K w sm m3)) = f w"
  using assms by (simp_all add: side_calls_def)

lemma retry_keeps: "side_calls K f \<Longrightarrow> keeps f g \<Longrightarrow> f (fst (k_retryOnConflict K g w)) = f w"
  by (simp add: side_calls_def keeps_def)

lemmas world_simps = call_def case_prod_unfold Let_def

lemma delete_snapshots_keeps:
  "side_calls K f \<Longrightarrow> f (ks_world (fst (delete_snapshots K vs s))) = f (ks_world s)"
  by (induction K vs s rule: delete_snapshots.induct) (auto simp: side_simps world_simps split: option.splits)

lemma prune_keeps:
  "side_calls (env_client env) f \<Longrightarrow> f (ks_world (fst (pruneOldSnapshots env tn s))) = f (ks_world s)"
  by (auto simp: pruneOldSnapshots_def side_simps delete_snapshots_keeps world_simps split: option.splits sum.splits)

lemma trigger_keeps:
  "side_calls (env_client env) f \<Longrightarrow> f (ks_world (fst (triggerSnapshot env now tn reason s))) = f (ks_world s)"
  by (auto simp: triggerSnapshot_def side_simps prune_keeps world_simps split: option.splits)

lemma restore_keeps:
  "side_calls (env_client env) f \<Longrightarrow> f (ks_world (fst (recoverySnapshotRestore env now tn s))) = f (ks_world s)"
  by (auto simp: recoverySnapshotRestore_def side_simps trigger_keeps world_simps split: option.splits sum.splits)

lemma restart_keeps:
  "side_calls (env_client env) f \<Longrightarrow> f (ks_world (fst (recoveryRestart env tn s))) = f (ks_world s)"
  by (auto simp: recoveryRestart_def side_simps world_simps split: option.splits sum.splits)

lemma dispatch_keeps:
  "side_calls (env_client env) f \<Longrightarrow> f (ks_world (fst (dispatchRecovery env now tn s))) = f (ks_world s)"
  by (auto simp: dispatchRecovery_def recoveryCordonAndAlert_def restore_keeps restart_keeps Let_def)

lemma execute_keeps:
  "side_calls (env_client env) f \<Longrightarrow> f (ks_world (fst (executeRecovery env now tn s))) = f (ks_world s)"
  by (auto simp: executeRecovery_def dispatch_keeps world_simps)

lemma evaluate_keeps:
  assumes "side_calls (env_client env) f"
  shows "f (ks_world (fst (evaluateSyncState env now tn h as s))) = f (ks_world s)"
proof (cases "recovery_due tn h as")
  case True
  from evaluate_due [OF this, of env now s] obtain tn1 s2 where
    "evaluateSyncState env now tn h as s = recover_or_fail env now tn1 s2" "ks_world s2 = ks_world s" by blast
  with assms show ?thesis by (simp add: recover_or_fail_def execute_keeps Let_def)
next
  case False
  from evaluate_not_due [OF this, of env now s] show ?thesis by auto
qed

lemma disk_keeps:
  "side_calls (env_client env) f \<Longrightarrow> f (ks_world (fst (evaluateDiskPressure env tn s))) = f (ks_world s)"
  by (auto simp: evaluateDiskPressure_def expandPVCPreemptively_def side_simps world_simps split: option.splits sum.splits)

lemma guard_keeps:
  "side_calls (env_client env) f \<Longrightarrow> f (ks_world (fst (ensureValidatorSingleton env now tn s))) = f (ks_world s)"
  by (auto simp: ensureValidatorSingleton_def cordonValidatorPod_def side_simps world_simps split: option.splits sum.splits)

lemma owned_keeps:
  assumes "side_calls (env_client env) f"
  shows "f (ks_world (fst (ensureServiceAccount env tn s))) = f (ks_world s)"
    "f (ks_world (fst (ensureHeadlessService env tn s))) = f (ks_world s)"
    "f (ks_world (fst (ensureServiceMonitor env tn s))) = f (ks_world s)"
    "f (ks_world (fst (validateNamespacePermissions env now tn s))) = f (ks_world s)"
    "f (ks_world (fst (validateHotkeySecret env now tn s))) = f (ks_world s)"
    "f (ks_world (fst (deleteLeaseIfExists env ns n s))) = f (ks_world s)"
  using assms
  by (auto simp: ensureServiceAccount_def ensureHeadlessService_def ensureServiceMonitor_def validateNamespacePermissions_def
      validateHotkeySecret_def deleteLeaseIfExists_def side_simps world_simps split: option.splits sum.splits)

lemma workload_keeps:
  assumes side: "side_calls (env_client env) f" and sets: "set_calls (env_client env) f"
  shows "f (ks_world (fst (ensureNodeWorkload env S tn s))) = f (ks_world s)"
proof -
  have "keeps f (update_in_place env S d)" for d
    using sets by (auto simp: keeps_def update_in_place_def side_simps [OF side] set_calls_def case_prod_unfold split: sum.splits)
  then show ?thesis
    using sets retry_keeps [OF side]
    by (auto simp: ensureNodeWorkload_def side_simps [OF side] set_calls_def world_simps split: sum.splits option.splits)
qed

lemma status_keeps:
  assumes side: "side_calls (env_client env) f" and nodes: "node_calls (env_client env) f"
  shows "f (ks_world (fst (updateStatusAndRequeue env tn after s))) = f (ks_world s)"
proof -
  have "keeps f (put_status env tn st)" for st
    using nodes by (auto simp: keeps_def put_status_def side_simps [OF side] node_calls_def case_prod_unfold split: sum.splits)
  then show ?thesis
    using retry_keeps [OF side] by (auto simp: updateStatusAndRequeue_def world_simps split: option.splits)
qed

lemma probe_keeps:
  assumes "side_calls (env_client (ce_env E)) f" and "\<And>r. keeps f (http_do (ce_http E) r)"
  shows "f (ks_world (fst (probeChainHealth E tn s))) = f (ks_world s)"
  using assms(2)
  by (auto simp: probeChainHealth_def side_simps [OF assms(1)] keeps_def world_simps split: option.splits sum.splits)

lemma analytics_keeps: "ks_world (fst (reconcileWithAnalytics E now tn h s)) = ks_world s"
  by (auto simp: reconcileWithAnalytics_def detect_anomalies_def Let_def case_prod_unfold split: option.splits)

lemma observed_keeps: "ks_world (fst (observed_input E now tn h s)) = ks_world s"
  by (simp add: observed_input_def updateGPUStatus_def updateFinOpsStatus_def analytics_keeps Let_def case_prod_unfold)

lemma advisory_keeps: "ks_world (maybeRequestAIAdvisory tn as s) = ks_world s"
  by (auto simp: maybeRequestAIAdvisory_def split: option.splits)

section \<open>An in-memory controller\<close>

text \<open>
  A concrete controller on the in-memory API server, for the witnesses. Reads of the resource carry
  its key, and writes of its status subresource leave the rest alone, as the API server documents.
\<close>

definition mem_getTaoNode :: "(mem_world, TaoNode) kget" where
  "mem_getTaoNode w ns n =
     (w, case mw_nodes w (ns, n) of
           None \<Rightarrow> Inl (NotFound n)
         | Some x \<Rightarrow> Inr (x\<lparr>tn_meta := (tn_meta x)\<lparr>om_namespace := ns, om_name := n\<rparr>\<rparr>))"

definition mem_updateTaoNodeStatus :: "(mem_world, TaoNode) kput" where
  "mem_updateTaoNodeStatus w x =
     (case mw_nodes w (meta_key (tn_meta x)) of
        None \<Rightarrow> (w, Some (NotFound (tn_name x)))
      | Some y \<Rightarrow> (w\<lparr>mw_nodes := (mw_nodes w)(meta_key (tn_meta x) \<mapsto> y\<lparr>tn_status := tn_status x\<rparr>)\<rparr>, None))"

definition server_client :: "mem_world kclient" where
  "server_client = mem_client\<lparr>k_getTaoNode := mem_getTaoNode, k_updateTaoNodeStatus := mem_updateTaoNodeStatus\<rparr>"

definition list_finalizers :: finalizer_ops where
  "list_finalizers = \<lparr>fin_contains = (\<lambda>l x. x \<in> set l), fin_add = (\<lambda>l x. if x \<in> set l then l else l @ [x]),
     fin_remove = (\<lambda>l x. filter (\<lambda>y. y \<noteq> x) l)\<rparr>"

definition no_http :: "'w ai_http" where
  "no_http = \<lparr>http_new = (\<lambda>_ _. None), http_do = (\<lambda>_ w. (w, Inl (OtherErr ''connection refused'')))\<rparr>"

text \<open>An executable comparison, reflexive as documented.\<close>

definition coarse_semantic_eq :: semantic_eq where
  "coarse_semantic_eq = \<lparr>eq_claimSpec = (\<lambda>x y. vcs_accessModes x = vcs_accessModes y), eq_selector = (\<lambda>_ _. True),
     eq_labels = (\<lambda>_ _. True), eq_replicas = (=), eq_updateStrategy = (=), eq_template = (\<lambda>_ _. True)\<rparr>"

definition mem_controller :: "mem_world controller_env" where
  "mem_controller = \<lparr>ce_env = mem_env\<lparr>env_client := server_client\<rparr>, ce_semantic = coarse_semantic_eq,
     ce_finalizers = list_finalizers, ce_http = no_http, ce_detector = Some dead_db, ce_arrivals = [0, 1, 2, 3, 4],
     ce_latency = second\<rparr>"

definition fresh_controller :: "mem_world \<Rightarrow> mem_world controller_state" where
  "fresh_controller w = \<lparr>ks_world = w, ks_events = [], ks_metrics = [], ctl_limiter = NewRecoveryRateLimiter 5 (2 * minute),
     ctl_breaker = Some (NewCircuitBreaker 5 (30 * second) 3), ctl_writer = Some NewBatchWriter, ctl_advisor = None, ctl_tasks = []\<rparr>"

definition finalized :: "TaoNode \<Rightarrow> TaoNode" where
  "finalized tn = tn\<lparr>tn_meta := (tn_meta tn)\<lparr>om_finalizers := [finalizerName]\<rparr>\<rparr>"

definition one_node :: "TaoNode \<Rightarrow> mem_world" where
  "one_node tn = empty_world\<lparr>mw_nodes := [(''tao'', ''node'') \<mapsto> tn]\<rparr>"

lemma mem_retry_keeps: "keeps f g \<Longrightarrow> keeps f (mem_retry n g)"
  by (induction n) (auto simp: keeps_def case_prod_unfold split: option.split)

lemmas mem_calls = mem_getTaoNode_def mem_updateTaoNodeStatus_def mem_get_def mem_create_def mem_update_def mem_delete_def
  mem_createOrUpdate_def mem_listSnapshots_def mem_createSnapshot_def mem_deleteSnapshot_def

lemma server_side:
  "side_calls server_client (\<lambda>w. (mw_sets w, mw_roles w, mw_secrets w))" "side_calls server_client mw_nodes"
  by (simp_all add: side_calls_def server_client_def mem_client_def mem_calls mem_retry_keeps split: option.split sum.split)

lemma server_nodes: "node_calls server_client (\<lambda>w. (mw_sets w, mw_roles w, mw_secrets w))"
  by (simp add: node_calls_def server_client_def mem_client_def mem_calls split: option.split)

lemma no_http_keeps: "keeps f (http_do no_http r)"
  by (simp add: keeps_def no_http_def)

lemma list_finalizer_laws: "finalizer_laws list_finalizers"
  by (auto simp: finalizer_laws_def list_finalizers_def)

lemma mem_controller_env [simp]:
  "env_client (ce_env mem_controller) = server_client" "ce_finalizers mem_controller = list_finalizers"
  "ce_http mem_controller = no_http"
  by (simp_all add: mem_controller_def mem_env_def)

lemma one_node_read: "snd (k_getTaoNode server_client (ks_world (fresh_controller (one_node tn))) ''tao'' ''node'') =
    Inr (tn\<lparr>tn_meta := (tn_meta tn)\<lparr>om_namespace := ''tao'', om_name := ''node''\<rparr>\<rparr>)"
  by (simp add: server_client_def mem_client_def fresh_controller_def one_node_def mem_getTaoNode_def)

section \<open>No workload without its guards\<close>

text \<open>
  The hotkey secret of a resource is present with its key; the guards of a resource are unmet when
  its namespace has no workload-manager role, or it needs a hotkey that is not present.
\<close>

definition hotkey_present :: "'w kclient \<Rightarrow> TaoNode \<Rightarrow> 'w \<Rightarrow> bool" where
  "hotkey_present K tn w \<longleftrightarrow> hotkey_secret_name tn \<noteq> '''' \<and>
     (\<exists>sec key. snd (k_getSecret K w (tn_namespace tn) (hotkey_secret_name tn)) = Inr sec \<and> sec_data sec ''hotkey'' = Some key)"

definition role_missing :: "'w kclient \<Rightarrow> TaoNode \<Rightarrow> 'w \<Rightarrow> bool" where
  "role_missing K tn w \<longleftrightarrow> (\<exists>e. snd (k_getRole K w (tn_namespace tn) workloadManagerRole) = Inl e)"

definition hotkey_missing :: "'w kclient \<Rightarrow> TaoNode \<Rightarrow> 'w \<Rightarrow> bool" where
  "hotkey_missing K tn w \<longleftrightarrow> tn_role tn \<in> {RoleValidator, RoleMiner} \<and> \<not> hotkey_present K tn w"

lemma missing_cong:
  "tn_meta x = tn_meta y \<Longrightarrow> tn_spec x = tn_spec y \<Longrightarrow> hotkey_missing K x w = hotkey_missing K y w"
  "tn_meta x = tn_meta y \<Longrightarrow> role_missing K x w = role_missing K y w"
  by (simp_all add: role_missing_def hotkey_missing_def hotkey_present_def hotkey_secret_name_def)

lemma permissions_fail:
  assumes "role_missing (env_client env) tn (ks_world s)"
  shows "\<exists>s1 tn1 e. validateNamespacePermissions env now tn s = (s1, tn1, Some e)"
  using assms by (auto simp: role_missing_def validateNamespacePermissions_def world_simps)

lemma hotkey_fail:
  assumes "hotkey_missing (env_client env) tn (ks_world s)"
  shows "\<exists>s1 tn1 e. validateHotkeySecret env now tn s = (s1, tn1, Some e)"
  using assms
  by (auto simp: validateHotkeySecret_def hotkey_missing_def hotkey_present_def world_simps split: sum.splits option.splits)

lemma permissions_frame:
  "tn_meta (fst (snd (validateNamespacePermissions env now tn s))) = tn_meta tn"
  "tn_spec (fst (snd (validateNamespacePermissions env now tn s))) = tn_spec tn"
  by (auto simp: validateNamespacePermissions_def world_simps split: sum.splits)

lemma owned_guarded:
  assumes side: "side_calls (env_client (ce_env E)) f" and nodes: "node_calls (env_client (ce_env E)) f"
    and guard: "(\<forall>w. f w = f (ks_world s) \<longrightarrow> role_missing (env_client (ce_env E)) tn w) \<or>
      (\<forall>w. f w = f (ks_world s) \<longrightarrow> hotkey_missing (env_client (ce_env E)) tn w)"
  shows "f (ks_world (fst (reconcile_owned E now tn s))) = f (ks_world s)"
proof -
  let ?env = "ce_env E"
  obtain s1 e1 where 1: "ensureServiceAccount ?env tn s = (s1, e1)" by fastforce
  obtain s2 e2 where 2: "ensureHeadlessService ?env tn s1 = (s2, e2)" by fastforce
  obtain s3 tn1 e3 where 3: "validateNamespacePermissions ?env now tn s2 = (s3, tn1, e3)" by (metis prod_cases3)
  obtain s4 tn2 e4 where 4: "validateHotkeySecret ?env now tn1 s3 = (s4, tn2, e4)" by (metis prod_cases3)
  have f: "f (ks_world s1) = f (ks_world s)" "f (ks_world s2) = f (ks_world s1)" "f (ks_world s3) = f (ks_world s2)"
    "f (ks_world s4) = f (ks_world s3)"
    using owned_keeps(1) [OF side, of tn s] owned_keeps(2) [OF side, of tn s1] owned_keeps(4) [OF side, of now tn s2]
      owned_keeps(5) [OF side, of now tn1 s3] by (simp_all add: 1 2 3 4)
  have tn1: "tn_meta tn1 = tn_meta tn" "tn_spec tn1 = tn_spec tn" using permissions_frame [of ?env now tn s2] 3 by simp_all
  have "e3 \<noteq> None \<or> e4 \<noteq> None"
  proof -
    have "role_missing (env_client ?env) tn (ks_world s2) \<or> hotkey_missing (env_client ?env) tn1 (ks_world s3)"
      using guard f by (auto simp: missing_cong(1) [OF tn1])
    then show ?thesis using permissions_fail [of ?env tn s2 now] hotkey_fail [of ?env tn1 s3 now] 3 4 by auto
  qed
  then show ?thesis
    using f by (auto simp: reconcile_owned_def 1 2 3 4 Let_def status_keeps [OF side nodes] split: option.splits)
qed

lemma final_snapshot_keeps:
  "side_calls (env_client env) f \<Longrightarrow> f (ks_world (fst (final_snapshot env now tn s))) = f (ks_world s)"
  by (auto simp: final_snapshot_def trigger_keeps case_prod_unfold split: option.splits)

lemma final_snapshot_frame:
  "tn_meta (snd (final_snapshot env now tn s)) = tn_meta tn" "tn_spec (snd (final_snapshot env now tn s)) = tn_spec tn"
  by (auto simp: final_snapshot_def triggerSnapshot_keeps case_prod_unfold split: option.splits)

text \<open>What a finalization does: clean-up calls, then one update without the finalizer, whose answer it returns.\<close>

lemma finalization_outcome:
  assumes side: "side_calls (env_client (ce_env E)) f"
    and fin: "fin_contains (ce_finalizers E) (om_finalizers (tn_meta tn)) finalizerName"
  shows "\<exists>s3 x. f (ks_world s3) = f (ks_world s) \<and>
    handleFinalization E now tn s =
      (fst (call (\<lambda>w. k_updateTaoNode (env_client (ce_env E)) w x) s3), no_requeue,
       map_option (Wrapped ''remove finalizer'') (snd (k_updateTaoNode (env_client (ce_env E)) (ks_world s3) x))) \<and>
    tn_meta x = (tn_meta tn)\<lparr>om_finalizers := fin_remove (ce_finalizers E) (om_finalizers (tn_meta tn)) finalizerName\<rparr> \<and>
    tn_spec x = tn_spec tn"
proof -
  obtain s1 tn1 where 1: "final_snapshot (ce_env E) now tn s = (s1, tn1)" by fastforce
  let ?s2 = "if tn_role tn1 = RoleValidator
     then fst (deleteLeaseIfExists (ce_env E) (tn_namespace tn1) (tn_name tn1 @ ''-validator-singleton'') s1) else s1"
  let ?s3 = "Eventf tn1 EventNormal ''Finalized'' ''TaoNode resources cleaned up, removing finalizer'' ?s2"
  let ?x = "tn1\<lparr>tn_meta := (tn_meta tn1)\<lparr>om_finalizers := fin_remove (ce_finalizers E) (om_finalizers (tn_meta tn1)) finalizerName\<rparr>\<rparr>"
  have tn1: "tn_meta tn1 = tn_meta tn" "tn_spec tn1 = tn_spec tn"
    using final_snapshot_frame [of "ce_env E" now tn s] 1 by simp_all
  have "f (ks_world ?s3) = f (ks_world s)"
    using final_snapshot_keeps [OF side, of now tn s] 1 by (simp add: owned_keeps(6) [OF side])
  moreover have "handleFinalization E now tn s =
      (fst (call (\<lambda>w. k_updateTaoNode (env_client (ce_env E)) w ?x) ?s3), no_requeue,
       map_option (Wrapped ''remove finalizer'') (snd (k_updateTaoNode (env_client (ce_env E)) (ks_world ?s3) ?x)))"
    unfolding handleFinalization_def Let_def 1 prod.case
    using fin by (simp add: call_def case_prod_unfold split: option.split)
  ultimately show ?thesis using tn1 by (intro exI [of _ ?s3] exI [of _ ?x]) simp
qed

lemma finalization_keeps:
  assumes side: "side_calls (env_client (ce_env E)) f" and nodes: "node_calls (env_client (ce_env E)) f"
  shows "f (ks_world (fst (handleFinalization E now tn s))) = f (ks_world s)"
proof (cases "fin_contains (ce_finalizers E) (om_finalizers (tn_meta tn)) finalizerName")
  case True
  from finalization_outcome [OF side True, where now = now and s = s] nodes show ?thesis
    by (auto simp: node_calls_def call_def case_prod_unfold)
next
  case False
  then show ?thesis by (simp add: handleFinalization_def)
qed

text \<open>
  C3. No workload without its guards. As long as the workload-manager role is missing from the
  namespace, or a validator or miner has no hotkey secret with its key, a reconcile of the resource
  creates, changes and deletes no stateful set, whatever else the cluster answers. Here \<open>view\<close> is
  the part of the world that holds stateful sets, roles and secrets, which calls on other objects do
  not touch and which decides whether the guard is met.
\<close>

theorem no_workload_without_guards:
  fixes s :: "('w, 'a) controller_state_scheme"
  assumes side: "side_calls (env_client (ce_env E)) view" and nodes: "node_calls (env_client (ce_env E)) view"
    and tn: "snd (k_getTaoNode (env_client (ce_env E)) (ks_world s) ns n) = Inr tn"
    and guard: "(\<forall>w. view w = view (ks_world s) \<longrightarrow> role_missing (env_client (ce_env E)) tn w) \<or>
      (\<forall>w. view w = view (ks_world s) \<longrightarrow> hotkey_missing (env_client (ce_env E)) tn w)"
  shows "view (ks_world (fst (Reconcile E now ns n s))) = view (ks_world s)"
proof -
  let ?tn = "if tn_phase tn = PhaseNone then set_phase PhasePending tn else tn"
  have same: "tn_meta ?tn = tn_meta tn" "tn_spec ?tn = tn_spec tn" by simp_all
  have "view (ks_world (fst (reconcile_owned E now ?tn t))) = view (ks_world t)"
    if "view (ks_world t) = view (ks_world s)" for t :: "('w, 'a) controller_state_scheme"
    by (rule owned_guarded [OF side nodes])
      (use guard that in \<open>simp only: missing_cong(1) [OF same] missing_cong(2) [OF same(1)]\<close>)
  then show ?thesis
    using tn nodes
    by (auto simp: Reconcile_def finalization_keeps [OF side nodes] side_simps [OF side] node_calls_def world_simps
        split: option.splits)
qed

theorem no_workload_without_guards_witness:
  "mw_sets (ks_world (fst (Reconcile mem_controller 9 ''tao'' ''node''
     (fresh_controller (one_node (finalized sample_node)))))) = Map.empty"
proof -
  let ?s = "fresh_controller (one_node (finalized sample_node))" and ?view = "\<lambda>w. (mw_sets w, mw_roles w, mw_secrets w)"
  have "?view (ks_world (fst (Reconcile mem_controller 9 ''tao'' ''node'' ?s))) = ?view (ks_world ?s)"
  proof (rule no_workload_without_guards [where view = ?view])
    show "side_calls (env_client (ce_env mem_controller)) ?view" "node_calls (env_client (ce_env mem_controller)) ?view"
      by (simp_all add: server_side server_nodes)
    show "snd (k_getTaoNode (env_client (ce_env mem_controller)) (ks_world ?s) ''tao'' ''node'') = Inr (finalized sample_node)"
      by (simp add: one_node_read finalized_def sample_node_def)
  qed (simp add: role_missing_def server_client_def mem_client_def mem_get_def fresh_controller_def one_node_def empty_world_def)
  then show ?thesis by (simp add: fresh_controller_def one_node_def empty_world_def)
qed

section \<open>Finalization\<close>

text \<open>
  C17. A deletion is never held up. When the resource is being deleted, one reconcile sends one update
  that removes exactly the operator's finalizer and keeps the specification, and its result is that
  update's result: a failing snapshot, lease deletion or pruning neither fails the reconcile nor
  keeps the finalizer.
\<close>

theorem deletion_not_blocked:
  assumes F: "finalizer_laws (ce_finalizers E)"
    and tn: "snd (k_getTaoNode (env_client (ce_env E)) (ks_world s) ns n) = Inr tn"
    and del: "deletion_requested tn" and mem: "finalizerName \<in> set (om_finalizers (tn_meta tn))"
    and rec: "Reconcile E now ns n s = (s', res, err)"
  shows "\<exists>w x. ks_world s' = fst (k_updateTaoNode (env_client (ce_env E)) w x) \<and>
    err = map_option (Wrapped ''remove finalizer'') (snd (k_updateTaoNode (env_client (ce_env E)) w x)) \<and> res = no_requeue \<and>
    set (om_finalizers (tn_meta x)) = set (om_finalizers (tn_meta tn)) - {finalizerName} \<and>
    tn_namespace x = tn_namespace tn \<and> tn_name x = tn_name tn \<and> tn_spec x = tn_spec tn"
proof -
  let ?K = "env_client (ce_env E)" and ?s1 = "s\<lparr>ks_world := fst (k_getTaoNode (env_client (ce_env E)) (ks_world s) ns n)\<rparr>"
  have fin: "fin_contains (ce_finalizers E) (om_finalizers (tn_meta tn)) finalizerName"
    using F mem by (simp add: finalizer_laws_def)
  have triv: "side_calls ?K (\<lambda>_. ())" by (simp add: side_calls_def keeps_def)
  have "Reconcile E now ns n s = handleFinalization E now tn ?s1"
    using tn del by (simp add: Reconcile_def world_simps)
  with finalization_outcome [OF triv fin, where now = now and s = ?s1] rec obtain s3 x where
    "s' = fst (call (\<lambda>w. k_updateTaoNode ?K w x) s3)" "res = no_requeue"
    "err = map_option (Wrapped ''remove finalizer'') (snd (k_updateTaoNode ?K (ks_world s3) x))"
    "tn_meta x = (tn_meta tn)\<lparr>om_finalizers := fin_remove (ce_finalizers E) (om_finalizers (tn_meta tn)) finalizerName\<rparr>"
    "tn_spec x = tn_spec tn" by auto
  then show ?thesis
    using F by (intro exI [of _ "ks_world s3"] exI [of _ x]) (simp add: finalizer_laws_def call_def case_prod_unfold)
qed

definition deleted_node :: TaoNode where
  "deleted_node = finalized (sample_node\<lparr>tn_meta := (tn_meta sample_node)\<lparr>om_deletionTimestamp := Some 5\<rparr>\<rparr>)"

theorem deletion_not_blocked_witness:
  "\<exists>w x. ks_world (fst (Reconcile mem_controller 9 ''tao'' ''node'' (fresh_controller (one_node deleted_node)))) =
     fst (k_updateTaoNode server_client w x) \<and> om_finalizers (tn_meta x) = []"
proof -
  let ?s = "fresh_controller (one_node deleted_node)"
  obtain s' res err where r: "Reconcile mem_controller 9 ''tao'' ''node'' ?s = (s', res, err)" by (metis prod_cases3)
  have "snd (k_getTaoNode (env_client (ce_env mem_controller)) (ks_world ?s) ''tao'' ''node'') = Inr deleted_node"
    by (simp add: one_node_read deleted_node_def finalized_def sample_node_def)
  from deletion_not_blocked [OF _ this _ _ r] have "\<exists>w x. ks_world s' = fst (k_updateTaoNode server_client w x) \<and>
      set (om_finalizers (tn_meta x)) = set (om_finalizers (tn_meta deleted_node)) - {finalizerName}"
    by (auto simp: list_finalizer_laws deletion_requested_def deleted_node_def finalized_def time_zero_def)
  then show ?thesis by (simp add: r) (simp add: deleted_node_def finalized_def)
qed

section \<open>A failed recovery is not recorded\<close>

lemma machine_restart_counted:
  assumes "evaluateSyncState env now tn h as s = (s', tn', res, Some e)"
  shows "tn_restarts tn' = tn_restarts tn + 1"
  using machine_step [OF assms] by (auto split: if_splits)

text \<open>Steps 5 and 6 leave identity, specification, phase and restart count alone, and the limiter.\<close>

definition core :: "TaoNode \<Rightarrow> object_meta \<times> TaoNodeSpec \<times> TaoNodePhase \<times> int32" where
  "core tn = (tn_meta tn, tn_spec tn, tn_phase tn, tn_restarts tn)"

lemma status_core:
  "core (update_analytics f tn) = core tn" "core (connected_status now tn) = core tn" "core (observe tn h) = core tn"
  "core (record_scores as tn) = core tn" "core (setCondition C now ty st r m tn) = core tn"
  by (simp_all add: core_def update_analytics_def connected_status_def observe_def record_scores_def Let_def)

lemma detect_core: "core (fst (snd (detect_anomalies E now tn cb s))) = core tn"
  by (simp add: detect_anomalies_def status_core Let_def case_prod_unfold split: option.split)

lemma analytics_core: "core (fst (snd (reconcileWithAnalytics E now tn h s))) = core tn"
  by (simp add: reconcileWithAnalytics_def detect_core status_core Let_def case_prod_unfold split: option.split)

lemma advisors_core:
  "core (snd (updateGPUStatus tn h s)) = core tn" "core (snd (updateFinOpsStatus Q tn s)) = core tn"
  by (simp_all add: core_def updateGPUStatus_def updateFinOpsStatus_def Let_def case_prod_unfold split: option.split)

lemma analytics_limiter: "ctl_limiter (fst (reconcileWithAnalytics E now tn h s)) = ctl_limiter s"
  by (simp add: reconcileWithAnalytics_def detect_anomalies_def Let_def case_prod_unfold split: option.split)

lemma advisors_limiter:
  "ctl_limiter (fst (updateGPUStatus tn h s)) = ctl_limiter s" "ctl_limiter (fst (updateFinOpsStatus Q tn s)) = ctl_limiter s"
  by (simp_all add: updateGPUStatus_def updateFinOpsStatus_def Let_def case_prod_unfold split: option.split)

lemma observed_core: "observed_input E now tn h s = (s3, tn5, as) \<Longrightarrow> core tn5 = core tn \<and> ctl_limiter s3 = ctl_limiter s"
  by (auto simp: observed_input_def case_prod_unfold Let_def status_core advisors_core analytics_core analytics_limiter
      advisors_limiter)

text \<open>
  C38. What a failed recovery leaves behind. When the recovery strategy of step 7 fails, the reconcile
  returns its error at once: the restart was counted in memory, but nothing is written to the
  resources in the cluster (\<open>nodes\<close>), so the next reconcile starts from the old count. The restart
  budget therefore bounds the recoveries that succeed, not the attempts.
\<close>

theorem failed_recovery_unrecorded:
  assumes side: "side_calls (env_client (ce_env E)) nodes"
    and input: "observed_input E now tn h s = (s3, tn5, as)"
    and ev: "evaluateSyncState (ce_env E) now tn5 h as s3 = (s4, tn6, res, Some e)"
  shows "reconcile_probed E now tn h s = (s4, no_requeue, Some e) \<and> nodes (ks_world s4) = nodes (ks_world s) \<and>
    tn_restarts tn6 = tn_restarts tn + 1"
proof -
  have "nodes (ks_world s4) = nodes (ks_world s)"
    using evaluate_keeps [OF side, of now tn5 h as s3] observed_keeps [of E now tn h s] input ev by simp
  then show ?thesis
    using input ev machine_restart_counted [OF ev] observed_core [OF input] by (simp add: reconcile_probed_def core_def)
qed

text \<open>A cluster whose pods cannot be deleted.\<close>

definition stuck_controller :: "mem_world controller_env" where
  "stuck_controller = mem_controller\<lparr>ce_env := (ce_env mem_controller)
     \<lparr>env_client := server_client\<lparr>k_deletePod := (\<lambda>w x. (w, Some (OtherErr ''timeout'')))\<rparr>\<rparr>\<rparr>"

definition degraded_node :: TaoNode where "degraded_node = set_phase PhaseDegraded (finalized sample_node)"

definition stuck_state :: "mem_world controller_state" where
  "stuck_state = fresh_controller ((one_node degraded_node)\<lparr>mw_pods := [(''tao'', ''node-0'') \<mapsto>
     \<lparr>pod_meta = new_meta ''node-0'' ''tao'' Map.empty, pod_podIP = ''10.0.0.1''\<rparr>]\<rparr>)"

lemma stuck_restart:
  assumes "ks_world t = ks_world stuck_state" and "tn_meta tn = tn_meta degraded_node"
  shows "\<exists>e. snd (snd (snd (recoveryRestart (ce_env stuck_controller) tn t))) = Some e"
  using assms by (simp add: recoveryRestart_def stuck_controller_def stuck_state_def fresh_controller_def degraded_node_def
      finalized_def sample_node_def server_client_def mem_client_def mem_get_def call_def Let_def)

lemma stuck_recovery_fails:
  assumes "core tn = core degraded_node" "ctl_limiter t = ctl_limiter stuck_state" "ks_world t = ks_world stuck_state"
    and "h_syncState h \<noteq> ''in-sync''"
  shows "\<exists>e. snd (snd (snd (evaluateSyncState (ce_env stuck_controller) 9 tn h as t))) = Some e"
proof -
  have tn: "tn_meta tn = tn_meta degraded_node" "tn_spec tn = sample_spec" "tn_phase tn = PhaseDegraded" "tn_restarts tn = 0"
    using assms(1) by (simp_all add: core_def degraded_node_def finalized_def sample_node_def zero_TaoNodeStatus_def)
  then have "recovery_due tn h as" using assms(4) by (simp add: recovery_due_def is_synced_def)
  from evaluate_due [OF this, of "ce_env stuck_controller" 9 t] obtain tn1 s2 where
    ev: "evaluateSyncState (ce_env stuck_controller) 9 tn h as t = recover_or_fail (ce_env stuck_controller) 9 tn1 s2" and
    tn1: "tn_meta tn1 = tn_meta tn" "tn_spec tn1 = tn_spec tn" "tn_restarts tn1 = tn_restarts tn"
      "ks_world s2 = ks_world t" "ctl_limiter s2 = ctl_limiter t" by auto
  let ?rl = "fst (TryAcquire 9 (node_key tn1) (ctl_limiter s2))"
  let ?tn2 = "set_phase PhaseRecovering tn1\<lparr>tn_status := (tn_status (set_phase PhaseRecovering tn1))\<lparr>st_restartCount := tn_restarts tn1 + 1\<rparr>\<rparr>"
  have granted: "snd (TryAcquire 9 (node_key tn1) (ctl_limiter s2))"
    using tn1(5) assms(2) by (simp add: stuck_state_def fresh_controller_def TryAcquire_def NewRecoveryRateLimiter_def evictStale_def Let_def)
  have policy: "sp_recoveryStrategy (tn_policy tn1) = ''restart''" "sp_maxRestartAttempts (tn_policy tn1) = 3" "tn_restarts tn1 = 0"
    using tn tn1 by (simp_all add: sample_spec_def)
  obtain e where "snd (snd (snd (recoveryRestart (ce_env stuck_controller) ?tn2 (s2\<lparr>ctl_limiter := ?rl\<rparr>)))) = Some e"
    using stuck_restart [of "s2\<lparr>ctl_limiter := ?rl\<rparr>" ?tn2] tn1 tn assms(3) by auto
  then show ?thesis
    unfolding ev using granted policy
    by (simp add: recover_or_fail_def executeRecovery_def dispatchRecovery_def node_key_def word_sle_eq Let_def case_prod_unfold)
qed

theorem failed_recovery_unrecorded_witness:
  "\<exists>s4 e. reconcile_probed stuck_controller 9 degraded_node sample_health stuck_state = (s4, no_requeue, Some e) \<and>
     mw_nodes (ks_world s4) (''tao'', ''node'') = Some degraded_node"
proof -
  obtain s3 tn5 as where input: "observed_input stuck_controller 9 degraded_node sample_health stuck_state = (s3, tn5, as)"
    by (metis prod_cases3)
  obtain s4 tn6 res err where ev: "evaluateSyncState (ce_env stuck_controller) 9 tn5 sample_health as s3 = (s4, tn6, res, err)"
    by (metis prod_cases4)
  have in5: "core tn5 = core degraded_node" "ctl_limiter s3 = ctl_limiter stuck_state" "ks_world s3 = ks_world stuck_state"
    using observed_core [OF input] observed_keeps [of stuck_controller 9 degraded_node sample_health stuck_state]
    by (simp_all add: input)
  obtain e where err: "err = Some e"
    using stuck_recovery_fails [OF in5, of sample_health as] ev by (auto simp: sample_health_def)
  have "side_calls (env_client (ce_env stuck_controller)) mw_nodes"
    using server_side(2) by (simp add: stuck_controller_def side_calls_def)
  from failed_recovery_unrecorded [OF this input ev [unfolded err]] show ?thesis
    by (auto simp: stuck_state_def fresh_controller_def one_node_def)
qed

section \<open>The restart budget\<close>

text \<open>
  The restart count lives in the status of the stored resource. \<open>nodes w\<close> are the resources a world
  stores; what the API server documents of a write of the status is this: an accepted write stores the
  status under the key of the object; a write refused as not found finds nothing stored there; after any
  other failure the write may or may not have happened. A read carries the key it was asked for, and
  \<open>retry.RetryOnConflict\<close> runs its operation some times and returns the answer of the last run, each run
  before it having failed.
\<close>

definition stored_restarts :: "('w \<Rightarrow> TaoNode store) \<Rightarrow> string \<times> string \<Rightarrow> 'w \<Rightarrow> int32 option" where
  "stored_restarts nodes k w = map_option tn_restarts (nodes w k)"

definition node_reads :: "'w kclient \<Rightarrow> ('w \<Rightarrow> TaoNode store) \<Rightarrow> bool" where
  "node_reads K nodes \<longleftrightarrow> (\<forall>w ns n. case snd (k_getTaoNode K w ns n) of
     Inr x \<Rightarrow> meta_key (tn_meta x) = (ns, n)
   | Inl e \<Rightarrow> IsNotFound e \<longrightarrow> nodes w (ns, n) = None)"

definition status_writes :: "'w kclient \<Rightarrow> ('w \<Rightarrow> TaoNode store) \<Rightarrow> bool" where
  "status_writes K nodes \<longleftrightarrow>
     (\<forall>w x. let k = meta_key (tn_meta x); w' = fst (k_updateTaoNodeStatus K w x)
        in case snd (k_updateTaoNodeStatus K w x) of
             None \<Rightarrow> stored_restarts nodes k w' = Some (tn_restarts x)
           | Some e \<Rightarrow> if IsNotFound e then nodes w' k = None
               else stored_restarts nodes k w' \<in> {stored_restarts nodes k w, Some (tn_restarts x)})"

definition retries :: "'w kclient \<Rightarrow> bool" where
  "retries K \<longleftrightarrow> (\<forall>g I w. (\<forall>v. I v \<longrightarrow> snd (g v) \<noteq> None \<longrightarrow> I (fst (g v))) \<longrightarrow> I w \<longrightarrow>
     (\<exists>v. I v \<and> k_retryOnConflict K g w = g v))"

definition status_laws :: "'w kclient \<Rightarrow> ('w \<Rightarrow> TaoNode store) \<Rightarrow> bool" where
  "status_laws K nodes \<longleftrightarrow> side_calls K nodes \<and> node_reads K nodes \<and> status_writes K nodes \<and> retries K"

lemma status_lawsD:
  assumes "status_laws K nodes"
  shows "side_calls K nodes" "snd (k_getTaoNode K w ns n) = Inr x \<Longrightarrow> meta_key (tn_meta x) = (ns, n)"
    "snd (k_getTaoNode K w ns n) = Inl e \<Longrightarrow> IsNotFound e \<Longrightarrow> nodes w (ns, n) = None"
    "k_updateTaoNodeStatus K w x = (w', None) \<Longrightarrow> stored_restarts nodes (meta_key (tn_meta x)) w' = Some (tn_restarts x)"
    "k_updateTaoNodeStatus K w x = (w', Some e) \<Longrightarrow> IsNotFound e \<Longrightarrow> nodes w' (meta_key (tn_meta x)) = None"
    "k_updateTaoNodeStatus K w x = (w', Some e) \<Longrightarrow> \<not> IsNotFound e \<Longrightarrow> stored_restarts nodes (meta_key (tn_meta x)) w' \<in>
       {stored_restarts nodes (meta_key (tn_meta x)) w, Some (tn_restarts x)}"
proof -
  have reads: "node_reads K nodes" and writes: "status_writes K nodes" using assms by (simp_all add: status_laws_def)
  show "side_calls K nodes" using assms by (simp add: status_laws_def)
  from reads [unfolded node_reads_def, THEN spec [of _ w], THEN spec [of _ ns], THEN spec [of _ n]]
  show "snd (k_getTaoNode K w ns n) = Inr x \<Longrightarrow> meta_key (tn_meta x) = (ns, n)"
    "snd (k_getTaoNode K w ns n) = Inl e \<Longrightarrow> IsNotFound e \<Longrightarrow> nodes w (ns, n) = None"
    by simp_all
  from writes [unfolded status_writes_def, THEN spec [of _ w], THEN spec [of _ x]]
  show "k_updateTaoNodeStatus K w x = (w', None) \<Longrightarrow> stored_restarts nodes (meta_key (tn_meta x)) w' = Some (tn_restarts x)"
    "k_updateTaoNodeStatus K w x = (w', Some e) \<Longrightarrow> IsNotFound e \<Longrightarrow> nodes w' (meta_key (tn_meta x)) = None"
    "k_updateTaoNodeStatus K w x = (w', Some e) \<Longrightarrow> \<not> IsNotFound e \<Longrightarrow> stored_restarts nodes (meta_key (tn_meta x)) w' \<in>
       {stored_restarts nodes (meta_key (tn_meta x)) w, Some (tn_restarts x)}"
    by (simp_all add: Let_def)
qed

text \<open>A view of the cluster that steps 8 to 10 do not touch, such as its pods and volume snapshots.\<close>

definition recovery_view :: "'w kclient \<Rightarrow> ('w \<Rightarrow> 'v) \<Rightarrow> bool" where
  "recovery_view K f \<longleftrightarrow>
     (\<forall>w ns n. f (fst (k_getPVC K w ns n)) = f w) \<and> (\<forall>w x. f (fst (k_updatePVC K w x)) = f w) \<and>
     (\<forall>w ns n. f (fst (k_getTaoNode K w ns n)) = f w) \<and> (\<forall>w x. f (fst (k_updateTaoNodeStatus K w x)) = f w) \<and>
     (\<forall>g. keeps f g \<longrightarrow> keeps f (k_retryOnConflict K g))"

lemma view_status:
  assumes "recovery_view (env_client env) f"
  shows "f (ks_world (fst (updateStatusAndRequeue env tn after s))) = f (ks_world s)"
proof -
  have "keeps f (put_status env tn st)" for st
    using assms by (auto simp: keeps_def put_status_def recovery_view_def case_prod_unfold split: sum.splits)
  then have "f (fst (k_retryOnConflict (env_client env) (put_status env tn st) w)) = f w" for st w
    using assms by (simp add: recovery_view_def keeps_def)
  then show ?thesis by (auto simp: updateStatusAndRequeue_def world_simps split: option.splits)
qed

lemma view_disk:
  "recovery_view (env_client env) f \<Longrightarrow> f (ks_world (fst (evaluateDiskPressure env tn s))) = f (ks_world s)"
  by (auto simp: evaluateDiskPressure_def expandPVCPreemptively_def recovery_view_def world_simps split: option.splits sum.splits)

text \<open>One write of the status leaves the old count, the new one, or nothing stored; without an error the old one is gone.\<close>

lemma put_restarts:
  assumes laws: "status_laws (env_client env) nodes" and k: "k = (tn_namespace tn, tn_name tn)"
    and run: "put_status env tn st w = (w', err)"
  shows "stored_restarts nodes k w' \<in> {stored_restarts nodes k w, Some (st_restartCount st), None}"
    and "err = None \<Longrightarrow> stored_restarts nodes k w' = Some (st_restartCount st)"
    and "err = Some e \<Longrightarrow> IsNotFound e \<Longrightarrow> stored_restarts nodes k w' = None"
proof -
  let ?K = "env_client env"
  obtain w1 r where get: "k_getTaoNode ?K w (tn_namespace tn) (tn_name tn) = (w1, r)" by fastforce
  have w1: "nodes w1 = nodes w"
    using side_simps(1) [OF status_lawsD(1) [OF laws], of w "tn_namespace tn" "tn_name tn"] get by simp
  have "stored_restarts nodes k w' \<in> {stored_restarts nodes k w, Some (st_restartCount st), None} \<and>
     (err = None \<longrightarrow> stored_restarts nodes k w' = Some (st_restartCount st)) \<and>
     (\<forall>e. err = Some e \<longrightarrow> IsNotFound e \<longrightarrow> stored_restarts nodes k w' = None)"
  proof (cases r)
    case (Inl e)
    then have "w' = w1" "err = Some e" using run get by (simp_all add: put_status_def)
    moreover have "IsNotFound e \<longrightarrow> nodes w k = None"
      using status_lawsD(3) [OF laws, of w "tn_namespace tn" "tn_name tn" e] get Inl k by simp
    ultimately show ?thesis by (simp add: stored_restarts_def w1)
  next
    case (Inr latest)
    let ?x = "latest\<lparr>tn_status := st\<rparr>"
    have upd: "k_updateTaoNodeStatus ?K w1 ?x = (w', err)" using run get Inr by (simp add: put_status_def)
    have key: "meta_key (tn_meta ?x) = k" using status_lawsD(2) [OF laws, of w "tn_namespace tn" "tn_name tn" latest] get Inr k by simp
    have same: "stored_restarts nodes k w1 = stored_restarts nodes k w" by (simp add: stored_restarts_def w1)
    show ?thesis
    proof (cases err)
      case None
      then show ?thesis using status_lawsD(4) [OF laws upd [unfolded None]] key by simp
    next
      case (Some e)
      have "stored_restarts nodes k w' = None" if "IsNotFound e"
        using status_lawsD(5) [OF laws upd [unfolded Some] that] key by (simp add: stored_restarts_def)
      moreover have "stored_restarts nodes k w' \<in> {stored_restarts nodes k w, Some (st_restartCount st)}" if "\<not> IsNotFound e"
        using status_lawsD(6) [OF laws upd [unfolded Some] that] key same by simp
      ultimately show ?thesis using Some by (cases "IsNotFound e") auto
    qed
  qed
  then show "stored_restarts nodes k w' \<in> {stored_restarts nodes k w, Some (st_restartCount st), None}"
    "err = None \<Longrightarrow> stored_restarts nodes k w' = Some (st_restartCount st)"
    "err = Some e \<Longrightarrow> IsNotFound e \<Longrightarrow> stored_restarts nodes k w' = None"
    by blast+
qed

lemma status_restarts:
  assumes laws: "status_laws (env_client env) nodes" and k: "k = (tn_namespace tn, tn_name tn)"
    and run: "updateStatusAndRequeue env tn after s = (s', res, err)"
  shows "stored_restarts nodes k (ks_world s') \<in> {stored_restarts nodes k (ks_world s), Some (tn_restarts tn), None} \<and>
    (err = None \<longrightarrow> stored_restarts nodes k (ks_world s') \<in> {Some (tn_restarts tn), None})"
proof -
  let ?K = "env_client env" and ?g = "put_status env tn (tn_status tn)"
  let ?I = "\<lambda>v. stored_restarts nodes k v \<in> {stored_restarts nodes k (ks_world s), Some (tn_restarts tn), None}"
  have step: "?I (fst (?g v))" if "?I v" for v
    using put_restarts(1) [OF laws k, of "tn_status tn" v "fst (?g v)" "snd (?g v)"] that by auto
  obtain v where v: "?I v" "k_retryOnConflict ?K ?g (ks_world s) = ?g v"
  proof -
    have "retries ?K" using laws by (simp add: status_laws_def)
    from this [unfolded retries_def, rule_format, of ?I ?g "ks_world s"] step show thesis by (auto intro: that)
  qed
  obtain w' r where g: "?g v = (w', r)" by fastforce
  have "?I w'" using step [OF v(1)] g by simp
  moreover have "stored_restarts nodes k w' = Some (tn_restarts tn)" if "r = None"
    using put_restarts(2) [OF laws k g that] by simp
  moreover have "stored_restarts nodes k w' = None" if "r = Some e" "IsNotFound e" for e
    using put_restarts(3) [OF laws k g that] .
  ultimately show ?thesis
    using run v(2) g by (auto simp: updateStatusAndRequeue_def call_def split: option.splits if_splits)
qed

text \<open>
  Steps 5 to 10 of one reconcile: the recovery view changes only in an attempted recovery, which must have
  had budget; if no error is returned the new count is stored, unless the resource is gone.
\<close>

lemma probed_restarts:
  assumes laws: "status_laws (env_client (ce_env E)) nodes" and view: "recovery_view (env_client (ce_env E)) f"
    and k: "k = (tn_namespace tn, tn_name tn)" and stored: "stored_restarts nodes k (ks_world s) = Some (tn_restarts tn)"
    and pos: "0 \<le> sint (tn_restarts tn)" and le: "sint (tn_restarts tn) \<le> sint (sp_maxRestartAttempts (tn_policy tn))"
    and run: "reconcile_probed E now tn h s = (s', res, err)" and c: "stored_restarts nodes k (ks_world s') = Some c"
  shows "sint (tn_restarts tn) \<le> sint c \<and> sint c \<le> sint (sp_maxRestartAttempts (tn_policy tn)) \<and>
    (f (ks_world s') \<noteq> f (ks_world s) \<and> err = None \<longrightarrow> sint c = sint (tn_restarts tn) + 1)"
proof -
  let ?env = "ce_env E"
  have side: "side_calls (env_client ?env) nodes" by (rule status_lawsD(1) [OF laws])
  obtain s3 tn5 as where in5: "observed_input E now tn h s = (s3, tn5, as)" by (metis prod_cases3)
  obtain s4 tn6 r4 e4 where ev: "evaluateSyncState ?env now tn5 h as s3 = (s4, tn6, r4, e4)" by (metis prod_cases4)
  obtain s5 de where disk: "evaluateDiskPressure ?env tn6 s4 = (s5, de)" by fastforce
  have w3: "ks_world s3 = ks_world s" using observed_keeps [of E now tn h s] in5 by simp
  have core5: "tn_meta tn5 = tn_meta tn" "tn_spec tn5 = tn_spec tn" "tn_restarts tn5 = tn_restarts tn"
    using observed_core [OF in5] by (simp_all add: core_def)
  let ?a = "recovery_attempted now tn5 h as (ctl_limiter s3)" and ?m = "sp_maxRestartAttempts (tn_policy tn)"
  note step = machine_step [OF ev]
  have incr: "sint (tn_restarts tn6) = sint (tn_restarts tn) + (if ?a then 1 else 0)"
    and max: "sint (tn_restarts tn6) \<le> sint ?m"
  proof -
    have "tn_restarts tn <s ?m" if ?a
      using that core5 by (simp add: recovery_attempted_def budget_left_def sint_cmp)
    then show "sint (tn_restarts tn6) = sint (tn_restarts tn) + (if ?a then 1 else 0)" "sint (tn_restarts tn6) \<le> sint ?m"
      using step core5 le sint_incr [of "tn_restarts tn" ?m] by (auto simp: sint_cmp split: if_splits)
  qed
  have quiet: "f (ks_world s4) = f (ks_world s) \<or> ?a" using step w3 by auto
  have n4: "nodes (ks_world s4) = nodes (ks_world s)" using evaluate_keeps [OF side, of now tn5 h as s3] ev w3 by simp
  show ?thesis
  proof (cases e4)
    case (Some e)
    then have "s' = s4" "err = Some e" using run in5 ev by (auto simp: reconcile_probed_def)
    then have "c = tn_restarts tn" using c stored n4 by (simp add: stored_restarts_def del: map_option_eq_Some)
    then show ?thesis using le \<open>err = Some e\<close> by simp
  next
    case None
    obtain tn7 after s7 where st: "updateStatusAndRequeue ?env tn7 after s7 = (s', res, err)"
      and tn7: "tn_meta tn7 = tn_meta tn6" "tn_restarts tn7 = tn_restarts tn6" and s7: "ks_world s7 = ks_world s5"
    proof -
      let ?tn7 = "tn6\<lparr>tn_status := (tn_status tn6)\<lparr>st_observedGeneration := om_generation (tn_meta tn6), st_lastReconcileTime := Some now\<rparr>\<rparr>"
      let ?s7 = "sample (WithLabelValues reconcileDuration_desc [tn_name ?tn7, tn_namespace ?tn7, ''success''] Observe)
        (maybeRequestAIAdvisory tn6 as s5)"
      have "\<exists>after. updateStatusAndRequeue ?env ?tn7 after ?s7 = (s', res, err)"
        using run in5 ev disk None by (auto simp: reconcile_probed_def Let_def split: if_splits)
      then show thesis using that [of ?tn7 _ ?s7] by (auto simp: advisory_keeps)
    qed
    have k7: "k = (tn_namespace tn7, tn_name tn7)" using k step core5(1) by (simp add: tn7(1))
    have "nodes (ks_world s7) = nodes (ks_world s)" using disk_keeps [OF side, of tn6 s4] disk s7 n4 by simp
    then have before: "stored_restarts nodes k (ks_world s7) = Some (tn_restarts tn)"
      using stored by (simp add: stored_restarts_def del: map_option_eq_Some)
    have "c = tn_restarts tn \<or> c = tn_restarts tn6" and written: "err = None \<Longrightarrow> c = tn_restarts tn6"
      using status_restarts [OF laws k7 st] unfolding c before tn7(2) by simp_all
    have same: "f (ks_world s') = f (ks_world s4)"
      using view_status [OF view, of tn7 after s7] view_disk [OF view, of tn6 s4] st disk s7 by simp
    have grown: "sint (tn_restarts tn) \<le> sint (tn_restarts tn6)" using incr by (cases ?a) simp_all
    have "sint c = sint (tn_restarts tn) + 1" if "f (ks_world s') \<noteq> f (ks_world s)" "err = None"
    proof -
      have ?a using quiet that(1) [unfolded same] by simp
      then show ?thesis using incr written [OF that(2)] by simp
    qed
    moreover have "sint (tn_restarts tn) \<le> sint c \<and> sint c \<le> sint ?m"
      using \<open>c = tn_restarts tn \<or> c = tn_restarts tn6\<close> grown max le by (elim disjE) simp_all
    ultimately show ?thesis by blast
  qed
qed

text \<open>
  Reconciles of one resource over time, each given with its clock, the resource it read, the health it
  probed and the state it began step 5 in. Between two of them everything may change except the stored
  count: each reads the count the one before left stored, and the sequence ends when the resource is gone.
\<close>

fun reconciles_of ::
  "'w controller_env \<Rightarrow> ('w \<Rightarrow> TaoNode store) \<Rightarrow> string \<times> string \<Rightarrow>
   (time \<times> TaoNode \<times> ChainHealthResult \<times> 'w controller_state) list \<Rightarrow> int32 \<Rightarrow> bool" where
  "reconciles_of E nodes k [] c \<longleftrightarrow> True"
| "reconciles_of E nodes k ((now, tn, h, s) # steps) c \<longleftrightarrow>
     (tn_namespace tn, tn_name tn) = k \<and> tn_restarts tn = c \<and> stored_restarts nodes k (ks_world s) = Some c \<and>
     (case stored_restarts nodes k (ks_world (fst (reconcile_probed E now tn h s))) of
        None \<Rightarrow> steps = []
      | Some c' \<Rightarrow> reconciles_of E nodes k steps c')"

text \<open>A reconcile that changed the view and returned no error, with the resource still stored.\<close>

definition recovered ::
  "'w controller_env \<Rightarrow> ('w \<Rightarrow> TaoNode store) \<Rightarrow> string \<times> string \<Rightarrow> ('w \<Rightarrow> 'v) \<Rightarrow>
   time \<times> TaoNode \<times> ChainHealthResult \<times> 'w controller_state \<Rightarrow> bool" where
  "recovered E nodes k f = (\<lambda>(now, tn, h, s). case reconcile_probed E now tn h s of
     (s', res, err) \<Rightarrow> f (ks_world s') \<noteq> f (ks_world s) \<and> err = None \<and> nodes (ks_world s') k \<noteq> None)"


text \<open>The in-memory server keeps these laws; its pods and volume snapshots are such a view.\<close>

lemma mem_retry_last:
  "(\<And>v. I v \<Longrightarrow> snd (g v) \<noteq> None \<Longrightarrow> I (fst (g v))) \<Longrightarrow> I w \<Longrightarrow> \<exists>v. I v \<and> mem_retry n g w = g v"
proof (induction n g w rule: mem_retry.induct)
  case (2 n g w)
  obtain w' r where g: "g w = (w', r)" by fastforce
  show ?case
  proof (cases r)
    case (Some e)
    then have "I w'" using "2.prems"(1) [OF "2.prems"(2)] g by simp
    then show ?thesis using "2.IH" [of w' r] "2.prems" g Some by (cases "IsConflict e") auto
  qed (use 2 g in auto)
qed auto

lemma server_status_laws: "status_laws server_client mw_nodes"
proof -
  have K: "k_retryOnConflict server_client = mem_retry 5" "k_getTaoNode server_client = mem_getTaoNode"
    "k_updateTaoNodeStatus server_client = mem_updateTaoNodeStatus"
    by (simp_all add: server_client_def mem_client_def)
  have "retries server_client" unfolding retries_def K by (intro allI impI, rule mem_retry_last) auto
  moreover have "node_reads server_client mw_nodes" unfolding node_reads_def K
    by (simp add: mem_getTaoNode_def meta_key_def split: option.split)
  moreover have "status_writes server_client mw_nodes" unfolding status_writes_def K
    by (simp add: mem_updateTaoNodeStatus_def stored_restarts_def Let_def split: option.split)
  ultimately show ?thesis by (simp add: status_laws_def server_side(2))
qed

lemma server_recovery_view: "recovery_view server_client (\<lambda>w. (mw_pods w, mw_snapshots w))"
  by (simp add: recovery_view_def server_client_def mem_client_def mem_calls mem_retry_keeps split: option.split)


end
