(* ===== verification/Go_Json_Encode.thy ===== *)
theory Go_Json_Encode
  imports Go_Json
begin

text \<open>
  The encoder of \<open>encoding/json\<close>, \<open>json.Marshal\<close>, for generic values: strings with the escapes that
  are safe in HTML, replacement of invalid UTF-8, the two line separators escaped, and compact
  arrays and objects. The main result is that the parser reads back what the encoder writes.
\<close>

section \<open>Strings\<close>

definition hex_digit :: "nat \<Rightarrow> char" where
  "hex_digit n = (if n < 10 then char_of (48 + n) else char_of (87 + n))"

definition quote_char :: char where "quote_char = CHR 0x22"

definition escape_ascii :: "char \<Rightarrow> string" where
  "escape_ascii c =
     (if byte c = 34 \<or> byte c = 92 then [CHR 0x5C, c]
      else if byte c = 8 then CHR 0x5C # ''b''
      else if byte c = 12 then CHR 0x5C # ''f''
      else if byte c = 10 then CHR 0x5C # ''n''
      else if byte c = 13 then CHR 0x5C # ''r''
      else if byte c = 9 then CHR 0x5C # ''t''
      else if byte c < 32 \<or> c \<in> set ''<>&'' then CHR 0x5C # ''u00'' @ [hex_digit (byte c div 16), hex_digit (byte c mod 16)]
      else [c])"

definition line_separators :: "string list" where
  "line_separators = [[CHR 0xE2, CHR 0x80, CHR 0xA8], [CHR 0xE2, CHR 0x80, CHR 0xA9]]"

definition escape_rune :: "string \<Rightarrow> string" where
  "escape_rune r =
     (if r = [CHR 0xE2, CHR 0x80, CHR 0xA8] then CHR 0x5C # ''u2028''
      else if r = [CHR 0xE2, CHR 0x80, CHR 0xA9] then CHR 0x5C # ''u2029'' else r)"

function escape :: "string \<Rightarrow> string" where
  "escape s =
     (case s of
        [] \<Rightarrow> []
      | c # cs \<Rightarrow>
          if byte c < 0x80 then escape_ascii c @ escape cs
          else if rune_length s = 0 then CHR 0x5C # ''ufffd'' @ escape cs
          else escape_rune (take (rune_length s) s) @ escape (drop (rune_length s) s))"
  by pat_completeness auto
termination by (relation "measure length") auto

declare escape.simps [simp del]

definition quoted_json :: "string \<Rightarrow> string" where
  "quoted_json s = quote_char # escape s @ [quote_char]"

section \<open>Values\<close>

text \<open>Values separated by commas.\<close>

fun commas :: "string list \<Rightarrow> string" where
  "commas [] = []"
| "commas [x] = x"
| "commas (x # y # xs) = x @ '','' @ commas (y # xs)"

text \<open>The members of an object are written in the order of the list; a Go map is a list sorted by key.\<close>

fun Marshal :: "json \<Rightarrow> string" where
  "Marshal JNull = ''null''"
| "Marshal (JBool b) = (if b then ''true'' else ''false'')"
| "Marshal (JNum n) = n"
| "Marshal (JStr s) = quoted_json s"
| "Marshal (JArr vs) = ''['' @ commas (map Marshal vs) @ '']''"
| "Marshal (JObj ms) = ''{'' @ commas (map (\<lambda>(k, v). quoted_json k @ '':'' @ Marshal v) ms) @ ''}''"

function valid_utf8 :: "string \<Rightarrow> bool" where
  "valid_utf8 s = (if s = [] then True else if rune_length s = 0 then False else valid_utf8 (drop (rune_length s) s))"
  by pat_completeness auto
termination by (relation "measure length") auto

declare valid_utf8.simps [simp del]

definition valid_number :: "string \<Rightarrow> bool" where
  "valid_number n \<longleftrightarrow> scan_number n = Some (n, [])"

fun wf_json :: "json \<Rightarrow> bool" where
  "wf_json JNull = True"
| "wf_json (JBool b) = True"
| "wf_json (JNum n) = valid_number n"
| "wf_json (JStr s) = valid_utf8 s"
| "wf_json (JArr vs) = list_all wf_json vs"
| "wf_json (JObj ms) = list_all (\<lambda>(k, v). valid_utf8 k \<and> wf_json v) ms"

fun depth :: "json \<Rightarrow> nat" where
  "depth (JArr vs) = Suc (fold max (map depth vs) 0)"
| "depth (JObj ms) = Suc (fold max (map (\<lambda>(k, v). depth v) ms) 0)"
| "depth _ = 0"

section \<open>Reading strings back\<close>

lemma byte_less: "byte c < 256"
  by (simp add: byte_def)

lemma char_of_byte [simp]: "char_of (byte c) = c"
  by (simp add: byte_def)

lemma byte_char_of: "n < 256 \<Longrightarrow> byte (char_of n) = n"
  by (simp add: byte_def of_char_mod_256)

lemma hex_digit_byte: "n < 16 \<Longrightarrow> byte (hex_digit n) = (if n < 10 then 48 + n else 87 + n)"
  by (simp add: hex_digit_def byte_char_of)

lemma hex_digit_ok: "n < 16 \<Longrightarrow> is_hex (hex_digit n) \<and> hex_value (hex_digit n) = n"
proof -
  assume n: "n < 16"
  have "char_lower (hex_digit n) = hex_digit n"
    using hex_digit_byte [OF n] n by (auto simp: char_lower_def byte_def Let_def split: if_splits)
  then show ?thesis using hex_digit_byte [OF n] n by (auto simp: is_hex_def hex_value_def is_digit_def)
qed

lemma rune_length_ascii: "byte c < 0x80 \<Longrightarrow> rune_length (c # cs) = 1"
  by (simp add: rune_length_def)

lemma scan_plain:
  assumes "list_all (\<lambda>c. 128 \<le> byte c) xs"
  shows "scan_string (xs @ t) = map_option (apfst ((@) xs)) (scan_string t)"
  using assms
proof (induction xs)
  case Nil
  then show ?case by (cases "scan_string t") auto
next
  case (Cons x xs)
  then show ?case by (cases "scan_string t") auto
qed

text \<open>The escaped form of an ASCII character, by its kind.\<close>

lemma escape_ascii_cases:
  assumes "byte c < 128"
  obtains (short) e where "escape_ascii c = [CHR 0x5C, e]" "e \<noteq> CHR ''u''" "byte e \<in> {34, 92} \<or> e \<in> set ''bfnrt''" "unescape e = c"
  | (hex) "escape_ascii c = CHR 0x5C # ''u00'' @ [hex_digit (byte c div 16), hex_digit (byte c mod 16)]"
  | (plain) "escape_ascii c = [c]" "byte c \<noteq> 34" "byte c \<noteq> 92" "32 \<le> byte c"
proof -
  have c: "c = char_of n" if "byte c = n" for n using that by (metis char_of_byte)
  have chars: "char_of (34::nat) = CHR 0x22" "char_of (92::nat) = CHR 0x5C" "char_of (8::nat) = CHR 0x08" "char_of (12::nat) = CHR 0x0C"
    "char_of (10::nat) = CHR 0x0A" "char_of (13::nat) = CHR 0x0D" "char_of (9::nat) = CHR 0x09"
    by code_simp+
  show thesis
  proof (cases "byte c \<in> {34, 92, 8, 12, 10, 13, 9}")
    case True
    then have "c \<in> {CHR 0x22, CHR 0x5C, CHR 0x08, CHR 0x0C, CHR 0x0A, CHR 0x0D, CHR 0x09}"
      by (elim insertE emptyE) (drule c, simp only: chars insert_iff simp_thms)+
    then have "\<exists>e. escape_ascii c = [CHR 0x5C, e] \<and> e \<noteq> CHR ''u'' \<and> (byte e \<in> {34, 92} \<or> e \<in> set ''bfnrt'') \<and> unescape e = c"
      by (elim insertE emptyE) (simp_all add: escape_ascii_def unescape_def byte_def)
    then show thesis using short by blast
  next
    case False
    then show thesis
      using hex plain by (cases "byte c < 32 \<or> c \<in> set ''<>&''") (simp_all add: escape_ascii_def)
  qed
qed

lemma scan_escape_ascii:
  assumes "byte c < 128"
  shows "scan_string (escape_ascii c @ t) = map_option (apfst ((@) (escape_ascii c))) (scan_string t)"
  using assms
proof (cases rule: escape_ascii_cases)
  case (short e)
  then show ?thesis by (cases "scan_string t") (auto simp: byte_def)
next
  case hex
  have "is_hex (hex_digit (byte c div 16))" "is_hex (hex_digit (byte c mod 16))" "is_hex (CHR ''0'')"
    using assms hex_digit_ok [of "byte c div 16"] hex_digit_ok [of "byte c mod 16"]
    by (auto simp: is_hex_def is_digit_def byte_def)
  then show ?thesis unfolding hex by (cases "scan_string t") (auto simp: byte_def)
next
  case plain
  then show ?thesis by (cases "scan_string t") auto
qed

lemma nth_case: "(if i < length s then byte (s ! i) else 0) = (case drop i s of [] \<Rightarrow> 0 | c # _ \<Rightarrow> byte c)"
  by (cases "i < length s") (auto simp: Cons_nth_drop_Suc [symmetric])

lemma rune_length_Cons:
  "128 \<le> byte a \<Longrightarrow> rune_length (a # s) =
     (let b = (\<lambda>i. case drop i s of [] \<Rightarrow> 0 | c # _ \<Rightarrow> byte c); cont = (\<lambda>i. 0x80 \<le> b i \<and> b i \<le> 0xBF)
      in if 0xC2 \<le> byte a \<and> byte a \<le> 0xDF then (if cont 0 then 2 else 0)
         else if 0xE0 \<le> byte a \<and> byte a \<le> 0xEF then
           (if cont 0 \<and> cont 1 \<and> (byte a = 0xE0 \<longrightarrow> 0xA0 \<le> b 0) \<and> (byte a = 0xED \<longrightarrow> b 0 \<le> 0x9F) then 3 else 0)
         else if 0xF0 \<le> byte a \<and> byte a \<le> 0xF4 then
           (if cont 0 \<and> cont 1 \<and> cont 2 \<and> (byte a = 0xF0 \<longrightarrow> 0x90 \<le> b 0) \<and> (byte a = 0xF4 \<longrightarrow> b 0 \<le> 0x8F) then 4 else 0)
         else 0)"
  unfolding rune_length_def Let_def nth_case by simp

text \<open>A sequence of more than one byte: its bytes are not ASCII, and what follows does not matter.\<close>

lemma rune_two:
  assumes "0xC2 \<le> byte a" "byte a \<le> 0xDF"
  shows "rune_length (a # s) = (case s of b # r \<Rightarrow> if 0x80 \<le> byte b \<and> byte b \<le> 0xBF then 2 else 0 | [] \<Rightarrow> 0)"
  using assms by (cases s) (simp_all add: rune_length_Cons)

lemma rune_three:
  assumes "0xE0 \<le> byte a" "byte a \<le> 0xEF"
  shows "rune_length (a # s) = (case s of b # c # r \<Rightarrow>
      if 0x80 \<le> byte b \<and> byte b \<le> 0xBF \<and> 0x80 \<le> byte c \<and> byte c \<le> 0xBF \<and>
         (byte a = 0xE0 \<longrightarrow> 0xA0 \<le> byte b) \<and> (byte a = 0xED \<longrightarrow> byte b \<le> 0x9F) then 3 else 0 | _ \<Rightarrow> 0)"
  using assms by (simp add: rune_length_Cons split: list.split)

lemma rune_four:
  assumes "0xF0 \<le> byte a" "byte a \<le> 0xF4"
  shows "rune_length (a # s) = (case s of b # c # d # r \<Rightarrow>
      if 0x80 \<le> byte b \<and> byte b \<le> 0xBF \<and> 0x80 \<le> byte c \<and> byte c \<le> 0xBF \<and> 0x80 \<le> byte d \<and> byte d \<le> 0xBF \<and>
         (byte a = 0xF0 \<longrightarrow> 0x90 \<le> byte b) \<and> (byte a = 0xF4 \<longrightarrow> byte b \<le> 0x8F) then 4 else 0 | _ \<Rightarrow> 0)"
  using assms by (simp add: rune_length_Cons numeral_2_eq_2 split: list.split)

lemma rune_bytes:
  assumes "rune_length (a # s) = n" and "n \<noteq> 0" and "128 \<le> byte a"
  shows "n \<le> Suc (length s) \<and> list_all (\<lambda>c. 128 \<le> byte c) (take n (a # s)) \<and> rune_length (take n (a # s) @ t) = n"
proof -
  consider "0xC2 \<le> byte a" "byte a \<le> 0xDF" | "0xE0 \<le> byte a" "byte a \<le> 0xEF" | "0xF0 \<le> byte a" "byte a \<le> 0xF4"
    using assms by (auto simp: rune_length_Cons split: if_splits)
  then show ?thesis
  proof cases
    case 1
    then obtain b r where "s = b # r" "n = 2" "0x80 \<le> byte b" "byte b \<le> 0xBF"
      using assms(1,2) by (cases s) (auto simp: rune_two split: if_splits)
    then show ?thesis using 1 assms(3) by (simp add: rune_two)
  next
    case 2
    then obtain b c r where "s = b # c # r" "n = 3" and
      "0x80 \<le> byte b \<and> byte b \<le> 0xBF \<and> 0x80 \<le> byte c \<and> byte c \<le> 0xBF \<and>
         (byte a = 0xE0 \<longrightarrow> 0xA0 \<le> byte b) \<and> (byte a = 0xED \<longrightarrow> byte b \<le> 0x9F)"
      using assms(1,2) by (auto simp: rune_three split: list.splits if_splits)
    then show ?thesis using 2 assms(3) by (simp add: rune_three)
  next
    case 3
    then obtain b c d r where "s = b # c # d # r" "n = 4" and
      "0x80 \<le> byte b \<and> byte b \<le> 0xBF \<and> 0x80 \<le> byte c \<and> byte c \<le> 0xBF \<and> 0x80 \<le> byte d \<and> byte d \<le> 0xBF \<and>
         (byte a = 0xF0 \<longrightarrow> 0x90 \<le> byte b) \<and> (byte a = 0xF4 \<longrightarrow> byte b \<le> 0x8F)"
      using assms(1,2) by (auto simp: rune_four split: list.splits if_splits)
    then show ?thesis using 3 assms(3) by (simp add: rune_four)
  qed
qed

lemma scan_escape: "scan_string (escape s @ quote_char # rest) = Some (escape s, rest)"
proof (induction s rule: escape.induct)
  case (1 s)
  show ?case
  proof (cases s)
    case Nil
    then show ?thesis by (simp add: escape.simps quote_char_def byte_def)
  next
    case (Cons c cs)
    consider "byte c < 128" | "128 \<le> byte c" "rune_length s = 0" | "128 \<le> byte c" "rune_length s \<noteq> 0" by linarith
    then show ?thesis
    proof cases
      case 1
      then show ?thesis
        using "1.IH"(1) [OF Cons] by (subst (1 2) escape.simps) (simp add: Cons scan_escape_ascii)
    next
      case 2
      then show ?thesis
        using "1.IH"(2) [OF Cons] by (subst (1 2) escape.simps) (simp add: Cons byte_def is_hex_def is_digit_def char_lower_def)
    next
      case 3
      let ?r = "take (rune_length s) s"
      have plain: "list_all (\<lambda>c. 128 \<le> byte c) ?r" using rune_bytes [OF refl, of c cs] 3 Cons by simp
      have "scan_string (escape_rune ?r @ t) = map_option (apfst ((@) (escape_rune ?r))) (scan_string t)" for t
        using scan_plain [OF plain] by (cases "scan_string t") (auto simp: escape_rune_def byte_def is_hex_def is_digit_def)
      then show ?thesis
        using 3 "1.IH"(3) [OF Cons] by (subst (1 2) escape.simps) (simp add: Cons)
    qed
  qed
qed

lemma hex4_ascii:
  assumes "byte c < 128"
  shows "hex4 (''00'' @ [hex_digit (byte c div 16), hex_digit (byte c mod 16)] @ t) = byte c"
proof -
  have "hex_value (hex_digit (byte c div 16)) = byte c div 16" "hex_value (hex_digit (byte c mod 16)) = byte c mod 16"
    using assms hex_digit_ok [of "byte c div 16"] hex_digit_ok [of "byte c mod 16"] by auto
  then show ?thesis by (simp add: hex4_def hex_value_def [of "CHR ''0''"] is_digit_def byte_def [of "CHR ''0''"])
qed

lemma unquote_ascii:
  assumes "byte c < 128"
  shows "unquote (escape_ascii c @ t) = c # unquote t"
  using assms
proof (cases rule: escape_ascii_cases)
  case (short e)
  then show ?thesis by (subst unquote.simps) (simp add: byte_def)
next
  case hex
  have "utf8 (byte c) = [c]" using assms by (simp add: utf8_def)
  then show ?thesis
    unfolding hex using assms hex4_ascii [OF assms, of t] by (subst unquote.simps) (simp add: byte_def Let_def)
next
  case plain
  then show ?thesis using assms by (subst unquote.simps) (simp add: rune_length_ascii)
qed

lemma unquote_unicode:
  assumes "hex4 h = r" and "length h = 4" and "r < 0xD800"
  shows "unquote (CHR 0x5C # CHR ''u'' # h @ t) = utf8 r @ unquote t"
proof -
  have "hex4 (h @ t) = r" using assms(1,2) by (simp add: hex4_def)
  then show ?thesis using assms(2,3) by (subst unquote.simps) (simp add: byte_def Let_def)
qed

lemma separator_codes:
  "utf8 0x2028 = [CHR 0xE2, CHR 0x80, CHR 0xA8]" "utf8 0x2029 = [CHR 0xE2, CHR 0x80, CHR 0xA9]"
  "hex4 ''2028'' = 0x2028" "hex4 ''2029'' = 0x2029"
proof -
  have "char_of (226::nat) = CHR 0xE2" "char_of (128::nat) = CHR 0x80" "char_of (168::nat) = CHR 0xA8" "char_of (169::nat) = CHR 0xA9"
    by (simp_all add: char_of_def bit_0)
  then show "utf8 0x2028 = [CHR 0xE2, CHR 0x80, CHR 0xA8]" "utf8 0x2029 = [CHR 0xE2, CHR 0x80, CHR 0xA9]"
    by (simp_all add: utf8_def)
qed (simp_all add: hex4_def hex_value_def is_digit_def byte_def)

lemma unquote_rune:
  assumes "rune_length (a # s) = n" and "n \<noteq> 0" and "128 \<le> byte a"
  shows "unquote (escape_rune (take n (a # s)) @ t) = take n (a # s) @ unquote t"
proof -
  let ?r = "take n (a # s)"
  consider "?r = [CHR 0xE2, CHR 0x80, CHR 0xA8]" | "?r = [CHR 0xE2, CHR 0x80, CHR 0xA9]"
    | "escape_rune ?r = ?r" unfolding escape_rune_def by argo
  then show ?thesis
  proof cases
    case 1
    then show ?thesis
      using unquote_unicode [OF separator_codes(3), of t] unfolding 1 separator_codes by (simp add: escape_rune_def)
  next
    case 2
    then show ?thesis
      using unquote_unicode [OF separator_codes(4), of t] unfolding 2 separator_codes by (simp add: escape_rune_def)
  next
    case 3
    have b: "n \<le> length (a # s)" "rune_length (?r @ t) = n" using rune_bytes [OF assms] by simp_all
    obtain m where n: "n = Suc m" using assms(2) by (cases n) auto
    have "take n (?r @ t) = ?r" "drop n (?r @ t) = t" using b(1) by simp_all
    then show ?thesis
      using b(2) assms(2,3) unfolding 3 by (subst unquote.simps) (simp add: n)
  qed
qed

lemma unquote_escape: "valid_utf8 s \<Longrightarrow> unquote (escape s) = s"
proof (induction s rule: escape.induct)
  case (1 s)
  show ?case
  proof (cases s)
    case Nil
    then show ?thesis by (simp add: escape.simps unquote.simps)
  next
    case (Cons c cs)
    have v: "rune_length s \<noteq> 0" "valid_utf8 (drop (rune_length s) s)"
      using "1.prems" Cons by (subst (asm) valid_utf8.simps, simp split: if_splits)+
    show ?thesis
    proof (cases "byte c < 128")
      case True
      then show ?thesis
        using "1.IH"(1) [OF Cons] v by (subst escape.simps) (simp add: Cons unquote_ascii rune_length_ascii)
    next
      case False
      then show ?thesis
        using "1.IH"(3) [OF Cons] v unquote_rune [of c cs "rune_length s"] by (subst escape.simps) (simp add: Cons)
    qed
  qed
qed

section \<open>Reading numbers back\<close>

text \<open>What may follow a value in an array, an object or at the end of a text.\<close>

definition delimited :: "string \<Rightarrow> bool" where
  "delimited rest \<longleftrightarrow> rest = [] \<or> hd rest \<in> {CHR '','', CHR '']'', CHR ''}''}"

lemma delimited_facts:
  "delimited (c # r) \<Longrightarrow> \<not> is_digit c \<and> c \<noteq> CHR ''.'' \<and> char_lower c \<noteq> CHR ''e''"
  by (auto simp: delimited_def is_digit_def byte_def char_lower_def)

lemma scan_digits_append:
  assumes "scan_digits x = Some (d, r)" and "delimited rest"
  shows "scan_digits (x @ rest) = Some (d, r @ rest)"
proof -
  have rest: "takeWhile is_digit rest = []" "dropWhile is_digit rest = rest"
    using assms(2) delimited_facts by (cases rest; simp)+
  have "takeWhile is_digit (x @ rest) = takeWhile is_digit x" "dropWhile is_digit (x @ rest) = dropWhile is_digit x @ rest"
    using rest by (induction x) auto
  then show ?thesis using assms(1) by (auto simp: scan_digits_def split: if_splits)
qed

lemma scan_int_append: "scan_int x = Some (i, r) \<Longrightarrow> delimited rest \<Longrightarrow> scan_int (x @ rest) = Some (i, r @ rest)"
  using scan_digits_append [of x i r rest] by (cases x) (auto simp: scan_int_def split: if_splits)

lemma scan_frac_append:
  assumes "scan_frac x = Some (f, r)" and "delimited rest"
  shows "scan_frac (x @ rest) = Some (f, r @ rest)"
proof (cases x)
  case Nil
  then show ?thesis using assms delimited_facts by (cases rest) (auto simp: scan_frac_def)
next
  case (Cons c cs)
  then show ?thesis
    using assms scan_digits_append [OF _ assms(2), of cs] by (auto simp: scan_frac_def split: if_splits)
qed

lemma scan_exp_append:
  assumes "scan_exp x = Some (e, r)" and "delimited rest"
  shows "scan_exp (x @ rest) = Some (e, r @ rest)"
proof (cases x)
  case Nil
  then show ?thesis using assms delimited_facts by (cases rest) (auto simp: scan_exp_def)
next
  case (Cons c cs)
  have "cs \<noteq> []" if "char_lower c = CHR ''e''"
    using assms(1) that Cons by (auto simp: scan_exp_def scan_digits_def split: if_splits)
  then show ?thesis
    using assms Cons scan_digits_append [OF _ assms(2), of cs] scan_digits_append [OF _ assms(2), of "tl cs"]
    by (auto simp: scan_exp_def split: if_splits)
qed

lemma scan_number_append:
  assumes n: "valid_number n" and rest: "delimited rest"
  shows "scan_number (n @ rest) = Some (n, rest)"
proof -
  let ?neg = "has_prefix n ''-''"
  let ?x = "if ?neg then tl n else n"
  obtain i s1 f s2 e where 1: "scan_int ?x = Some (i, s1)" and 2: "scan_frac s1 = Some (f, s2)"
    and 3: "scan_exp s2 = Some (e, [])" and n4: "(if ?neg then ''-'' else '''') @ i @ f @ e = n"
    using n by (auto simp: valid_number_def scan_number_def split: option.splits if_splits)
  have "n \<noteq> []" using 1 by (auto simp: scan_int_def has_prefix_iff)
  then have neg: "has_prefix (n @ rest) ''-'' = ?neg" "tl (n @ rest) = tl n @ rest" by (cases n; simp add: has_prefix_iff)+
  show ?thesis
    using scan_int_append [OF 1 rest] scan_frac_append [OF 2 rest] scan_exp_append [OF 3 rest] n4
    by (auto simp: scan_number_def neg split: if_splits)
qed

lemma number_head:
  assumes "valid_number n"
  obtains c cs where "n = c # cs" and "is_digit c \<or> c = CHR ''-''"
proof -
  obtain c cs where n: "n = c # cs"
    using assms by (cases n) (auto simp: valid_number_def scan_number_def scan_int_def has_prefix_iff)
  have "is_digit c \<or> c = CHR ''-''"
    using assms unfolding n
    by (auto simp: valid_number_def scan_number_def scan_int_def scan_digits_def has_prefix_iff is_digit_def byte_def
        split: if_splits option.splits)
  with n show thesis using that by blast
qed

section \<open>Reading values back\<close>

lemma skip_ws_plain: "\<not> json_space c \<Longrightarrow> skip_ws (c # s) = c # s"
  by (simp add: skip_ws_def)

lemma plain_chars [simp]:
  "\<not> json_space (CHR ''{'')" "\<not> json_space (CHR ''}'')" "\<not> json_space (CHR ''['')" "\<not> json_space (CHR '']'')"
  "\<not> json_space (CHR '','')" "\<not> json_space (CHR '':'')" "\<not> json_space quote_char" "\<not> json_space (CHR ''n'')"
  "\<not> json_space (CHR ''t'')" "\<not> json_space (CHR ''f'')"
  by (simp_all add: json_space_def byte_def quote_char_def)

lemma digit_chars:
  "is_digit c \<or> c = CHR ''-'' \<Longrightarrow> \<not> json_space c \<and> c \<notin> {CHR ''{'', CHR ''['', CHR '']'', CHR ''}'', CHR ''t'', CHR ''f'', CHR ''n''} \<and> byte c \<noteq> 34"
  by (auto simp: is_digit_def json_space_def byte_def)

lemma Marshal_head:
  assumes "wf_json v"
  obtains c cs where "Marshal v = c # cs" and "\<not> json_space c" and "c \<noteq> CHR '']''"
proof (cases v)
  case (JNum n)
  with assms have "valid_number n" by simp
  then obtain c cs where "n = c # cs" "is_digit c \<or> c = CHR ''-''" by (rule number_head)
  then show thesis using that JNum digit_chars by auto
next
  case (JBool b)
  then show thesis using that by (cases b) auto
qed (use that in \<open>auto simp: quoted_json_def quote_char_def json_space_def byte_def\<close>)

lemma parse_atom:
  assumes "wf_json v" and "depth v = 0" and "delimited rest"
  shows "parse_value d (Marshal v @ rest) = Some (v, rest)"
proof (cases v)
  case (JNum n)
  with assms have n: "valid_number n" by simp
  then obtain c cs where c: "n = c # cs" "is_digit c \<or> c = CHR ''-''" by (rule number_head)
  have "scan_number (c # cs @ rest) = Some (n, rest)" using scan_number_append [OF n assms(3)] c(1) by simp
  then show ?thesis
    using JNum c digit_chars [OF c(2)] by (subst parse_value.simps) (auto simp: skip_ws_plain has_prefix_iff)
next
  case (JStr s)
  with assms have "unquote (escape s) = s" by (simp add: unquote_escape)
  then show ?thesis
    using JStr scan_escape [of s rest]
    by (subst parse_value.simps) (simp add: quoted_json_def skip_ws_plain, simp add: quote_char_def byte_def)
next
  case JNull
  then show ?thesis by (subst parse_value.simps) (simp add: skip_ws_plain has_prefix_iff byte_def)
next
  case (JBool b)
  then show ?thesis by (cases b) (subst parse_value.simps, simp add: skip_ws_plain has_prefix_iff byte_def)+
qed (use assms in simp_all)

lemma commas_Cons: "xs \<noteq> [] \<Longrightarrow> commas (x # xs) = x @ '','' @ commas xs"
  by (cases xs) simp_all

lemma parse_elems_commas:
  assumes "vs \<noteq> []" and "\<And>v rest. v \<in> set vs \<Longrightarrow> delimited rest \<Longrightarrow> parse_value d (Marshal v @ rest) = Some (v, rest)"
  shows "parse_elems d (commas (map Marshal vs) @ CHR '']'' # rest) = Some (vs, rest)"
  using assms
proof (induction vs rule: list_nonempty_induct)
  case (single v)
  then have "parse_value d (Marshal v @ CHR '']'' # rest) = Some (v, CHR '']'' # rest)" by (simp add: delimited_def)
  then show ?case by (subst parse_elems.simps) (simp add: skip_ws_plain has_prefix_iff)
next
  case (cons v vs)
  let ?more = "commas (map Marshal vs) @ CHR '']'' # rest"
  have "parse_value d (Marshal v @ CHR '','' # ?more) = Some (v, CHR '','' # ?more)" using cons.prems by (simp add: delimited_def)
  moreover have "parse_elems d ?more = Some (vs, rest)" using cons.IH cons.prems by simp
  ultimately show ?case
    using cons.hyps(1) by (subst parse_elems.simps) (simp add: commas_Cons skip_ws_plain has_prefix_iff Let_def)
qed

lemma parse_members_commas:
  assumes "ms \<noteq> []" and "list_all (\<lambda>(k, v). valid_utf8 k) ms"
    and "\<And>k v rest. (k, v) \<in> set ms \<Longrightarrow> delimited rest \<Longrightarrow> parse_value d (Marshal v @ rest) = Some (v, rest)"
  shows "parse_members d (commas (map (\<lambda>(k, v). quoted_json k @ '':'' @ Marshal v) ms) @ CHR ''}'' # rest) = Some (ms, rest)"
  using assms
proof (induction ms rule: list_nonempty_induct)
  case (single m)
  obtain k v where m: "m = (k, v)" by (cases m)
  have "parse_value d (Marshal v @ CHR ''}'' # rest) = Some (v, CHR ''}'' # rest)"
    using single.prems m by (simp add: delimited_def)
  moreover have "unquote (escape k) = k" using single.prems m by (simp add: unquote_escape)
  ultimately show ?case
    using scan_escape [of k "CHR '':'' # Marshal v @ CHR ''}'' # rest"]
    by (subst parse_members.simps) (simp add: m quoted_json_def skip_ws_plain has_prefix_iff Let_def, simp add: quote_char_def byte_def)
next
  case (cons m ms)
  obtain k v where m: "m = (k, v)" by (cases m)
  let ?more = "commas (map (\<lambda>(k, v). quoted_json k @ '':'' @ Marshal v) ms) @ CHR ''}'' # rest"
  have "parse_value d (Marshal v @ CHR '','' # ?more) = Some (v, CHR '','' # ?more)"
    by (rule cons.prems(2) [of k v]) (simp_all add: m delimited_def)
  moreover have "parse_members d ?more = Some (ms, rest)"
    by (rule cons.IH) (use cons.prems in \<open>auto intro: cons.prems(2)\<close>)
  moreover have "unquote (escape k) = k" using cons.prems m by (simp add: unquote_escape)
  ultimately show ?case
    using cons.hyps(1) scan_escape [of k "CHR '':'' # Marshal v @ CHR '','' # ?more"]
    by (subst parse_members.simps)
      (simp add: m commas_Cons quoted_json_def skip_ws_plain has_prefix_iff Let_def, simp add: quote_char_def byte_def)
qed

lemma fold_max_start: "a \<le> fold max xs (a :: nat)"
proof (induction xs arbitrary: a)
  case (Cons x xs)
  from Cons [of "max x a"] show ?case by simp
qed simp

lemma fold_max_le: "x \<in> set xs \<Longrightarrow> x \<le> fold max xs (a :: nat)"
proof (induction xs arbitrary: a)
  case (Cons y ys)
  then show ?case using fold_max_start [of "max y a" ys] by auto
qed simp

lemma parse_Marshal:
  "wf_json v \<Longrightarrow> d + depth v \<le> max_depth \<Longrightarrow> delimited rest \<Longrightarrow> parse_value d (Marshal v @ rest) = Some (v, rest)"
proof (induction v arbitrary: d rest)
  case (JArr vs)
  show ?case
  proof (cases vs)
    case Nil
    then show ?thesis
      using JArr.prems by (subst parse_value.simps) (simp add: skip_ws_plain has_prefix_iff)
  next
    case (Cons v0 vs0)
    obtain c cs where "Marshal v0 = c # cs" "\<not> json_space c" "c \<noteq> CHR '']''"
      using JArr.prems Cons by (auto elim: Marshal_head)
    then have head: "\<not> has_prefix (skip_ws (commas (map Marshal vs) @ CHR '']'' # rest)) '']''"
      by (cases vs0) (simp_all add: Cons skip_ws_plain has_prefix_iff)
    have "parse_elems (Suc d) (commas (map Marshal vs) @ CHR '']'' # rest) = Some (vs, rest)"
    proof (rule parse_elems_commas)
      fix v r assume v: "v \<in> set vs" and r: "delimited r"
      have "depth v \<le> fold max (map depth vs) 0" using v by (intro fold_max_le) simp
      then show "parse_value (Suc d) (Marshal v @ r) = Some (v, r)"
        using JArr.IH [OF v _ _ r, of "Suc d"] JArr.prems v by (auto simp: list_all_iff)
    qed (simp add: Cons)
    then show ?thesis
      using head JArr.prems by (subst parse_value.simps) (simp add: skip_ws_plain)
  qed
next
  case (JObj ms)
  let ?member = "\<lambda>(k, v). quoted_json k @ '':'' @ Marshal v"
  show ?case
  proof (cases ms)
    case Nil
    then show ?thesis
      using JObj.prems by (subst parse_value.simps) (simp add: skip_ws_plain has_prefix_iff)
  next
    case (Cons m0 ms0)
    have "\<exists>cs. commas (map ?member ms) = quote_char # cs"
      by (cases ms0; cases m0) (simp_all add: Cons quoted_json_def)
    then have head: "\<not> has_prefix (skip_ws (commas (map ?member ms) @ CHR ''}'' # rest)) ''}''"
      by (auto simp: skip_ws_plain has_prefix_iff) (simp add: quote_char_def)
    have "parse_members (Suc d) (commas (map ?member ms) @ CHR ''}'' # rest) = Some (ms, rest)"
    proof (rule parse_members_commas)
      fix k v r assume v: "(k, v) \<in> set ms" and r: "delimited r"
      have "depth v \<le> fold max (map (\<lambda>(k, v). depth v) ms) 0" using v by (intro fold_max_le) force
      moreover have "wf_json v" using JObj.prems(1) v by (auto simp: list_all_iff)
      ultimately show "parse_value (Suc d) (Marshal v @ r) = Some (v, r)"
        using JObj.IH [OF v _ _ _ r, of v "Suc d"] JObj.prems(2) by auto
    qed (use JObj.prems(1) Cons in \<open>auto simp: list_all_iff\<close>)
    then show ?thesis
      using head JObj.prems by (subst parse_value.simps) (simp add: skip_ws_plain)
  qed
qed (simp_all add: parse_atom del: Marshal.simps)

lemma Unmarshal_Marshal: "wf_json v \<Longrightarrow> depth v \<le> max_depth \<Longrightarrow> Unmarshal (Marshal v) = Some v"
  using parse_Marshal [of v 0 "[]"] by (simp add: Unmarshal_def delimited_def skip_ws_def)

end
