(* ===== verification/Go_Float_Order.thy ===== *)
theory Go_Float_Order
  imports Go_Float
begin

text \<open>
  Order and exactness of the rounding of \<open>float64\<close>: rounding is monotone, and whole numbers below
  \<open>2^53\<close> are represented exactly. The fleet correlator and the cost reports rely on both.
\<close>

section \<open>Monotonicity\<close>

lemma round_half_even_mono: "m \<le> n \<Longrightarrow> round_half_even m \<le> round_half_even n"
proof -
  assume le: "m \<le> n"
  show ?thesis
  proof (cases "\<lfloor>m\<rfloor> = \<lfloor>n\<rfloor>")
    case True
    then show ?thesis using le by (auto simp: round_half_even_def Let_def)
  next
    case False
    then have "\<lfloor>m\<rfloor> + 1 \<le> \<lfloor>n\<rfloor>" using floor_mono [OF le] by simp
    moreover have "round_half_even m \<le> \<lfloor>m\<rfloor> + 1" by (simp add: round_half_even_def Let_def)
    moreover have "\<lfloor>n\<rfloor> \<le> round_half_even n" by (simp add: round_half_even_def Let_def)
    ultimately show ?thesis by linarith
  qed
qed

lemma pow2_less_cancel: "pow2 a < pow2 b \<Longrightarrow> a < b"
  using pow2_mono [of b a] by (meson not_less)

lemma exponent2_mono: "0 < x \<Longrightarrow> x \<le> y \<Longrightarrow> exponent2 x \<le> exponent2 y"
  using exponent2_lower [of x] exponent2_upper [of y] pow2_less_cancel [of "exponent2 x" "exponent2 y + 1"] by force

text \<open>The rounded magnitude, before the check for overflow.\<close>

definition rounded :: "nat \<Rightarrow> int \<Rightarrow> rat \<Rightarrow> rat" where
  "rounded p emin x =
     (let u = pow2 (max (exponent2 x) emin - int p + 1) in of_int (round_half_even (x / u)) * u)"

lemma rounded_le_next:
  assumes "0 < x" and "0 < p"
  shows "rounded p emin x \<le> pow2 (max (exponent2 x) emin + 1)"
  using round_half_even_scaled_bound [OF assms(1) refl assms(2)] by (simp add: rounded_def Let_def)

lemma rounded_ge_power:
  assumes "0 < x" and "pow2 e \<le> x" and "e = max (exponent2 x) emin" and "0 < p"
  shows "pow2 e \<le> rounded p emin x"
proof -
  let ?u = "pow2 (e - int p + 1)"
  have "pow2 (int p - 1) = of_int (2 ^ (p - 1))" using assms(4) by (simp add: pow2_def nat_diff_distrib)
  then have e: "pow2 e = of_int (2 ^ (p - 1)) * ?u" using pow2_add [of "int p - 1" "e - int p + 1"] by simp
  then have "of_int (2 ^ (p - 1)) \<le> x / ?u" using assms(2) by (simp add: pos_le_divide_eq)
  then have "2 ^ (p - 1) \<le> round_half_even (x / ?u)" by (rule round_half_even_ge)
  then have "of_int (2 ^ (p - 1)) * ?u \<le> of_int (round_half_even (x / ?u)) * ?u"
    by (intro mult_right_mono) (simp_all add: less_imp_le)
  then show ?thesis by (simp add: rounded_def Let_def assms(3) [symmetric] e)
qed

lemma rounded_mono:
  assumes "0 < x" and "x \<le> y" and "0 < p"
  shows "rounded p emin x \<le> rounded p emin y"
proof (cases "max (exponent2 x) emin = max (exponent2 y) emin")
  case True
  have "x / pow2 (max (exponent2 x) emin - int p + 1) \<le> y / pow2 (max (exponent2 x) emin - int p + 1)"
    using assms(2) by (simp add: divide_right_mono less_imp_le)
  from round_half_even_mono [OF this] show ?thesis
    by (simp add: rounded_def Let_def True mult_right_mono less_imp_le)
next
  case False
  let ?f = "max (exponent2 y) emin"
  have y: "0 < y" using assms by simp
  have lt: "max (exponent2 x) emin + 1 \<le> ?f" and f: "?f = exponent2 y"
    using False exponent2_mono [OF assms(1,2)] by (auto simp: max_def split: if_splits)
  have "rounded p emin x \<le> pow2 (max (exponent2 x) emin + 1)" by (rule rounded_le_next [OF assms(1,3)])
  also have "\<dots> \<le> pow2 ?f" using lt by (rule pow2_mono)
  also have "\<dots> \<le> rounded p emin y"
    using exponent2_lower [OF y] by (intro rounded_ge_power [OF y _ refl assms(3)]) (simp only: f)
  finally show ?thesis .
qed

lemma round_float_pos:
  assumes "0 < x"
  shows "round_float p emin emax x = (if pow2 (emax + 1) \<le> \<bar>rounded p emin x\<bar> then PInf else Fin (rounded p emin x))"
  using assms by (simp add: round_float_def rounded_def Let_def)

lemma rounded_nonneg: "0 < x \<Longrightarrow> 0 \<le> rounded p emin x"
proof -
  assume x: "0 < x"
  let ?u = "pow2 (max (exponent2 x) emin - int p + 1)"
  have "0 \<le> round_half_even (x / ?u)" using x by (intro round_half_even_ge) (simp add: less_imp_le)
  then show ?thesis unfolding rounded_def Let_def by (intro mult_nonneg_nonneg) (simp_all add: less_imp_le)
qed

lemma r64_mono:
  assumes "0 \<le> x" and "x \<le> y"
  shows "\<not> flt (r64 y) (r64 x)"
proof (cases "x = 0")
  case True
  then show ?thesis
    using assms rounded_nonneg [of y 53 "- 1022"] by (cases "y = 0") (auto simp: r64_def round_float_pos)
next
  case False
  then have x: "0 < x" using assms by simp
  have "rounded 53 (- 1022) x \<le> rounded 53 (- 1022) y" by (rule rounded_mono [OF x assms(2)]) simp
  then show ?thesis
    using x assms rounded_nonneg [of x 53 "- 1022"] by (auto simp: r64_def round_float_pos)
qed

section \<open>Exactness\<close>

lemma pow2_int: "0 \<le> e \<Longrightarrow> pow2 e = of_int (2 ^ nat e)"
  by (simp add: pow2_def)

lemma exponent2_int_less:
  assumes "0 < n" and "n < 2 ^ 53"
  shows "0 \<le> exponent2 (of_int n)" and "exponent2 (of_int n) \<le> 52"
proof -
  have "pow2 0 \<le> (of_int n :: rat)" using assms(1) by simp
  also have "\<dots> < pow2 (exponent2 (of_int n) + 1)" using assms(1) by (intro exponent2_upper) simp
  finally show "0 \<le> exponent2 (of_int n)" using pow2_less_cancel by fastforce
  have "pow2 (exponent2 (of_int n)) \<le> of_int n" using assms(1) by (intro exponent2_lower) simp
  also have "(of_int n :: rat) < of_int (2 ^ 53)" using assms(2) by (simp only: of_int_less_iff)
  also have "of_int (2 ^ 53) = pow2 53" by (simp add: pow2_def)
  finally show "exponent2 (of_int n) \<le> 52" using pow2_less_cancel by fastforce
qed

lemma r64_int:
  assumes "0 \<le> n" and "n < 2 ^ 53"
  shows "r64 (of_int n) = Fin (of_int n)"
proof (cases "n = 0")
  case False
  then have n: "0 < n" using assms(1) by simp
  let ?e = "exponent2 (of_int n)"
  have e: "0 \<le> ?e" "?e \<le> 52" by (rule exponent2_int_less [OF n assms(2)])+
  let ?k = "52 - ?e"
  have u: "pow2 (max ?e (- 1022) - int 53 + 1) * pow2 ?k = 1"
    using pow2_add [of "max ?e (- 1022) - int 53 + 1" ?k] e by simp
  moreover have "pow2 (max ?e (- 1022) - int 53 + 1) \<noteq> 0" using pow2_pos by (metis less_irrefl)
  ultimately have "of_int n / pow2 (max ?e (- 1022) - int 53 + 1) = of_int n * pow2 ?k"
    by (metis divide_eq_eq mult.assoc mult.commute mult_1_right)
  also have "\<dots> = of_int (n * 2 ^ nat ?k)" using e by (simp add: pow2_int)
  finally have "rounded 53 (- 1022) (of_int n) = of_int (n * 2 ^ nat ?k) * pow2 (max ?e (- 1022) - int 53 + 1)"
    unfolding rounded_def Let_def by (simp only: round_half_even_int)
  also have "\<dots> = of_int n * (pow2 (max ?e (- 1022) - int 53 + 1) * pow2 ?k)" using e by (simp add: pow2_int)
  also have "\<dots> = of_int n" by (simp only: u mult_1_right)
  finally have r: "rounded 53 (- 1022) (of_int n) = of_int n" .
  have "(of_int n :: rat) < of_int (2 ^ 53)" using assms(2) by (simp only: of_int_less_iff)
  also have "of_int (2 ^ 53) = pow2 53" by (simp add: pow2_def)
  also have "\<dots> \<le> pow2 (1023 + 1)" by (rule pow2_mono) simp
  finally have "\<not> pow2 (1023 + 1) \<le> \<bar>of_int n\<bar>" using n by simp
  then show ?thesis using n by (simp only: r64_def round_float_pos of_int_0_less_iff r if_False)
qed (simp add: r64_def)

end
