(* ===== verification/Go_Json_Any.thy ===== *)
theory Go_Json_Any
  imports Go_Json_Encode Go_Float_Order
begin

text \<open>
  Generic JSON values, as \<open>encoding/json\<close> decodes them into \<open>map[string]interface{}\<close>: maps sorted by
  key, numbers as \<open>float64\<close> with the shortest decimal that denotes them. Decoding the encoding of a
  generic value gives it back; whole numbers below \<open>2^53\<close> are among the numbers that survive.
\<close>

section \<open>Decoding generic values\<close>

text \<open>
  Values of type \<open>interface{}\<close>. A Go map is the list of its members sorted by key; decoding keeps
  the last of members with the same key. A number is decoded to a \<open>float64\<close> and kept as the literal
  that value is encoded as; a number out of range is an error.
\<close>

fun str_less :: "string \<Rightarrow> string \<Rightarrow> bool" where
  "str_less x [] = False"
| "str_less [] (b # y) = True"
| "str_less (a # x) (b # y) = (byte a < byte b \<or> a = b \<and> str_less x y)"

fun put_member :: "string \<Rightarrow> 'a \<Rightarrow> (string \<times> 'a) list \<Rightarrow> (string \<times> 'a) list" where
  "put_member k v [] = [(k, v)]"
| "put_member k v ((k', v') # ms) =
     (if k = k' then (k, v) # ms else if str_less k k' then (k, v) # (k', v') # ms else (k', v') # put_member k v ms)"

definition go_map :: "(string \<times> 'a) list \<Rightarrow> (string \<times> 'a) list" where
  "go_map ms = foldl (\<lambda>acc (k, v). put_member k v acc) [] ms"

text \<open>
  The shortest decimal that rounds to a positive \<open>float64\<close>, as digits and a power of ten:
  \<open>dec_point x\<close> is the \<open>k\<close> with \<open>10^(k-1) \<le> x < 10^k\<close>, and seventeen digits always suffice.
\<close>

definition dec_point :: "rat \<Rightarrow> int" where
  "dec_point x = (if 1 \<le> x then int (length (fmt_pos \<lfloor>x\<rfloor>)) else 1 - int (length (fmt_pos (\<lceil>1 / x\<rceil> - 1))))"

fun strip_zeros :: "nat \<Rightarrow> int \<times> int \<Rightarrow> int \<times> int" where
  "strip_zeros 0 de = de"
| "strip_zeros (Suc n) (d, e) = (if 0 < d \<and> d mod 10 = 0 then strip_zeros n (d div 10, e + 1) else (d, e))"

fun shortest_from :: "nat \<Rightarrow> int \<Rightarrow> rat \<Rightarrow> int \<times> int" where
  "shortest_from 0 e x = (round_half_even (x / pow10 e), e)"
| "shortest_from (Suc n) e x =
     (let lo = \<lfloor>x / pow10 e\<rfloor>;
          down = (r64 (of_int lo * pow10 e) = Fin x);
          up = (r64 (of_int (lo + 1) * pow10 e) = Fin x)
      in if down \<and> up then (round_half_even (x / pow10 e), e)
         else if down then (lo, e)
         else if up then (lo + 1, e)
         else shortest_from n (e - 1) x)"

definition shortest :: "rat \<Rightarrow> int \<times> int" where
  "shortest x = strip_zeros 20 (shortest_from 16 (dec_point x - 1) x)"

definition fmt_json_pos :: "rat \<Rightarrow> string" where
  "fmt_json_pos x =
     (let (d, e) = shortest x; ds = fmt_pos d; k = int (length ds) + e
      in if x < 1 / 1000000 \<or> 10 ^ 21 \<le> x then
           [hd ds] @ (if tl ds = [] then '''' else ''.'' @ tl ds) @ ''e'' @ (if k - 1 < 0 then ''-'' else ''+'') @ fmt_pos \<bar>k - 1\<bar>
         else if 0 \<le> e then ds @ replicate (nat e) (CHR ''0'')
         else if 0 < k then take (nat k) ds @ ''.'' @ drop (nat k) ds
         else ''0.'' @ replicate (nat (- k)) (CHR ''0'') @ ds)"

definition reencode :: "string \<Rightarrow> string option" where
  "reencode n =
     (let neg = has_prefix n ''-''; sgn = (if neg then ''-'' else '''')
      in case unsigned_literal (if neg then tl n else n) of
           None \<Rightarrow> None
         | Some x \<Rightarrow>
             (case r64 x of
                Fin y \<Rightarrow> Some (sgn @ (if y = 0 then ''0'' else fmt_json_pos y))
              | _ \<Rightarrow> None))"

fun collect :: "'a option list \<Rightarrow> 'a list option" where
  "collect [] = Some []"
| "collect (x # xs) = (case x of None \<Rightarrow> None | Some y \<Rightarrow> map_option ((#) y) (collect xs))"

fun decode_any :: "json \<Rightarrow> json option" where
  "decode_any (JNum n) = map_option JNum (reencode n)"
| "decode_any (JArr vs) = map_option JArr (collect (map decode_any vs))"
| "decode_any (JObj ms) = map_option (\<lambda>ms. JObj (go_map ms)) (collect (map (\<lambda>(k, v). map_option (Pair k) (decode_any v)) ms))"
| "decode_any v = Some v"

text \<open>A value as a decoder leaves it, so that decoding its encoding changes nothing.\<close>

fun generic :: "json \<Rightarrow> bool" where
  "generic (JNum n) \<longleftrightarrow> reencode n = Some n"
| "generic (JArr vs) \<longleftrightarrow> list_all generic vs"
| "generic (JObj ms) \<longleftrightarrow> sorted_wrt (\<lambda>(k, v) (k', v'). str_less k k') ms \<and> list_all (\<lambda>(k, v). generic v) ms"
| "generic _ \<longleftrightarrow> True"

section \<open>Decoding an encoding\<close>

lemma str_less_irrefl: "\<not> str_less x x"
  by (induction x) auto

lemma str_less_trans: "str_less x y \<Longrightarrow> str_less y z \<Longrightarrow> str_less x z"
proof (induction x z arbitrary: y rule: str_less.induct)
  case (2 b y')
  then show ?case by simp
next
  case (3 a x b z)
  then show ?case by (cases y) auto
qed simp

lemma str_less_asym: "str_less x y \<Longrightarrow> \<not> str_less y x"
  using str_less_trans str_less_irrefl by blast

lemma put_member_snoc:
  "\<forall>(k', v') \<in> set ms. str_less k' k \<Longrightarrow> put_member k v ms = ms @ [(k, v)]"
  by (induction k v ms rule: put_member.induct) (auto simp: str_less_irrefl dest: str_less_asym)

lemma go_map_sorted:
  assumes "sorted_wrt (\<lambda>(k, v) (k', v'). str_less k k') ms"
  shows "go_map ms = ms"
proof -
  have "foldl (\<lambda>acc (k, v). put_member k v acc) acc ms = acc @ ms"
    if "sorted_wrt (\<lambda>(k, v) (k', v'). str_less k k') (acc @ ms)" for acc
    using that
  proof (induction ms arbitrary: acc)
    case (Cons m ms)
    obtain k v where m: "m = (k, v)" by (cases m)
    have "put_member k v acc = acc @ [(k, v)]" using Cons.prems by (intro put_member_snoc) (auto simp: sorted_wrt_append m)
    then show ?case using Cons.IH [of "acc @ [m]"] Cons.prems by (simp add: m)
  qed simp
  from this [of "[]"] assms show ?thesis by (simp add: go_map_def)
qed

lemma collect_Some: "list_all (\<lambda>x. f x = Some x) xs \<Longrightarrow> collect (map f xs) = Some xs"
  by (induction xs) auto

lemma decode_any_generic: "generic v \<Longrightarrow> decode_any v = Some v"
proof (induction v)
  case (JArr vs)
  then show ?case using collect_Some [of decode_any vs] by (simp add: list_all_iff)
next
  case (JObj ms)
  have "list_all (\<lambda>x. (\<lambda>(k, v). map_option (Pair k) (decode_any v)) x = Some x) ms"
    using JObj by (fastforce simp: list_all_iff)
  from collect_Some [OF this] JObj.prems show ?case by (simp add: go_map_sorted)
qed simp_all

section \<open>Whole numbers survive\<close>

lemma r64_int_eq:
  assumes "0 \<le> i" "i + 1 < 2 ^ 53" and "0 \<le> z"
  shows "r64 (of_int z) = Fin (of_int i) \<longleftrightarrow> z = i"
proof (cases "z \<le> i")
  case True
  then show ?thesis using assms r64_int [of z] by simp
next
  case False
  then have "\<not> flt (r64 (of_int z)) (r64 (of_int (i + 1)))" using assms by (intro r64_mono) simp_all
  moreover have "r64 (of_int (i + 1)) = Fin (of_int (i + 1))" using assms by (intro r64_int) simp_all
  ultimately show ?thesis using False by auto
qed

lemma pow10_nonneg: "0 \<le> e \<Longrightarrow> pow10 e = of_int (10 ^ nat e)"
  by (simp add: pow10_def)

lemma shortest_from_int:
  assumes "0 < i" "i + 1 < 2 ^ 53"
  shows "0 \<le> e \<Longrightarrow> nat e < n \<Longrightarrow> \<exists>d e'. shortest_from n e (of_int i) = (d, e') \<and> 0 \<le> e' \<and> 0 < d \<and> d * 10 ^ nat e' = i"
proof (induction n arbitrary: e)
  case (Suc n)
  let ?t = "10 ^ nat e :: int"
  have lo: "\<lfloor>of_int i / pow10 e\<rfloor> = i div ?t"
    using Suc.prems(1) by (simp only: pow10_nonneg floor_divide_of_int_eq)
  have down: "r64 (of_int (i div ?t) * pow10 e) = Fin (of_int i) \<longleftrightarrow> i div ?t * ?t = i"
    using r64_int_eq [of i "i div ?t * ?t"] assms Suc.prems(1) by (simp add: pow10_nonneg pos_imp_zdiv_nonneg_iff)
  have "i < (i div ?t + 1) * ?t"
    by (metis add.commute distrib_right mult.commute mult_div_mod_eq mult_1 pos_mod_bound zero_less_numeral zero_less_power add_strict_left_mono)
  then have up: "r64 (of_int (i div ?t + 1) * pow10 e) \<noteq> Fin (of_int i)"
    using r64_int_eq [of i "(i div ?t + 1) * ?t"] assms Suc.prems(1) by (simp add: pow10_nonneg pos_imp_zdiv_nonneg_iff)
  show ?case
  proof (cases "i div ?t * ?t = i")
    case True
    then have "0 < i div ?t" using assms(1) by (metis mult_zero_left not_less_iff_gr_or_eq pos_imp_zdiv_neg_iff zero_less_numeral zero_less_power)
    then show ?thesis using True down up Suc.prems(1) by (simp only: shortest_from.simps Let_def lo) simp
  next
    case False
    then have "e \<noteq> 0" by auto
    then show ?thesis
      using False down up Suc.IH [of "e - 1"] Suc.prems by (simp only: shortest_from.simps Let_def lo) (simp add: nat_diff_distrib)
  qed
qed simp

lemma strip_zeros_value:
  "0 \<le> e \<Longrightarrow> 0 < d \<Longrightarrow> strip_zeros n (d, e) = (d', e') \<Longrightarrow> 0 \<le> e' \<and> 0 < d' \<and> d' * 10 ^ nat e' = d * 10 ^ nat e"
proof (induction n "(d, e)" arbitrary: d e rule: strip_zeros.induct)
  case (2 n d e)
  show ?case
  proof (cases "d mod 10 = 0")
    case True
    then have d: "d div 10 * 10 = d" by presburger
    then have "0 < d div 10" using "2.prems"(2) by linarith
    moreover have "d div 10 * 10 ^ nat (e + 1) = d * 10 ^ nat e"
      using "2.prems"(1) d by (metis add.commute mult.assoc nat_add_distrib nat_one_as_int of_nat_1 one_add_one power_add power_one_right zero_le_one nat_1)
    ultimately show ?thesis using "2.hyps" "2.prems" True by simp
  next
    case False
    then show ?thesis using "2.prems" by simp
  qed
qed simp

lemma fmt_pos_shift: "0 < d \<Longrightarrow> fmt_pos (d * 10 ^ n) = fmt_pos d @ replicate n (CHR ''0'')"
proof (induction n)
  case (Suc n)
  have p: "(1 :: int) \<le> d * 10 ^ n" using Suc.prems by (simp add: int_one_le_iff_zero_less)
  have "fmt_pos (d * 10 ^ Suc n) = fmt_pos (d * 10 ^ n) @ ''0''"
    using p by (subst fmt_pos.simps) (simp add: mult.left_commute)
  then show ?case using Suc by (simp add: replicate_append_same)
qed simp

lemma fmt_pos_length: "0 < i \<Longrightarrow> i < 10 ^ n \<Longrightarrow> length (fmt_pos i) \<le> n"
proof (induction i arbitrary: n rule: fmt_pos.induct)
  case (1 i)
  show ?case
  proof (cases "i < 10")
    case True
    then show ?thesis using "1.prems" by (subst fmt_pos.simps) (cases n; simp)
  next
    case False
    then obtain m where n: "n = Suc m" using "1.prems" by (cases n) auto
    have "i div 10 < 10 ^ m" using "1.prems"(2) by (simp add: n)
    then have "length (fmt_pos (i div 10)) \<le> m" using "1.IH" [OF False] False by simp
    then show ?thesis using False by (subst fmt_pos.simps) (simp add: n)
  qed
qed

lemma fmt_json_int:
  assumes "0 < i" "i + 1 < 2 ^ 53"
  shows "fmt_json_pos (of_int i) = fmt_pos i"
proof -
  have one: "1 \<le> (of_int i :: rat)" using assms(1) by (simp add: int_one_le_iff_zero_less)
  have "(2 :: int) ^ 53 < 10 ^ 16" by simp
  then have i16: "i < 10 ^ 16" using assms(2) by linarith
  have len: "0 < length (fmt_pos i)" "length (fmt_pos i) \<le> 16"
    using fmt_pos_length [OF assms(1) i16] by simp_all
  then obtain d e where s: "shortest_from 16 (int (length (fmt_pos i)) - 1) (of_int i) = (d, e)" "0 \<le> e" "0 < d" "d * 10 ^ nat e = i"
    using shortest_from_int [OF assms, of "int (length (fmt_pos i)) - 1" 16] by (auto simp: nat_less_iff)
  obtain d' e' where t: "strip_zeros 20 (d, e) = (d', e')" by fastforce
  have v: "0 \<le> e'" "0 < d'" "d' * 10 ^ nat e' = i" using strip_zeros_value [OF s(2,3) t] s(4) by auto
  have "shortest (of_int i) = (d', e')" using one s(1) t by (simp add: shortest_def dec_point_def)
  moreover have "\<not> (of_int i :: rat) < 1 / 1000000" using one by (simp add: not_less)
  moreover have "\<not> (10 :: rat) ^ 21 \<le> of_int i"
  proof -
    have "(of_int i :: rat) < of_int (10 ^ 16)" using i16 by (simp only: of_int_less_iff)
    also have "\<dots> \<le> 10 ^ 21" by simp
    finally show ?thesis by simp
  qed
  ultimately show ?thesis using v fmt_pos_shift [of d' "nat e'"] by (simp add: fmt_json_pos_def Let_def)
qed

text \<open>The literal of a whole number.\<close>

lemma int_byte: "int (of_char c) = of_char c"
  by (rule of_nat_of_char)

lemma is_digit_value: "is_digit c \<Longrightarrow> int (hex_value c) = of_char c - 48"
  by (simp add: hex_value_def is_digit_def byte_def of_nat_diff int_byte)

lemma read_digits_shift: "read_digits cs acc = acc * 10 ^ length cs + read_digits cs 0"
proof (induction cs arbitrary: acc)
  case (Cons c cs)
  show ?case using Cons [of "10 * acc + (of_char c - 48)"] Cons [of "of_char c - 48"] by (simp add: algebra_simps)
qed simp

lemma mantissa_digits: "cs \<noteq> [] \<Longrightarrow> list_all is_digit cs \<Longrightarrow> mantissa 10 False cs = (read_digits cs 0, 0, True, [])"
proof (induction cs)
  case (Cons c cs)
  have c: "is_digit c" "c \<noteq> CHR ''_''" "c \<noteq> CHR ''.''" using Cons.prems by (auto simp: is_digit_def byte_def)
  have "length (filter is_hex cs) = length cs" using Cons.prems(2) by (auto simp: is_hex_def list_all_iff)
  moreover have "mantissa 10 False cs = (read_digits cs 0, 0, True, [])" if "cs \<noteq> []" using Cons that by simp
  ultimately show ?case
    using c is_digit_value [OF c(1)] read_digits_shift [of cs "of_char c - 48"] by (cases "cs = []") (auto simp: Let_def)
qed simp

lemma digits_all: "0 \<le> i \<Longrightarrow> list_all is_digit (fmt_pos i)"
proof -
  assume i: "0 \<le> i"
  have "is_digit c" if "c \<in> set (fmt_pos i)" for c
    using fmt_pos_digit [OF i that] int_byte [of c] by (simp add: is_digit_def byte_def)
  then show ?thesis by (simp add: list_all_iff)
qed

lemma literal_int: "0 \<le> i \<Longrightarrow> unsigned_literal (fmt_pos i) = Some (of_int i)"
proof -
  assume i: "0 \<le> i"
  note ds = digits_all [OF i]
  have "\<not> has_prefix (to_lower (fmt_pos i)) ''0x''"
  proof
    assume "has_prefix (to_lower (fmt_pos i)) ''0x''"
    then have "CHR ''x'' \<in> char_lower ` set (fmt_pos i)" by (auto simp: has_prefix_iff to_lower_def dest: arg_cong [where f = set])
    then show False using ds by (auto simp: list_all_iff is_digit_def byte_def char_lower_def Let_def split: if_splits)
  qed
  moreover have "CHR ''_'' \<notin> set (fmt_pos i)" using ds by (auto simp: list_all_iff is_digit_def byte_def)
  ultimately show ?thesis
    using mantissa_digits [OF _ ds] read_fmt_pos [OF i] by (simp add: unsigned_literal_def Let_def pow10_def)
qed

lemma reencode_int:
  assumes "\<bar>i\<bar> + 1 < 2 ^ 53"
  shows "reencode (fmt_int i) = Some (fmt_int i)"
proof -
  have r: "r64 (of_int \<bar>i\<bar>) = Fin (of_int \<bar>i\<bar>)" using assms by (intro r64_int) simp_all
  have "\<not> has_prefix (fmt_pos i) ''-''" if "0 \<le> i" using fmt_pos_no_minus [OF that] by (auto simp: has_prefix_iff)
  then show ?thesis
    using r literal_int [of "\<bar>i\<bar>"] fmt_json_int [of "\<bar>i\<bar>"] assms
    by (cases "i < 0"; cases "i = 0") (auto simp: reencode_def fmt_int_def Let_def has_prefix_iff fmt_pos.simps [of 0])
qed

lemma fmt_pos_head: "0 < i \<Longrightarrow> hd (fmt_pos i) \<noteq> CHR ''0''"
proof (induction i rule: fmt_pos.induct)
  case (1 i)
  show ?case
  proof (cases "i < 10")
    case True
    then have "of_char (digit_char i) = 48 + i" using "1.prems" by (intro of_digit_char) simp_all
    then show ?thesis using True "1.prems" by (subst fmt_pos.simps) auto
  next
    case False
    then show ?thesis using "1.IH" [OF False] by (subst fmt_pos.simps) simp
  qed
qed

lemma scan_int_fmt: "0 \<le> i \<Longrightarrow> scan_int (fmt_pos i) = Some (fmt_pos i, [])"
proof (cases "i = 0")
  case False
  assume i: "0 \<le> i"
  obtain c cs where c: "fmt_pos i = c # cs" using fmt_pos_nonempty by (metis neq_Nil_conv)
  have "takeWhile is_digit (c # cs) = c # cs" "dropWhile is_digit (c # cs) = []"
    using digits_all [OF i] by (auto simp: c list_all_iff takeWhile_eq_all_conv)
  then show ?thesis using fmt_pos_head [of i] i False by (simp add: c scan_int_def scan_digits_def)
qed (simp add: fmt_pos.simps scan_int_def)

lemma fmt_int_valid: "valid_number (fmt_int i)"
proof -
  have "\<not> has_prefix (fmt_pos i) ''-''" if "0 \<le> i" using fmt_pos_no_minus [OF that] by (auto simp: has_prefix_iff)
  then show ?thesis
    using scan_int_fmt [of "\<bar>i\<bar>"]
    by (cases "i < 0") (auto simp: valid_number_def scan_number_def fmt_int_def has_prefix_iff scan_frac_def scan_exp_def)
qed

lemma whole_number_survives:
  "\<bar>i\<bar> + 1 < 2 ^ 53 \<Longrightarrow> wf_json (JNum (fmt_int i)) \<and> generic (JNum (fmt_int i))"
  by (simp add: fmt_int_valid reencode_int)

end
