(* ===== verification/Node_Json.thy ===== *)
theory Node_Json
  imports Kube_Quantities Go_Json_Any "HOL-Library.Char_ord" "HOL-Library.List_Lexorder"
begin

text \<open>
  The JSON form of the resource: the struct tags of \<open>api/v1alpha1/taonode_types.go\<close> and the defaults
  its \<open>kubebuilder\<close> markers put into the schema. \<open>X_json\<close> encodes a struct the way \<open>json.Marshal\<close>
  does, leaving out empty fields tagged \<open>omitempty\<close>; \<open>read_X\<close> is how the struct is read back from an
  object the API server has defaulted: decoding starts from \<open>X_start\<close>, which holds the default of
  every field that has one. The encodings of Kubernetes' own types are parameters.
\<close>

section \<open>Encoding fields\<close>

record api_json =
  aj_quantity :: "quantity \<Rightarrow> json"
  aj_readQuantity :: "json \<Rightarrow> quantity option"
  aj_resources :: "resource_requirements \<Rightarrow> json"
  aj_readResources :: "json \<Rightarrow> resource_requirements option"
  aj_toleration :: "toleration \<Rightarrow> json"
  aj_readToleration :: "json \<Rightarrow> toleration option"
  aj_time :: "time \<Rightarrow> json"
  aj_condition :: "condition \<Rightarrow> json"
  aj_meta :: "object_meta \<Rightarrow> json"

text \<open>As documented, Kubernetes' types are read back from what they are encoded as; Go's maps are finite.\<close>

definition finite_resources :: "resource_requirements \<Rightarrow> bool" where
  "finite_resources r \<longleftrightarrow> pred_option (\<lambda>m. finite (dom m)) (rr_requests r) \<and> pred_option (\<lambda>m. finite (dom m)) (rr_limits r)"

definition api_laws :: "api_json \<Rightarrow> bool" where
  "api_laws J \<longleftrightarrow> (\<forall>q. aj_readQuantity J (aj_quantity J q) = Some q) \<and>
     (\<forall>r. finite_resources r \<longrightarrow> aj_readResources J (aj_resources J r) = Some r) \<and> (\<forall>t. aj_readToleration J (aj_toleration J t) = Some t)"

definition json_int :: "'a::len word \<Rightarrow> json" where "json_int i = JNum (fmt_d i)"

definition role_json :: "TaoNodeRole \<Rightarrow> json" where "role_json r = JStr (role_string r)"

definition role_of :: "string \<Rightarrow> TaoNodeRole" where
  "role_of s = (if s = ''subtensor'' then RoleSubtensor else if s = ''miner'' then RoleMiner
     else if s = ''validator'' then RoleValidator else RoleOther s)"

definition member :: "string \<Rightarrow> json \<Rightarrow> (string \<times> json) list" where "member k v = [(k, v)]"

definition omit_str :: "string \<Rightarrow> string \<Rightarrow> (string \<times> json) list" where
  "omit_str k s = (if s = [] then [] else [(k, JStr s)])"

definition omit_zero :: "string \<Rightarrow> 'a::len word \<Rightarrow> (string \<times> json) list" where
  "omit_zero k i = (if i = 0 then [] else [(k, json_int i)])"

definition omit_false :: "string \<Rightarrow> bool \<Rightarrow> (string \<times> json) list" where
  "omit_false k b = (if b then [(k, JBool b)] else [])"

definition omit_none :: "string \<Rightarrow> ('a \<Rightarrow> json) \<Rightarrow> 'a option \<Rightarrow> (string \<times> json) list" where
  "omit_none k enc p = (case p of None \<Rightarrow> [] | Some v \<Rightarrow> [(k, enc v)])"

definition omit_nil :: "string \<Rightarrow> ('a \<Rightarrow> json) \<Rightarrow> 'a list \<Rightarrow> (string \<times> json) list" where
  "omit_nil k enc xs = (if xs = [] then [] else [(k, JArr (map enc xs))])"

text \<open>A map of strings, its keys in order.\<close>

definition map_members :: "(string \<rightharpoonup> string) \<Rightarrow> (string \<times> json) list" where
  "map_members m = map (\<lambda>k. (k, JStr (the (m k)))) (sorted_list_of_set (dom m))"

definition omit_map :: "string \<Rightarrow> (string \<rightharpoonup> string) \<Rightarrow> (string \<times> json) list" where
  "omit_map k m = (if m = Map.empty then [] else [(k, JObj (map_members m))])"

section \<open>The structs\<close>

definition AutoExpandSpec_json :: "api_json \<Rightarrow> AutoExpandSpec \<Rightarrow> json" where
  "AutoExpandSpec_json J x = JObj
     (member ''thresholdPercent'' (json_int (ae_thresholdPercent x)) @
      member ''maxSize'' (aj_quantity J (ae_maxSize x)) @
      member ''incrementPercent'' (json_int (ae_incrementPercent x)))"

definition ChainStorageSpec_json :: "api_json \<Rightarrow> ChainStorageSpec \<Rightarrow> json" where
  "ChainStorageSpec_json J x = JObj
     (member ''storageClass'' (JStr (cs_storageClass x)) @ member ''size'' (aj_quantity J (cs_size x)) @
      omit_none ''autoExpand'' (AutoExpandSpec_json J) (cs_autoExpand x))"

definition SyncPolicySpec_json :: "api_json \<Rightarrow> SyncPolicySpec \<Rightarrow> json" where
  "SyncPolicySpec_json J x = JObj
     (member ''maxBlockLag'' (json_int (sp_maxBlockLag x)) @
      member ''recoveryStrategy'' (JStr (sp_recoveryStrategy x)) @
      omit_zero ''maxRestartAttempts'' (sp_maxRestartAttempts x) @
      omit_zero ''probeIntervalSeconds'' (sp_probeIntervalSeconds x) @
      omit_zero ''syncTimeoutMinutes'' (sp_syncTimeoutMinutes x))"

definition SnapshotDestination_json :: "api_json \<Rightarrow> SnapshotDestination \<Rightarrow> json" where
  "SnapshotDestination_json J x = JObj
     (member ''type'' (JStr (sd_type x)) @ omit_str ''bucket'' (sd_bucket x) @
      omit_str ''credentialsSecret'' (sd_credentialsSecret x))"

definition SnapshotPolicySpec_json :: "api_json \<Rightarrow> SnapshotPolicySpec \<Rightarrow> json" where
  "SnapshotPolicySpec_json J x = JObj
     (member ''schedule'' (JStr (snp_schedule x)) @
      member ''destination'' (SnapshotDestination_json J (snp_destination x)) @
      member ''retentionCount'' (json_int (snp_retentionCount x)) @ omit_false ''onSyncLoss'' (snp_onSyncLoss x))"

definition GPUSpec_json :: "api_json \<Rightarrow> GPUSpec \<Rightarrow> json" where
  "GPUSpec_json J x = JObj
     (member ''count'' (json_int (gpu_count x)) @ member ''type'' (JStr (gpu_type x)) @
      omit_false ''spotTolerant'' (gpu_spotTolerant x) @ omit_false ''fallbackToCPU'' (gpu_fallbackToCPU x))"

definition AlertRule_json :: "api_json \<Rightarrow> AlertRule \<Rightarrow> json" where
  "AlertRule_json J x = JObj
     (member ''name'' (JStr (ar_name x)) @ member ''expression'' (JStr (ar_expression x)) @
      member ''duration'' (JStr (ar_duration x)) @ member ''severity'' (JStr (ar_severity x)))"

definition MonitoringSpec_json :: "api_json \<Rightarrow> MonitoringSpec \<Rightarrow> json" where
  "MonitoringSpec_json J x = JObj
     (omit_false ''enabled'' (mon_enabled x) @ omit_zero ''port'' (mon_port x) @
      omit_nil ''alertRules'' (AlertRule_json J) (mon_alertRules x))"

definition ValidatorSpec_json :: "api_json \<Rightarrow> ValidatorSpec \<Rightarrow> json" where
  "ValidatorSpec_json J x = JObj
     (member ''hotKeySecret'' (JStr (val_hotKeySecret x)) @ omit_str ''coldKeyVaultRef'' (val_coldKeyVaultRef x) @
      omit_str ''externalSecretProvider'' (val_externalSecretProvider x) @
      omit_false ''slashingProtection'' (val_slashingProtection x) @
      omit_zero ''maxConcurrentValidators'' (val_maxConcurrentValidators x))"

definition ClickHouseRef_json :: "api_json \<Rightarrow> ClickHouseRef \<Rightarrow> json" where
  "ClickHouseRef_json J x = JObj
     (member ''endpoint'' (JStr (ch_endpoint x)) @ omit_str ''database'' (ch_database x) @
      member ''credentialsSecret'' (JStr (ch_credentialsSecret x)) @ omit_false ''tls'' (ch_tls x) @
      omit_str ''cluster'' (ch_cluster x))"

definition IngestionSpec_json :: "api_json \<Rightarrow> IngestionSpec \<Rightarrow> json" where
  "IngestionSpec_json J x = JObj
     (omit_zero ''batchSize'' (ing_batchSize x) @ omit_zero ''flushIntervalSeconds'' (ing_flushIntervalSeconds x) @
      omit_false ''chainEvents'' (ing_chainEvents x) @ omit_false ''minerTelemetry'' (ing_minerTelemetry x) @
      omit_false ''reconcileAudit'' (ing_reconcileAudit x))"

definition AnomalyDetectionSpec_json :: "api_json \<Rightarrow> AnomalyDetectionSpec \<Rightarrow> json" where
  "AnomalyDetectionSpec_json J x = JObj
     (omit_false ''enabled'' (ad_enabled x) @
      omit_zero ''evaluationIntervalSeconds'' (ad_evaluationIntervalSeconds x) @
      omit_zero ''syncDriftThreshold'' (ad_syncDriftThreshold x) @
      omit_zero ''peerChurnVelocityThreshold'' (ad_peerChurnVelocityThreshold x) @
      omit_zero ''diskExhaustionHorizonHours'' (ad_diskExhaustionHorizonHours x) @
      omit_zero ''rewardDecayPercent'' (ad_rewardDecayPercent x))"

definition RetentionSpec_json :: "api_json \<Rightarrow> RetentionSpec \<Rightarrow> json" where
  "RetentionSpec_json J x = JObj
     (omit_zero ''rawDataDays'' (ret_rawDataDays x) @ omit_zero ''aggregatedDataDays'' (ret_aggregatedDataDays x) @
      omit_zero ''auditDataDays'' (ret_auditDataDays x))"

definition AnalyticsSpec_json :: "api_json \<Rightarrow> AnalyticsSpec \<Rightarrow> json" where
  "AnalyticsSpec_json J x = JObj
     (omit_false ''enabled'' (an_enabled x) @ member ''clickhouseRef'' (ClickHouseRef_json J (an_clickHouseRef x)) @
      member ''ingestion'' (IngestionSpec_json J (an_ingestion x)) @
      omit_none ''anomalyDetection'' (AnomalyDetectionSpec_json J) (an_anomalyDetection x) @
      member ''retention'' (RetentionSpec_json J (an_retention x)))"

definition NotificationChannels_json :: "api_json \<Rightarrow> NotificationChannels \<Rightarrow> json" where
  "NotificationChannels_json J x = JObj
     (omit_str ''slackWebhookSecret'' (nc_slackWebhookSecret x) @
      omit_str ''pagerDutyKeySecret'' (nc_pagerDutyKeySecret x) @
      omit_str ''discordWebhookSecret'' (nc_discordWebhookSecret x) @
      omit_false ''kubernetesEvents'' (nc_kubernetesEvents x))"

definition AIAdvisorSpec_json :: "api_json \<Rightarrow> AIAdvisorSpec \<Rightarrow> json" where
  "AIAdvisorSpec_json J x = JObj
     (omit_false ''enabled'' (ai_enabled x) @ omit_str ''endpoint'' (ai_endpoint x) @
      omit_str ''model'' (ai_model x) @ omit_zero ''timeoutSeconds'' (ai_timeoutSeconds x) @
      omit_str ''minAnomalyScoreForAdvisory'' (ai_minAnomalyScoreForAdvisory x) @
      omit_none ''notificationChannels'' (NotificationChannels_json J) (ai_notificationChannels x) @
      omit_zero ''contextWindowTokens'' (ai_contextWindowTokens x))"

definition CRDBackupSpec_json :: "api_json \<Rightarrow> CRDBackupSpec \<Rightarrow> json" where
  "CRDBackupSpec_json J x = JObj
     (omit_str ''schedule'' (cb_schedule x) @ member ''destination'' (SnapshotDestination_json J (cb_destination x)))"

definition ChainDataDRSpec_json :: "api_json \<Rightarrow> ChainDataDRSpec \<Rightarrow> json" where
  "ChainDataDRSpec_json J x = JObj
     (omit_false ''crossRegionReplication'' (cd_crossRegionReplication x) @
      omit_str ''secondaryBucket'' (cd_secondaryBucket x) @ omit_str ''secondaryRegion'' (cd_secondaryRegion x))"

definition ClickHouseDRSpec_json :: "api_json \<Rightarrow> ClickHouseDRSpec \<Rightarrow> json" where
  "ClickHouseDRSpec_json J x = JObj
     (omit_str ''backupSchedule'' (chd_backupSchedule x) @
      member ''destination'' (SnapshotDestination_json J (chd_destination x)) @
      omit_zero ''retentionDays'' (chd_retentionDays x))"

definition DisasterRecoverySpec_json :: "api_json \<Rightarrow> DisasterRecoverySpec \<Rightarrow> json" where
  "DisasterRecoverySpec_json J x = JObj
     (omit_false ''enabled'' (dr_enabled x) @ member ''crdBackup'' (CRDBackupSpec_json J (dr_crdBackup x)) @
      member ''chainDataDR'' (ChainDataDRSpec_json J (dr_chainDataDR x)) @
      omit_none ''clickhouseDR'' (ClickHouseDRSpec_json J) (dr_clickHouseDR x) @ omit_str ''rpo'' (dr_rpo x) @
      omit_str ''rto'' (dr_rto x))"

definition TaoNodeSpec_json :: "api_json \<Rightarrow> TaoNodeSpec \<Rightarrow> json" where
  "TaoNodeSpec_json J x = JObj
     (member ''network'' (JStr (spec_network x)) @ member ''subnetID'' (json_int (spec_subnetID x)) @
      member ''role'' (role_json (spec_role x)) @ omit_str ''image'' (spec_image x) @
      omit_str ''version'' (spec_version x) @
      member ''chainStorage'' (ChainStorageSpec_json J (spec_chainStorage x)) @
      member ''syncPolicy'' (SyncPolicySpec_json J (spec_syncPolicy x)) @
      omit_none ''snapshotPolicy'' (SnapshotPolicySpec_json J) (spec_snapshotPolicy x) @
      omit_none ''gpu'' (GPUSpec_json J) (spec_gpu x) @
      omit_none ''validator'' (ValidatorSpec_json J) (spec_validator x) @
      member ''resources'' (aj_resources J (spec_resources x)) @
      omit_none ''monitoring'' (MonitoringSpec_json J) (spec_monitoring x) @
      omit_none ''analytics'' (AnalyticsSpec_json J) (spec_analytics x) @
      omit_none ''aiAdvisor'' (AIAdvisorSpec_json J) (spec_aiAdvisor x) @
      omit_none ''disasterRecovery'' (DisasterRecoverySpec_json J) (spec_disasterRecovery x) @
      omit_nil ''tolerations'' (aj_toleration J) (spec_tolerations x) @
      omit_map ''nodeSelector'' (spec_nodeSelector x))"

definition SyncStateStatus_json :: "api_json \<Rightarrow> SyncStateStatus \<Rightarrow> json" where
  "SyncStateStatus_json J x = JObj
     (omit_str ''state'' (sss_state x) @ omit_zero ''currentBlock'' (sss_currentBlock x) @
      omit_zero ''networkBlock'' (sss_networkBlock x) @ omit_zero ''blockLag'' (sss_blockLag x) @
      omit_str ''syncPercentage'' (sss_syncPercentage x) @ omit_none ''lastSyncedAt'' (aj_time J) (sss_lastSyncedAt x))"

definition ChainStatus_json :: "api_json \<Rightarrow> ChainStatus \<Rightarrow> json" where
  "ChainStatus_json J x = JObj
     (omit_zero ''peerCount'' (chs_peerCount x) @ omit_zero ''finalizedBlock'' (chs_finalizedBlock x) @
      omit_str ''runtimeVersion'' (chs_runtimeVersion x) @ omit_zero ''epoch'' (chs_epoch x))"

definition ResourceStatus_json :: "api_json \<Rightarrow> ResourceStatus \<Rightarrow> json" where
  "ResourceStatus_json J x = JObj
     (omit_zero ''diskUsagePercent'' (rs_diskUsagePercent x) @
      omit_none ''gpuUtilizationPercent'' (json_int) (rs_gpuUtilizationPercent x) @
      omit_str ''estimatedMonthlyUSD'' (rs_estimatedMonthlyUSD x))"

definition SnapshotStatus_json :: "api_json \<Rightarrow> SnapshotStatus \<Rightarrow> json" where
  "SnapshotStatus_json J x = JObj
     (omit_none ''lastSnapshotTime'' (aj_time J) (sns_lastSnapshotTime x) @
      omit_zero ''lastSnapshotSize'' (sns_lastSnapshotSize x) @
      omit_zero ''availableSnapshots'' (sns_availableSnapshots x))"

definition AnomalyScoreStatus_json :: "api_json \<Rightarrow> AnomalyScoreStatus \<Rightarrow> json" where
  "AnomalyScoreStatus_json J x = JObj
     (member ''type'' (JStr (ass_type x)) @ member ''score'' (JStr (ass_score x)) @
      omit_str ''detail'' (ass_detail x) @ omit_none ''detectedAt'' (aj_time J) (ass_detectedAt x))"

definition AnalyticsStatusBlock_json :: "api_json \<Rightarrow> AnalyticsStatusBlock \<Rightarrow> json" where
  "AnalyticsStatusBlock_json J x = JObj
     (omit_false ''connected'' (asb_connected x) @
      omit_none ''lastIngestionTime'' (aj_time J) (asb_lastIngestionTime x) @
      omit_zero ''rowsIngested24h'' (asb_rowsIngested24h x) @
      omit_nil ''anomalyScores'' (AnomalyScoreStatus_json J) (asb_anomalyScores x) @
      omit_zero ''ingestionLagMs'' (asb_ingestionLagMs x))"

definition AIIncidentReportStatus_json :: "api_json \<Rightarrow> AIIncidentReportStatus \<Rightarrow> json" where
  "AIIncidentReportStatus_json J x = JObj
     (omit_none ''timestamp'' (aj_time J) (irs_timestamp x) @ omit_str ''severity'' (irs_severity x) @
      omit_str ''summary'' (irs_summary x) @ omit_str ''rootCauseCategory'' (irs_rootCauseCategory x) @
      omit_str ''recommendedAction'' (irs_recommendedAction x) @ omit_str ''confidence'' (irs_confidence x))"

definition AIAdvisoryStatus_json :: "api_json \<Rightarrow> AIAdvisoryStatus \<Rightarrow> json" where
  "AIAdvisoryStatus_json J x = JObj
     (omit_none ''lastReport'' (AIIncidentReportStatus_json J) (aas_lastReport x) @
      omit_false ''modelAvailable'' (aas_modelAvailable x) @
      omit_zero ''inferencesTotal24h'' (aas_inferencesTotal24h x) @
      omit_zero ''avgInferenceLatencyMs'' (aas_avgInferenceLatencyMs x))"

definition TaoNodeStatus_json :: "api_json \<Rightarrow> TaoNodeStatus \<Rightarrow> json" where
  "TaoNodeStatus_json J x = JObj
     (omit_str ''phase'' (phase_string (st_phase x)) @
      member ''syncState'' (SyncStateStatus_json J (st_syncState x)) @
      member ''chain'' (ChainStatus_json J (st_chain x)) @
      member ''resources'' (ResourceStatus_json J (st_resources x)) @
      omit_none ''snapshot'' (SnapshotStatus_json J) (st_snapshot x) @
      omit_none ''analytics'' (AnalyticsStatusBlock_json J) (st_analytics x) @
      omit_none ''aiAdvisory'' (AIAdvisoryStatus_json J) (st_aiAdvisory x) @
      omit_nil ''conditions'' (aj_condition J) (st_conditions x) @ omit_zero ''restartCount'' (st_restartCount x) @
      omit_zero ''observedGeneration'' (st_observedGeneration x) @
      omit_none ''lastReconcileTime'' (aj_time J) (st_lastReconcileTime x) @ omit_str ''hotkeyHash'' (st_hotkeyHash x))"

definition TaoNode_json :: "api_json \<Rightarrow> TaoNode \<Rightarrow> json" where
  "TaoNode_json J x = JObj
     (omit_str ''kind'' (tm_kind (tn_typeMeta x)) @ omit_str ''apiVersion'' (tm_apiVersion (tn_typeMeta x)) @
      member ''metadata'' (aj_meta J (tn_meta x)) @ member ''spec'' (TaoNodeSpec_json J (tn_spec x)) @
      member ''status'' (TaoNodeStatus_json J (tn_status x)))"

section \<open>Reading fields back\<close>

text \<open>A nested value, a pointer, a list and a map; \<open>null\<close> clears a pointer, a list or a map.\<close>

definition value_field :: "(json \<Rightarrow> 'b option) \<Rightarrow> ('b \<Rightarrow> 'a \<Rightarrow> 'a) \<Rightarrow> json \<Rightarrow> 'a \<Rightarrow> 'a option" where
  "value_field rd upd v x = map_option (\<lambda>y. upd y x) (rd v)"

definition pointer_field :: "(json \<Rightarrow> 'b option) \<Rightarrow> ('b option \<Rightarrow> 'a \<Rightarrow> 'a) \<Rightarrow> json \<Rightarrow> 'a \<Rightarrow> 'a option" where
  "pointer_field rd upd v x = (if v = JNull then Some (upd None x) else map_option (\<lambda>y. upd (Some y) x) (rd v))"

fun read_list :: "(json \<Rightarrow> 'b option) \<Rightarrow> json list \<Rightarrow> 'b list option" where
  "read_list rd [] = Some []"
| "read_list rd (v # vs) = (case rd v of None \<Rightarrow> None | Some y \<Rightarrow> map_option ((#) y) (read_list rd vs))"

fun list_field :: "(json \<Rightarrow> 'b option) \<Rightarrow> ('b list \<Rightarrow> 'a \<Rightarrow> 'a) \<Rightarrow> json \<Rightarrow> 'a \<Rightarrow> 'a option" where
  "list_field rd upd JNull x = Some (upd [] x)"
| "list_field rd upd (JArr vs) x = map_option (\<lambda>ys. upd ys x) (read_list rd vs)"
| "list_field rd upd _ x = None"

fun read_map :: "(string \<times> json) list \<Rightarrow> (string \<rightharpoonup> string) \<Rightarrow> (string \<rightharpoonup> string) option" where
  "read_map [] m = Some m"
| "read_map ((k, JStr s) # ms) m = read_map ms (m(k \<mapsto> s))"
| "read_map ((k, JNull) # ms) m = read_map ms (m(k \<mapsto> ''''))"
| "read_map (_ # ms) m = None"

fun map_field :: "((string \<rightharpoonup> string) \<Rightarrow> 'a \<Rightarrow> 'a) \<Rightarrow> json \<Rightarrow> 'a \<Rightarrow> 'a option" where
  "map_field upd JNull x = Some (upd Map.empty x)"
| "map_field upd (JObj ms) x = map_option (\<lambda>m. upd m x) (read_map ms Map.empty)"
| "map_field upd _ x = None"

section \<open>Reading the specification back\<close>

definition AutoExpandSpec_start :: AutoExpandSpec where
  "AutoExpandSpec_start = \<lparr>ae_thresholdPercent = 0, ae_maxSize = Quantity '''', ae_incrementPercent = 0\<rparr>"

definition AutoExpandSpec_fields :: "api_json \<Rightarrow> AutoExpandSpec fields" where
  "AutoExpandSpec_fields J =
     [(''thresholdPercent'', int_field 32 (\<lambda>v r. r\<lparr>ae_thresholdPercent := word_of_int v\<rparr>)),
      (''maxSize'', value_field (aj_readQuantity J) (\<lambda>v r. r\<lparr>ae_maxSize := v\<rparr>)),
      (''incrementPercent'', int_field 32 (\<lambda>v r. r\<lparr>ae_incrementPercent := word_of_int v\<rparr>))]"

definition read_AutoExpandSpec :: "api_json \<Rightarrow> json \<Rightarrow> AutoExpandSpec option" where
  "read_AutoExpandSpec J v = decode_struct (AutoExpandSpec_fields J) v AutoExpandSpec_start"

definition ChainStorageSpec_start :: ChainStorageSpec where
  "ChainStorageSpec_start = \<lparr>cs_storageClass = '''', cs_size = Quantity '''', cs_autoExpand = None\<rparr>"

definition ChainStorageSpec_fields :: "api_json \<Rightarrow> ChainStorageSpec fields" where
  "ChainStorageSpec_fields J =
     [(''storageClass'', string_field (\<lambda>v r. r\<lparr>cs_storageClass := v\<rparr>)),
      (''size'', value_field (aj_readQuantity J) (\<lambda>v r. r\<lparr>cs_size := v\<rparr>)),
      (''autoExpand'', pointer_field (read_AutoExpandSpec J) (\<lambda>v r. r\<lparr>cs_autoExpand := v\<rparr>))]"

definition read_ChainStorageSpec :: "api_json \<Rightarrow> json \<Rightarrow> ChainStorageSpec option" where
  "read_ChainStorageSpec J v = decode_struct (ChainStorageSpec_fields J) v ChainStorageSpec_start"

definition SyncPolicySpec_start :: SyncPolicySpec where
  "SyncPolicySpec_start = \<lparr>sp_maxBlockLag = 0, sp_recoveryStrategy = '''', sp_maxRestartAttempts = 3, sp_probeIntervalSeconds = 30,
     sp_syncTimeoutMinutes = 120\<rparr>"

definition SyncPolicySpec_fields :: "api_json \<Rightarrow> SyncPolicySpec fields" where
  "SyncPolicySpec_fields J =
     [(''maxBlockLag'', int_field 64 (\<lambda>v r. r\<lparr>sp_maxBlockLag := word_of_int v\<rparr>)),
      (''recoveryStrategy'', string_field (\<lambda>v r. r\<lparr>sp_recoveryStrategy := v\<rparr>)),
      (''maxRestartAttempts'', int_field 32 (\<lambda>v r. r\<lparr>sp_maxRestartAttempts := word_of_int v\<rparr>)),
      (''probeIntervalSeconds'', int_field 32 (\<lambda>v r. r\<lparr>sp_probeIntervalSeconds := word_of_int v\<rparr>)),
      (''syncTimeoutMinutes'', int_field 32 (\<lambda>v r. r\<lparr>sp_syncTimeoutMinutes := word_of_int v\<rparr>))]"

definition read_SyncPolicySpec :: "api_json \<Rightarrow> json \<Rightarrow> SyncPolicySpec option" where
  "read_SyncPolicySpec J v = decode_struct (SyncPolicySpec_fields J) v SyncPolicySpec_start"

definition SnapshotDestination_start :: SnapshotDestination where
  "SnapshotDestination_start = \<lparr>sd_type = '''', sd_bucket = '''', sd_credentialsSecret = ''''\<rparr>"

definition SnapshotDestination_fields :: "api_json \<Rightarrow> SnapshotDestination fields" where
  "SnapshotDestination_fields J =
     [(''type'', string_field (\<lambda>v r. r\<lparr>sd_type := v\<rparr>)),
      (''bucket'', string_field (\<lambda>v r. r\<lparr>sd_bucket := v\<rparr>)),
      (''credentialsSecret'', string_field (\<lambda>v r. r\<lparr>sd_credentialsSecret := v\<rparr>))]"

definition read_SnapshotDestination :: "api_json \<Rightarrow> json \<Rightarrow> SnapshotDestination option" where
  "read_SnapshotDestination J v = decode_struct (SnapshotDestination_fields J) v SnapshotDestination_start"

definition SnapshotPolicySpec_start :: SnapshotPolicySpec where
  "SnapshotPolicySpec_start = \<lparr>snp_schedule = '''',
     snp_destination = \<lparr>sd_type = '''', sd_bucket = '''', sd_credentialsSecret = ''''\<rparr>,
     snp_retentionCount = 0, snp_onSyncLoss = True\<rparr>"

definition SnapshotPolicySpec_fields :: "api_json \<Rightarrow> SnapshotPolicySpec fields" where
  "SnapshotPolicySpec_fields J =
     [(''schedule'', string_field (\<lambda>v r. r\<lparr>snp_schedule := v\<rparr>)),
      (''destination'', value_field (read_SnapshotDestination J) (\<lambda>v r. r\<lparr>snp_destination := v\<rparr>)),
      (''retentionCount'', int_field 32 (\<lambda>v r. r\<lparr>snp_retentionCount := word_of_int v\<rparr>)),
      (''onSyncLoss'', bool_field (\<lambda>v r. r\<lparr>snp_onSyncLoss := v\<rparr>))]"

definition read_SnapshotPolicySpec :: "api_json \<Rightarrow> json \<Rightarrow> SnapshotPolicySpec option" where
  "read_SnapshotPolicySpec J v = decode_struct (SnapshotPolicySpec_fields J) v SnapshotPolicySpec_start"

definition GPUSpec_start :: GPUSpec where
  "GPUSpec_start = \<lparr>gpu_count = 0, gpu_type = '''', gpu_spotTolerant = False, gpu_fallbackToCPU = False\<rparr>"

definition GPUSpec_fields :: "api_json \<Rightarrow> GPUSpec fields" where
  "GPUSpec_fields J =
     [(''count'', int_field 32 (\<lambda>v r. r\<lparr>gpu_count := word_of_int v\<rparr>)),
      (''type'', string_field (\<lambda>v r. r\<lparr>gpu_type := v\<rparr>)),
      (''spotTolerant'', bool_field (\<lambda>v r. r\<lparr>gpu_spotTolerant := v\<rparr>)),
      (''fallbackToCPU'', bool_field (\<lambda>v r. r\<lparr>gpu_fallbackToCPU := v\<rparr>))]"

definition read_GPUSpec :: "api_json \<Rightarrow> json \<Rightarrow> GPUSpec option" where
  "read_GPUSpec J v = decode_struct (GPUSpec_fields J) v GPUSpec_start"

definition AlertRule_start :: AlertRule where
  "AlertRule_start = \<lparr>ar_name = '''', ar_expression = '''', ar_duration = '''', ar_severity = ''''\<rparr>"

definition AlertRule_fields :: "api_json \<Rightarrow> AlertRule fields" where
  "AlertRule_fields J =
     [(''name'', string_field (\<lambda>v r. r\<lparr>ar_name := v\<rparr>)),
      (''expression'', string_field (\<lambda>v r. r\<lparr>ar_expression := v\<rparr>)),
      (''duration'', string_field (\<lambda>v r. r\<lparr>ar_duration := v\<rparr>)),
      (''severity'', string_field (\<lambda>v r. r\<lparr>ar_severity := v\<rparr>))]"

definition read_AlertRule :: "api_json \<Rightarrow> json \<Rightarrow> AlertRule option" where
  "read_AlertRule J v = decode_struct (AlertRule_fields J) v AlertRule_start"

definition MonitoringSpec_start :: MonitoringSpec where
  "MonitoringSpec_start = \<lparr>mon_enabled = True, mon_port = 9615, mon_alertRules = []\<rparr>"

definition MonitoringSpec_fields :: "api_json \<Rightarrow> MonitoringSpec fields" where
  "MonitoringSpec_fields J =
     [(''enabled'', bool_field (\<lambda>v r. r\<lparr>mon_enabled := v\<rparr>)),
      (''port'', int_field 32 (\<lambda>v r. r\<lparr>mon_port := word_of_int v\<rparr>)),
      (''alertRules'', list_field (read_AlertRule J) (\<lambda>v r. r\<lparr>mon_alertRules := v\<rparr>))]"

definition read_MonitoringSpec :: "api_json \<Rightarrow> json \<Rightarrow> MonitoringSpec option" where
  "read_MonitoringSpec J v = decode_struct (MonitoringSpec_fields J) v MonitoringSpec_start"

definition ValidatorSpec_start :: ValidatorSpec where
  "ValidatorSpec_start = \<lparr>val_hotKeySecret = '''', val_coldKeyVaultRef = '''', val_externalSecretProvider = ''none'',
     val_slashingProtection = True, val_maxConcurrentValidators = 1\<rparr>"

definition ValidatorSpec_fields :: "api_json \<Rightarrow> ValidatorSpec fields" where
  "ValidatorSpec_fields J =
     [(''hotKeySecret'', string_field (\<lambda>v r. r\<lparr>val_hotKeySecret := v\<rparr>)),
      (''coldKeyVaultRef'', string_field (\<lambda>v r. r\<lparr>val_coldKeyVaultRef := v\<rparr>)),
      (''externalSecretProvider'', string_field (\<lambda>v r. r\<lparr>val_externalSecretProvider := v\<rparr>)),
      (''slashingProtection'', bool_field (\<lambda>v r. r\<lparr>val_slashingProtection := v\<rparr>)),
      (''maxConcurrentValidators'', int_field 32 (\<lambda>v r. r\<lparr>val_maxConcurrentValidators := word_of_int v\<rparr>))]"

definition read_ValidatorSpec :: "api_json \<Rightarrow> json \<Rightarrow> ValidatorSpec option" where
  "read_ValidatorSpec J v = decode_struct (ValidatorSpec_fields J) v ValidatorSpec_start"

definition ClickHouseRef_start :: ClickHouseRef where
  "ClickHouseRef_start = \<lparr>ch_endpoint = '''', ch_database = ''taonode_guardian'', ch_credentialsSecret = '''', ch_tls = False,
     ch_cluster = ''''\<rparr>"

definition ClickHouseRef_fields :: "api_json \<Rightarrow> ClickHouseRef fields" where
  "ClickHouseRef_fields J =
     [(''endpoint'', string_field (\<lambda>v r. r\<lparr>ch_endpoint := v\<rparr>)),
      (''database'', string_field (\<lambda>v r. r\<lparr>ch_database := v\<rparr>)),
      (''credentialsSecret'', string_field (\<lambda>v r. r\<lparr>ch_credentialsSecret := v\<rparr>)),
      (''tls'', bool_field (\<lambda>v r. r\<lparr>ch_tls := v\<rparr>)),
      (''cluster'', string_field (\<lambda>v r. r\<lparr>ch_cluster := v\<rparr>))]"

definition read_ClickHouseRef :: "api_json \<Rightarrow> json \<Rightarrow> ClickHouseRef option" where
  "read_ClickHouseRef J v = decode_struct (ClickHouseRef_fields J) v ClickHouseRef_start"

definition IngestionSpec_start :: IngestionSpec where
  "IngestionSpec_start = \<lparr>ing_batchSize = 5000, ing_flushIntervalSeconds = 10, ing_chainEvents = True, ing_minerTelemetry = True,
     ing_reconcileAudit = True\<rparr>"

definition IngestionSpec_fields :: "api_json \<Rightarrow> IngestionSpec fields" where
  "IngestionSpec_fields J =
     [(''batchSize'', int_field 32 (\<lambda>v r. r\<lparr>ing_batchSize := word_of_int v\<rparr>)),
      (''flushIntervalSeconds'', int_field 32 (\<lambda>v r. r\<lparr>ing_flushIntervalSeconds := word_of_int v\<rparr>)),
      (''chainEvents'', bool_field (\<lambda>v r. r\<lparr>ing_chainEvents := v\<rparr>)),
      (''minerTelemetry'', bool_field (\<lambda>v r. r\<lparr>ing_minerTelemetry := v\<rparr>)),
      (''reconcileAudit'', bool_field (\<lambda>v r. r\<lparr>ing_reconcileAudit := v\<rparr>))]"

definition read_IngestionSpec :: "api_json \<Rightarrow> json \<Rightarrow> IngestionSpec option" where
  "read_IngestionSpec J v = decode_struct (IngestionSpec_fields J) v IngestionSpec_start"

definition AnomalyDetectionSpec_start :: AnomalyDetectionSpec where
  "AnomalyDetectionSpec_start = \<lparr>ad_enabled = True, ad_evaluationIntervalSeconds = 60, ad_syncDriftThreshold = 50,
     ad_peerChurnVelocityThreshold = 5, ad_diskExhaustionHorizonHours = 48, ad_rewardDecayPercent = 30\<rparr>"

definition AnomalyDetectionSpec_fields :: "api_json \<Rightarrow> AnomalyDetectionSpec fields" where
  "AnomalyDetectionSpec_fields J =
     [(''enabled'', bool_field (\<lambda>v r. r\<lparr>ad_enabled := v\<rparr>)),
      (''evaluationIntervalSeconds'', int_field 32 (\<lambda>v r. r\<lparr>ad_evaluationIntervalSeconds := word_of_int v\<rparr>)),
      (''syncDriftThreshold'', int_field 64 (\<lambda>v r. r\<lparr>ad_syncDriftThreshold := word_of_int v\<rparr>)),
      (''peerChurnVelocityThreshold'', int_field 32 (\<lambda>v r. r\<lparr>ad_peerChurnVelocityThreshold := word_of_int v\<rparr>)),
      (''diskExhaustionHorizonHours'', int_field 32 (\<lambda>v r. r\<lparr>ad_diskExhaustionHorizonHours := word_of_int v\<rparr>)),
      (''rewardDecayPercent'', int_field 32 (\<lambda>v r. r\<lparr>ad_rewardDecayPercent := word_of_int v\<rparr>))]"

definition read_AnomalyDetectionSpec :: "api_json \<Rightarrow> json \<Rightarrow> AnomalyDetectionSpec option" where
  "read_AnomalyDetectionSpec J v = decode_struct (AnomalyDetectionSpec_fields J) v AnomalyDetectionSpec_start"

definition RetentionSpec_start :: RetentionSpec where
  "RetentionSpec_start = \<lparr>ret_rawDataDays = 30, ret_aggregatedDataDays = 365, ret_auditDataDays = 90\<rparr>"

definition RetentionSpec_fields :: "api_json \<Rightarrow> RetentionSpec fields" where
  "RetentionSpec_fields J =
     [(''rawDataDays'', int_field 32 (\<lambda>v r. r\<lparr>ret_rawDataDays := word_of_int v\<rparr>)),
      (''aggregatedDataDays'', int_field 32 (\<lambda>v r. r\<lparr>ret_aggregatedDataDays := word_of_int v\<rparr>)),
      (''auditDataDays'', int_field 32 (\<lambda>v r. r\<lparr>ret_auditDataDays := word_of_int v\<rparr>))]"

definition read_RetentionSpec :: "api_json \<Rightarrow> json \<Rightarrow> RetentionSpec option" where
  "read_RetentionSpec J v = decode_struct (RetentionSpec_fields J) v RetentionSpec_start"

definition AnalyticsSpec_start :: AnalyticsSpec where
  "AnalyticsSpec_start = \<lparr>an_enabled = True,
     an_clickHouseRef = \<lparr>ch_endpoint = '''', ch_database = '''', ch_credentialsSecret = '''', ch_tls = False, ch_cluster = ''''\<rparr>,
     an_ingestion = \<lparr>ing_batchSize = 0, ing_flushIntervalSeconds = 0, ing_chainEvents = False, ing_minerTelemetry = False, ing_reconcileAudit = False\<rparr>,
     an_anomalyDetection = None,
     an_retention = \<lparr>ret_rawDataDays = 0, ret_aggregatedDataDays = 0, ret_auditDataDays = 0\<rparr>\<rparr>"

definition AnalyticsSpec_fields :: "api_json \<Rightarrow> AnalyticsSpec fields" where
  "AnalyticsSpec_fields J =
     [(''enabled'', bool_field (\<lambda>v r. r\<lparr>an_enabled := v\<rparr>)),
      (''clickhouseRef'', value_field (read_ClickHouseRef J) (\<lambda>v r. r\<lparr>an_clickHouseRef := v\<rparr>)),
      (''ingestion'', value_field (read_IngestionSpec J) (\<lambda>v r. r\<lparr>an_ingestion := v\<rparr>)),
      (''anomalyDetection'', pointer_field (read_AnomalyDetectionSpec J) (\<lambda>v r. r\<lparr>an_anomalyDetection := v\<rparr>)),
      (''retention'', value_field (read_RetentionSpec J) (\<lambda>v r. r\<lparr>an_retention := v\<rparr>))]"

definition read_AnalyticsSpec :: "api_json \<Rightarrow> json \<Rightarrow> AnalyticsSpec option" where
  "read_AnalyticsSpec J v = decode_struct (AnalyticsSpec_fields J) v AnalyticsSpec_start"

definition NotificationChannels_start :: NotificationChannels where
  "NotificationChannels_start = \<lparr>nc_slackWebhookSecret = '''', nc_pagerDutyKeySecret = '''', nc_discordWebhookSecret = '''',
     nc_kubernetesEvents = True\<rparr>"

definition NotificationChannels_fields :: "api_json \<Rightarrow> NotificationChannels fields" where
  "NotificationChannels_fields J =
     [(''slackWebhookSecret'', string_field (\<lambda>v r. r\<lparr>nc_slackWebhookSecret := v\<rparr>)),
      (''pagerDutyKeySecret'', string_field (\<lambda>v r. r\<lparr>nc_pagerDutyKeySecret := v\<rparr>)),
      (''discordWebhookSecret'', string_field (\<lambda>v r. r\<lparr>nc_discordWebhookSecret := v\<rparr>)),
      (''kubernetesEvents'', bool_field (\<lambda>v r. r\<lparr>nc_kubernetesEvents := v\<rparr>))]"

definition read_NotificationChannels :: "api_json \<Rightarrow> json \<Rightarrow> NotificationChannels option" where
  "read_NotificationChannels J v = decode_struct (NotificationChannels_fields J) v NotificationChannels_start"

definition AIAdvisorSpec_start :: AIAdvisorSpec where
  "AIAdvisorSpec_start = \<lparr>ai_enabled = False, ai_endpoint = '''', ai_model = ''llama3.1:8b-instruct-q4_K_M'', ai_timeoutSeconds = 30,
     ai_minAnomalyScoreForAdvisory = ''0.6'', ai_notificationChannels = None, ai_contextWindowTokens = 4096\<rparr>"

definition AIAdvisorSpec_fields :: "api_json \<Rightarrow> AIAdvisorSpec fields" where
  "AIAdvisorSpec_fields J =
     [(''enabled'', bool_field (\<lambda>v r. r\<lparr>ai_enabled := v\<rparr>)),
      (''endpoint'', string_field (\<lambda>v r. r\<lparr>ai_endpoint := v\<rparr>)),
      (''model'', string_field (\<lambda>v r. r\<lparr>ai_model := v\<rparr>)),
      (''timeoutSeconds'', int_field 32 (\<lambda>v r. r\<lparr>ai_timeoutSeconds := word_of_int v\<rparr>)),
      (''minAnomalyScoreForAdvisory'', string_field (\<lambda>v r. r\<lparr>ai_minAnomalyScoreForAdvisory := v\<rparr>)),
      (''notificationChannels'', pointer_field (read_NotificationChannels J) (\<lambda>v r. r\<lparr>ai_notificationChannels := v\<rparr>)),
      (''contextWindowTokens'', int_field 32 (\<lambda>v r. r\<lparr>ai_contextWindowTokens := word_of_int v\<rparr>))]"

definition read_AIAdvisorSpec :: "api_json \<Rightarrow> json \<Rightarrow> AIAdvisorSpec option" where
  "read_AIAdvisorSpec J v = decode_struct (AIAdvisorSpec_fields J) v AIAdvisorSpec_start"

definition CRDBackupSpec_start :: CRDBackupSpec where
  "CRDBackupSpec_start = \<lparr>cb_schedule = ''0 */2 * * *'',
     cb_destination = \<lparr>sd_type = '''', sd_bucket = '''', sd_credentialsSecret = ''''\<rparr>\<rparr>"

definition CRDBackupSpec_fields :: "api_json \<Rightarrow> CRDBackupSpec fields" where
  "CRDBackupSpec_fields J =
     [(''schedule'', string_field (\<lambda>v r. r\<lparr>cb_schedule := v\<rparr>)),
      (''destination'', value_field (read_SnapshotDestination J) (\<lambda>v r. r\<lparr>cb_destination := v\<rparr>))]"

definition read_CRDBackupSpec :: "api_json \<Rightarrow> json \<Rightarrow> CRDBackupSpec option" where
  "read_CRDBackupSpec J v = decode_struct (CRDBackupSpec_fields J) v CRDBackupSpec_start"

definition ChainDataDRSpec_start :: ChainDataDRSpec where
  "ChainDataDRSpec_start = \<lparr>cd_crossRegionReplication = False, cd_secondaryBucket = '''', cd_secondaryRegion = ''''\<rparr>"

definition ChainDataDRSpec_fields :: "api_json \<Rightarrow> ChainDataDRSpec fields" where
  "ChainDataDRSpec_fields J =
     [(''crossRegionReplication'', bool_field (\<lambda>v r. r\<lparr>cd_crossRegionReplication := v\<rparr>)),
      (''secondaryBucket'', string_field (\<lambda>v r. r\<lparr>cd_secondaryBucket := v\<rparr>)),
      (''secondaryRegion'', string_field (\<lambda>v r. r\<lparr>cd_secondaryRegion := v\<rparr>))]"

definition read_ChainDataDRSpec :: "api_json \<Rightarrow> json \<Rightarrow> ChainDataDRSpec option" where
  "read_ChainDataDRSpec J v = decode_struct (ChainDataDRSpec_fields J) v ChainDataDRSpec_start"

definition ClickHouseDRSpec_start :: ClickHouseDRSpec where
  "ClickHouseDRSpec_start = \<lparr>chd_backupSchedule = ''0 3 * * *'',
     chd_destination = \<lparr>sd_type = '''', sd_bucket = '''', sd_credentialsSecret = ''''\<rparr>,
     chd_retentionDays = 30\<rparr>"

definition ClickHouseDRSpec_fields :: "api_json \<Rightarrow> ClickHouseDRSpec fields" where
  "ClickHouseDRSpec_fields J =
     [(''backupSchedule'', string_field (\<lambda>v r. r\<lparr>chd_backupSchedule := v\<rparr>)),
      (''destination'', value_field (read_SnapshotDestination J) (\<lambda>v r. r\<lparr>chd_destination := v\<rparr>)),
      (''retentionDays'', int_field 32 (\<lambda>v r. r\<lparr>chd_retentionDays := word_of_int v\<rparr>))]"

definition read_ClickHouseDRSpec :: "api_json \<Rightarrow> json \<Rightarrow> ClickHouseDRSpec option" where
  "read_ClickHouseDRSpec J v = decode_struct (ClickHouseDRSpec_fields J) v ClickHouseDRSpec_start"

definition DisasterRecoverySpec_start :: DisasterRecoverySpec where
  "DisasterRecoverySpec_start = \<lparr>dr_enabled = False,
     dr_crdBackup = \<lparr>cb_schedule = '''', cb_destination = \<lparr>sd_type = '''', sd_bucket = '''', sd_credentialsSecret = ''''\<rparr>\<rparr>,
     dr_chainDataDR = \<lparr>cd_crossRegionReplication = False, cd_secondaryBucket = '''', cd_secondaryRegion = ''''\<rparr>,
     dr_clickHouseDR = None, dr_rpo = ''4h'', dr_rto = ''30m''\<rparr>"

definition DisasterRecoverySpec_fields :: "api_json \<Rightarrow> DisasterRecoverySpec fields" where
  "DisasterRecoverySpec_fields J =
     [(''enabled'', bool_field (\<lambda>v r. r\<lparr>dr_enabled := v\<rparr>)),
      (''crdBackup'', value_field (read_CRDBackupSpec J) (\<lambda>v r. r\<lparr>dr_crdBackup := v\<rparr>)),
      (''chainDataDR'', value_field (read_ChainDataDRSpec J) (\<lambda>v r. r\<lparr>dr_chainDataDR := v\<rparr>)),
      (''clickhouseDR'', pointer_field (read_ClickHouseDRSpec J) (\<lambda>v r. r\<lparr>dr_clickHouseDR := v\<rparr>)),
      (''rpo'', string_field (\<lambda>v r. r\<lparr>dr_rpo := v\<rparr>)),
      (''rto'', string_field (\<lambda>v r. r\<lparr>dr_rto := v\<rparr>))]"

definition read_DisasterRecoverySpec :: "api_json \<Rightarrow> json \<Rightarrow> DisasterRecoverySpec option" where
  "read_DisasterRecoverySpec J v = decode_struct (DisasterRecoverySpec_fields J) v DisasterRecoverySpec_start"

definition TaoNodeSpec_start :: TaoNodeSpec where
  "TaoNodeSpec_start = \<lparr>spec_network = '''', spec_subnetID = 0, spec_role = RoleOther '''', spec_image = '''', spec_version = '''',
     spec_chainStorage = \<lparr>cs_storageClass = '''', cs_size = Quantity '''', cs_autoExpand = None\<rparr>,
     spec_syncPolicy = \<lparr>sp_maxBlockLag = 0, sp_recoveryStrategy = '''', sp_maxRestartAttempts = 0, sp_probeIntervalSeconds = 0, sp_syncTimeoutMinutes = 0\<rparr>,
     spec_snapshotPolicy = None, spec_gpu = None, spec_validator = None,
     spec_resources = \<lparr>rr_requests = None, rr_limits = None\<rparr>, spec_monitoring = None,
     spec_analytics = None, spec_aiAdvisor = None, spec_disasterRecovery = None, spec_tolerations = [],
     spec_nodeSelector = Map.empty\<rparr>"

definition TaoNodeSpec_fields :: "api_json \<Rightarrow> TaoNodeSpec fields" where
  "TaoNodeSpec_fields J =
     [(''network'', string_field (\<lambda>v r. r\<lparr>spec_network := v\<rparr>)),
      (''subnetID'', int_field 32 (\<lambda>v r. r\<lparr>spec_subnetID := word_of_int v\<rparr>)),
      (''role'', string_field (\<lambda>v r. r\<lparr>spec_role := role_of v\<rparr>)),
      (''image'', string_field (\<lambda>v r. r\<lparr>spec_image := v\<rparr>)),
      (''version'', string_field (\<lambda>v r. r\<lparr>spec_version := v\<rparr>)),
      (''chainStorage'', value_field (read_ChainStorageSpec J) (\<lambda>v r. r\<lparr>spec_chainStorage := v\<rparr>)),
      (''syncPolicy'', value_field (read_SyncPolicySpec J) (\<lambda>v r. r\<lparr>spec_syncPolicy := v\<rparr>)),
      (''snapshotPolicy'', pointer_field (read_SnapshotPolicySpec J) (\<lambda>v r. r\<lparr>spec_snapshotPolicy := v\<rparr>)),
      (''gpu'', pointer_field (read_GPUSpec J) (\<lambda>v r. r\<lparr>spec_gpu := v\<rparr>)),
      (''validator'', pointer_field (read_ValidatorSpec J) (\<lambda>v r. r\<lparr>spec_validator := v\<rparr>)),
      (''resources'', value_field (aj_readResources J) (\<lambda>v r. r\<lparr>spec_resources := v\<rparr>)),
      (''monitoring'', pointer_field (read_MonitoringSpec J) (\<lambda>v r. r\<lparr>spec_monitoring := v\<rparr>)),
      (''analytics'', pointer_field (read_AnalyticsSpec J) (\<lambda>v r. r\<lparr>spec_analytics := v\<rparr>)),
      (''aiAdvisor'', pointer_field (read_AIAdvisorSpec J) (\<lambda>v r. r\<lparr>spec_aiAdvisor := v\<rparr>)),
      (''disasterRecovery'', pointer_field (read_DisasterRecoverySpec J) (\<lambda>v r. r\<lparr>spec_disasterRecovery := v\<rparr>)),
      (''tolerations'', list_field (aj_readToleration J) (\<lambda>v r. r\<lparr>spec_tolerations := v\<rparr>)),
      (''nodeSelector'', map_field (\<lambda>v r. r\<lparr>spec_nodeSelector := v\<rparr>))]"

definition read_TaoNodeSpec :: "api_json \<Rightarrow> json \<Rightarrow> TaoNodeSpec option" where
  "read_TaoNodeSpec J v = decode_struct (TaoNodeSpec_fields J) v TaoNodeSpec_start"

text \<open>No field that has a default is empty: what the encoding leaves out is what the default puts back.\<close>

definition explicit_SyncPolicySpec :: "SyncPolicySpec \<Rightarrow> bool" where
  "explicit_SyncPolicySpec x \<longleftrightarrow> sp_maxRestartAttempts x \<noteq> 0 \<and> sp_probeIntervalSeconds x \<noteq> 0 \<and>
     sp_syncTimeoutMinutes x \<noteq> 0"

definition explicit_SnapshotPolicySpec :: "SnapshotPolicySpec \<Rightarrow> bool" where
  "explicit_SnapshotPolicySpec x \<longleftrightarrow> snp_onSyncLoss x"

definition explicit_MonitoringSpec :: "MonitoringSpec \<Rightarrow> bool" where
  "explicit_MonitoringSpec x \<longleftrightarrow> mon_enabled x \<and> mon_port x \<noteq> 0"

definition explicit_ValidatorSpec :: "ValidatorSpec \<Rightarrow> bool" where
  "explicit_ValidatorSpec x \<longleftrightarrow> val_externalSecretProvider x \<noteq> '''' \<and> val_slashingProtection x \<and>
     val_maxConcurrentValidators x \<noteq> 0"

definition explicit_ClickHouseRef :: "ClickHouseRef \<Rightarrow> bool" where
  "explicit_ClickHouseRef x \<longleftrightarrow> ch_database x \<noteq> ''''"

definition explicit_IngestionSpec :: "IngestionSpec \<Rightarrow> bool" where
  "explicit_IngestionSpec x \<longleftrightarrow> ing_batchSize x \<noteq> 0 \<and> ing_flushIntervalSeconds x \<noteq> 0 \<and> ing_chainEvents x \<and>
     ing_minerTelemetry x \<and> ing_reconcileAudit x"

definition explicit_AnomalyDetectionSpec :: "AnomalyDetectionSpec \<Rightarrow> bool" where
  "explicit_AnomalyDetectionSpec x \<longleftrightarrow> ad_enabled x \<and> ad_evaluationIntervalSeconds x \<noteq> 0 \<and>
     ad_syncDriftThreshold x \<noteq> 0 \<and> ad_peerChurnVelocityThreshold x \<noteq> 0 \<and>
     ad_diskExhaustionHorizonHours x \<noteq> 0 \<and> ad_rewardDecayPercent x \<noteq> 0"

definition explicit_RetentionSpec :: "RetentionSpec \<Rightarrow> bool" where
  "explicit_RetentionSpec x \<longleftrightarrow> ret_rawDataDays x \<noteq> 0 \<and> ret_aggregatedDataDays x \<noteq> 0 \<and>
     ret_auditDataDays x \<noteq> 0"

definition explicit_AnalyticsSpec :: "AnalyticsSpec \<Rightarrow> bool" where
  "explicit_AnalyticsSpec x \<longleftrightarrow> an_enabled x \<and> explicit_ClickHouseRef (an_clickHouseRef x) \<and>
     explicit_IngestionSpec (an_ingestion x) \<and>
     pred_option explicit_AnomalyDetectionSpec (an_anomalyDetection x) \<and>
     explicit_RetentionSpec (an_retention x)"

definition explicit_NotificationChannels :: "NotificationChannels \<Rightarrow> bool" where
  "explicit_NotificationChannels x \<longleftrightarrow> nc_kubernetesEvents x"

definition explicit_AIAdvisorSpec :: "AIAdvisorSpec \<Rightarrow> bool" where
  "explicit_AIAdvisorSpec x \<longleftrightarrow> ai_model x \<noteq> '''' \<and> ai_timeoutSeconds x \<noteq> 0 \<and>
     ai_minAnomalyScoreForAdvisory x \<noteq> '''' \<and>
     pred_option explicit_NotificationChannels (ai_notificationChannels x) \<and>
     ai_contextWindowTokens x \<noteq> 0"

definition explicit_CRDBackupSpec :: "CRDBackupSpec \<Rightarrow> bool" where
  "explicit_CRDBackupSpec x \<longleftrightarrow> cb_schedule x \<noteq> ''''"

definition explicit_ClickHouseDRSpec :: "ClickHouseDRSpec \<Rightarrow> bool" where
  "explicit_ClickHouseDRSpec x \<longleftrightarrow> chd_backupSchedule x \<noteq> '''' \<and> chd_retentionDays x \<noteq> 0"

definition explicit_DisasterRecoverySpec :: "DisasterRecoverySpec \<Rightarrow> bool" where
  "explicit_DisasterRecoverySpec x \<longleftrightarrow> explicit_CRDBackupSpec (dr_crdBackup x) \<and>
     pred_option explicit_ClickHouseDRSpec (dr_clickHouseDR x) \<and> dr_rpo x \<noteq> '''' \<and>
     dr_rto x \<noteq> ''''"

definition explicit_TaoNodeSpec :: "TaoNodeSpec \<Rightarrow> bool" where
  "explicit_TaoNodeSpec x \<longleftrightarrow> role_of (role_string (spec_role x)) = spec_role x \<and>
     explicit_SyncPolicySpec (spec_syncPolicy x) \<and>
     pred_option explicit_SnapshotPolicySpec (spec_snapshotPolicy x) \<and>
     pred_option explicit_ValidatorSpec (spec_validator x) \<and>
     pred_option explicit_MonitoringSpec (spec_monitoring x) \<and>
     pred_option explicit_AnalyticsSpec (spec_analytics x) \<and>
     pred_option explicit_AIAdvisorSpec (spec_aiAdvisor x) \<and>
     pred_option explicit_DisasterRecoverySpec (spec_disasterRecovery x) \<and>
     finite (dom (spec_nodeSelector x)) \<and> finite_resources (spec_resources x)"

section \<open>The defaults of the schema\<close>

text \<open>
  The specification the API server stores for one that a client has encoded: every field that has a default
  and was left out because it is empty takes its default. \<open>sound_TaoNodeSpec\<close> are the values Go can hold:
  the role is a string, read as the constructor of that string, and maps are finite.
\<close>

definition or_zero :: "'a::len word \<Rightarrow> 'a word \<Rightarrow> 'a word" where
  "or_zero d i = (if i = 0 then d else i)"

definition or_empty :: "string \<Rightarrow> string \<Rightarrow> string" where
  "or_empty d s = (if s = [] then d else s)"

definition default_SyncPolicySpec :: "SyncPolicySpec \<Rightarrow> SyncPolicySpec" where
  "default_SyncPolicySpec x = x\<lparr>sp_maxRestartAttempts := or_zero 3 (sp_maxRestartAttempts x),
     sp_probeIntervalSeconds := or_zero 30 (sp_probeIntervalSeconds x),
     sp_syncTimeoutMinutes := or_zero 120 (sp_syncTimeoutMinutes x)\<rparr>"

definition default_SnapshotPolicySpec :: "SnapshotPolicySpec \<Rightarrow> SnapshotPolicySpec" where
  "default_SnapshotPolicySpec x = x\<lparr>snp_onSyncLoss := True\<rparr>"

definition default_MonitoringSpec :: "MonitoringSpec \<Rightarrow> MonitoringSpec" where
  "default_MonitoringSpec x = x\<lparr>mon_enabled := True, mon_port := or_zero 9615 (mon_port x)\<rparr>"

definition default_ValidatorSpec :: "ValidatorSpec \<Rightarrow> ValidatorSpec" where
  "default_ValidatorSpec x = x\<lparr>val_externalSecretProvider := or_empty ''none'' (val_externalSecretProvider x),
     val_slashingProtection := True, val_maxConcurrentValidators := or_zero 1 (val_maxConcurrentValidators x)\<rparr>"

definition default_ClickHouseRef :: "ClickHouseRef \<Rightarrow> ClickHouseRef" where
  "default_ClickHouseRef x = x\<lparr>ch_database := or_empty ''taonode_guardian'' (ch_database x)\<rparr>"

definition default_IngestionSpec :: "IngestionSpec \<Rightarrow> IngestionSpec" where
  "default_IngestionSpec x = x\<lparr>ing_batchSize := or_zero 5000 (ing_batchSize x),
     ing_flushIntervalSeconds := or_zero 10 (ing_flushIntervalSeconds x), ing_chainEvents := True,
     ing_minerTelemetry := True, ing_reconcileAudit := True\<rparr>"

definition default_AnomalyDetectionSpec :: "AnomalyDetectionSpec \<Rightarrow> AnomalyDetectionSpec" where
  "default_AnomalyDetectionSpec x = x\<lparr>ad_enabled := True,
     ad_evaluationIntervalSeconds := or_zero 60 (ad_evaluationIntervalSeconds x),
     ad_syncDriftThreshold := or_zero 50 (ad_syncDriftThreshold x),
     ad_peerChurnVelocityThreshold := or_zero 5 (ad_peerChurnVelocityThreshold x),
     ad_diskExhaustionHorizonHours := or_zero 48 (ad_diskExhaustionHorizonHours x),
     ad_rewardDecayPercent := or_zero 30 (ad_rewardDecayPercent x)\<rparr>"

definition default_RetentionSpec :: "RetentionSpec \<Rightarrow> RetentionSpec" where
  "default_RetentionSpec x = x\<lparr>ret_rawDataDays := or_zero 30 (ret_rawDataDays x),
     ret_aggregatedDataDays := or_zero 365 (ret_aggregatedDataDays x),
     ret_auditDataDays := or_zero 90 (ret_auditDataDays x)\<rparr>"

definition default_AnalyticsSpec :: "AnalyticsSpec \<Rightarrow> AnalyticsSpec" where
  "default_AnalyticsSpec x = x\<lparr>an_enabled := True, an_clickHouseRef := default_ClickHouseRef (an_clickHouseRef x),
     an_ingestion := default_IngestionSpec (an_ingestion x),
     an_anomalyDetection := map_option default_AnomalyDetectionSpec (an_anomalyDetection x),
     an_retention := default_RetentionSpec (an_retention x)\<rparr>"

definition default_NotificationChannels :: "NotificationChannels \<Rightarrow> NotificationChannels" where
  "default_NotificationChannels x = x\<lparr>nc_kubernetesEvents := True\<rparr>"

definition default_AIAdvisorSpec :: "AIAdvisorSpec \<Rightarrow> AIAdvisorSpec" where
  "default_AIAdvisorSpec x = x\<lparr>ai_model := or_empty ''llama3.1:8b-instruct-q4_K_M'' (ai_model x),
     ai_timeoutSeconds := or_zero 30 (ai_timeoutSeconds x),
     ai_minAnomalyScoreForAdvisory := or_empty ''0.6'' (ai_minAnomalyScoreForAdvisory x),
     ai_notificationChannels := map_option default_NotificationChannels (ai_notificationChannels x),
     ai_contextWindowTokens := or_zero 4096 (ai_contextWindowTokens x)\<rparr>"

definition default_CRDBackupSpec :: "CRDBackupSpec \<Rightarrow> CRDBackupSpec" where
  "default_CRDBackupSpec x = x\<lparr>cb_schedule := or_empty ''0 */2 * * *'' (cb_schedule x)\<rparr>"

definition default_ClickHouseDRSpec :: "ClickHouseDRSpec \<Rightarrow> ClickHouseDRSpec" where
  "default_ClickHouseDRSpec x = x\<lparr>chd_backupSchedule := or_empty ''0 3 * * *'' (chd_backupSchedule x),
     chd_retentionDays := or_zero 30 (chd_retentionDays x)\<rparr>"

definition default_DisasterRecoverySpec :: "DisasterRecoverySpec \<Rightarrow> DisasterRecoverySpec" where
  "default_DisasterRecoverySpec x = x\<lparr>dr_crdBackup := default_CRDBackupSpec (dr_crdBackup x),
     dr_clickHouseDR := map_option default_ClickHouseDRSpec (dr_clickHouseDR x),
     dr_rpo := or_empty ''4h'' (dr_rpo x), dr_rto := or_empty ''30m'' (dr_rto x)\<rparr>"

definition default_TaoNodeSpec :: "TaoNodeSpec \<Rightarrow> TaoNodeSpec" where
  "default_TaoNodeSpec x = x\<lparr>spec_syncPolicy := default_SyncPolicySpec (spec_syncPolicy x),
     spec_snapshotPolicy := map_option default_SnapshotPolicySpec (spec_snapshotPolicy x),
     spec_validator := map_option default_ValidatorSpec (spec_validator x),
     spec_monitoring := map_option default_MonitoringSpec (spec_monitoring x),
     spec_analytics := map_option default_AnalyticsSpec (spec_analytics x),
     spec_aiAdvisor := map_option default_AIAdvisorSpec (spec_aiAdvisor x),
     spec_disasterRecovery := map_option default_DisasterRecoverySpec (spec_disasterRecovery x)\<rparr>"

definition sound_TaoNodeSpec :: "TaoNodeSpec \<Rightarrow> bool" where
  "sound_TaoNodeSpec x \<longleftrightarrow> role_of (role_string (spec_role x)) = spec_role x \<and>
     finite (dom (spec_nodeSelector x)) \<and> finite_resources (spec_resources x)"

text \<open>The explicit specifications are those the defaults leave alone.\<close>

lemma or_same [simp]: "or_zero d i = i \<longleftrightarrow> i \<noteq> 0 \<or> d = 0" "or_empty e s = s \<longleftrightarrow> s \<noteq> [] \<or> e = []"
  by (auto simp: or_zero_def or_empty_def)

lemma map_option_same: "(\<And>x. f x = x \<longleftrightarrow> P x) \<Longrightarrow> map_option f p = p \<longleftrightarrow> pred_option P p"
  by (cases p) auto

lemma default_same:
  "default_SyncPolicySpec a = a \<longleftrightarrow> explicit_SyncPolicySpec a"
  "default_SnapshotPolicySpec b = b \<longleftrightarrow> explicit_SnapshotPolicySpec b"
  "default_MonitoringSpec c = c \<longleftrightarrow> explicit_MonitoringSpec c"
  "default_ValidatorSpec d = d \<longleftrightarrow> explicit_ValidatorSpec d"
  "default_ClickHouseRef e = e \<longleftrightarrow> explicit_ClickHouseRef e"
  "default_IngestionSpec f = f \<longleftrightarrow> explicit_IngestionSpec f"
  "default_AnomalyDetectionSpec g = g \<longleftrightarrow> explicit_AnomalyDetectionSpec g"
  "default_RetentionSpec h = h \<longleftrightarrow> explicit_RetentionSpec h"
  "default_NotificationChannels i = i \<longleftrightarrow> explicit_NotificationChannels i"
  "default_CRDBackupSpec j = j \<longleftrightarrow> explicit_CRDBackupSpec j"
  "default_ClickHouseDRSpec k = k \<longleftrightarrow> explicit_ClickHouseDRSpec k"
  by ((cases a, simp add: default_SyncPolicySpec_def explicit_SyncPolicySpec_def)
    , (cases b, simp add: default_SnapshotPolicySpec_def explicit_SnapshotPolicySpec_def)
    , (cases c, simp add: default_MonitoringSpec_def explicit_MonitoringSpec_def)
    , (cases d, simp add: default_ValidatorSpec_def explicit_ValidatorSpec_def)
    , (cases e, simp add: default_ClickHouseRef_def explicit_ClickHouseRef_def)
    , (cases f, simp add: default_IngestionSpec_def explicit_IngestionSpec_def)
    , (cases g, simp add: default_AnomalyDetectionSpec_def explicit_AnomalyDetectionSpec_def)
    , (cases h, simp add: default_RetentionSpec_def explicit_RetentionSpec_def)
    , (cases i, simp add: default_NotificationChannels_def explicit_NotificationChannels_def)
    , (cases j, simp add: default_CRDBackupSpec_def explicit_CRDBackupSpec_def)
    , (cases k, simp add: default_ClickHouseDRSpec_def explicit_ClickHouseDRSpec_def))

lemma default_same_nested:
  "default_AnalyticsSpec a = a \<longleftrightarrow> explicit_AnalyticsSpec a"
  "default_AIAdvisorSpec b = b \<longleftrightarrow> explicit_AIAdvisorSpec b"
  "default_DisasterRecoverySpec c = c \<longleftrightarrow> explicit_DisasterRecoverySpec c"
  by ((cases a, simp add: default_AnalyticsSpec_def explicit_AnalyticsSpec_def default_same
          map_option_same [OF default_same(7)])
    , (cases b, simp add: default_AIAdvisorSpec_def explicit_AIAdvisorSpec_def map_option_same [OF default_same(9)])
    , (cases c, simp add: default_DisasterRecoverySpec_def explicit_DisasterRecoverySpec_def default_same
          map_option_same [OF default_same(11)]))

lemma default_same_spec: "sound_TaoNodeSpec x \<and> default_TaoNodeSpec x = x \<longleftrightarrow> explicit_TaoNodeSpec x"
  by (cases x) (auto simp: sound_TaoNodeSpec_def default_TaoNodeSpec_def explicit_TaoNodeSpec_def default_same
      map_option_same [OF default_same(2)] map_option_same [OF default_same(3)] map_option_same [OF default_same(4)]
      map_option_same [OF default_same_nested(1)] map_option_same [OF default_same_nested(2)]
      map_option_same [OF default_same_nested(3)])

section \<open>The codec\<close>

named_theorems codec

lemma decode_members_append [codec]:
  "decode_members fs (xs @ ys) x = Option.bind (decode_members fs xs x) (decode_members fs ys)"
  by (induction fs xs x rule: decode_members.induct) (auto split: option.splits)

text \<open>A field that may have been left out.\<close>

definition unless :: "bool \<Rightarrow> (json \<Rightarrow> 'a \<Rightarrow> 'a option) \<Rightarrow> json \<Rightarrow> 'a \<Rightarrow> 'a option" where
  "unless c f v x = (if c then Some x else f v x)"

definition when_some :: "('b \<Rightarrow> json) \<Rightarrow> 'b option \<Rightarrow> (json \<Rightarrow> 'a \<Rightarrow> 'a option) \<Rightarrow> 'a \<Rightarrow> 'a option" where
  "when_some enc p f x = (case p of None \<Rightarrow> Some x | Some v \<Rightarrow> f (enc v) x)"

lemma decode_field [codec]:
  "decode_members fs (member k v) x = (case field_for fs k of None \<Rightarrow> Some x | Some f \<Rightarrow> unless False f v x)"
  "decode_members fs (omit_str k s) x = (case field_for fs k of None \<Rightarrow> Some x | Some f \<Rightarrow> unless (s = []) f (JStr s) x)"
  "decode_members fs (omit_zero k i) x = (case field_for fs k of None \<Rightarrow> Some x | Some f \<Rightarrow> unless (i = 0) f (json_int i) x)"
  "decode_members fs (omit_false k b) x = (case field_for fs k of None \<Rightarrow> Some x | Some f \<Rightarrow> unless (\<not> b) f (JBool b) x)"
  "decode_members fs (omit_none k enc p) x = (case field_for fs k of None \<Rightarrow> Some x | Some f \<Rightarrow> when_some enc p f x)"
  "decode_members fs (omit_nil k enc' xs) x =
     (case field_for fs k of None \<Rightarrow> Some x | Some f \<Rightarrow> unless (xs = []) f (JArr (map enc' xs)) x)"
  "decode_members fs (omit_map k m) x =
     (case field_for fs k of None \<Rightarrow> Some x | Some f \<Rightarrow> unless (m = Map.empty) f (JObj (map_members m)) x)"
  by (simp_all add: member_def omit_str_def omit_zero_def omit_false_def omit_none_def omit_nil_def omit_map_def unless_def
      when_some_def split: option.split)

lemma parse_int_fmt: "parse_int (fmt_int i) = Some i"
proof -
  have d: "is_digit c" if "0 \<le> k" "c \<in> set (fmt_pos k)" for c k
    using fmt_pos_digit [OF that] of_nat_of_char [of c, where 'a = int] by (simp add: is_digit_def byte_def)
  have "\<not> has_prefix (fmt_pos k) ''-''" if "0 \<le> k" for k
    using fmt_pos_no_minus [OF that] by (auto simp: has_prefix_iff)
  then show ?thesis
    using d [of "\<bar>i\<bar>"] read_fmt_pos [of "\<bar>i\<bar>"]
    by (cases "i < 0") (auto simp: parse_int_def fmt_int_def has_prefix_iff list_all_iff)
qed

lemma sint_range: "- (2 ^ (LENGTH('a) - 1)) \<le> sint (i :: 'a::len word)" "sint (i :: 'a::len word) < 2 ^ (LENGTH('a) - 1)"
  using sint_ge [of i] sint_lt [of i] by simp_all

lemma int_field_json:
  "int_field 32 upd (json_int (i :: int32)) x = Some (upd (sint i) x)"
  "int_field 64 upd (json_int (j :: int64)) x = Some (upd (sint j) x)"
  using sint_range [of i] sint_range [of j] by (simp_all add: json_int_def parse_int_fmt)

lemma unless_field [codec]:
  "(i = 0 \<Longrightarrow> upd 0 x = x) \<Longrightarrow> unless (i = 0) (int_field 32 upd) (json_int (i :: int32)) x = Some (upd (sint i) x)"
  "(j = 0 \<Longrightarrow> upd 0 x = x) \<Longrightarrow> unless (j = 0) (int_field 64 upd) (json_int (j :: int64)) x = Some (upd (sint j) x)"
  "(s = [] \<Longrightarrow> upd' [] x = x) \<Longrightarrow> unless (s = []) (string_field upd') (JStr s) x = Some (upd' s x)"
  "(\<not> b \<Longrightarrow> upd'' False x = x) \<Longrightarrow> unless (\<not> b) (bool_field upd'') (JBool b) x = Some (upd'' b x)"
  "unless False (int_field 32 upd) (json_int i) x = Some (upd (sint i) x)"
  "unless False (int_field 64 upd) (json_int j) x = Some (upd (sint j) x)"
  "unless False (string_field upd') (JStr s) x = Some (upd' s x)"
  "unless False (string_field upd') (role_json r) x = Some (upd' (role_string r) x)"
  "unless False (bool_field upd'') (JBool b) x = Some (upd'' b x)"
  by (auto simp: unless_def int_field_json role_json_def)

lemma value_field_json [codec]:
  "rd v = Some y \<Longrightarrow> unless False (value_field rd upd) v x = Some (upd y x)"
  by (simp add: unless_def value_field_def)

lemma read_list_json: "list_all (\<lambda>v. rd (enc v) = Some (g v)) xs \<Longrightarrow> read_list rd (map enc xs) = Some (map g xs)"
  by (induction xs) auto

lemma list_field_json:
  "list_all (\<lambda>v. rd (enc v) = Some (g v)) xs \<Longrightarrow> (xs = [] \<Longrightarrow> upd [] x = x) \<Longrightarrow>
   unless (xs = []) (list_field rd upd) (JArr (map enc xs)) x = Some (upd (map g xs) x)"
  by (auto simp: unless_def read_list_json)

text \<open>A field that has a default and may have been left out.\<close>

lemma left_out [codec]:
  "g True x = x \<Longrightarrow> unless (\<not> b) (bool_field g) (JBool b) x = Some x"
  "unless (i = 0) (int_field 32 upd) (json_int (i :: int32)) x = Some (if i = 0 then x else upd (sint i) x)"
  "unless (j = 0) (int_field 64 upd) (json_int (j :: int64)) x = Some (if j = 0 then x else upd (sint j) x)"
  "unless (s = []) (string_field upd') (JStr s) x = Some (if s = [] then x else upd' s x)"
  by (simp_all add: unless_def int_field_json)

lemma read_map_json:
  "read_map (map (\<lambda>k. (k, JStr (the (m k)))) ks) n = Some (\<lambda>k. if k \<in> set ks then Some (the (m k)) else n k)"
  by (induction ks arbitrary: n) (auto simp: fun_eq_iff)

lemma map_field_json [codec]:
  assumes "finite (dom m)" and "m = Map.empty \<Longrightarrow> upd Map.empty x = x"
  shows "unless (m = Map.empty) (map_field upd) (JObj (map_members m)) x = Some (upd m x)"
proof -
  have "(\<lambda>k. if k \<in> dom m then Some (the (m k)) else None) = m" by (auto simp: fun_eq_iff domIff)
  then show ?thesis using assms by (auto simp: unless_def map_members_def read_map_json)
qed

lemma word_back [codec]: "word_of_int (sint (i :: 'a::len word)) = i"
  by simp

lemma api_read [codec]:
  assumes "api_laws J"
  shows "aj_readQuantity J (aj_quantity J q) = Some q" "finite_resources r \<Longrightarrow> aj_readResources J (aj_resources J r) = Some r"
    "(ts = [] \<Longrightarrow> upd [] x = x) \<Longrightarrow> unless (ts = []) (list_field (aj_readToleration J) upd)
       (JArr (map (aj_toleration J) ts)) x = Some (upd ts x)"
  using assms list_field_json [of "aj_readToleration J" "aj_toleration J" "\<lambda>t. t" ts upd x]
  by (simp_all add: api_laws_def list_all_iff)

lemmas [codec] = field_for_def list.pred_True option.pred_True option.map_ident list.map_ident

text \<open>
  The contract of a struct's encoding, which the enclosing structs rely on: under its condition a value
  is read back as its defaulted form, and it is never written as \<open>null\<close>. Optional and repeated fields follow.
\<close>

locale json_codec =
  fixes enc :: "'a \<Rightarrow> json" and rd :: "json \<Rightarrow> 'a option" and ok :: "'a \<Rightarrow> bool" and norm :: "'a \<Rightarrow> 'a"
  assumes reads_back [codec]: "ok x \<Longrightarrow> rd (enc x) = Some (norm x)"
    and not_null: "enc x \<noteq> JNull"
begin

lemma pointer_back [codec]:
  "pred_option ok p \<Longrightarrow> (p = None \<Longrightarrow> upd None x = x) \<Longrightarrow>
   when_some enc p (pointer_field rd upd) x = Some (upd (map_option norm p) x)"
  by (cases p) (simp_all add: when_some_def pointer_field_def reads_back not_null)

lemma list_back [codec]:
  "list_all ok xs \<Longrightarrow> (xs = [] \<Longrightarrow> upd [] x = x) \<Longrightarrow>
   unless (xs = []) (list_field rd upd) (JArr (map enc xs)) x = Some (upd (map norm xs) x)"
  by (rule list_field_json) (auto simp: list_all_iff reads_back)

end

interpretation autoExpand: json_codec "AutoExpandSpec_json J" "read_AutoExpandSpec J" "\<lambda>_. api_laws J" "\<lambda>x. x" for J
proof (unfold_locales, goal_cases)
  case (1 x)
  then show ?case
    by (cases x) (simp add: read_AutoExpandSpec_def AutoExpandSpec_json_def AutoExpandSpec_fields_def AutoExpandSpec_start_def codec)
qed (simp add: AutoExpandSpec_json_def)

interpretation chainStorage: json_codec "ChainStorageSpec_json J" "read_ChainStorageSpec J" "\<lambda>_. api_laws J" "\<lambda>x. x" for J
proof (unfold_locales, goal_cases)
  case (1 x)
  then show ?case
    by (cases x) (simp add: read_ChainStorageSpec_def ChainStorageSpec_json_def ChainStorageSpec_fields_def ChainStorageSpec_start_def codec)
qed (simp add: ChainStorageSpec_json_def)

interpretation syncPolicy: json_codec "SyncPolicySpec_json J" "read_SyncPolicySpec J" "\<lambda>_. True" default_SyncPolicySpec for J
proof (unfold_locales, goal_cases)
  case (1 x)
  then show ?case
    by (cases x) (simp add: read_SyncPolicySpec_def SyncPolicySpec_json_def SyncPolicySpec_fields_def SyncPolicySpec_start_def default_SyncPolicySpec_def or_zero_def or_empty_def codec)
qed (simp add: SyncPolicySpec_json_def)

interpretation destination: json_codec "SnapshotDestination_json J" "read_SnapshotDestination J" "\<lambda>_. True" "\<lambda>x. x" for J
proof (unfold_locales, goal_cases)
  case (1 x)
  then show ?case
    by (cases x) (simp add: read_SnapshotDestination_def SnapshotDestination_json_def SnapshotDestination_fields_def SnapshotDestination_start_def codec)
qed (simp add: SnapshotDestination_json_def)

interpretation snapshotPolicy: json_codec "SnapshotPolicySpec_json J" "read_SnapshotPolicySpec J" "\<lambda>_. True" default_SnapshotPolicySpec for J
proof (unfold_locales, goal_cases)
  case (1 x)
  then show ?case
    by (cases x) (simp add: read_SnapshotPolicySpec_def SnapshotPolicySpec_json_def SnapshotPolicySpec_fields_def SnapshotPolicySpec_start_def default_SnapshotPolicySpec_def or_zero_def or_empty_def codec)
qed (simp add: SnapshotPolicySpec_json_def)

interpretation gpuSpec: json_codec "GPUSpec_json J" "read_GPUSpec J" "\<lambda>_. True" "\<lambda>x. x" for J
proof (unfold_locales, goal_cases)
  case (1 x)
  then show ?case
    by (cases x) (simp add: read_GPUSpec_def GPUSpec_json_def GPUSpec_fields_def GPUSpec_start_def codec)
qed (simp add: GPUSpec_json_def)

interpretation alertRule: json_codec "AlertRule_json J" "read_AlertRule J" "\<lambda>_. True" "\<lambda>x. x" for J
proof (unfold_locales, goal_cases)
  case (1 x)
  then show ?case
    by (cases x) (simp add: read_AlertRule_def AlertRule_json_def AlertRule_fields_def AlertRule_start_def codec)
qed (simp add: AlertRule_json_def)

interpretation monitoring: json_codec "MonitoringSpec_json J" "read_MonitoringSpec J" "\<lambda>_. True" default_MonitoringSpec for J
proof (unfold_locales, goal_cases)
  case (1 x)
  then show ?case
    by (cases x) (simp add: read_MonitoringSpec_def MonitoringSpec_json_def MonitoringSpec_fields_def MonitoringSpec_start_def default_MonitoringSpec_def or_zero_def or_empty_def codec)
qed (simp add: MonitoringSpec_json_def)

interpretation validatorSpec: json_codec "ValidatorSpec_json J" "read_ValidatorSpec J" "\<lambda>_. True" default_ValidatorSpec for J
proof (unfold_locales, goal_cases)
  case (1 x)
  then show ?case
    by (cases x) (simp add: read_ValidatorSpec_def ValidatorSpec_json_def ValidatorSpec_fields_def ValidatorSpec_start_def default_ValidatorSpec_def or_zero_def or_empty_def codec)
qed (simp add: ValidatorSpec_json_def)

interpretation clickhouseRef: json_codec "ClickHouseRef_json J" "read_ClickHouseRef J" "\<lambda>_. True" default_ClickHouseRef for J
proof (unfold_locales, goal_cases)
  case (1 x)
  then show ?case
    by (cases x) (simp add: read_ClickHouseRef_def ClickHouseRef_json_def ClickHouseRef_fields_def ClickHouseRef_start_def default_ClickHouseRef_def or_zero_def or_empty_def codec)
qed (simp add: ClickHouseRef_json_def)

interpretation ingestion: json_codec "IngestionSpec_json J" "read_IngestionSpec J" "\<lambda>_. True" default_IngestionSpec for J
proof (unfold_locales, goal_cases)
  case (1 x)
  then show ?case
    by (cases x) (simp add: read_IngestionSpec_def IngestionSpec_json_def IngestionSpec_fields_def IngestionSpec_start_def default_IngestionSpec_def or_zero_def or_empty_def codec)
qed (simp add: IngestionSpec_json_def)

interpretation anomalyDetection: json_codec "AnomalyDetectionSpec_json J" "read_AnomalyDetectionSpec J" "\<lambda>_. True" default_AnomalyDetectionSpec for J
proof (unfold_locales, goal_cases)
  case (1 x)
  then show ?case
    by (cases x) (simp add: read_AnomalyDetectionSpec_def AnomalyDetectionSpec_json_def AnomalyDetectionSpec_fields_def AnomalyDetectionSpec_start_def default_AnomalyDetectionSpec_def or_zero_def or_empty_def codec)
qed (simp add: AnomalyDetectionSpec_json_def)

interpretation retention: json_codec "RetentionSpec_json J" "read_RetentionSpec J" "\<lambda>_. True" default_RetentionSpec for J
proof (unfold_locales, goal_cases)
  case (1 x)
  then show ?case
    by (cases x) (simp add: read_RetentionSpec_def RetentionSpec_json_def RetentionSpec_fields_def RetentionSpec_start_def default_RetentionSpec_def or_zero_def or_empty_def codec)
qed (simp add: RetentionSpec_json_def)

interpretation analyticsSpec: json_codec "AnalyticsSpec_json J" "read_AnalyticsSpec J" "\<lambda>_. True" default_AnalyticsSpec for J
proof (unfold_locales, goal_cases)
  case (1 x)
  then show ?case
    by (cases x) (simp add: read_AnalyticsSpec_def AnalyticsSpec_json_def AnalyticsSpec_fields_def AnalyticsSpec_start_def default_AnalyticsSpec_def or_zero_def or_empty_def codec)
qed (simp add: AnalyticsSpec_json_def)

interpretation channels: json_codec "NotificationChannels_json J" "read_NotificationChannels J" "\<lambda>_. True" default_NotificationChannels for J
proof (unfold_locales, goal_cases)
  case (1 x)
  then show ?case
    by (cases x) (simp add: read_NotificationChannels_def NotificationChannels_json_def NotificationChannels_fields_def NotificationChannels_start_def default_NotificationChannels_def or_zero_def or_empty_def codec)
qed (simp add: NotificationChannels_json_def)

interpretation aiAdvisorSpec: json_codec "AIAdvisorSpec_json J" "read_AIAdvisorSpec J" "\<lambda>_. True" default_AIAdvisorSpec for J
proof (unfold_locales, goal_cases)
  case (1 x)
  then show ?case
    by (cases x) (simp add: read_AIAdvisorSpec_def AIAdvisorSpec_json_def AIAdvisorSpec_fields_def AIAdvisorSpec_start_def default_AIAdvisorSpec_def or_zero_def or_empty_def codec)
qed (simp add: AIAdvisorSpec_json_def)

interpretation crdBackup: json_codec "CRDBackupSpec_json J" "read_CRDBackupSpec J" "\<lambda>_. True" default_CRDBackupSpec for J
proof (unfold_locales, goal_cases)
  case (1 x)
  then show ?case
    by (cases x) (simp add: read_CRDBackupSpec_def CRDBackupSpec_json_def CRDBackupSpec_fields_def CRDBackupSpec_start_def default_CRDBackupSpec_def or_zero_def or_empty_def codec)
qed (simp add: CRDBackupSpec_json_def)

interpretation chainDataDR: json_codec "ChainDataDRSpec_json J" "read_ChainDataDRSpec J" "\<lambda>_. True" "\<lambda>x. x" for J
proof (unfold_locales, goal_cases)
  case (1 x)
  then show ?case
    by (cases x) (simp add: read_ChainDataDRSpec_def ChainDataDRSpec_json_def ChainDataDRSpec_fields_def ChainDataDRSpec_start_def codec)
qed (simp add: ChainDataDRSpec_json_def)

interpretation clickhouseDR: json_codec "ClickHouseDRSpec_json J" "read_ClickHouseDRSpec J" "\<lambda>_. True" default_ClickHouseDRSpec for J
proof (unfold_locales, goal_cases)
  case (1 x)
  then show ?case
    by (cases x) (simp add: read_ClickHouseDRSpec_def ClickHouseDRSpec_json_def ClickHouseDRSpec_fields_def ClickHouseDRSpec_start_def default_ClickHouseDRSpec_def or_zero_def or_empty_def codec)
qed (simp add: ClickHouseDRSpec_json_def)

interpretation disasterRecovery: json_codec "DisasterRecoverySpec_json J" "read_DisasterRecoverySpec J" "\<lambda>_. True" default_DisasterRecoverySpec for J
proof (unfold_locales, goal_cases)
  case (1 x)
  then show ?case
    by (cases x) (simp add: read_DisasterRecoverySpec_def DisasterRecoverySpec_json_def DisasterRecoverySpec_fields_def DisasterRecoverySpec_start_def default_DisasterRecoverySpec_def or_zero_def or_empty_def codec)
qed (simp add: DisasterRecoverySpec_json_def)

interpretation nodeSpec: json_codec "TaoNodeSpec_json J" "read_TaoNodeSpec J" "\<lambda>x. api_laws J \<and> sound_TaoNodeSpec x" default_TaoNodeSpec for J
proof (unfold_locales, goal_cases)
  case (1 x)
  then show ?case
    by (cases x) (simp add: read_TaoNodeSpec_def TaoNodeSpec_json_def TaoNodeSpec_fields_def TaoNodeSpec_start_def sound_TaoNodeSpec_def default_TaoNodeSpec_def codec)
qed (simp add: TaoNodeSpec_json_def)

section \<open>What survives, and what does not\<close>


text \<open>A simple form of Kubernetes' types.\<close>

definition quantity_text :: "quantity \<Rightarrow> string" where "quantity_text q = (case q of Quantity s \<Rightarrow> s)"

definition list_json :: "resource_list option \<Rightarrow> json" where
  "list_json r = (case r of None \<Rightarrow> JNull | Some m \<Rightarrow> JObj (map_members (\<lambda>k. map_option quantity_text (m k))))"

definition read_resource_list :: "json \<Rightarrow> resource_list option option" where
  "read_resource_list v = (case v of JNull \<Rightarrow> Some None
     | JObj ms \<Rightarrow> map_option (\<lambda>m. Some (\<lambda>k. map_option Quantity (m k))) (read_map ms Map.empty) | _ \<Rightarrow> None)"

definition plain_api :: api_json where
  "plain_api = \<lparr>aj_quantity = (\<lambda>q. JStr (quantity_text q)),
     aj_readQuantity = (\<lambda>v. case v of JStr s \<Rightarrow> Some (Quantity s) | _ \<Rightarrow> None),
     aj_resources = (\<lambda>r. JArr [list_json (rr_requests r), list_json (rr_limits r)]),
     aj_readResources = (\<lambda>v. case v of JArr [a, b] \<Rightarrow>
       (case (read_resource_list a, read_resource_list b) of
          (Some x, Some y) \<Rightarrow> Some \<lparr>rr_requests = x, rr_limits = y\<rparr> | _ \<Rightarrow> None) | _ \<Rightarrow> None),
     aj_toleration = (\<lambda>t. JArr (map JStr [tol_key t, tol_operator t, tol_value t, tol_effect t])),
     aj_readToleration = (\<lambda>v. case v of JArr [JStr a, JStr b, JStr c, JStr d] \<Rightarrow>
       Some \<lparr>tol_key = a, tol_operator = b, tol_value = c, tol_effect = d\<rparr> | _ \<Rightarrow> None),
     aj_time = json_int \<circ> (word_of_int :: int \<Rightarrow> int64), aj_condition = (\<lambda>c. JStr (cond_type c)), aj_meta = (\<lambda>m. JStr (om_name m))\<rparr>"

lemma read_resource_list_json: "pred_option (\<lambda>m. finite (dom m)) r \<Longrightarrow> read_resource_list (list_json r) = Some r"
proof (cases r)
  case (Some m)
  assume "pred_option (\<lambda>m. finite (dom m)) r"
  then have fin: "finite (dom (\<lambda>k. map_option quantity_text (m k)))" using Some by (simp add: dom_def)
  have "map_option Quantity (if k \<in> dom (\<lambda>k. map_option quantity_text (m k)) then Some (the (map_option quantity_text (m k))) else None) = m k" for k
    by (cases "m k") (auto simp: dom_def quantity_text_def split: quantity.split)
  then show ?thesis using fin Some by (simp add: list_json_def read_resource_list_def map_members_def read_map_json)
qed (simp add: list_json_def read_resource_list_def)

lemma plain_api_laws: "api_laws plain_api"
  by (auto simp: api_laws_def plain_api_def finite_resources_def read_resource_list_json quantity_text_def split: quantity.split)

definition written_spec :: TaoNodeSpec where
  "written_spec = sample_spec\<lparr>spec_validator := Some \<lparr>val_hotKeySecret = ''hot'', val_coldKeyVaultRef = '''',
     val_externalSecretProvider = ''none'', val_slashingProtection = True, val_maxConcurrentValidators = 1\<rparr>\<rparr>"

lemma ascii_utf8: "list_all (\<lambda>c. byte c < 128) s \<Longrightarrow> valid_utf8 s"
proof (induction s)
  case (Cons c s)
  then show ?case by (subst valid_utf8.simps) (simp add: rune_length_ascii)
qed (simp add: valid_utf8.simps)

lemmas spec_codecs = TaoNodeSpec_json_def ChainStorageSpec_json_def AutoExpandSpec_json_def SyncPolicySpec_json_def
  SnapshotPolicySpec_json_def SnapshotDestination_json_def ValidatorSpec_json_def member_def omit_str_def omit_zero_def
  omit_false_def omit_none_def omit_nil_def omit_map_def json_int_def role_json_def


text \<open>
  C40. What does not survive: an empty field that has a default. Whatever specification the operator writes
  is stored with its defaults in: each field tagged \<open>omitempty\<close> that is zero, empty or false is left out of
  the encoding, and the schema puts its default there. So a specification is stored as it is exactly when
  none of these fields is empty, and an opt-out is undone: a validator reads back with
  \<open>slashingProtection\<close>, a snapshot policy with \<open>onSyncLoss\<close> and monitoring with \<open>enabled\<close>, once the operator
  has written the resource, as it does to add its finalizer, or once it was restored from a backup.
\<close>

theorem opt_outs_lost:
  assumes "api_laws J" and "sound_TaoNodeSpec x" and "wf_json (TaoNodeSpec_json J x)" and "depth (TaoNodeSpec_json J x) \<le> max_depth"
  shows "\<exists>y. Option.bind (Unmarshal (Marshal (TaoNodeSpec_json J x))) (read_TaoNodeSpec J) = Some y \<and>
    y = default_TaoNodeSpec x \<and> (y = x \<longleftrightarrow> explicit_TaoNodeSpec x) \<and>
    pred_option val_slashingProtection (spec_validator y) \<and> pred_option snp_onSyncLoss (spec_snapshotPolicy y) \<and>
    pred_option mon_enabled (spec_monitoring y)"
proof -
  have "Option.bind (Unmarshal (Marshal (TaoNodeSpec_json J x))) (read_TaoNodeSpec J) = Some (default_TaoNodeSpec x)"
    using assms by (simp add: Unmarshal_Marshal nodeSpec.reads_back)
  moreover have "default_TaoNodeSpec x = x \<longleftrightarrow> explicit_TaoNodeSpec x" using default_same_spec [of x] assms(2) by blast
  moreover have "pred_option val_slashingProtection (spec_validator (default_TaoNodeSpec x))"
    "pred_option snp_onSyncLoss (spec_snapshotPolicy (default_TaoNodeSpec x))"
    "pred_option mon_enabled (spec_monitoring (default_TaoNodeSpec x))"
    by (simp_all add: default_TaoNodeSpec_def default_ValidatorSpec_def default_SnapshotPolicySpec_def
        default_MonitoringSpec_def option.pred_map comp_def option.pred_True)
  ultimately show ?thesis by blast
qed

text \<open>A validator that has opted out of slashing protection and left its provider empty.\<close>

definition opted_out_spec :: TaoNodeSpec where
  "opted_out_spec = sample_spec\<lparr>spec_validator := Some \<lparr>val_hotKeySecret = ''hot'', val_coldKeyVaultRef = '''',
     val_externalSecretProvider = '''', val_slashingProtection = False, val_maxConcurrentValidators = 1\<rparr>\<rparr>"

theorem opt_outs_lost_witness:
  "Option.bind (Unmarshal (Marshal (TaoNodeSpec_json plain_api opted_out_spec))) (read_TaoNodeSpec plain_api) = Some written_spec"
proof -
  have "sound_TaoNodeSpec opted_out_spec"
    by (simp add: sound_TaoNodeSpec_def opted_out_spec_def sample_spec_def finite_resources_def role_of_def)
  moreover have "wf_json (TaoNodeSpec_json plain_api opted_out_spec)"
    by (simp add: spec_codecs opted_out_spec_def sample_spec_def plain_api_def quantity_text_def list_json_def fmt_int_valid
        ascii_utf8 byte_def)
  moreover have "depth (TaoNodeSpec_json plain_api opted_out_spec) \<le> max_depth"
    by (simp add: spec_codecs opted_out_spec_def sample_spec_def plain_api_def quantity_text_def list_json_def max_depth_def)
  ultimately have "Option.bind (Unmarshal (Marshal (TaoNodeSpec_json plain_api opted_out_spec))) (read_TaoNodeSpec plain_api) =
      Some (default_TaoNodeSpec opted_out_spec)"
    using opt_outs_lost [OF plain_api_laws, of opted_out_spec] by blast
  moreover have "default_TaoNodeSpec opted_out_spec = written_spec"
    by (simp add: default_TaoNodeSpec_def opted_out_spec_def written_spec_def sample_spec_def default_SyncPolicySpec_def
        default_SnapshotPolicySpec_def default_ValidatorSpec_def or_zero_def or_empty_def)
  ultimately show ?thesis by simp
qed

end
