(* ===== verification/User_Specification.thy ===== *)
theory User_Specification
  imports Reconciler Node_Json
begin

text \<open>
  What the operator does to the specifications of users. The client is typed: an update sends the whole
  resource as JSON, without its empty \<open>omitempty\<close> fields, and the API server stores what it reads, with the
  defaults of the schema. So even an update meant for the finalizers alone rewrites the specification. The
  library shows which handlers make no such update, and what the two that do can change.
\<close>

section \<open>The resource on an API server\<close>

text \<open>
  What the API server documents of the resource, for the specifications \<open>specs w\<close> of the resources a world
  stores. A read returns the stored specification, which has come out of JSON, under the key that was asked
  for. A write of the status subresource leaves the specification alone. An update does nothing, or stores
  what is read from the JSON it was sent under the key of the object, or removes the object, when its
  deletion was requested and no finalizer is left.
\<close>

definition encodable :: "api_json \<Rightarrow> TaoNodeSpec \<Rightarrow> bool" where
  "encodable J x \<longleftrightarrow> sound_TaoNodeSpec x \<and> wf_json (TaoNodeSpec_json J x) \<and> depth (TaoNodeSpec_json J x) \<le> max_depth"

definition stored_form :: "api_json \<Rightarrow> TaoNodeSpec \<Rightarrow> TaoNodeSpec option" where
  "stored_form J x = Option.bind (Unmarshal (Marshal (TaoNodeSpec_json J x))) (read_TaoNodeSpec J)"

definition spec_reads :: "'w kclient \<Rightarrow> api_json \<Rightarrow> ('w \<Rightarrow> TaoNodeSpec store) \<Rightarrow> bool" where
  "spec_reads K J specs \<longleftrightarrow> (\<forall>w ns n tn. snd (k_getTaoNode K w ns n) = Inr tn \<longrightarrow>
     meta_key (tn_meta tn) = (ns, n) \<and> specs w (ns, n) = Some (tn_spec tn) \<and> encodable J (tn_spec tn))"

definition spec_updates :: "'w kclient \<Rightarrow> api_json \<Rightarrow> ('w \<Rightarrow> TaoNodeSpec store) \<Rightarrow> bool" where
  "spec_updates K J specs \<longleftrightarrow> (\<forall>w x. let k = meta_key (tn_meta x); w' = fst (k_updateTaoNode K w x)
     in specs w' = specs w \<or> (\<exists>y. stored_form J (tn_spec x) = Some y \<and> specs w' = (specs w)(k \<mapsto> y)) \<or>
        deletion_requested x \<and> om_finalizers (tn_meta x) = [] \<and> specs w' = (specs w)(k := None))"

definition spec_laws :: "'w kclient \<Rightarrow> api_json \<Rightarrow> ('w \<Rightarrow> TaoNodeSpec store) \<Rightarrow> bool" where
  "spec_laws K J specs \<longleftrightarrow> side_calls K specs \<and> set_calls K specs \<and>
     (\<forall>w x. specs (fst (k_updateTaoNodeStatus K w x)) = specs w) \<and> spec_reads K J specs \<and> spec_updates K J specs"

lemma spec_lawsD:
  assumes "spec_laws K J specs"
  shows "side_calls K specs" "set_calls K specs" "specs (fst (k_updateTaoNodeStatus K w x)) = specs w"
    "snd (k_getTaoNode K w ns n) = Inr tn \<Longrightarrow>
       meta_key (tn_meta tn) = (ns, n) \<and> specs w (ns, n) = Some (tn_spec tn) \<and> encodable J (tn_spec tn)"
proof -
  show "side_calls K specs" "set_calls K specs" "specs (fst (k_updateTaoNodeStatus K w x)) = specs w"
    using assms by (simp_all add: spec_laws_def)
  have "spec_reads K J specs" using assms by (simp add: spec_laws_def)
  then show "snd (k_getTaoNode K w ns n) = Inr tn \<Longrightarrow>
      meta_key (tn_meta tn) = (ns, n) \<and> specs w (ns, n) = Some (tn_spec tn) \<and> encodable J (tn_spec tn)"
    by (simp add: spec_reads_def)
qed

text \<open>What one update can do to the specifications, for an object whose specification was read.\<close>

lemma update_outcome:
  assumes laws: "spec_laws K J specs" and J: "api_laws J" and x: "encodable J (tn_spec x)"
    and stored: "specs w (meta_key (tn_meta x)) = Some (tn_spec x)"
  shows "specs (fst (k_updateTaoNode K w x)) = specs w \<or>
    \<not> explicit_TaoNodeSpec (tn_spec x) \<and>
      specs (fst (k_updateTaoNode K w x)) = (specs w)(meta_key (tn_meta x) \<mapsto> default_TaoNodeSpec (tn_spec x)) \<or>
    deletion_requested x \<and> specs (fst (k_updateTaoNode K w x)) = (specs w)(meta_key (tn_meta x) := None)"
proof -
  have form: "stored_form J (tn_spec x) = Some (default_TaoNodeSpec (tn_spec x))"
    using x J by (simp add: stored_form_def encodable_def Unmarshal_Marshal nodeSpec.reads_back)
  have same: "(specs w)(meta_key (tn_meta x) \<mapsto> default_TaoNodeSpec (tn_spec x)) = specs w" if "explicit_TaoNodeSpec (tn_spec x)"
    using that stored by (simp add: default_same_spec [symmetric] fun_upd_idem)
  have "spec_updates K J specs" using laws by (simp add: spec_laws_def)
  from this [unfolded spec_updates_def Let_def, THEN spec [of _ w], THEN spec [of _ x]]
  consider "specs (fst (k_updateTaoNode K w x)) = specs w"
    | "specs (fst (k_updateTaoNode K w x)) = (specs w)(meta_key (tn_meta x) \<mapsto> default_TaoNodeSpec (tn_spec x))"
    | "deletion_requested x" "specs (fst (k_updateTaoNode K w x)) = (specs w)(meta_key (tn_meta x) := None)"
    unfolding form by auto
  then show ?thesis
  proof cases
    case 2
    then show ?thesis using same by (cases "explicit_TaoNodeSpec (tn_spec x)") simp_all
  qed blast+
qed

section \<open>Handlers that leave the specifications alone\<close>

lemma status_keeps_specs:
  assumes "spec_laws (env_client env) J specs"
  shows "specs (ks_world (fst (updateStatusAndRequeue env tn after s))) = specs (ks_world s)"
proof -
  have side: "side_calls (env_client env) specs" by (rule spec_lawsD(1) [OF assms])
  have "keeps specs (put_status env tn st)" for st
    by (auto simp: keeps_def put_status_def side_simps [OF side] spec_lawsD(3) [OF assms] case_prod_unfold split: sum.splits)
  then show ?thesis
    using retry_keeps [OF side] by (auto simp: updateStatusAndRequeue_def world_simps split: option.splits)
qed

lemma probed_keeps_specs:
  assumes "spec_laws (env_client (ce_env E)) J specs"
  shows "specs (ks_world (fst (reconcile_probed E now tn h s))) = specs (ks_world s)"
proof -
  let ?env = "ce_env E"
  have side: "side_calls (env_client ?env) specs" by (rule spec_lawsD(1) [OF assms])
  obtain s3 tn5 as where 1: "observed_input E now tn h s = (s3, tn5, as)" by (metis prod_cases3)
  obtain s4 tn6 res err where 2: "evaluateSyncState ?env now tn5 h as s3 = (s4, tn6, res, err)" by (metis prod_cases4)
  have "specs (ks_world s4) = specs (ks_world s)"
    using evaluate_keeps [OF side, of now tn5 h as s3] observed_keeps [of E now tn h s] 1 2 by simp
  then show ?thesis
    by (auto simp: reconcile_probed_def 1 2 Let_def case_prod_unfold status_keeps_specs [OF assms] advisory_keeps
        disk_keeps [OF side] split: option.splits)
qed

lemma probe_keeps_specs:
  assumes laws: "spec_laws (env_client (ce_env E)) J specs" and http: "\<And>r. keeps specs (http_do (ce_http E) r)"
  shows "specs (ks_world (fst (reconcile_probe E now tn s))) = specs (ks_world s)"
proof -
  have side: "side_calls (env_client (ce_env E)) specs" by (rule spec_lawsD(1) [OF laws])
  obtain s1 r where 1: "probeChainHealth E tn s = (s1, r)" by fastforce
  have "specs (ks_world s1) = specs (ks_world s)" using probe_keeps [OF side http, of tn s] 1 by simp
  then show ?thesis
    by (cases r) (simp_all add: reconcile_probe_def 1 status_keeps_specs [OF laws] probed_keeps_specs [OF laws] Let_def)
qed

lemma workload_keeps_specs:
  assumes laws: "spec_laws (env_client (ce_env E)) J specs" and http: "\<And>r. keeps specs (http_do (ce_http E) r)"
  shows "specs (ks_world (fst (reconcile_workload E now tn s))) = specs (ks_world s)"
proof -
  let ?env = "ce_env E"
  have side: "side_calls (env_client ?env) specs" and sets: "set_calls (env_client ?env) specs"
    by (rule spec_lawsD(1,2) [OF laws])+
  obtain s1 e1 where 1: "ensureNodeWorkload ?env (ce_semantic E) tn s = (s1, e1)" by fastforce
  define s2 where "s2 = (if monitoring_on tn then fst (ensureServiceMonitor ?env tn s1) else s1)"
  obtain s3 e3 where 3: "ensureValidatorSingleton ?env now tn s2 = (s3, e3)" by fastforce
  have s1: "specs (ks_world s1) = specs (ks_world s)"
    using workload_keeps [OF side sets, of "ce_semantic E" tn s] 1 by simp
  then have s2: "specs (ks_world s2) = specs (ks_world s)" by (simp add: s2_def owned_keeps(3) [OF side])
  have "specs (ks_world s3) = specs (ks_world s)" using guard_keeps [OF side, of now tn s2] 3 s2 by simp
  then show ?thesis
    using s1 s2 unfolding reconcile_workload_def Let_def 1 prod.case s2_def [symmetric]
    by (simp add: 3 probe_keeps_specs [OF laws http] split: option.split)
qed

lemma owned_keeps_specs:
  assumes laws: "spec_laws (env_client (ce_env E)) J specs" and http: "\<And>r. keeps specs (http_do (ce_http E) r)"
  shows "specs (ks_world (fst (reconcile_owned E now tn s))) = specs (ks_world s)"
proof -
  let ?env = "ce_env E"
  have side: "side_calls (env_client ?env) specs" by (rule spec_lawsD(1) [OF laws])
  obtain s1 e1 where 1: "ensureServiceAccount ?env tn s = (s1, e1)" by fastforce
  obtain s2 e2 where 2: "ensureHeadlessService ?env tn s1 = (s2, e2)" by fastforce
  obtain s3 tn1 e3 where 3: "validateNamespacePermissions ?env now tn s2 = (s3, tn1, e3)" by (metis prod_cases3)
  obtain s4 tn2 e4 where 4: "validateHotkeySecret ?env now tn1 s3 = (s4, tn2, e4)" by (metis prod_cases3)
  have "specs (ks_world s1) = specs (ks_world s)" "specs (ks_world s2) = specs (ks_world s1)"
    "specs (ks_world s3) = specs (ks_world s2)" "specs (ks_world s4) = specs (ks_world s3)"
    using owned_keeps(1) [OF side, of tn s] owned_keeps(2) [OF side, of tn s1] owned_keeps(4) [OF side, of now tn s2]
      owned_keeps(5) [OF side, of now tn1 s3] by (simp_all add: 1 2 3 4)
  then show ?thesis
    by (auto simp: reconcile_owned_def 1 2 3 4 Let_def status_keeps_specs [OF laws] workload_keeps_specs [OF laws http]
        split: option.splits)
qed

lemma generate_keeps: "(\<And>r. keeps f (http_do H r)) \<Longrightarrow> f (fst (generate H c req w)) = f w"
  by (auto simp: generate_def keeps_def Let_def case_prod_unfold split: option.splits sum.splits)

lemma analyze_keeps: "(\<And>r. keeps f (http_do H r)) \<Longrightarrow> f (fst (snd (AnalyzeIncident H now ic a w))) = f w"
  by (auto simp: AnalyzeIncident_def buildUserPrompt_def generate_keeps Let_def case_prod_unfold split: sum.splits)

lemma advisory_task_keeps:
  assumes laws: "spec_laws (env_client (ce_env E)) J specs" and http: "\<And>r. keeps specs (http_do (ce_http E) r)"
  shows "specs (ks_world (run_advisory E now task s)) = specs (ks_world s)"
proof -
  have side: "side_calls (env_client (ce_env E)) specs" by (rule spec_lawsD(1) [OF laws])
  have "keeps specs (put_advisory (ce_env E) tn d)" for tn d
    by (auto simp: keeps_def put_advisory_def side_simps [OF side] spec_lawsD(3) [OF laws] case_prod_unfold split: sum.splits)
  then have "specs (ks_world (fst (updateAIAdvisoryStatus (ce_env E) now tn r t))) = specs (ks_world t)"
    for tn r and t :: "('a, 'b) controller_state_scheme"
    using retry_keeps [OF side] by (auto simp: updateAIAdvisoryStatus_def world_simps)
  then show ?thesis
    using analyze_keeps [of specs "ce_http E", OF http]
    by (auto simp: run_advisory_def sendNotifications_def Let_def case_prod_unfold split: option.splits sum.splits)
qed

section \<open>The user's specification\<close>

text \<open>
  C15. What the operator does to a user's specification. A reconcile changes the specification of no other
  resource, and its own only in the one update with which it adds or removes its finalizer. That update can
  do no more than fill in the defaults of empty fields, so it leaves a specification without such fields as
  it is; or, for a resource whose deletion was requested, let it be removed. The tasks that follow an
  advisory change no specification at all.
\<close>

theorem specs_untouched:
  fixes s :: "('w, 'a) controller_state_scheme"
  assumes laws: "spec_laws (env_client (ce_env E)) J specs" and J: "api_laws J"
    and http: "\<And>r. keeps specs (http_do (ce_http E) r)"
  shows "specs (ks_world (run_advisory E now task s)) = specs (ks_world s) \<and>
     (specs (ks_world (fst (Reconcile E now ns n s))) = specs (ks_world s) \<or>
      (\<exists>tn. snd (k_getTaoNode (env_client (ce_env E)) (ks_world s) ns n) = Inr tn \<and>
        specs (ks_world s) (ns, n) = Some (tn_spec tn) \<and>
        (deletion_requested tn \<or> \<not> fin_contains (ce_finalizers E) (om_finalizers (tn_meta tn)) finalizerName) \<and>
        (\<not> explicit_TaoNodeSpec (tn_spec tn) \<and>
           specs (ks_world (fst (Reconcile E now ns n s))) = (specs (ks_world s))((ns, n) \<mapsto> default_TaoNodeSpec (tn_spec tn)) \<or>
         deletion_requested tn \<and> specs (ks_world (fst (Reconcile E now ns n s))) = (specs (ks_world s))((ns, n) := None))))"
proof (rule conjI)
  let ?K = "env_client (ce_env E)"
  let ?w1 = "fst (k_getTaoNode ?K (ks_world s) ns n)" and ?r = "Reconcile E now ns n s"
  have side: "side_calls ?K specs" by (rule spec_lawsD(1) [OF laws])
  show "specs (ks_world (run_advisory E now task s)) = specs (ks_world s)" by (rule advisory_task_keeps [OF laws http])
  show "specs (ks_world (fst ?r)) = specs (ks_world s) \<or>
      (\<exists>tn. snd (k_getTaoNode ?K (ks_world s) ns n) = Inr tn \<and> specs (ks_world s) (ns, n) = Some (tn_spec tn) \<and>
        (deletion_requested tn \<or> \<not> fin_contains (ce_finalizers E) (om_finalizers (tn_meta tn)) finalizerName) \<and>
        (\<not> explicit_TaoNodeSpec (tn_spec tn) \<and>
           specs (ks_world (fst ?r)) = (specs (ks_world s))((ns, n) \<mapsto> default_TaoNodeSpec (tn_spec tn)) \<or>
         deletion_requested tn \<and> specs (ks_world (fst ?r)) = (specs (ks_world s))((ns, n) := None)))"
  proof (cases "snd (k_getTaoNode ?K (ks_world s) ns n)")
    case (Inl e)
    then show ?thesis by (simp add: Reconcile_def world_simps side_simps [OF side])
  next
    case (Inr tn)
    note read = spec_lawsD(4) [OF laws Inr]
    have upd: "specs w' = specs (ks_world s) \<or>
        \<not> explicit_TaoNodeSpec (tn_spec tn) \<and> specs w' = (specs (ks_world s))((ns, n) \<mapsto> default_TaoNodeSpec (tn_spec tn)) \<or>
        deletion_requested tn \<and> specs w' = (specs (ks_world s))((ns, n) := None)"
      if "w' = fst (k_updateTaoNode ?K w (x :: TaoNode))" "specs w = specs (ks_world s)"
        "tn_meta x = (tn_meta tn)\<lparr>om_finalizers := fs\<rparr>" "tn_spec x = tn_spec tn" for w' w x fs
    proof -
      have x: "meta_key (tn_meta x) = (ns, n)" "deletion_requested x = deletion_requested tn"
        using read that(3) by (simp_all add: meta_key_def deletion_requested_def)
      have "encodable J (tn_spec x)" "specs w (meta_key (tn_meta x)) = Some (tn_spec x)" using read that(2,4) x(1) by simp_all
      from update_outcome [OF laws J this] show ?thesis unfolding x that(1,2,4) .
    qed
    let ?fin = "fin_contains (ce_finalizers E) (om_finalizers (tn_meta tn)) finalizerName" and ?s1 = "s\<lparr>ks_world := ?w1\<rparr>"
    consider "deletion_requested tn" "?fin" | "deletion_requested tn" "\<not> ?fin" | "\<not> deletion_requested tn" "\<not> ?fin"
      | "\<not> deletion_requested tn" "?fin" by blast
    then show ?thesis
    proof cases
      case 1
      from finalization_outcome [OF side 1(2), where now = now and s = ?s1] obtain s3 x where
        "specs (ks_world s3) = specs (ks_world ?s1)" "tn_spec x = tn_spec tn"
        "tn_meta x = (tn_meta tn)\<lparr>om_finalizers := fin_remove (ce_finalizers E) (om_finalizers (tn_meta tn)) finalizerName\<rparr>"
        "fst (handleFinalization E now tn ?s1) = fst (call (\<lambda>w. k_updateTaoNode ?K w x) s3)"
        by auto
      moreover have "?r = handleFinalization E now tn ?s1" using Inr 1 by (simp add: Reconcile_def world_simps)
      ultimately have "specs (ks_world (fst ?r)) = specs (ks_world s) \<or>
          \<not> explicit_TaoNodeSpec (tn_spec tn) \<and> specs (ks_world (fst ?r)) = (specs (ks_world s))((ns, n) \<mapsto> default_TaoNodeSpec (tn_spec tn)) \<or>
          deletion_requested tn \<and> specs (ks_world (fst ?r)) = (specs (ks_world s))((ns, n) := None)"
        by (intro upd [where w = "ks_world s3" and x = x
            and fs = "fin_remove (ce_finalizers E) (om_finalizers (tn_meta tn)) finalizerName"]) (simp_all add: call_def case_prod_unfold side_simps [OF side])
      then show ?thesis using Inr read 1 by blast
    next
      case 2
      then show ?thesis using Inr by (simp add: Reconcile_def handleFinalization_def world_simps side_simps [OF side])
    next
      case 3
      let ?x = "tn\<lparr>tn_meta := (tn_meta tn)\<lparr>om_finalizers := fin_add (ce_finalizers E) (om_finalizers (tn_meta tn)) finalizerName\<rparr>\<rparr>"
      have "ks_world (fst ?r) = fst (k_updateTaoNode ?K ?w1 ?x)"
        using Inr 3 by (simp add: Reconcile_def world_simps split: option.split)
      then have "specs (ks_world (fst ?r)) = specs (ks_world s) \<or>
          \<not> explicit_TaoNodeSpec (tn_spec tn) \<and> specs (ks_world (fst ?r)) = (specs (ks_world s))((ns, n) \<mapsto> default_TaoNodeSpec (tn_spec tn)) \<or>
          deletion_requested tn \<and> specs (ks_world (fst ?r)) = (specs (ks_world s))((ns, n) := None)"
        by (intro upd [where w = ?w1 and x = ?x
            and fs = "fin_add (ce_finalizers E) (om_finalizers (tn_meta tn)) finalizerName"]) (simp_all add: side_simps [OF side])
      then show ?thesis using Inr read 3 by blast
    next
      case 4
      then have "specs (ks_world (fst ?r)) = specs (ks_world s)"
        using Inr by (simp add: Reconcile_def world_simps owned_keeps_specs [OF laws http] side_simps [OF side])
      then show ?thesis by blast
    qed
  qed
qed

text \<open>An in-memory API server that reads the JSON it is sent, with the defaults of the schema.\<close>

definition stored_specs :: "mem_world \<Rightarrow> TaoNodeSpec store" where
  "stored_specs w = (\<lambda>k. map_option tn_spec (mw_nodes w k))"

definition json_getTaoNode :: "(mem_world, TaoNode) kget" where
  "json_getTaoNode w ns n =
     (case mem_getTaoNode w ns n of
        (w1, Inr x) \<Rightarrow> (w1, if encodable plain_api (tn_spec x) then Inr x else Inl (OtherErr ''decode''))
      | (w1, Inl e) \<Rightarrow> (w1, Inl e))"

definition json_updateTaoNode :: "(mem_world, TaoNode) kput" where
  "json_updateTaoNode w x =
     (if mw_nodes w (meta_key (tn_meta x)) = None then (w, Some (NotFound (tn_name x)))
      else if deletion_requested x \<and> om_finalizers (tn_meta x) = []
      then (w\<lparr>mw_nodes := (mw_nodes w)(meta_key (tn_meta x) := None)\<rparr>, None)
      else case stored_form plain_api (tn_spec x) of
             None \<Rightarrow> (w, Some (OtherErr ''invalid''))
           | Some y \<Rightarrow> (w\<lparr>mw_nodes := (mw_nodes w)(meta_key (tn_meta x) \<mapsto> x\<lparr>tn_spec := y\<rparr>)\<rparr>, None))"

definition json_client :: "mem_world kclient" where
  "json_client = server_client\<lparr>k_getTaoNode := json_getTaoNode, k_updateTaoNode := json_updateTaoNode\<rparr>"

definition json_controller :: "mem_world controller_env" where
  "json_controller = mem_controller\<lparr>ce_env := (ce_env mem_controller)\<lparr>env_client := json_client\<rparr>\<rparr>"

lemma json_specs: "spec_laws json_client plain_api stored_specs"
proof -
  have K: "k_getTaoNode json_client = json_getTaoNode" "k_updateTaoNode json_client = json_updateTaoNode"
    by (simp_all add: json_client_def)
  have "side_calls json_client stored_specs"
    by (simp add: side_calls_def json_client_def json_getTaoNode_def server_client_def mem_client_def mem_calls mem_retry_keeps
        stored_specs_def split: option.split sum.split)
  moreover have "set_calls json_client stored_specs"
    by (auto simp: set_calls_def json_client_def server_client_def mem_client_def mem_calls stored_specs_def split: option.split)
  moreover have "stored_specs (fst (k_updateTaoNodeStatus json_client w x)) = stored_specs w" for w x
    by (auto simp: json_client_def server_client_def mem_client_def mem_calls stored_specs_def fun_eq_iff split: option.split)
  moreover have "spec_reads json_client plain_api stored_specs"
    unfolding spec_reads_def K
    by (auto simp: json_getTaoNode_def mem_getTaoNode_def meta_key_def stored_specs_def split: option.splits if_splits)
  moreover have "spec_updates json_client plain_api stored_specs"
    unfolding spec_updates_def K
    by (auto simp: json_updateTaoNode_def stored_specs_def Let_def fun_eq_iff split: option.split)
  ultimately show ?thesis by (simp add: spec_laws_def)
qed

text \<open>A validator that opted out of slashing protection, before it has a finalizer.\<close>

definition opted_out_node :: TaoNode where "opted_out_node = sample_node\<lparr>tn_spec := opted_out_spec\<rparr>"

theorem specs_untouched_witness:
  "stored_specs (ks_world (fst (Reconcile json_controller 9 ''tao'' ''node'' (fresh_controller (one_node opted_out_node)))))
     (''tao'', ''node'') \<in> {Some opted_out_spec, Some written_spec}"
proof -
  let ?s = "fresh_controller (one_node opted_out_node)" and ?E = json_controller
  have K: "env_client (ce_env ?E) = json_client" "ce_http ?E = no_http" by (simp_all add: json_controller_def)
  have stored: "stored_specs (ks_world ?s) (''tao'', ''node'') = Some opted_out_spec"
    by (simp add: stored_specs_def fresh_controller_def one_node_def opted_out_node_def)
  have dflt: "default_TaoNodeSpec opted_out_spec = written_spec"
    by (simp add: default_TaoNodeSpec_def opted_out_spec_def written_spec_def sample_spec_def default_SyncPolicySpec_def
        default_SnapshotPolicySpec_def default_ValidatorSpec_def or_zero_def or_empty_def)
  have dels: "\<not> deletion_requested tn" if "snd (k_getTaoNode json_client (ks_world ?s) ''tao'' ''node'') = Inr tn" for tn
    using that by (auto simp: json_client_def json_getTaoNode_def mem_getTaoNode_def fresh_controller_def one_node_def
        opted_out_node_def sample_node_def deletion_requested_def split: if_splits)
  have laws: "spec_laws (env_client (ce_env ?E)) plain_api stored_specs" and http: "keeps stored_specs (http_do (ce_http ?E) r)" for r
    by (simp_all add: K json_specs no_http_keeps)
  note out = specs_untouched [OF laws plain_api_laws http, of 9 "(opted_out_node, buildIncidentContext opted_out_node [])" ?s
    "''tao''" "''node''", THEN conjunct2]
  from out show ?thesis
    using stored dels dflt by (elim disjE exE conjE) (simp_all add: K)
qed

end
