(* ===== verification/Controller_Run.thy ===== *)
theory Controller_Run
  imports Reconciler
begin

text \<open>
  Runs of the controller: reconciles of any resources in any order, the advisory goroutines they
  launch, and changes of the cluster and of the batch writer by others, as an inductive step
  relation on the state of the reconcilers. The library first shows which handlers leave the shared
  planes alone: all but the analytics step, the state machine and the advisory step. A step is one
  whole reconcile; the limiter, the breaker and the writer are internally locked, and their own
  theories cover every interleaving of the calls.
\<close>

section \<open>The shared planes\<close>

text \<open>Handlers of the cluster leave the shared planes alone: they change the world and the logs only.\<close>

lemma base_more [simp]:
  "kstate.more (fst (call g s)) = kstate.more s" "kstate.more (Eventf tn ty r m s) = kstate.more s"
  "kstate.more (sample x s) = kstate.more s"
  by (simp_all add: call_def Eventf_def sample_def case_prod_unfold)

lemma delete_snapshots_more: "kstate.more (fst (delete_snapshots K vs s)) = kstate.more s"
  by (induction K vs s rule: delete_snapshots.induct) (auto simp: world_simps split: option.splits)

lemma prune_more: "kstate.more (fst (pruneOldSnapshots env tn s)) = kstate.more s"
  by (auto simp: pruneOldSnapshots_def delete_snapshots_more world_simps split: option.splits sum.splits)

lemma trigger_more: "kstate.more (fst (triggerSnapshot env now tn reason s)) = kstate.more s"
  by (auto simp: triggerSnapshot_def prune_more world_simps split: option.splits)

lemma strategies_more:
  "kstate.more (fst (recoveryRestart env tn s)) = kstate.more s"
  "kstate.more (fst (recoverySnapshotRestore env now tn s)) = kstate.more s"
  "kstate.more (fst (recoveryCordonAndAlert env now tn s)) = kstate.more s"
  by (auto simp: recoveryRestart_def recoverySnapshotRestore_def recoveryCordonAndAlert_def trigger_more world_simps
      split: option.splits sum.splits)

lemma dispatch_more: "kstate.more (fst (dispatchRecovery env now tn s)) = kstate.more s"
  by (simp add: dispatchRecovery_def strategies_more)

lemma fold_sample_more: "kstate.more (fold (\<lambda>a. sample (g a)) as s) = kstate.more s"
  by (induction as arbitrary: s) simp_all

lemma metrics_more: "kstate.more (record_health_metrics tn h as s) = kstate.more s"
  by (simp add: record_health_metrics_def Let_def fold_sample_more)

lemma plane_more:
  "kstate.more s = kstate.more t \<Longrightarrow> recovery_state.more s = recovery_state.more t"
  "kstate.more s = kstate.more t \<Longrightarrow> ctl_limiter s = ctl_limiter t"
  by (cases s; cases t; simp)+

lemma log_recovery_more [simp]:
  "recovery_state.more (Eventf tn ty r m s) = recovery_state.more s" "recovery_state.more (sample x s) = recovery_state.more s"
  by (simp_all add: Eventf_def sample_def)

lemma strategy_recovery_more:
  "recovery_state.more (fst (dispatchRecovery env now tn s)) = recovery_state.more s"
  "recovery_state.more (record_health_metrics tn h as s) = recovery_state.more s"
  by (rule plane_more(1), rule dispatch_more) (rule plane_more(1), rule metrics_more)

lemma execute_more: "recovery_state.more (fst (executeRecovery env now tn s)) = recovery_state.more s"
  by (simp add: executeRecovery_def strategy_recovery_more Let_def case_prod_unfold)

lemma recover_more: "recovery_state.more (fst (recover_or_fail env now tn s)) = recovery_state.more s"
  by (simp add: recover_or_fail_def execute_more Let_def)

lemma evaluate_more: "recovery_state.more (fst (evaluateSyncState env now tn h as s)) = recovery_state.more s"
  by (simp add: evaluateSyncState_def recover_more strategy_recovery_more Let_def)

lemma handlers_more:
  "kstate.more (fst (ensureServiceAccount env tn s)) = kstate.more s"
  "kstate.more (fst (ensureHeadlessService env tn s)) = kstate.more s"
  "kstate.more (fst (ensureServiceMonitor env tn s)) = kstate.more s"
  "kstate.more (fst (deleteLeaseIfExists env ns n s)) = kstate.more s"
  by (simp_all add: ensureServiceAccount_def ensureHeadlessService_def ensureServiceMonitor_def deleteLeaseIfExists_def
      world_simps split: sum.split option.split)

lemma permissions_more: "kstate.more (fst (validateNamespacePermissions env now tn s)) = kstate.more s"
  by (simp add: validateNamespacePermissions_def world_simps split: sum.split)

lemma hotkey_more: "kstate.more (fst (validateHotkeySecret env now tn s)) = kstate.more s"
  by (simp add: validateHotkeySecret_def world_simps split: sum.split option.split)

lemma workload_more: "kstate.more (fst (ensureNodeWorkload env S tn s)) = kstate.more s"
  by (simp add: ensureNodeWorkload_def world_simps split: sum.split option.split)

lemma guard_more: "kstate.more (fst (ensureValidatorSingleton env now tn s)) = kstate.more s"
  by (simp add: ensureValidatorSingleton_def cordonValidatorPod_def world_simps split: sum.split option.split)

lemma disk_more: "kstate.more (fst (evaluateDiskPressure env tn s)) = kstate.more s"
  by (simp add: evaluateDiskPressure_def expandPVCPreemptively_def world_simps split: sum.split option.split)

lemma status_more:
  "kstate.more (fst (updateStatusAndRequeue env tn after s)) = kstate.more s"
  "kstate.more (fst (updateAIAdvisoryStatus env now tn rep s)) = kstate.more s"
  "kstate.more (sendNotifications tn rep s) = kstate.more s"
  by (simp_all add: updateStatusAndRequeue_def updateAIAdvisoryStatus_def sendNotifications_def world_simps split: option.split)

lemma probe_more: "kstate.more (fst (probeChainHealth E tn s)) = kstate.more s"
  by (simp add: probeChainHealth_def world_simps split: sum.split option.split)

lemma final_snapshot_more: "kstate.more (fst (final_snapshot env now tn s)) = kstate.more s"
  by (simp add: final_snapshot_def trigger_more case_prod_unfold split: option.split)

lemma finalization_more: "kstate.more (fst (handleFinalization E now tn s)) = kstate.more s"
  by (simp add: handleFinalization_def world_simps final_snapshot_more handlers_more split: option.split)

section \<open>What a reconcile does to the planes\<close>

definition planes :: "('w, 'a) controller_state_scheme \<Rightarrow> RecoveryRateLimiter \<times> CircuitBreaker option \<times> BatchWriter option \<times>
    Advisor option \<times> (TaoNode \<times> IncidentContext) list" where
  "planes s = (ctl_limiter s, ctl_breaker s, ctl_writer s, ctl_advisor s, ctl_tasks s)"

lemma planes_cong: "kstate.more s = kstate.more t \<Longrightarrow> planes s = planes t"
  by (cases s; cases t) (simp add: planes_def)

text \<open>The planes after a reconcile are the old ones, or those that steps 5 to 10 leave.\<close>

definition probes :: "'w controller_env \<Rightarrow> time \<Rightarrow> ('w, 'a) controller_state_scheme \<Rightarrow> ('w, 'a) controller_state_scheme \<Rightarrow> bool" where
  "probes E now s s' \<longleftrightarrow> planes s' = planes s \<or>
     (\<exists>tn h t. planes t = planes s \<and> planes s' = planes (fst (reconcile_probed E now tn h (t :: ('w, 'a) controller_state_scheme))))"

lemma probes_same: "kstate.more s' = kstate.more s \<Longrightarrow> probes E now s s'"
  by (simp add: probes_def planes_cong [of s' s])

lemma probes_after: "kstate.more s1 = kstate.more s \<Longrightarrow> probes E now s1 s' \<Longrightarrow> probes E now s s'"
  by (simp add: probes_def planes_cong [of s1 s])

lemma probe_probes: "probes E now s (fst (reconcile_probe E now tn s))"
proof -
  obtain s1 r where 1: "probeChainHealth E tn s = (s1, r)" by fastforce
  have m: "kstate.more s1 = kstate.more s" using probe_more [of E tn s] 1 by simp
  show ?thesis
  proof (cases r)
    case (Inl e)
    then show ?thesis by (intro probes_same) (simp add: reconcile_probe_def 1 status_more m Let_def)
  next
    case (Inr h)
    then show ?thesis using planes_cong [OF m] by (auto simp: probes_def reconcile_probe_def 1 Let_def)
  qed
qed

lemma workload_probes: "probes E now s (fst (reconcile_workload E now tn s))"
proof -
  let ?env = "ce_env E"
  obtain s1 e1 where 1: "ensureNodeWorkload ?env (ce_semantic E) tn s = (s1, e1)" by fastforce
  define s2 where "s2 = (if monitoring_on tn then fst (ensureServiceMonitor ?env tn s1) else s1)"
  obtain s3 e3 where 3: "ensureValidatorSingleton ?env now tn s2 = (s3, e3)" by fastforce
  have m: "kstate.more s1 = kstate.more s" "kstate.more s2 = kstate.more s1" "kstate.more s3 = kstate.more s2"
    using workload_more [of ?env "ce_semantic E" tn s] guard_more [of ?env now tn s2] 1 3
    by (simp_all add: s2_def handlers_more)
  then have "probes E now s (fst (reconcile_probe E now tn s3))" "probes E now s (fst (reconcile_probe E now tn s2))"
    by (auto intro: probes_after [OF _ probe_probes])
  then show ?thesis
    using m unfolding reconcile_workload_def Let_def 1 prod.case s2_def [symmetric]
    by (auto simp: 3 intro: probes_same split: option.split)
qed

lemma owned_probes: "probes E now s (fst (reconcile_owned E now tn s))"
proof -
  let ?env = "ce_env E"
  obtain s1 e1 where 1: "ensureServiceAccount ?env tn s = (s1, e1)" by fastforce
  obtain s2 e2 where 2: "ensureHeadlessService ?env tn s1 = (s2, e2)" by fastforce
  obtain s3 tn1 e3 where 3: "validateNamespacePermissions ?env now tn s2 = (s3, tn1, e3)" by (metis prod_cases3)
  obtain s4 tn2 e4 where 4: "validateHotkeySecret ?env now tn1 s3 = (s4, tn2, e4)" by (metis prod_cases3)
  have m: "kstate.more s1 = kstate.more s" "kstate.more s2 = kstate.more s1" "kstate.more s3 = kstate.more s2"
    "kstate.more s4 = kstate.more s3"
    using handlers_more(1) [of ?env tn s] handlers_more(2) [of ?env tn s1] permissions_more [of ?env now tn s2]
      hotkey_more [of ?env now tn1 s3] by (simp_all add: 1 2 3 4)
  then have "probes E now s (fst (reconcile_workload E now tn2 s4))" by (auto intro: probes_after [OF _ workload_probes])
  then show ?thesis
    using m by (auto simp: reconcile_owned_def 1 2 3 4 Let_def status_more intro: probes_same split: option.split)
qed

lemma reconcile_probes: "probes E now s (fst (Reconcile E now ns n s))"
proof -
  obtain s1 r where 1: "call (\<lambda>w. k_getTaoNode (env_client (ce_env E)) w ns n) s = (s1, r)" by fastforce
  have m: "kstate.more s1 = kstate.more s" using base_more(1) [of "\<lambda>w. k_getTaoNode (env_client (ce_env E)) w ns n" s] 1 by simp
  have "probes E now s (fst (reconcile_owned E now tn s1))" for tn by (rule probes_after [OF m owned_probes])
  moreover have "kstate.more (fst (handleFinalization E now tn s1)) = kstate.more s" for tn by (simp add: finalization_more m)
  moreover have "kstate.more (fst (call g s1)) = kstate.more s" for g :: "'a \<Rightarrow> 'a \<times> kerr option" by (simp add: m)
  ultimately show ?thesis
    by (cases r) (auto simp: Reconcile_def 1 Let_def case_prod_unfold m intro: probes_same split: option.split)
qed

text \<open>The analytics step is the only one that touches the breaker, and it never records a failure.\<close>

lemma analytics_breaker:
  assumes "ctl_breaker s = Some cb" and "cb_state cb = cbStateClosed"
  shows "\<exists>cb'. ctl_breaker (fst (reconcileWithAnalytics E now tn h s)) = Some cb' \<and> cb_state cb' = cbStateClosed"
  using assms
  by (auto simp: reconcileWithAnalytics_def detect_anomalies_def EvaluateNode_def Allow_def RecordSuccess_def sample_def
      cb_state_defs Let_def split: option.splits)

lemma analytics_advisor: "ctl_advisor (fst (reconcileWithAnalytics E now tn h s)) = ctl_advisor s"
  by (auto simp: reconcileWithAnalytics_def detect_anomalies_def sample_def Let_def case_prod_unfold split: option.splits)

lemma gauges_more:
  "kstate.more (fst (updateGPUStatus tn h s)) = kstate.more s" "kstate.more (fst (updateFinOpsStatus Q tn s)) = kstate.more s"
  by (simp_all add: updateGPUStatus_def updateFinOpsStatus_def Let_def case_prod_unfold split: option.split)

lemma observed_planes:
  assumes "observed_input E now tn h s = (s3, tn5, as)"
  shows "planes s3 = planes (fst (reconcileWithAnalytics E now tn h s))"
proof -
  obtain s1 tn1 as1 where 1: "reconcileWithAnalytics E now tn h s = (s1, tn1, as1)" by (metis prod_cases3)
  have "kstate.more (fst (observed_input E now tn h s)) = kstate.more s1"
    by (simp add: observed_input_def 1 Let_def case_prod_unfold gauges_more)
  then show ?thesis using assms 1 planes_cong by fastforce
qed

lemma advisory_planes:
  "ctl_limiter (maybeRequestAIAdvisory tn as s) = ctl_limiter s" "ctl_breaker (maybeRequestAIAdvisory tn as s) = ctl_breaker s"
  "ctl_advisor (maybeRequestAIAdvisory tn as s) = ctl_advisor s"
  by (auto simp: maybeRequestAIAdvisory_def split: option.splits)

lemma machine_planes:
  "ctl_breaker (fst (evaluateSyncState env now tn h as s)) = ctl_breaker s"
  "ctl_advisor (fst (evaluateSyncState env now tn h as s)) = ctl_advisor s"
  using evaluate_more [of env now tn h as s]
  by (cases s; cases "fst (evaluateSyncState env now tn h as s)"; simp)+

text \<open>After the state machine only the launched advisories change.\<close>

lemma probed_planes:
  assumes "observed_input E now tn h s = (s3, tn5, as)"
  shows "ctl_limiter (fst (reconcile_probed E now tn h s)) = ctl_limiter (fst (evaluateSyncState (ce_env E) now tn5 h as s3))"
    and "ctl_breaker (fst (reconcile_probed E now tn h s)) = ctl_breaker s3"
    and "ctl_advisor (fst (reconcile_probed E now tn h s)) = ctl_advisor s3"
proof -
  obtain s4 tn6 res err where ev: "evaluateSyncState (ce_env E) now tn5 h as s3 = (s4, tn6, res, err)" by (metis prod_cases4)
  obtain s5 e5 where dk: "evaluateDiskPressure (ce_env E) tn6 s4 = (s5, e5)" by fastforce
  have s5: "planes s5 = planes s4" using planes_cong [OF disk_more, of "ce_env E" tn6 s4] dk by simp
  have st: "planes (fst (updateStatusAndRequeue (ce_env E) x d t)) = planes t" for x d and t :: "('a, 'b) controller_state_scheme"
    by (rule planes_cong) (rule status_more)
  have sm: "planes (sample m t) = planes t" for m and t :: "('a, 'b) controller_state_scheme"
    by (rule planes_cong) simp
  have s4: "ctl_breaker s4 = ctl_breaker s3" "ctl_advisor s4 = ctl_advisor s3"
    using machine_planes [of "ce_env E" now tn5 h as s3] ev by simp_all
  show "ctl_limiter (fst (reconcile_probed E now tn h s)) = ctl_limiter (fst (evaluateSyncState (ce_env E) now tn5 h as s3))"
    "ctl_breaker (fst (reconcile_probed E now tn h s)) = ctl_breaker s3"
    "ctl_advisor (fst (reconcile_probed E now tn h s)) = ctl_advisor s3"
    using s4 s5 st sm
    by (auto simp: reconcile_probed_def assms ev dk Let_def planes_def advisory_planes split: option.splits)
qed

section \<open>Runs\<close>

inductive controller_step ::
  "'w controller_env \<Rightarrow> ('w, 'a) controller_state_scheme \<Rightarrow> ('w, 'a) controller_state_scheme \<Rightarrow> bool" for E where
  reconcile: "controller_step E s (fst (Reconcile E now ns n s))"
| advisory: "task \<in> set (ctl_tasks s) \<Longrightarrow>
    controller_step E s (run_advisory E now task (s\<lparr>ctl_tasks := remove1 task (ctl_tasks s)\<rparr>))"
| cluster: "controller_step E s (s\<lparr>ks_world := w\<rparr>)"
| flush: "controller_step E s (s\<lparr>ctl_writer := Some wr\<rparr>)"

inductive controller_run ::
  "'w controller_env \<Rightarrow> ('w, 'a) controller_state_scheme \<Rightarrow> ('w, 'a) controller_state_scheme \<Rightarrow> bool" for E where
  start: "controller_run E s s"
| step: "controller_run E s t \<Longrightarrow> controller_step E t u \<Longrightarrow> controller_run E s u"

lemma advisory_task_planes:
  "ctl_limiter (run_advisory E now task s) = ctl_limiter s" "ctl_breaker (run_advisory E now task s) = ctl_breaker s"
proof -
  have "planes (sendNotifications tn rep (fst (updateAIAdvisoryStatus env now tn rep t))) = planes t"
    for tn rep env and t :: "('a, 'b) controller_state_scheme"
    by (rule planes_cong) (simp add: status_more)
  then show "ctl_limiter (run_advisory E now task s) = ctl_limiter s" "ctl_breaker (run_advisory E now task s) = ctl_breaker s"
    by (auto simp: run_advisory_def planes_def Let_def case_prod_unfold split: option.split sum.split)
qed

lemma step_breaker:
  assumes "controller_step E s s'" and "ctl_breaker s = Some cb" and "cb_state cb = cbStateClosed"
  shows "\<exists>cb'. ctl_breaker s' = Some cb' \<and> cb_state cb' = cbStateClosed"
  using assms
proof cases
  case (reconcile now ns n)
  from reconcile_probes [of E now s ns n] show ?thesis
    unfolding probes_def
  proof (elim disjE exE conjE)
    fix tn h t
    assume t: "planes t = planes s" and s': "planes (fst (Reconcile E now ns n s)) = planes (fst (reconcile_probed E now tn h t))"
    obtain s3 tn5 as where o: "observed_input E now tn h t = (s3, tn5, as)" by (metis prod_cases3)
    have "ctl_breaker t = Some cb" using t assms(2) by (simp add: planes_def)
    from analytics_breaker [OF this assms(3), of E now tn h] show ?thesis
      using observed_planes [OF o] probed_planes(2) [OF o] s' reconcile by (simp add: planes_def)
  qed (use assms reconcile in \<open>simp add: planes_def\<close>)
qed (use assms in \<open>simp_all add: advisory_task_planes\<close>)

lemma step_limiter:
  assumes "controller_step E s s'"
  shows "\<exists>ops. ctl_limiter s' = fst (gate_run TryAcquire Release ops (ctl_limiter s))"
  using assms
proof cases
  case (reconcile now ns n)
  from reconcile_probes [of E now s ns n] show ?thesis
    unfolding probes_def
  proof (elim disjE exE conjE)
    fix tn h t
    assume t: "planes t = planes s" and s': "planes (fst (Reconcile E now ns n s)) = planes (fst (reconcile_probed E now tn h t))"
    obtain s3 tn5 as where o: "observed_input E now tn h t = (s3, tn5, as)" by (metis prod_cases3)
    have "ctl_limiter s3 = ctl_limiter s" using observed_planes [OF o] t by (simp add: planes_def analytics_limiter)
    then show ?thesis
      using evaluate_limiter_ops [of "ce_env E" now tn5 h as s3] probed_planes(1) [OF o] s' reconcile by (simp add: planes_def)
  qed (use reconcile in \<open>auto simp: planes_def intro: exI [of _ "[]"]\<close>)
qed (auto simp: advisory_task_planes intro: exI [of _ "[]"])

lemma run_limiter:
  assumes "controller_run E s s'"
  shows "\<exists>ops. ctl_limiter s' = fst (gate_run TryAcquire Release ops (ctl_limiter s))"
  using assms
proof induction
  case (start s)
  show ?case by (intro exI [of _ "[]"]) simp
next
  case (step s t u)
  from step.IH obtain xs where "ctl_limiter t = fst (gate_run TryAcquire Release xs (ctl_limiter s))" by blast
  with step_limiter [OF step.hyps(2)] show ?case by (metis gate_run_append)
qed

text \<open>A run of two reconciles of one resource with a change of the cluster by others in between.\<close>

definition between :: "mem_world controller_state" where
  "between = (fst (Reconcile mem_controller 9 ''tao'' ''node'' (fresh_controller (one_node degraded_node))))
     \<lparr>ks_world := one_node degraded_node\<rparr>"

lemma sample_run:
  "controller_run mem_controller (fresh_controller (one_node degraded_node)) (fst (Reconcile mem_controller 12 ''tao'' ''node'' between))"
  unfolding between_def
  by (rule controller_run.step [OF controller_run.step [OF controller_run.step [OF controller_run.start
        controller_step.reconcile] controller_step.cluster] controller_step.reconcile])

text \<open>
  C2. The fleet-wide cap holds for the whole controller. However resources are reconciled, in
  whatever order, interleaved with advisories and with changes of the cluster and the writer, and
  whatever the cluster, the probes and the database answer, the recoveries in flight never exceed
  the cap the limiter was created with.
\<close>

theorem controller_recovery_cap:
  assumes "controller_run E s s'" and "ctl_limiter s = NewRecoveryRateLimiter m d" and "0 \<le> m"
  shows "int (ActiveCount (ctl_limiter s')) \<le> m"
proof -
  obtain ops where "ctl_limiter s' = fst (gate_run TryAcquire Release ops (NewRecoveryRateLimiter m d))"
    using run_limiter [OF assms(1)] assms(2) by metis
  then show ?thesis using limiter_within_cap [OF assms(3)] by simp
qed

theorem controller_recovery_cap_witness:
  "int (ActiveCount (ctl_limiter (fst (Reconcile mem_controller 12 ''tao'' ''node'' between)))) \<le> 5"
  by (rule controller_recovery_cap [OF sample_run, of 5 "2 * minute"]) (simp_all add: fresh_controller_def)

text \<open>
  C37. The circuit of the analytics plane never opens. In every run of the controller from a fresh
  breaker, whether or not the database answers, the breaker stays closed and keeps allowing calls:
  the detector reports an unreachable database as no anomaly, so the reconcile loop never records a
  failure, and its reactive-only mode is never entered.
\<close>

theorem circuit_never_opens:
  assumes run: "controller_run E s s'" and "ctl_breaker s = Some (NewCircuitBreaker f r p)"
  shows "\<exists>cb. ctl_breaker s' = Some cb \<and> \<not> IsOpen cb \<and> Allow now cb = (cb, True)"
proof -
  have "\<exists>cb. ctl_breaker s' = Some cb \<and> cb_state cb = cbStateClosed"
    using run assms(2)
  proof induction
    case (step s t u)
    then show ?case using step_breaker by blast
  qed (simp add: NewCircuitBreaker_def)
  then obtain cb where "ctl_breaker s' = Some cb" "cb_state cb = cbStateClosed" by blast
  then show ?thesis by (intro exI [of _ cb]) (simp add: IsOpen_def Allow_def cb_state_defs)
qed

theorem circuit_never_opens_witness:
  "\<exists>cb. ctl_breaker (fst (Reconcile mem_controller 12 ''tao'' ''node'' between)) = Some cb \<and> \<not> IsOpen cb \<and> Allow 20 cb = (cb, True)"
  by (rule circuit_never_opens [OF sample_run, of 5 "30 * second" 3]) (simp add: fresh_controller_def)

end
