(* ===== verification/Fleet_Analytics.thy ===== *)
theory Fleet_Analytics
  imports Analytics_Types Kube_Client Go_Float_Order
begin

text \<open>
  Fleet-wide analytics: the correlator, \<open>internal/analytics/fleet_correlator.go\<close>, and the cost
  reports, \<open>internal/analytics/finops_calculator.go\<close>. The queries are the database's, a parameter:
  each answers with an error or with rows and an iteration error at the end. Arguments of a query are
  arguments of the parameter. The correlator's columns are values of the database, which the driver's
  scan functions convert to the type of the destination or refuse; those of the cost reports, strings and
  \<open>Float64\<close>, are given as they are scanned, each row with its outcome.
\<close>

section \<open>The database\<close>

record 'r ch_rows =
  rows_scans :: "(kerr + 'r) list"
  rows_err :: "kerr option"

text \<open>A value of a column, with its type in the database.\<close>

datatype ch_value = ChString string | ChUInt64 "64 word" | ChFloat64 gofloat

type_synonym cost_row = "string \<times> string \<times> string \<times> string \<times> gofloat \<times> gofloat \<times> gofloat \<times> gofloat \<times> gofloat"

record fleet_db =
  fdb_activeNodes :: "string \<Rightarrow> kerr + ch_value"
  fdb_anomalies :: "string \<Rightarrow> kerr + (ch_value \<times> ch_value \<times> ch_value) list \<times> kerr option"
  fdb_scanString :: "ch_value \<Rightarrow> kerr + string"
  fdb_scanInt :: "ch_value \<Rightarrow> kerr + int64"
  fdb_scanFloat64 :: "ch_value \<Rightarrow> kerr + gofloat"
  fdb_nodeCost :: "gofloat \<Rightarrow> string \<Rightarrow> string \<Rightarrow> int64 \<Rightarrow> kerr + cost_row"
  fdb_fleetCost :: "gofloat \<Rightarrow> int64 \<Rightarrow> kerr + cost_row ch_rows"

section \<open>The correlator\<close>

record FleetAnomaly =
  fa_Network :: string
  fa_AnomalyType :: string
  fa_AffectedNodes :: int64
  fa_TotalNodes :: int64
  fa_AvgScore :: gofloat
  fa_DetectedAt :: time
  fa_Detail :: string

record FleetCorrelator =
  fc_conn :: fleet_db
  fc_threshold :: gofloat

definition NewFleetCorrelator :: "fleet_db \<Rightarrow> gofloat \<Rightarrow> FleetCorrelator" where
  "NewFleetCorrelator conn threshold = \<lparr>fc_conn = conn, fc_threshold = threshold\<rparr>"

definition countActiveNodes :: "FleetCorrelator \<Rightarrow> string \<Rightarrow> kerr + int64" where
  "countActiveNodes fc network =
     (let wrap = Wrapped (''count active nodes for network '' @ [CHR 0x22] @ network @ [CHR 0x22])
      in case fdb_activeNodes (fc_conn fc) network of
           Inl e \<Rightarrow> Inl (wrap e)
         | Inr v \<Rightarrow> (case fdb_scanInt (fc_conn fc) v of Inl e \<Rightarrow> Inl (wrap e) | Inr n \<Rightarrow> Inr n))"

definition scan_anomaly :: "fleet_db \<Rightarrow> ch_value \<times> ch_value \<times> ch_value \<Rightarrow> kerr + string \<times> int64 \<times> gofloat" where
  "scan_anomaly db = (\<lambda>(a, n, s). case fdb_scanString db a of Inl e \<Rightarrow> Inl e
     | Inr anomalyType \<Rightarrow> (case fdb_scanInt db n of Inl e \<Rightarrow> Inl e
       | Inr affectedNodes \<Rightarrow> (case fdb_scanFloat64 db s of Inl e \<Rightarrow> Inl e
         | Inr avgScore \<Rightarrow> Inr (anomalyType, affectedNodes, avgScore))))"

fun correlate_rows ::
  "time \<Rightarrow> gofloat \<Rightarrow> string \<Rightarrow> int64 \<Rightarrow> (kerr + string \<times> int64 \<times> gofloat) list \<Rightarrow> FleetAnomaly list \<Rightarrow> kerr + FleetAnomaly list" where
  "correlate_rows now threshold network totalNodes [] anomalies = Inr anomalies"
| "correlate_rows now threshold network totalNodes (Inl e # rows) anomalies = Inl (Wrapped ''scan fleet anomaly row'' e)"
| "correlate_rows now threshold network totalNodes (Inr (anomalyType, affectedNodes, avgScore) # rows) anomalies =
     (let fraction = fdiv64 (f64_of_int (sint affectedNodes)) (f64_of_int (sint totalNodes))
      in if flt fraction threshold then correlate_rows now threshold network totalNodes rows anomalies
         else correlate_rows now threshold network totalNodes rows
                (anomalies @ [\<lparr>fa_Network = network, fa_AnomalyType = anomalyType, fa_AffectedNodes = affectedNodes,
                   fa_TotalNodes = totalNodes, fa_AvgScore = avgScore, fa_DetectedAt = now,
                   fa_Detail = fmt_f 0 (fmul64 fraction (Fin 100)) @ ''% of nodes affected (threshold '' @
                     fmt_f 0 (fmul64 threshold (Fin 100)) @ ''%)''\<rparr>]))"

text \<open>The result pairs the anomalies with an error, as the Go function does.\<close>

definition CorrelateFleet :: "time \<Rightarrow> FleetCorrelator \<Rightarrow> string \<Rightarrow> FleetAnomaly list \<times> kerr option" where
  "CorrelateFleet now fc network =
     (case countActiveNodes fc network of
        Inl e \<Rightarrow> ([], Some e)
      | Inr totalNodes \<Rightarrow>
          if totalNodes = 0 then ([], None)
          else case fdb_anomalies (fc_conn fc) network of
                 Inl e \<Rightarrow> ([], Some (Wrapped ''fleet correlation query'' e))
               | Inr (rows, rowsErr) \<Rightarrow>
                   (case correlate_rows now (fc_threshold fc) network totalNodes (map (scan_anomaly (fc_conn fc)) rows) [] of
                      Inl e \<Rightarrow> ([], Some e)
                    | Inr anomalies \<Rightarrow> (anomalies, rowsErr)))"

section \<open>Cost reports\<close>

record NodeCostSummary =
  nc_Namespace :: string
  nc_NodeName :: string
  nc_Network :: string
  nc_Role :: string
  nc_Period :: duration
  nc_TotalCostUSD :: gofloat
  nc_AvgMonthlyCost :: gofloat
  nc_TotalGPUHours :: gofloat
  nc_AvgROIPercent :: gofloat
  nc_AvgTaoPerGPUHr :: gofloat

record FleetCostReport =
  fr_Period :: duration
  fr_Nodes :: "NodeCostSummary list"
  fr_TotalCostUSD :: gofloat
  fr_CostByNetwork :: "string \<rightharpoonup> gofloat"
  fr_CostByRole :: "string \<rightharpoonup> gofloat"
  fr_TopCostlyNodes :: "NodeCostSummary list"
  fr_GeneratedAt :: time

type_synonym FinOpsCalculator = fleet_db

definition NewFinOpsCalculator :: "fleet_db \<Rightarrow> FinOpsCalculator" where "NewFinOpsCalculator conn = conn"

text \<open>\<open>Duration.Hours\<close>, and the conversion of a finite \<open>float64\<close> to \<open>int\<close>, which truncates.\<close>

definition duration_hours :: "duration \<Rightarrow> gofloat" where
  "duration_hours d =
     fadd64 (f64_of_int (sint d sdiv 3600000000000)) (fdiv64 (f64_of_int (sint d smod 3600000000000)) (r64 3600000000000))"

definition int_of_float :: "gofloat \<Rightarrow> int64" where
  "int_of_float v = (case v of Fin x \<Rightarrow> word_of_int (if 0 \<le> x then \<lfloor>x\<rfloor> else \<lceil>x\<rceil>) | _ \<Rightarrow> word_of_int (- (2 ^ 63)))"

definition scan_cost :: "duration \<Rightarrow> cost_row \<Rightarrow> NodeCostSummary" where
  "scan_cost period row =
     (case row of (namespace, nodeName, network, role, avgMonthly, totalCost, gpuHours, roi, taoPerGPU) \<Rightarrow>
        \<lparr>nc_Namespace = namespace, nc_NodeName = nodeName, nc_Network = network, nc_Role = role, nc_Period = period,
         nc_TotalCostUSD = totalCost, nc_AvgMonthlyCost = avgMonthly, nc_TotalGPUHours = gpuHours,
         nc_AvgROIPercent = roi, nc_AvgTaoPerGPUHr = taoPerGPU\<rparr>)"

definition NodeCostSummaryForPeriod ::
  "FinOpsCalculator \<Rightarrow> string \<Rightarrow> string \<Rightarrow> duration \<Rightarrow> kerr + NodeCostSummary" where
  "NodeCostSummaryForPeriod fc namespace nodeName period =
     (let hours = duration_hours period
      in case fdb_nodeCost fc hours namespace nodeName (int_of_float hours) of
           Inl e \<Rightarrow> Inl (Wrapped (''node cost summary for '' @ namespace @ ''/'' @ nodeName) e)
         | Inr row \<Rightarrow> Inr (scan_cost period row))"

text \<open>\<open>m[k] += v\<close>: a missing key counts as zero.\<close>

definition map_add_float :: "(string \<rightharpoonup> gofloat) \<Rightarrow> string \<Rightarrow> gofloat \<Rightarrow> (string \<rightharpoonup> gofloat)" where
  "map_add_float m k v = m(k \<mapsto> fadd64 (case m k of None \<Rightarrow> Fin 0 | Some x \<Rightarrow> x) v)"

fun add_cost_rows :: "duration \<Rightarrow> (kerr + cost_row) list \<Rightarrow> FleetCostReport \<Rightarrow> kerr + FleetCostReport" where
  "add_cost_rows period [] report = Inr report"
| "add_cost_rows period (Inl e # rows) report = Inl (Wrapped ''scan fleet cost row'' e)"
| "add_cost_rows period (Inr row # rows) report =
     (let s = scan_cost period row
      in add_cost_rows period rows
           (report\<lparr>fr_Nodes := fr_Nodes report @ [s],
              fr_TotalCostUSD := fadd64 (fr_TotalCostUSD report) (nc_TotalCostUSD s),
              fr_CostByNetwork := map_add_float (fr_CostByNetwork report) (nc_Network s) (nc_TotalCostUSD s),
              fr_CostByRole := map_add_float (fr_CostByRole report) (nc_Role s) (nc_TotalCostUSD s)\<rparr>))"

definition FleetCostReportForPeriod :: "time \<Rightarrow> FinOpsCalculator \<Rightarrow> duration \<Rightarrow> kerr + FleetCostReport" where
  "FleetCostReportForPeriod now fc period =
     (let hours = duration_hours period
      in case fdb_fleetCost fc hours (int_of_float hours) of
           Inl e \<Rightarrow> Inl (Wrapped ''fleet cost report query'' e)
         | Inr rows \<Rightarrow>
             (case add_cost_rows period (rows_scans rows)
                     \<lparr>fr_Period = period, fr_Nodes = [], fr_TotalCostUSD = Fin 0, fr_CostByNetwork = Map.empty,
                      fr_CostByRole = Map.empty, fr_TopCostlyNodes = [], fr_GeneratedAt = now\<rparr> of
                Inl e \<Rightarrow> Inl e
              | Inr report \<Rightarrow>
                  (case rows_err rows of
                     Some e \<Rightarrow> Inl (Wrapped ''iterate fleet cost rows'' e)
                   | None \<Rightarrow>
                       let top = (if length (fr_Nodes report) < 5 then length (fr_Nodes report) else 5)
                       in Inr (report\<lparr>fr_TopCostlyNodes := take top (fr_Nodes report)\<rparr>))))"

section \<open>What the correlator reports\<close>

definition correlated :: "gofloat \<Rightarrow> int64 \<Rightarrow> int64 \<Rightarrow> bool" where
  "correlated threshold totalNodes affectedNodes \<longleftrightarrow>
     \<not> flt (fdiv64 (f64_of_int (sint affectedNodes)) (f64_of_int (sint totalNodes))) threshold"

lemma correlate_rows_map:
  "\<exists>found. correlate_rows now th net tot (map Inr rs) acc = Inr (acc @ found) \<and>
     map (\<lambda>f. (fa_AnomalyType f, fa_AffectedNodes f, fa_AvgScore f)) found = filter (\<lambda>(ty, a, avg). correlated th tot a) rs \<and>
     list_all (\<lambda>f. fa_Network f = net \<and> fa_TotalNodes f = tot \<and> fa_DetectedAt f = now) found"
proof (induction rs arbitrary: acc)
  case (Cons r rs)
  obtain ty a avg where r: "r = (ty, a, avg)" by (cases r)
  show ?case
  proof (cases "correlated th tot a")
    case True
    let ?f = "\<lparr>fa_Network = net, fa_AnomalyType = ty, fa_AffectedNodes = a, fa_TotalNodes = tot, fa_AvgScore = avg,
       fa_DetectedAt = now, fa_Detail = fmt_f 0 (fmul64 (fdiv64 (f64_of_int (sint a)) (f64_of_int (sint tot))) (Fin 100)) @
         ''% of nodes affected (threshold '' @ fmt_f 0 (fmul64 th (Fin 100)) @ ''%)''\<rparr>"
    from Cons.IH [of "acc @ [?f]"] obtain found where
      "correlate_rows now th net tot (map Inr rs) (acc @ [?f]) = Inr (acc @ [?f] @ found)"
      "map (\<lambda>f. (fa_AnomalyType f, fa_AffectedNodes f, fa_AvgScore f)) found = filter (\<lambda>(ty, a, avg). correlated th tot a) rs"
      "list_all (\<lambda>f. fa_Network f = net \<and> fa_TotalNodes f = tot \<and> fa_DetectedAt f = now) found" by auto
    then show ?thesis using True r by (intro exI [of _ "?f # found"]) (simp add: correlated_def Let_def)
  next
    case False
    then show ?thesis using Cons.IH [of acc] r by (simp add: correlated_def Let_def)
  qed
qed simp

lemma correlated_exact:
  assumes "0 < sint tot" "sint tot < 2 ^ 53" "0 \<le> sint a" "sint a < 2 ^ 53" and "0 \<le> p"
    and "p \<le> of_int (sint a) / of_int (sint tot)"
  shows "correlated (r64 p) tot a"
proof -
  have "f64_of_int (sint a) = Fin (of_int (sint a))" "f64_of_int (sint tot) = Fin (of_int (sint tot))"
    unfolding f64_of_int_def using r64_int [OF assms(3,4)] r64_int [of "sint tot"] assms(1,2) by auto
  moreover have "(of_int (sint tot) :: rat) \<noteq> 0" using assms(1) by (simp del: of_int_sint)
  ultimately show ?thesis using r64_mono [OF assms(5,6)] by (simp add: correlated_def del: of_int_sint)
qed

text \<open>
  Had the rows been scanned, the patterns reported would be those of the rows, in their order, whose share
  of the active nodes is not below the threshold; and rounding never loses one: a pattern on at least the
  fraction \<open>p\<close> of the nodes is reported when the threshold is \<open>p\<close> as a \<open>float64\<close>.
\<close>

lemma correlator_complete:
  assumes active: "countActiveNodes fc net = Inr tot" and tot: "0 < sint tot" "sint tot < 2 ^ 53"
    and rows: "fdb_anomalies (fc_conn fc) net = Inr (vs, err)" "map (scan_anomaly (fc_conn fc)) vs = map Inr rs"
    and th: "fc_threshold fc = r64 p" "0 \<le> p"
  shows "\<exists>found. CorrelateFleet now fc net = (found, err) \<and>
    map (\<lambda>f. (fa_AnomalyType f, fa_AffectedNodes f, fa_AvgScore f)) found = filter (\<lambda>(ty, a, avg). correlated (r64 p) tot a) rs \<and>
    (\<forall>(ty, a, avg) \<in> set rs. 0 \<le> sint a \<and> sint a < 2 ^ 53 \<and> p \<le> of_int (sint a) / of_int (sint tot) \<longrightarrow>
       ty \<in> fa_AnomalyType ` set found)"
proof -
  obtain found where f: "correlate_rows now (r64 p) net tot (map Inr rs) [] = Inr found" and
    m: "map (\<lambda>f. (fa_AnomalyType f, fa_AffectedNodes f, fa_AvgScore f)) found = filter (\<lambda>(ty, a, avg). correlated (r64 p) tot a) rs"
    using correlate_rows_map [of now "r64 p" net tot rs "[]"] by auto
  have "tot \<noteq> 0" using tot(1) by auto
  then have "CorrelateFleet now fc net = (found, err)"
    using active rows f th(1) by (simp add: CorrelateFleet_def)
  moreover have "ty \<in> fa_AnomalyType ` set found" if "(ty, a, avg) \<in> set rs" "correlated (r64 p) tot a" for ty a avg
  proof -
    have "(ty, a, avg) \<in> set (map (\<lambda>f. (fa_AnomalyType f, fa_AffectedNodes f, fa_AvgScore f)) found)"
      unfolding m using that by simp
    then show ?thesis by auto
  qed
  ultimately show ?thesis using m correlated_exact [OF tot _ _ th(2)] by blast
qed

text \<open>
  The correlator never gets there. ClickHouse counts in \<open>UInt64\<close>, and the native driver scans a \<open>UInt64\<close> into
  no \<open>int\<close>, so the first scan of every call fails and the call reports that error and no pattern.
\<close>

definition native_driver :: "fleet_db \<Rightarrow> bool" where
  "native_driver db \<longleftrightarrow> (\<forall>net v. fdb_activeNodes db net = Inr v \<longrightarrow> (\<exists>u. v = ChUInt64 u)) \<and>
     (\<forall>u. \<exists>e. fdb_scanInt db (ChUInt64 u) = Inl e)"

lemma correlator_fails:
  assumes "native_driver (fc_conn fc)"
  shows "\<exists>e. CorrelateFleet now fc net = ([], Some e)"
proof (cases "fdb_activeNodes (fc_conn fc) net")
  case (Inl e)
  then show ?thesis by (simp add: CorrelateFleet_def countActiveNodes_def Let_def)
next
  case (Inr v)
  then obtain u e where "v = ChUInt64 u" "fdb_scanInt (fc_conn fc) (ChUInt64 u) = Inl e"
    using assms unfolding native_driver_def by blast
  then show ?thesis using Inr by (simp add: CorrelateFleet_def countActiveNodes_def Let_def)
qed

section \<open>Every row counts once\<close>

definition sample_fleet :: fleet_db where
  "sample_fleet = \<lparr>fdb_activeNodes = (\<lambda>_. Inr (ChUInt64 10)),
     fdb_anomalies = (\<lambda>_. Inr ([(ChString ''sync-drift'', ChUInt64 3, ChFloat64 (Fin 1))], None)),
     fdb_scanString = (\<lambda>v. case v of ChString s \<Rightarrow> Inr s | _ \<Rightarrow> Inl (OtherErr ''converting to *string is unsupported'')),
     fdb_scanInt = (\<lambda>_. Inl (OtherErr ''converting to *int is unsupported'')),
     fdb_scanFloat64 = (\<lambda>v. case v of ChFloat64 x \<Rightarrow> Inr x | _ \<Rightarrow> Inl (OtherErr ''converting to *float64 is unsupported'')),
     fdb_nodeCost = (\<lambda>_ _ _ _. Inl (OtherErr ''no rows'')),
     fdb_fleetCost = (\<lambda>_ _. Inr \<lparr>rows_scans = map Inr
       [(''tao'', ''a'', ''mainnet'', ''miner'', Fin 9, Fin 4, Fin 0, Fin 0, Fin 0),
        (''tao'', ''b'', ''mainnet'', ''validator'', Fin 9, Fin 3, Fin 0, Fin 0, Fin 0)], rows_err = None\<rparr>)\<rparr>"

lemma sample_fleet_native: "native_driver sample_fleet"
  by (simp add: native_driver_def sample_fleet_def)

definition cost_sum :: "NodeCostSummary list \<Rightarrow> gofloat" where
  "cost_sum nodes = foldl fadd64 (Fin 0) (map nc_TotalCostUSD nodes)"

definition grouped :: "(NodeCostSummary \<Rightarrow> string) \<Rightarrow> NodeCostSummary list \<Rightarrow> (string \<rightharpoonup> gofloat)" where
  "grouped key nodes k = (if k \<in> key ` set nodes then Some (cost_sum (filter (\<lambda>n. key n = k) nodes)) else None)"

lemma cost_sum_snoc: "cost_sum (nodes @ [s]) = fadd64 (cost_sum nodes) (nc_TotalCostUSD s)"
  by (simp add: cost_sum_def)

lemma grouped_snoc: "map_add_float (grouped key nodes) (key s) (nc_TotalCostUSD s) = grouped key (nodes @ [s])"
proof
  fix k
  have "cost_sum (filter (\<lambda>n. key n = key s) nodes) = Fin 0" if "key s \<notin> key ` set nodes"
  proof -
    have "filter (\<lambda>n. key n = key s) nodes = []" using that by (auto simp: filter_empty_conv image_iff)
    then show ?thesis by (simp add: cost_sum_def)
  qed
  then show "map_add_float (grouped key nodes) (key s) (nc_TotalCostUSD s) k = grouped key (nodes @ [s]) k"
    by (auto simp: map_add_float_def grouped_def cost_sum_snoc)
qed

definition tallied :: "FleetCostReport \<Rightarrow> bool" where
  "tallied r \<longleftrightarrow> fr_TotalCostUSD r = cost_sum (fr_Nodes r) \<and> fr_CostByNetwork r = grouped nc_Network (fr_Nodes r) \<and>
     fr_CostByRole r = grouped nc_Role (fr_Nodes r)"

lemma add_cost_rows_tallied:
  "tallied r \<Longrightarrow> add_cost_rows period rows r = Inr r' \<Longrightarrow>
   tallied r' \<and> map Inr (fr_Nodes r') = map Inr (fr_Nodes r) @ map (map_sum id (scan_cost period)) rows"
proof (induction period rows r rule: add_cost_rows.induct)
  case (3 period row rows report)
  have "tallied (report\<lparr>fr_Nodes := fr_Nodes report @ [scan_cost period row],
      fr_TotalCostUSD := fadd64 (fr_TotalCostUSD report) (nc_TotalCostUSD (scan_cost period row)),
      fr_CostByNetwork := map_add_float (fr_CostByNetwork report) (nc_Network (scan_cost period row)) (nc_TotalCostUSD (scan_cost period row)),
      fr_CostByRole := map_add_float (fr_CostByRole report) (nc_Role (scan_cost period row)) (nc_TotalCostUSD (scan_cost period row))\<rparr>)"
    using "3.prems"(1) by (simp add: tallied_def cost_sum_snoc grouped_snoc)
  from "3.IH" [OF refl this] "3.prems"(2) show ?case by (simp add: Let_def)
qed simp_all

lemma add_cost_rows_ok: "(\<exists>r'. add_cost_rows period rows r = Inr r') \<longleftrightarrow> list_all (\<lambda>x. \<not> isl x) rows"
  by (induction period rows r rule: add_cost_rows.induct) (auto simp: Let_def)



end
