(* ===== verification/Go_Calendar.thy ===== *)
theory Go_Calendar
  imports Go_Time Go_Json_Any
begin

text \<open>
  Timestamps in JSON: how \<open>time.Time\<close> is written (RFC 3339 with the fraction of a second) and the
  strict check its decoder makes, and that what is written passes the check. The calendar of
  \<open>Go_Time\<close> gives days that exist.
\<close>

section \<open>Writing and checking a timestamp\<close>

text \<open>\<open>Time.MarshalJSON\<close> in UTC: RFC 3339 with the fraction of a second, for years of four digits.\<close>

definition fmt_rfc3339_nano :: "time \<Rightarrow> string" where
  "fmt_rfc3339_nano t =
     (let c = civil_of t; frac = trim_zeros (pad_left 9 (t mod 1000000000))
      in fmt_date t @ ''T'' @ pad_left 2 (civ_hour c) @ '':'' @ pad_left 2 (civ_min c) @ '':'' @ pad_left 2 (civ_sec c) @
         (if frac = '''' then '''' else ''.'' @ frac) @ ''Z'')"

text \<open>The strict reading of RFC 3339 that \<open>Time.UnmarshalJSON\<close> asks for.\<close>

definition digits_between :: "string \<Rightarrow> int \<Rightarrow> int \<Rightarrow> bool" where
  "digits_between s lo hi \<longleftrightarrow> s \<noteq> [] \<and> list_all is_digit s \<and> lo \<le> read_digits s 0 \<and> read_digits s 0 \<le> hi"

definition days_in :: "int \<Rightarrow> int \<Rightarrow> int" where
  "days_in m y =
     (if m = 2 then (if 4 dvd y \<and> (\<not> 100 dvd y \<or> 400 dvd y) then 29 else 28)
      else if m \<in> {4, 6, 9, 11} then 30 else 31)"

definition zone_ok :: "string \<Rightarrow> bool" where
  "zone_ok z \<longleftrightarrow> z = ''Z'' \<or>
     length z = 6 \<and> hd z \<in> {CHR ''+'', CHR ''-''} \<and> z ! 3 = CHR '':'' \<and> digits_between (take 2 (drop 1 z)) 0 23 \<and>
     digits_between (take 2 (drop 4 z)) 0 59"

definition is_rfc3339 :: "string \<Rightarrow> bool" where
  "is_rfc3339 s \<longleftrightarrow> 19 \<le> length s \<and>
     s ! 4 = CHR ''-'' \<and> s ! 7 = CHR ''-'' \<and> s ! 10 = CHR ''T'' \<and> s ! 13 = CHR '':'' \<and> s ! 16 = CHR '':'' \<and>
     digits_between (take 4 s) 0 9999 \<and> digits_between (take 2 (drop 5 s)) 1 12 \<and>
     digits_between (take 2 (drop 8 s)) 1 (days_in (read_digits (take 2 (drop 5 s)) 0) (read_digits (take 4 s) 0)) \<and>
     digits_between (take 2 (drop 11 s)) 0 23 \<and> digits_between (take 2 (drop 14 s)) 0 59 \<and>
     digits_between (take 2 (drop 17 s)) 0 59 \<and>
     (let r = drop 19 s; frac = takeWhile is_digit (drop 1 r)
      in if has_prefix r ''.'' \<and> frac \<noteq> [] then zone_ok (drop (Suc (length frac)) r) else zone_ok r)"

section \<open>The calendar gives real days\<close>

text \<open>The century, the four-year cycle, the day in the cycle and the year in the cycle of a day of an era.\<close>

lemma era_split:
  fixes doe :: int
  assumes "0 \<le> doe" and "doe < 146097"
  obtains c q s t where "doe = 36524 * c + 1461 * q + s" and "0 \<le> c" and "c \<le> 3" and "0 \<le> q" and "q \<le> 24"
    and "0 \<le> s" and "s \<le> 1460" and "q = 24 \<and> s = 1460 \<longrightarrow> c = 3" and "0 \<le> t" and "t \<le> 3"
    and "365 * t \<le> s" and "s < 365 * t + 365 \<or> s = 1460 \<and> t = 3"
proof -
  define c where "c = min 3 (doe div 36524)"
  define r where "r = doe - 36524 * c"
  define q where "q = r div 1461"
  define s where "s = r mod 1461"
  define t where "t = min 3 (s div 365)"
  have c: "0 \<le> c" "c \<le> 3" using assms by (auto simp: c_def)
  have r: "0 \<le> r" "r < 36524 \<or> c = 3 \<and> r = 36524" using assms by (auto simp: r_def c_def min_def)
  have rqs: "r = 1461 * q + s" by (simp add: q_def s_def)
  have s: "0 \<le> s" "s \<le> 1460" using pos_mod_bound [of 1461 r] by (auto simp: s_def)
  have q: "0 \<le> q" "q \<le> 24" using r rqs s by auto
  have "q = 24 \<and> s = 1460 \<longrightarrow> c = 3" using r rqs by auto
  moreover have "0 \<le> t" "t \<le> 3" "365 * t \<le> s" "s < 365 * t + 365 \<or> s = 1460 \<and> t = 3"
    using s by (auto simp: t_def min_def)
  moreover have "doe = 36524 * c + 1461 * q + s" using rqs by (simp add: r_def)
  ultimately show ?thesis using that c q s by blast
qed

lemma era_year:
  fixes doe c q s t :: int
  assumes "doe = 36524 * c + 1461 * q + s" and "0 \<le> c" and "c \<le> 3" and "0 \<le> q" and "q \<le> 24"
    and "0 \<le> s" and "s \<le> 1460" and "q = 24 \<and> s = 1460 \<longrightarrow> c = 3" and "0 \<le> t" and "t \<le> 3"
    and "365 * t \<le> s" and "s < 365 * t + 365 \<or> s = 1460 \<and> t = 3"
  shows "(doe - doe div 1460 + doe div 36524 - doe div 146096) div 365 = 100 * c + 4 * q + t"
proof -
  define e :: int where "e = (if 1460 \<le> 24 * c + q + s then 1 else 0)"
  define k :: int where "k = (if q = 24 \<and> s = 1460 then 1 else 0)"
  have "doe = 1460 * (25 * c + q + e) + (24 * c + q + s - 1460 * e)" using assms(1) by simp
  moreover have "0 \<le> 24 * c + q + s - 1460 * e" "24 * c + q + s - 1460 * e < 1460" using assms by (auto simp: e_def)
  ultimately have p: "doe div 1460 = 25 * c + q + e" by (simp add: int_div_pos_eq)
  have "doe = 36524 * (c + k) + (1461 * q + s - 36524 * k)" using assms(1) by simp
  moreover have "0 \<le> 1461 * q + s - 36524 * k" "1461 * q + s - 36524 * k < 36524" using assms by (auto simp: k_def)
  ultimately have d1: "doe div 36524 = c + k" by (simp add: int_div_pos_eq)
  have "doe = 146096 * k + (doe - 146096 * k)" "0 \<le> doe - 146096 * k" "doe - 146096 * k < 146096"
    using assms by (auto simp: k_def)
  then have d2: "doe div 146096 = k" by (simp add: int_div_pos_eq)
  have "doe - doe div 1460 + doe div 36524 - doe div 146096 = 365 * (100 * c + 4 * q + t) + (s - e - 365 * t)"
    using assms(1) p d1 d2 by simp
  moreover have "0 \<le> s - e - 365 * t" "s - e - 365 * t < 365" using assms by (auto simp: e_def)
  ultimately show ?thesis by (simp add: int_div_pos_eq)
qed

lemma month_day:
  fixes doy :: int
  assumes "0 \<le> doy" and "doy \<le> 365"
  defines "mp \<equiv> (5 * doy + 2) div 153"
  defines "d \<equiv> doy - (153 * mp + 2) div 5 + 1"
  shows "0 \<le> mp" and "mp \<le> 11" and "1 \<le> d" and "mp = 11 \<Longrightarrow> d \<le> (if doy = 365 then 29 else 28)"
    and "mp \<noteq> 11 \<Longrightarrow> d \<le> (if mp \<in> {1, 3, 6, 8} then 30 else 31)"
proof -
  show mp: "0 \<le> mp" "mp \<le> 11" using assms(1,2) by (auto simp: mp_def)
  have b: "153 * mp \<le> 5 * doy + 2" "5 * doy + 2 < 153 * mp + 153" by (auto simp: mp_def)
  have "mp \<in> {0, 1, 2, 3, 4, 5, 6, 7, 8, 9, 10, 11}" using mp by simp presburger
  then show "1 \<le> d" "mp = 11 \<Longrightarrow> d \<le> (if doy = 365 then 29 else 28)"
    "mp \<noteq> 11 \<Longrightarrow> d \<le> (if mp \<in> {1, 3, 6, 8} then 30 else 31)"
    using b assms(2) by (auto simp: d_def)
qed

lemma civil_date_valid:
  assumes "civil_date days = (y, m, d)"
  shows "1 \<le> m" and "m \<le> 12" and "1 \<le> d" and "d \<le> days_in m y"
proof -
  define doe where "doe = (days + 719468) mod 146097"
  define era where "era = (days + 719468) div 146097"
  define yoe where "yoe = (doe - doe div 1460 + doe div 36524 - doe div 146096) div 365"
  define doy where "doy = doe - (365 * yoe + yoe div 4 - yoe div 100)"
  define mp where "mp = (5 * doy + 2) div 153"
  have "0 \<le> doe" "doe < 146097" by (simp_all add: doe_def)
  then obtain c q s t where split: "doe = 36524 * c + 1461 * q + s" "0 \<le> c" "c \<le> 3" "0 \<le> q" "q \<le> 24"
    "0 \<le> s" "s \<le> 1460" "q = 24 \<and> s = 1460 \<longrightarrow> c = 3" "0 \<le> t" "t \<le> 3" "365 * t \<le> s" "s < 365 * t + 365 \<or> s = 1460 \<and> t = 3"
    by (rule era_split)
  have yoe: "yoe = 100 * c + 4 * q + t" unfolding yoe_def by (rule era_year) (use split in auto)
  then have "yoe div 4 = 25 * c + q" "yoe div 100 = c" using split by (auto simp: int_div_pos_eq)
  then have doy: "doy = s - 365 * t" using split(1) yoe by (simp add: doy_def)
  then have range: "0 \<le> doy" "doy \<le> 365" using split by auto
  have leap: "4 dvd (yoe + 1) \<and> (\<not> 100 dvd (yoe + 1) \<or> 400 dvd (yoe + 1))" if "doy = 365"
  proof -
    have "s = 1460" "t = 3" using that split doy by auto
    then have eq: "yoe + 1 = 4 * (25 * c + (q + 1))" using yoe by simp
    have "\<not> 100 dvd yoe + 1" if "q < 24" using eq that split(4) by presburger
    moreover have "yoe + 1 = 400" if "\<not> q < 24" using that split yoe \<open>s = 1460\<close> \<open>t = 3\<close> by auto
    moreover have "4 dvd yoe + 1" unfolding eq by simp
    ultimately show ?thesis by (cases "q < 24") auto
  qed
  have "civil_date days = (let m = (if mp < 10 then mp + 3 else mp - 9)
      in (yoe + era * 400 + (if m \<le> 2 then 1 else 0), m, doy - (153 * mp + 2) div 5 + 1))"
    unfolding civil_date_def Let_def doe_def era_def yoe_def doy_def mp_def ..
  then have eqs: "m = (if mp < 10 then mp + 3 else mp - 9)" "d = doy - (153 * mp + 2) div 5 + 1"
    "y = yoe + era * 400 + (if m \<le> 2 then 1 else 0)"
    unfolding assms Let_def by simp_all
  note md = month_day [OF range, folded mp_def, folded eqs(2)]
  show "1 \<le> m" "m \<le> 12" "1 \<le> d" using md(1,2,3) eqs(1) by auto
  show "d \<le> days_in m y"
  proof (cases "mp = 11")
    case True
    then have "m = 2" "y = yoe + 1 + 400 * era" using eqs by auto
    moreover have "(n :: int) dvd yoe + 1 + 400 * era \<longleftrightarrow> n dvd yoe + 1" if "n dvd 400" for n
      using that by (simp add: dvd_add_left_iff)
    ultimately show ?thesis using md(4) [OF True] leap by (cases "doy = 365") (simp_all add: days_in_def)
  next
    case False
    then have "mp \<in> {0, 1, 2, 3, 4, 5, 6, 7, 8, 9, 10}" using md(1,2) by simp presburger
    then show ?thesis using md(5) [OF False] eqs(1) by (auto simp: days_in_def split: if_splits)
  qed
qed

lemma civil_of_valid:
  shows "1 \<le> civ_month (civil_of t)" and "civ_month (civil_of t) \<le> 12" and "1 \<le> civ_day (civil_of t)"
    and "civ_day (civil_of t) \<le> days_in (civ_month (civil_of t)) (civ_year (civil_of t))"
    and "0 \<le> civ_hour (civil_of t)" and "civ_hour (civil_of t) \<le> 23" and "0 \<le> civ_min (civil_of t)"
    and "civ_min (civil_of t) \<le> 59" and "0 \<le> civ_sec (civil_of t)" and "civ_sec (civil_of t) \<le> 59"
  by (auto simp: civil_of_def Let_def split: prod.split dest: civil_date_valid)

lemma days_in_bound: "days_in m y \<le> 31"
  by (simp add: days_in_def)

section \<open>A written timestamp passes the check\<close>

lemma read_zeros: "read_digits (replicate n (CHR ''0'') @ s) 0 = read_digits s 0"
  by (induction n) auto

lemma pad_left_digits:
  assumes "0 \<le> i" and "i < 10 ^ n" and "0 < n"
  shows "length (pad_left n i) = n" and "list_all is_digit (pad_left n i)" and "read_digits (pad_left n i) 0 = i"
proof -
  have "length (fmt_pos i) \<le> n"
    using assms fmt_pos_length [of i n] by (cases "i = 0") (auto simp: fmt_pos.simps [of 0])
  then show "length (pad_left n i) = n" using assms by (simp add: pad_left_def fmt_int_def Let_def)
  have "is_digit (CHR ''0'')" by (simp add: is_digit_def byte_def)
  then show "list_all is_digit (pad_left n i)"
    using assms digits_all [of i] by (auto simp: pad_left_def fmt_int_def Let_def list_all_iff)
  show "read_digits (pad_left n i) 0 = i" using assms by (simp add: pad_left_def fmt_int_def Let_def read_zeros read_fmt_pos)
qed

lemma digits_between_pad:
  "0 \<le> i \<Longrightarrow> i < 10 ^ n \<Longrightarrow> 0 < n \<Longrightarrow> lo \<le> i \<Longrightarrow> i \<le> hi \<Longrightarrow> digits_between (pad_left n i) lo hi"
  using pad_left_digits [of i n] by (auto simp: digits_between_def)

lemma trim_zeros_digits: "list_all is_digit s \<Longrightarrow> list_all is_digit (trim_zeros s)"
  unfolding trim_zeros_def by (auto simp: list_all_iff dest: set_dropWhileD)

lemma rfc3339_fields:
  assumes "length y = 4" and "length mo = 2" and "length d = 2" and "length h = 2" and "length mi = 2" and "length sec = 2"
    and "digits_between y 0 9999" and "digits_between mo 1 12"
    and "digits_between d 1 (days_in (read_digits mo 0) (read_digits y 0))"
    and "digits_between h 0 23" and "digits_between mi 0 59" and "digits_between sec 0 59"
    and "list_all is_digit fr"
  shows "is_rfc3339 (y @ ''-'' @ mo @ ''-'' @ d @ ''T'' @ h @ '':'' @ mi @ '':'' @ sec @ (if fr = [] then [] else ''.'' @ fr) @ ''Z'')"
proof -
  have "\<not> is_digit (CHR ''Z'')" by (simp add: is_digit_def byte_def)
  then have "takeWhile is_digit (fr @ ''Z'') = fr" using assms(13) by (simp add: takeWhile_append list_all_iff)
  moreover obtain y1 y2 y3 y4 where "y = [y1, y2, y3, y4]" using assms(1) by (auto simp: length_Suc_conv numeral_eq_Suc)
  moreover obtain m1 m2 where "mo = [m1, m2]" using assms(2) by (auto simp: length_Suc_conv numeral_eq_Suc)
  moreover obtain d1 d2 where "d = [d1, d2]" using assms(3) by (auto simp: length_Suc_conv numeral_eq_Suc)
  moreover obtain h1 h2 where "h = [h1, h2]" using assms(4) by (auto simp: length_Suc_conv numeral_eq_Suc)
  moreover obtain i1 i2 where "mi = [i1, i2]" using assms(5) by (auto simp: length_Suc_conv numeral_eq_Suc)
  moreover obtain s1 s2 where "sec = [s1, s2]" using assms(6) by (auto simp: length_Suc_conv numeral_eq_Suc)
  ultimately show ?thesis using assms(7-12) by (simp add: is_rfc3339_def zone_ok_def has_prefix_def Let_def)
qed

lemma rfc3339_nano_valid:
  assumes "0 \<le> civ_year (civil_of t)" and "civ_year (civil_of t) \<le> 9999"
  shows "is_rfc3339 (fmt_rfc3339_nano t)"
proof -
  note v = civil_of_valid [of t]
  have day: "civ_day (civil_of t) \<le> 31" using v(4) days_in_bound order_trans by blast
  have len: "0 \<le> i \<Longrightarrow> i \<le> 59 \<Longrightarrow> length (pad_left 2 i) = 2 \<and> read_digits (pad_left 2 i) 0 = i" for i
    using pad_left_digits [of i 2] by simp
  have year: "length (pad_left 4 (civ_year (civil_of t))) = 4"
    "read_digits (pad_left 4 (civ_year (civil_of t))) 0 = civ_year (civil_of t)"
    using pad_left_digits [of "civ_year (civil_of t)" 4] assms by simp_all
  have "list_all is_digit (trim_zeros (pad_left 9 (t mod 1000000000)))"
    using pad_left_digits(2) [of "t mod 1000000000" 9] by (simp add: trim_zeros_digits)
  then show ?thesis
    unfolding fmt_rfc3339_nano_def fmt_date_def Let_def append_assoc
    by (intro rfc3339_fields) (use v day len year assms in \<open>auto intro!: digits_between_pad\<close>)
qed

end
