(* ===== verification/Dr_Runner.thy ===== *)
theory Dr_Runner
  imports Node_Json Kube_Client Go_Calendar
begin

text \<open>
  The periodic backup of the resources, \<open>internal/controller/dr_runner.go\<close>. The object store and
  \<open>compress/gzip\<close> are parameters: the store acts on the world, and compressing into a buffer cannot
  fail. One backup reads the clock once. The loop of \<open>Start\<close> is driven by the events its \<open>select\<close>
  receives: a tick, or the cancellation of its context.
\<close>

section \<open>The runner\<close>

record DRMetrics =
  drm_BackupSuccess :: nat
  drm_BackupFailures :: nat
  drm_LastBackupTime :: "time option"

record 'w DRRunner =
  drr_list :: "'w \<Rightarrow> 'w \<times> (kerr + TaoNode list)"
  drr_Upload :: "'w \<Rightarrow> string \<Rightarrow> string \<Rightarrow> 'w \<times> kerr option"
  drr_gzip :: "string \<Rightarrow> string"
  drr_json :: api_json
  drr_ClusterID :: string
  drr_Interval :: duration

record 'w dr_state =
  drs_world :: 'w
  drs_metrics :: DRMetrics

definition NewDRMetrics :: DRMetrics where
  "NewDRMetrics = \<lparr>drm_BackupSuccess = 0, drm_BackupFailures = 0, drm_LastBackupTime = None\<rparr>"

section \<open>The payload\<close>

record DRBackup =
  drb_Timestamp :: time
  drb_ClusterID :: string
  drb_SchemaVersion :: string
  drb_Nodes :: "TaoNode list"

text \<open>Only years of four digits can be marshalled.\<close>

definition time_json :: "time \<Rightarrow> json option" where
  "time_json t = (let y = civ_year (civil_of t) in if 0 \<le> y \<and> y \<le> 9999 then Some (JStr (fmt_rfc3339_nano t)) else None)"

definition time_json_error :: kerr where
  "time_json_error = OtherErr ''json: error calling MarshalJSON for type time.Time: Time.MarshalJSON: year outside of range [0,9999]''"

definition DRBackup_json :: "api_json \<Rightarrow> DRBackup \<Rightarrow> json option" where
  "DRBackup_json J b =
     map_option (\<lambda>t. JObj [(''timestamp'', t), (''clusterID'', JStr (drb_ClusterID b)),
        (''schemaVersion'', JStr (drb_SchemaVersion b)), (''nodes'', JArr (map (TaoNode_json J) (drb_Nodes b)))])
       (time_json (drb_Timestamp b))"

text \<open>The fields the server manages are cleared.\<close>

definition strip_node :: "TaoNode \<Rightarrow> TaoNode" where
  "strip_node node = node\<lparr>tn_meta := (tn_meta node)\<lparr>om_resourceVersion := '''', om_uid := '''', om_managedFields := [],
     om_finalizers := [], om_deletionTimestamp := None\<rparr>\<rparr>"

text \<open>The layout \<open>2006-01-02T15-04-05\<close>.\<close>

definition fmt_key_time :: "time \<Rightarrow> string" where
  "fmt_key_time t = (let c = civil_of t in
     fmt_date t @ ''T'' @ pad_left 2 (civ_hour c) @ ''-'' @ pad_left 2 (civ_min c) @ ''-'' @ pad_left 2 (civ_sec c))"

definition backup_key :: "string \<Rightarrow> time \<Rightarrow> string" where
  "backup_key clusterID now = ''dr-backups/'' @ clusterID @ ''/'' @ fmt_key_time now @ ''.json.gz''"

section \<open>One backup\<close>

definition make_backup :: "'w DRRunner \<Rightarrow> time \<Rightarrow> TaoNode list \<Rightarrow> DRBackup" where
  "make_backup dr now nodes = \<lparr>drb_Timestamp = now, drb_ClusterID = drr_ClusterID dr, drb_SchemaVersion = ''v1alpha1'',
     drb_Nodes = map strip_node nodes\<rparr>"

definition runBackup :: "'w DRRunner \<Rightarrow> time \<Rightarrow> 'w dr_state \<Rightarrow> 'w dr_state \<times> kerr option" where
  "runBackup dr now s =
     (case drr_list dr (drs_world s) of
        (w1, Inl e) \<Rightarrow> (s\<lparr>drs_world := w1\<rparr>, Some (Wrapped ''list TaoNodes'' e))
      | (w1, Inr nodes) \<Rightarrow>
          (case DRBackup_json (drr_json dr) (make_backup dr now nodes) of
             None \<Rightarrow> (s\<lparr>drs_world := w1\<rparr>, Some (Wrapped ''marshal DR backup'' time_json_error))
           | Some data \<Rightarrow>
               let key = backup_key (drr_ClusterID dr) now
               in (case drr_Upload dr w1 key (drr_gzip dr (Marshal data)) of
                     (w2, Some e) \<Rightarrow> (s\<lparr>drs_world := w2\<rparr>, Some (Wrapped (''upload DR backup to '' @ key) e))
                   | (w2, None) \<Rightarrow>
                       (s\<lparr>drs_world := w2, drs_metrics := (drs_metrics s)
                            \<lparr>drm_BackupSuccess := drm_BackupSuccess (drs_metrics s) + 1, drm_LastBackupTime := Some now\<rparr>\<rparr>, None))))"

section \<open>The loop\<close>

datatype dr_event = Tick time | Cancelled

definition backup_cycle :: "'w DRRunner \<Rightarrow> time \<Rightarrow> 'w dr_state \<Rightarrow> 'w dr_state" where
  "backup_cycle dr now s =
     (case runBackup dr now s of
        (s1, Some e) \<Rightarrow> s1\<lparr>drs_metrics := (drs_metrics s1)\<lparr>drm_BackupFailures := drm_BackupFailures (drs_metrics s1) + 1\<rparr>\<rparr>
      | (s1, None) \<Rightarrow> s1)"

text \<open>The flag of the result tells whether \<open>Start\<close> has returned.\<close>

fun dr_loop :: "'w DRRunner \<Rightarrow> dr_event list \<Rightarrow> 'w dr_state \<Rightarrow> 'w dr_state \<times> bool" where
  "dr_loop dr [] s = (s, False)"
| "dr_loop dr (Tick now # evs) s = dr_loop dr evs (backup_cycle dr now s)"
| "dr_loop dr (Cancelled # evs) s = (s, True)"

definition dr_Start :: "'w DRRunner \<Rightarrow> time \<Rightarrow> dr_event list \<Rightarrow> 'w dr_state \<Rightarrow> 'w dr_state \<times> bool" where
  "dr_Start dr now evs s = dr_loop dr evs (backup_cycle dr now s)"

definition dr_NeedLeaderElection :: "'w DRRunner \<Rightarrow> bool" where "dr_NeedLeaderElection dr = True"

section \<open>Every cycle is counted\<close>

fun ticks :: "dr_event list \<Rightarrow> nat" where
  "ticks [] = 0"
| "ticks (Tick now # evs) = Suc (ticks evs)"
| "ticks (Cancelled # evs) = 0"

definition cycles :: "'w dr_state \<Rightarrow> nat" where
  "cycles s = drm_BackupSuccess (drs_metrics s) + drm_BackupFailures (drs_metrics s)"

lemma cycle_counted: "cycles (backup_cycle dr now s) = Suc (cycles s)"
  by (auto simp: cycles_def backup_cycle_def runBackup_def Let_def split: prod.splits sum.splits option.splits)

lemma loop_counted: "cycles (fst (dr_loop dr evs s)) = cycles s + ticks evs"
  by (induction dr evs s rule: dr_loop.induct) (simp_all add: cycle_counted)

lemma loop_returns: "snd (dr_loop dr evs s) \<longleftrightarrow> Cancelled \<in> set evs"
  by (induction dr evs s rule: dr_loop.induct) simp_all

text \<open>
  C31. The backup loop counts every cycle once and stops only when it is told to. Whatever listing,
  encoding and uploading answer, one backup is attempted at the start and one per tick until the
  cancellation, each counted either as a success or as a failure, and \<open>Start\<close> returns exactly when
  its context is cancelled: a failed backup never ends the loop.
\<close>

theorem dr_cycles_counted:
  "cycles (fst (dr_Start dr now evs s)) = cycles s + Suc (ticks evs) \<and> (snd (dr_Start dr now evs s) \<longleftrightarrow> Cancelled \<in> set evs)"
  by (simp add: dr_Start_def loop_counted loop_returns cycle_counted)

end
