(* ===== verification/Tao_Dr.thy ===== *)
theory Tao_Dr
  imports Dr_Runner
begin

text \<open>
  The disaster-recovery command line, \<open>tools/tao-dr\<close>: its \<open>backup\<close> command (\<open>cmd/tao-dr/main.go\<close>) and
  its \<open>restore\<close> command (\<open>internal/restore/restore.go\<close>). Objects are generic JSON values. The
  Kubernetes client, its configuration, the accessors of \<open>unstructured.Unstructured\<close>, the polling
  helper, S3 and \<open>compress/gzip\<close> are parameters, collected in \<open>dr_tools\<close>; calls act on the world. What
  a command prints is the list of its lines, the cells of a table separated by tabs as they are
  passed to \<open>text/tabwriter\<close>.
\<close>

section \<open>Services\<close>

type_synonym rest_config = string

record unstructured_ops =
  u_getName :: "json \<Rightarrow> string"
  u_getNamespace :: "json \<Rightarrow> string"
  u_setNamespace :: "string \<Rightarrow> json \<Rightarrow> json"
  u_getAPIVersion :: "json \<Rightarrow> string"
  u_setAPIVersion :: "string \<Rightarrow> json \<Rightarrow> json"
  u_getKind :: "json \<Rightarrow> string"
  u_setKind :: "string \<Rightarrow> json \<Rightarrow> json"
  u_setResourceVersion :: "string \<Rightarrow> json \<Rightarrow> json"
  u_setUID :: "string \<Rightarrow> json \<Rightarrow> json"
  u_clearManagedFields :: "json \<Rightarrow> json"
  u_clearFinalizers :: "json \<Rightarrow> json"
  u_clearDeletionTimestamp :: "json \<Rightarrow> json"
  u_setGeneration :: "int64 \<Rightarrow> json \<Rightarrow> json"
  u_nestedString :: "json \<Rightarrow> string list \<Rightarrow> string"
  u_conditions :: "json \<Rightarrow> json list"

record apply_patch =
  ap_group :: string
  ap_version :: string
  ap_resource :: string
  ap_namespace :: string
  ap_name :: string
  ap_data :: string
  ap_fieldManager :: string
  ap_force :: bool

record put_object =
  po_bucket :: string
  po_key :: string
  po_body :: string
  po_contentType :: string
  po_contentEncoding :: string
  po_encryption :: string

text \<open>
  Reading an object gives its body, which may fail on the way; so may the decompression of one whose
  header is readable.
\<close>

record 'w dr_tools =
  t_buildConfig :: "string \<Rightarrow> kerr + rest_config"
  t_inCluster :: "kerr + rest_config"
  t_homeFile :: string
  t_dynamic :: "rest_config \<Rightarrow> kerr option"
  t_list :: "rest_config \<Rightarrow> 'w \<Rightarrow> string \<Rightarrow> 'w \<times> (kerr + json list)"
  t_getCRD :: "rest_config \<Rightarrow> 'w \<Rightarrow> string \<Rightarrow> 'w \<times> (kerr + json)"
  t_patch :: "rest_config \<Rightarrow> 'w \<Rightarrow> apply_patch \<Rightarrow> 'w \<times> kerr option"
  t_poll :: "('w \<Rightarrow> 'w \<times> bool) \<Rightarrow> 'w \<Rightarrow> 'w \<times> kerr option"
  t_awsConfig :: "string \<Rightarrow> kerr option"
  t_getObject :: "'w \<Rightarrow> string \<Rightarrow> string \<Rightarrow> 'w \<times> (kerr + (kerr + string))"
  t_putObject :: "'w \<Rightarrow> put_object \<Rightarrow> 'w \<times> kerr option"
  t_gzip :: "string \<Rightarrow> string"
  t_gunzip :: "string \<Rightarrow> kerr + (kerr + string)"
  t_objects :: unstructured_ops

record 'w cli_state =
  cli_world :: 'w
  cli_out :: "string list"

definition say :: "string \<Rightarrow> ('w, 'a) cli_state_scheme \<Rightarrow> ('w, 'a) cli_state_scheme" where
  "say line s = s\<lparr>cli_out := cli_out s @ [line]\<rparr>"

definition cli_call :: "('w \<Rightarrow> 'w \<times> 'r) \<Rightarrow> ('w, 'a) cli_state_scheme \<Rightarrow> ('w, 'a) cli_state_scheme \<times> 'r" where
  "cli_call f s = (case f (cli_world s) of (w, r) \<Rightarrow> (s\<lparr>cli_world := w\<rparr>, r))"

definition kubeRESTConfig :: "'w dr_tools \<Rightarrow> string \<Rightarrow> kerr + rest_config" where
  "kubeRESTConfig T kubeconfigPath =
     (if kubeconfigPath \<noteq> '''' then t_buildConfig T kubeconfigPath
      else case t_inCluster T of
             Inr cfg \<Rightarrow> Inr cfg
           | Inl _ \<Rightarrow> t_buildConfig T (t_homeFile T))"

definition tab :: string where "tab = [CHR 0x09]"
definition check_mark :: string where "check_mark = [CHR 0xE2, CHR 0x9C, CHR 0x93]"
definition cross_mark :: string where "cross_mark = [CHR 0xE2, CHR 0x9C, CHR 0x97]"
definition hourglass :: string where "hourglass = [CHR 0xE2, CHR 0x8F, CHR 0xB3]"
definition right_arrow :: string where "right_arrow = [CHR 0xE2, CHR 0x86, CHR 0x92]"
definition dashes :: "nat \<Rightarrow> string" where "dashes n = concat (replicate n [CHR 0xE2, CHR 0x94, CHR 0x80])"

section \<open>The manifest\<close>

text \<open>The timestamp is kept as its text.\<close>

record drBackup =
  bk_Timestamp :: string
  bk_ClusterID :: string
  bk_SchemaVersion :: string
  bk_CRDs :: "json list"
  bk_Nodes :: "json list"

definition invalid_json :: string where "invalid_json = ''invalid JSON''"

definition drBackup_json :: "drBackup \<Rightarrow> json" where
  "drBackup_json b = JObj
     (member ''timestamp'' (JStr (bk_Timestamp b)) @ member ''clusterID'' (JStr (bk_ClusterID b)) @
      member ''schemaVersion'' (JStr (bk_SchemaVersion b)) @ omit_nil ''crds'' id (bk_CRDs b) @
      member ''nodes'' (JArr (bk_Nodes b)))"

fun stamp_field :: "(string \<Rightarrow> 'a \<Rightarrow> 'a) \<Rightarrow> json \<Rightarrow> 'a \<Rightarrow> 'a option" where
  "stamp_field upd JNull x = Some x"
| "stamp_field upd (JStr s) x = (if is_rfc3339 s then Some (upd s x) else None)"
| "stamp_field upd _ x = None"

text \<open>\<open>Format(time.RFC3339)\<close>: without the fraction, and with \<open>Z\<close> for an offset of zero.\<close>

definition stamp_text :: "string \<Rightarrow> string" where
  "stamp_text s =
     (let r = drop 19 s; z = (if has_prefix r ''.'' then dropWhile is_digit (drop 1 r) else r)
      in take 19 s @ (if z \<in> {''+00:00'', ''-00:00''} then ''Z'' else z))"

definition drBackup_fields :: "drBackup fields" where
  "drBackup_fields =
     [(''timestamp'', stamp_field (\<lambda>v r. r\<lparr>bk_Timestamp := v\<rparr>)),
      (''clusterID'', string_field (\<lambda>v r. r\<lparr>bk_ClusterID := v\<rparr>)),
      (''schemaVersion'', string_field (\<lambda>v r. r\<lparr>bk_SchemaVersion := v\<rparr>)),
      (''crds'', list_field Some (\<lambda>v r. r\<lparr>bk_CRDs := v\<rparr>)),
      (''nodes'', list_field Some (\<lambda>v r. r\<lparr>bk_Nodes := v\<rparr>))]"

definition zero_drBackup :: drBackup where
  "zero_drBackup = \<lparr>bk_Timestamp = ''0001-01-01T00:00:00Z'', bk_ClusterID = '''', bk_SchemaVersion = '''', bk_CRDs = [],
     bk_Nodes = []\<rparr>"

definition parse_backup :: "string \<Rightarrow> drBackup option" where
  "parse_backup raw = Option.bind (Unmarshal raw) (\<lambda>v. decode_struct drBackup_fields v zero_drBackup)"

section \<open>Backup\<close>

definition cleanObject :: "unstructured_ops \<Rightarrow> json \<Rightarrow> json" where
  "cleanObject U obj =
     u_setGeneration U 0 (u_clearDeletionTimestamp U (u_clearFinalizers U (u_clearManagedFields U
       (u_setUID U '''' (u_setResourceVersion U '''' obj)))))"

definition backup_crds :: "'w dr_tools \<Rightarrow> rest_config \<Rightarrow> bool \<Rightarrow> 'w cli_state \<Rightarrow> 'w cli_state \<times> json list" where
  "backup_crds T cfg includeCRD s =
     (if includeCRD then
        (case cli_call (\<lambda>w. t_getCRD T cfg w ''taonodes.tao.guardian.io'') s of
           (s1, Inl e) \<Rightarrow> (say (''[backup] WARNING: could not fetch TaoNode CRD: '' @ error_text e) s1, [])
         | (s1, Inr crd) \<Rightarrow> (s1, [cleanObject (t_objects T) crd]))
      else (s, []))"

definition upload_backup ::
  "'w dr_tools \<Rightarrow> time \<Rightarrow> string \<Rightarrow> string \<Rightarrow> string \<Rightarrow> drBackup \<Rightarrow> 'w cli_state \<Rightarrow> 'w cli_state \<times> kerr option" where
  "upload_backup T now bucket region clusterID backup s =
     (let body = t_gzip T (Marshal (drBackup_json backup)); key = backup_key clusterID now
      in case t_awsConfig T region of
           Some e \<Rightarrow> (s, Some (Wrapped ''loading AWS config'' e))
         | None \<Rightarrow>
             (case cli_call (\<lambda>w. t_putObject T w \<lparr>po_bucket = bucket, po_key = key, po_body = body,
                  po_contentType = ''application/gzip'', po_contentEncoding = ''gzip'', po_encryption = ''AES256''\<rparr>) s of
                (s1, Some e) \<Rightarrow> (s1, Some (Wrapped (''uploading backup to s3://'' @ bucket @ ''/'' @ key) e))
              | (s1, None) \<Rightarrow>
                  (say (''[backup] '' @ fmt_int (int (length (bk_Nodes backup))) @ '' TaoNode(s) backed up '' @ right_arrow @
                     '' s3://'' @ bucket @ ''/'' @ key @ '' ('' @ fmt_int (int (length body)) @ '' bytes compressed)'') s1, None)))"

definition cli_runBackup ::
  "'w dr_tools \<Rightarrow> time \<Rightarrow> string \<Rightarrow> string \<Rightarrow> string \<Rightarrow> string \<Rightarrow> string \<Rightarrow> bool \<Rightarrow> 'w cli_state \<Rightarrow> 'w cli_state \<times> kerr option" where
  "cli_runBackup T now bucket region kubeconfig namespace clusterID includeCRD s =
     (case kubeRESTConfig T kubeconfig of
        Inl e \<Rightarrow> (s, Some (Wrapped ''building kubeconfig'' e))
      | Inr cfg \<Rightarrow>
          (case t_dynamic T cfg of
             Some e \<Rightarrow> (s, Some (Wrapped ''building dynamic client'' e))
           | None \<Rightarrow>
               (case cli_call (\<lambda>w. t_list T cfg w namespace) s of
                  (s1, Inl e) \<Rightarrow> (s1, Some (Wrapped ''listing TaoNode resources'' e))
                | (s1, Inr items) \<Rightarrow>
                    (case backup_crds T cfg includeCRD s1 of
                       (s2, crds) \<Rightarrow>
                         (case time_json now of
                            None \<Rightarrow> (s2, Some (Wrapped ''marshaling backup manifest'' time_json_error))
                          | Some _ \<Rightarrow>
                              upload_backup T now bucket region clusterID
                                \<lparr>bk_Timestamp = fmt_rfc3339_nano now, bk_ClusterID = clusterID, bk_SchemaVersion = ''v1alpha1'',
                                 bk_CRDs = crds, bk_Nodes = map (cleanObject (t_objects T)) items\<rparr> s2)))))"

definition newBackupCommand ::
  "'w dr_tools \<Rightarrow> time \<Rightarrow> string \<Rightarrow> string \<Rightarrow> string \<Rightarrow> string \<Rightarrow> string \<Rightarrow> bool \<Rightarrow> 'w cli_state \<Rightarrow> 'w cli_state \<times> kerr option" where
  "newBackupCommand T now globalS3Bucket globalS3Region globalKubeconfig namespace clusterID includeCRD s =
     (if globalS3Bucket = '''' then (s, Some (OtherErr ''--s3-bucket is required''))
      else cli_runBackup T now globalS3Bucket globalS3Region globalKubeconfig namespace clusterID includeCRD s)"

section \<open>Restore\<close>

text \<open>\<open>json.Unmarshal\<close> into a map; \<open>null\<close> is the empty map.\<close>

definition object_of :: "json \<Rightarrow> json option" where
  "object_of v = (case decode_any v of Some (JObj ms) \<Rightarrow> Some (JObj ms) | Some JNull \<Rightarrow> Some (JObj []) | _ \<Rightarrow> None)"

definition parse_object :: "unstructured_ops \<Rightarrow> string \<Rightarrow> bool \<Rightarrow> json \<Rightarrow> json" where
  "parse_object U nsOverride ensureTypeMeta obj =
     (let obj1 = (if ensureTypeMeta \<and> u_getAPIVersion U obj = '''' then u_setAPIVersion U ''tao.guardian.io/v1alpha1'' obj else obj);
          obj2 = (if ensureTypeMeta \<and> u_getKind U obj1 = '''' then u_setKind U ''TaoNode'' obj1 else obj1)
      in if nsOverride \<noteq> '''' \<and> u_getNamespace U obj2 \<noteq> '''' then u_setNamespace U nsOverride obj2 else obj2)"

fun parse_from :: "unstructured_ops \<Rightarrow> nat \<Rightarrow> json list \<Rightarrow> string \<Rightarrow> bool \<Rightarrow> kerr + json list" where
  "parse_from U i [] nsOverride ensureTypeMeta = Inr []"
| "parse_from U i (raw # raws) nsOverride ensureTypeMeta =
     (case object_of raw of
        None \<Rightarrow> Inl (Wrapped (''resource['' @ fmt_int (int i) @ '']: invalid JSON'') (OtherErr invalid_json))
      | Some obj \<Rightarrow>
          map_sum id ((#) (parse_object U nsOverride ensureTypeMeta obj)) (parse_from U (Suc i) raws nsOverride ensureTypeMeta))"

definition parseObjects :: "unstructured_ops \<Rightarrow> json list \<Rightarrow> string \<Rightarrow> bool \<Rightarrow> kerr + json list" where
  "parseObjects U raws nsOverride ensureTypeMeta = parse_from U 0 raws nsOverride ensureTypeMeta"

definition crd_patch :: "unstructured_ops \<Rightarrow> bool \<Rightarrow> json \<Rightarrow> apply_patch" where
  "crd_patch U force obj = \<lparr>ap_group = ''apiextensions.k8s.io'', ap_version = ''v1'', ap_resource = ''customresourcedefinitions'',
     ap_namespace = u_getNamespace U obj, ap_name = u_getName U obj, ap_data = Marshal obj, ap_fieldManager = ''tao-dr'',
     ap_force = force\<rparr>"

definition node_patch :: "unstructured_ops \<Rightarrow> bool \<Rightarrow> json \<Rightarrow> apply_patch" where
  "node_patch U force obj = \<lparr>ap_group = ''tao.guardian.io'', ap_version = ''v1alpha1'', ap_resource = ''taonodes'',
     ap_namespace = u_getNamespace U obj, ap_name = u_getName U obj, ap_data = Marshal obj, ap_fieldManager = ''tao-dr'',
     ap_force = force\<rparr>"

definition applyResource ::
  "'w dr_tools \<Rightarrow> rest_config \<Rightarrow> apply_patch \<Rightarrow> 'w cli_state \<Rightarrow> 'w cli_state \<times> kerr option" where
  "applyResource T cfg p s = cli_call (\<lambda>w. t_patch T cfg w p) s"

definition established :: "json \<Rightarrow> bool" where
  "established cond = (case cond of JObj ms \<Rightarrow> map_of ms ''type'' = Some (JStr ''Established'') \<and> map_of ms ''status'' = Some (JStr ''True'')
     | _ \<Rightarrow> False)"

definition crd_ready :: "'w dr_tools \<Rightarrow> rest_config \<Rightarrow> string \<Rightarrow> 'w \<Rightarrow> 'w \<times> bool" where
  "crd_ready T cfg crdName w =
     (case t_getCRD T cfg w crdName of
        (w1, Inl _) \<Rightarrow> (w1, False)
      | (w1, Inr obj) \<Rightarrow> (w1, list_ex established (u_conditions (t_objects T) obj)))"

definition waitCRDEstablished :: "'w dr_tools \<Rightarrow> rest_config \<Rightarrow> string \<Rightarrow> 'w cli_state \<Rightarrow> 'w cli_state \<times> kerr option" where
  "waitCRDEstablished T cfg crdName s = cli_call (t_poll T (crd_ready T cfg crdName)) s"

fun apply_crds :: "'w dr_tools \<Rightarrow> rest_config \<Rightarrow> bool \<Rightarrow> json list \<Rightarrow> 'w cli_state \<Rightarrow> 'w cli_state \<times> kerr option" where
  "apply_crds T cfg force [] s = (s, None)"
| "apply_crds T cfg force (crd # crds) s =
     (let name = u_getName (t_objects T) crd
      in case applyResource T cfg (crd_patch (t_objects T) force crd) s of
           (s1, Some e) \<Rightarrow> (s1, Some (Wrapped (''applying CRD '' @ name) e))
         | (s1, None) \<Rightarrow> apply_crds T cfg force crds (say (''[restore]   '' @ check_mark @ '' CRD '' @ name @ '' applied'') s1))"

fun await_crds :: "'w dr_tools \<Rightarrow> rest_config \<Rightarrow> json list \<Rightarrow> 'w cli_state \<Rightarrow> 'w cli_state \<times> kerr option" where
  "await_crds T cfg [] s = (s, None)"
| "await_crds T cfg (crd # crds) s =
     (let name = u_getName (t_objects T) crd;
          s1 = say (''[restore]   '' @ hourglass @ '' Waiting for CRD '' @ name @ '' to be Established'' @ ellipsis) s
      in case waitCRDEstablished T cfg name s1 of
           (s2, Some e) \<Rightarrow> (s2, Some (Wrapped (''CRD '' @ name @ '' did not become Established'') e))
         | (s2, None) \<Rightarrow> await_crds T cfg crds (say (''[restore]   '' @ check_mark @ '' CRD '' @ name @ '' is Established'') s2))"

definition default_namespace :: "unstructured_ops \<Rightarrow> json \<Rightarrow> json" where
  "default_namespace U node = (if u_getNamespace U node = '''' then u_setNamespace U ''taonode-guardian-system'' node else node)"

fun apply_nodes :: "'w dr_tools \<Rightarrow> rest_config \<Rightarrow> bool \<Rightarrow> json list \<Rightarrow> 'w cli_state \<Rightarrow> 'w cli_state \<times> kerr option" where
  "apply_nodes T cfg force [] s = (s, None)"
| "apply_nodes T cfg force (node # nodes) s =
     (let U = t_objects T;
          ns = (if u_getNamespace U node = '''' then ''taonode-guardian-system'' else u_getNamespace U node);
          node1 = default_namespace U node;
          label = ns @ ''/'' @ u_getName U node1
      in case applyResource T cfg (node_patch U force node1) s of
           (s1, Some e) \<Rightarrow> (s1, Some (Wrapped (''applying TaoNode '' @ label) e))
         | (s1, None) \<Rightarrow> apply_nodes T cfg force nodes (say (''[restore]   '' @ check_mark @ '' TaoNode '' @ label @ '' applied'') s1))"

definition resource_row :: "unstructured_ops \<Rightarrow> string \<Rightarrow> json \<Rightarrow> string" where
  "resource_row U phase obj =
     join tab [phase, u_getKind U obj, u_getNamespace U obj, u_getName U obj, u_getAPIVersion U obj]"

definition printDryRun :: "unstructured_ops \<Rightarrow> json list \<Rightarrow> json list \<Rightarrow> 'w cli_state \<Rightarrow> 'w cli_state" where
  "printDryRun U crds nodes s =
     fold say ([''[dry-run] Resources that would be applied:'', join tab [''PHASE'', ''KIND'', ''NAMESPACE'', ''NAME'', ''API VERSION''],
         join tab [dashes 5, dashes 4, dashes 9, dashes 4, dashes 11]] @
       map (resource_row U ''1/CRD'') crds @ map (resource_row U ''2/CR'') nodes @ ['''', ''[dry-run] No changes applied.'']) s"

text \<open>Phase 1: the definitions are applied and awaited.\<close>

definition restore_crds ::
  "'w dr_tools \<Rightarrow> rest_config \<Rightarrow> bool \<Rightarrow> json list \<Rightarrow> 'w cli_state \<Rightarrow> 'w cli_state \<times> kerr option" where
  "restore_crds T cfg force crds s =
     (if crds = [] then (s, None)
      else case apply_crds T cfg force crds
               (say (''[restore] Phase 1 '' @ em_dash @ '' applying '' @ fmt_int (int (length crds)) @ '' CRD(s)'') s) of
             (s1, Some e) \<Rightarrow> (s1, Some e)
           | (s1, None) \<Rightarrow> await_crds T cfg crds s1)"

text \<open>Phase 2: the TaoNodes are applied.\<close>

definition restore_nodes ::
  "'w dr_tools \<Rightarrow> rest_config \<Rightarrow> bool \<Rightarrow> json list \<Rightarrow> json list \<Rightarrow> 'w cli_state \<Rightarrow> 'w cli_state \<times> kerr option" where
  "restore_nodes T cfg force crds nodes s =
     (case apply_nodes T cfg force nodes
          (say (''[restore] Phase 2 '' @ em_dash @ '' applying '' @ fmt_int (int (length nodes)) @ '' TaoNode CR(s)'') s) of
        (s1, Some e) \<Rightarrow> (s1, Some e)
      | (s1, None) \<Rightarrow>
          (say (''[restore] Restore complete: '' @ fmt_int (int (length crds)) @ '' CRD(s), '' @
             fmt_int (int (length nodes)) @ '' TaoNode(s)'') s1, None))"

definition restore_apply ::
  "'w dr_tools \<Rightarrow> rest_config \<Rightarrow> bool \<Rightarrow> json list \<Rightarrow> json list \<Rightarrow> 'w cli_state \<Rightarrow> 'w cli_state \<times> kerr option" where
  "restore_apply T cfg force crds nodes s =
     (case restore_crds T cfg force crds s of
        (s1, Some e) \<Rightarrow> (s1, Some e)
      | (s1, None) \<Rightarrow> restore_nodes T cfg force crds nodes s1)"

text \<open>Steps 4 to 8, on a manifest.\<close>

definition restore_backup ::
  "'w dr_tools \<Rightarrow> string \<Rightarrow> string \<Rightarrow> bool \<Rightarrow> bool \<Rightarrow> drBackup \<Rightarrow> 'w cli_state \<Rightarrow> 'w cli_state \<times> kerr option" where
  "restore_backup T kubeconfig nsOverride dryRun force backup s =
     (case parseObjects (t_objects T) (bk_CRDs backup) '''' False of
        Inl e \<Rightarrow> (s, Some (Wrapped ''parsing CRD resources'' e))
      | Inr crds \<Rightarrow>
          (case parseObjects (t_objects T) (bk_Nodes backup) nsOverride True of
             Inl e \<Rightarrow> (s, Some (Wrapped ''parsing TaoNode resources'' e))
           | Inr nodes \<Rightarrow>
               if dryRun then (printDryRun (t_objects T) crds nodes s, None)
               else case kubeRESTConfig T kubeconfig of
                      Inl e \<Rightarrow> (s, Some (Wrapped ''building kubeconfig'' e))
                    | Inr cfg \<Rightarrow>
                        (case t_dynamic T cfg of
                           Some e \<Rightarrow> (s, Some (Wrapped ''building dynamic client'' e))
                         | None \<Rightarrow> restore_apply T cfg force crds nodes s)))"

text \<open>Step 2: the body of the object, decompressed when its key says so.\<close>

definition read_body :: "'w dr_tools \<Rightarrow> string \<Rightarrow> kerr + string \<Rightarrow> kerr + string" where
  "read_body T backupKey body =
     (if has_suffix backupKey ''.gz'' then
        (case body of
           Inl e \<Rightarrow> Inl (Wrapped ''creating gzip reader'' e)
         | Inr b \<Rightarrow>
             (case t_gunzip T b of
                Inl e \<Rightarrow> Inl (Wrapped ''creating gzip reader'' e)
              | Inr (Inl e) \<Rightarrow> Inl (Wrapped ''reading backup body'' e)
              | Inr (Inr raw) \<Rightarrow> Inr raw))
      else case body of Inl e \<Rightarrow> Inl (Wrapped ''reading backup body'' e) | Inr raw \<Rightarrow> Inr raw)"

definition restore_run ::
  "'w dr_tools \<Rightarrow> string \<Rightarrow> string \<Rightarrow> string \<Rightarrow> string \<Rightarrow> string \<Rightarrow> bool \<Rightarrow> bool \<Rightarrow> 'w cli_state \<Rightarrow> 'w cli_state \<times> kerr option" where
  "restore_run T bucket region kubeconfig backupKey nsOverride dryRun force s0 =
     (let s = say (''[restore] Downloading s3://'' @ bucket @ ''/'' @ backupKey) s0
      in case t_awsConfig T region of
           Some e \<Rightarrow> (s, Some (Wrapped ''loading AWS config'' e))
         | None \<Rightarrow>
             (case cli_call (\<lambda>w. t_getObject T w bucket backupKey) s of
                (s1, Inl e) \<Rightarrow> (s1, Some (Wrapped ''downloading backup'' e))
              | (s1, Inr body) \<Rightarrow>
                  (case read_body T backupKey body of
                     Inl e \<Rightarrow> (s1, Some e)
                   | Inr raw \<Rightarrow>
                       (case parse_backup raw of
                          None \<Rightarrow> (s1, Some (Wrapped ''parsing backup JSON'' (OtherErr invalid_json)))
                        | Some backup \<Rightarrow>
                            if bk_SchemaVersion backup = '''' then (s1, Some (OtherErr ''invalid backup: missing schemaVersion field''))
                            else if bk_Nodes backup = [] \<and> bk_CRDs backup = [] then
                              (s1, Some (OtherErr ''backup contains no resources to restore''))
                            else restore_backup T kubeconfig nsOverride dryRun force backup
                              (say (''[restore] Backup: clusterID='' @ bk_ClusterID backup @ '' timestamp='' @
                                stamp_text (bk_Timestamp backup) @ '' schemaVersion='' @ bk_SchemaVersion backup @
                                '' crds='' @ fmt_int (int (length (bk_CRDs backup))) @
                                '' nodes='' @ fmt_int (int (length (bk_Nodes backup)))) s1)))))"

definition restore_NewCommand ::
  "'w dr_tools \<Rightarrow> string \<Rightarrow> string \<Rightarrow> string \<Rightarrow> string \<Rightarrow> string \<Rightarrow> bool \<Rightarrow> bool \<Rightarrow> 'w cli_state \<Rightarrow> 'w cli_state \<times> kerr option" where
  "restore_NewCommand T s3Bucket s3Region kubeconfig backupKey namespaceOverride dryRun forceOwnership s =
     (if s3Bucket = '''' then (s, Some (OtherErr ''--s3-bucket is required''))
      else if backupKey = '''' then
        (s, Some (OtherErr (''--backup-key is required (run '' @ [CHR 0x27] @ ''tao-dr status'' @ [CHR 0x27] @ '' to list available backups)'')))
      else restore_run T s3Bucket s3Region kubeconfig backupKey namespaceOverride dryRun forceOwnership s)"

section \<open>The manifest survives\<close>

definition backup_ok :: "drBackup \<Rightarrow> bool" where
  "backup_ok b \<longleftrightarrow> is_rfc3339 (bk_Timestamp b) \<and> wf_json (drBackup_json b) \<and> depth (drBackup_json b) \<le> max_depth"

lemma read_list_Some: "read_list Some xs = Some xs"
  by (induction xs) auto

lemma list_fields_kept:
  "unless False (list_field Some upd) (JArr xs) x = Some (upd xs x)"
  "(xs = [] \<Longrightarrow> upd [] x = x) \<Longrightarrow> unless (xs = []) (list_field Some upd) (JArr xs) x = Some (upd xs x)"
  by (auto simp: unless_def read_list_Some)

lemma stamp_kept: "is_rfc3339 s \<Longrightarrow> unless False (stamp_field upd) (JStr s) x = Some (upd s x)"
  by (simp add: unless_def)

lemma decode_backup:
  "is_rfc3339 (bk_Timestamp b) \<Longrightarrow> decode_struct drBackup_fields (drBackup_json b) zero_drBackup = Some b"
  by (cases b) (simp add: drBackup_json_def drBackup_fields_def zero_drBackup_def list_fields_kept stamp_kept codec)

lemma parse_backup_Marshal: "backup_ok b \<Longrightarrow> parse_backup (Marshal (drBackup_json b)) = Some b"
  by (simp add: backup_ok_def parse_backup_def Unmarshal_Marshal decode_backup)

lemma parse_from_generic:
  "list_all (\<lambda>v. generic v \<and> (\<exists>ms. v = JObj ms)) raws \<Longrightarrow>
   parse_from U i raws nsOverride meta = Inr (map (parse_object U nsOverride meta) raws)"
  by (induction raws arbitrary: i) (auto simp: object_of_def decode_any_generic)

lemma fold_max_bound: "list_all (\<lambda>x. x \<le> n) xs \<Longrightarrow> a \<le> n \<Longrightarrow> fold max xs a \<le> (n :: nat)"
  by (induction xs arbitrary: a) auto

text \<open>Objects as the API server's JSON gives them: maps that decode to themselves, in valid UTF-8.\<close>

definition api_object :: "json \<Rightarrow> bool" where
  "api_object v \<longleftrightarrow> (\<exists>ms. v = JObj ms) \<and> generic v \<and> wf_json v \<and> depth v \<le> max_depth - 2"

lemma backup_of_objects_ok:
  assumes "is_rfc3339 stamp" and "valid_utf8 stamp" and "valid_utf8 cid" and "list_all api_object crds" and "list_all api_object nodes"
  shows "backup_ok \<lparr>bk_Timestamp = stamp, bk_ClusterID = cid, bk_SchemaVersion = ''v1alpha1'', bk_CRDs = crds, bk_Nodes = nodes\<rparr>"
proof -
  have "depth (JArr vs) \<le> max_depth - 1" if "list_all api_object vs" for vs
  proof -
    have "fold max (map depth vs) 0 \<le> max_depth - 2"
      using that by (intro fold_max_bound) (auto simp: list_all_iff api_object_def)
    then show ?thesis by (simp add: max_depth_def)
  qed
  moreover have "wf_json (JArr vs)" if "list_all api_object vs" for vs
    using that by (auto simp: list_all_iff api_object_def)
  ultimately show ?thesis
    using assms by (auto simp: backup_ok_def drBackup_json_def member_def omit_nil_def max_depth_def ascii_utf8 byte_def
        simp del: depth.simps(1) simp add: depth.simps(2) list_all_iff intro: ascii_utf8)
qed

text \<open>
  Documented behaviour of the services: \<open>gzip\<close> is undone by its reader, an object put into a bucket
  is what a later \<open>GetObject\<close> of its key returns, and the API server's objects stay what they are
  when their server-managed fields are cleared.
\<close>

definition gzip_inverse :: "'w dr_tools \<Rightarrow> bool" where
  "gzip_inverse T \<longleftrightarrow> (\<forall>x. t_gunzip T (t_gzip T x) = Inr (Inr x))"

definition s3_keeps :: "'w dr_tools \<Rightarrow> bool" where
  "s3_keeps T \<longleftrightarrow> (\<forall>w p w1. t_putObject T w p = (w1, None) \<longrightarrow>
     snd (t_getObject T w1 (po_bucket p) (po_key p)) = Inr (Inr (po_body p)))"

definition serves_objects :: "'w dr_tools \<Rightarrow> rest_config \<Rightarrow> bool" where
  "serves_objects T cfg \<longleftrightarrow>
     (\<forall>w ns items. snd (t_list T cfg w ns) = Inr items \<longrightarrow> list_all (\<lambda>x. api_object (cleanObject (t_objects T) x)) items) \<and>
     (\<forall>w name crd. snd (t_getCRD T cfg w name) = Inr crd \<longrightarrow> api_object (cleanObject (t_objects T) crd))"

lemma nano_utf8:
  assumes "0 \<le> civ_year (civil_of t)" and "civ_year (civil_of t) \<le> 9999"
  shows "valid_utf8 (fmt_rfc3339_nano t)"
proof -
  have ascii: "byte (CHR ''-'') < 128" "byte (CHR ''T'') < 128" "byte (CHR '':'') < 128" "byte (CHR ''.'') < 128" "byte (CHR ''Z'') < 128"
    by (simp_all add: byte_def)
  have digit: "is_digit c \<Longrightarrow> byte c < 128" for c by (simp add: is_digit_def)
  have d: "0 \<le> i \<Longrightarrow> i < 10 ^ n \<Longrightarrow> 0 < n \<Longrightarrow> list_all (\<lambda>c. byte c < 128) (pad_left n i)" for i n
    using pad_left_digits(2) [of i n] digit by (auto simp: list_all_iff)
  have "list_all (\<lambda>c. byte c < 128) (trim_zeros (pad_left 9 (t mod 1000000000)))"
    using trim_zeros_digits [OF pad_left_digits(2), of "t mod 1000000000" 9] digit by (auto simp: list_all_iff)
  moreover have "civ_day (civil_of t) \<le> 31" using civil_of_valid(4) [of t] days_in_bound order_trans by blast
  ultimately have "list_all (\<lambda>c. byte c < 128) (fmt_rfc3339_nano t)"
    using assms civil_of_valid [of t] ascii by (simp add: fmt_rfc3339_nano_def fmt_date_def Let_def d)
  then show ?thesis by (rule ascii_utf8)
qed

lemma cli_call_world: "cli_world (fst (cli_call f s)) = fst (f (cli_world s))" "snd (cli_call f s) = snd (f (cli_world s))"
  by (simp_all add: cli_call_def split: prod.split)

lemma say_world [simp]: "cli_world (say x s) = cli_world s"
  by (simp add: say_def)

text \<open>What a successful backup read from the cluster.\<close>

definition backed_crds :: "'w dr_tools \<Rightarrow> rest_config \<Rightarrow> string \<Rightarrow> bool \<Rightarrow> 'w cli_state \<Rightarrow> json list" where
  "backed_crds T cfg namespace includeCRD s = snd (backup_crds T cfg includeCRD (fst (cli_call (\<lambda>w. t_list T cfg w namespace) s)))"

lemma upload_succeeds:
  assumes "upload_backup T now bucket region cid b s = (s1, None)"
  shows "t_awsConfig T region = None"
    and "\<exists>w p. t_putObject T w p = (cli_world s1, None) \<and> po_bucket p = bucket \<and> po_key p = backup_key cid now \<and>
           po_body p = t_gzip T (Marshal (drBackup_json b))"
proof -
  show "t_awsConfig T region = None" using assms by (auto simp: upload_backup_def Let_def split: option.splits)
  then obtain s2 where "cli_call (\<lambda>w. t_putObject T w \<lparr>po_bucket = bucket, po_key = backup_key cid now,
        po_body = t_gzip T (Marshal (drBackup_json b)), po_contentType = ''application/gzip'', po_contentEncoding = ''gzip'',
        po_encryption = ''AES256''\<rparr>) s = (s2, None)" and w: "cli_world s1 = cli_world s2"
    using assms by (auto simp: upload_backup_def Let_def split: option.splits prod.splits)
  from this(1) have "t_putObject T (cli_world s) \<lparr>po_bucket = bucket, po_key = backup_key cid now,
        po_body = t_gzip T (Marshal (drBackup_json b)), po_contentType = ''application/gzip'', po_contentEncoding = ''gzip'',
        po_encryption = ''AES256''\<rparr> = (cli_world s2, None)"
    by (auto simp: cli_call_def split: prod.splits)
  then show "\<exists>w p. t_putObject T w p = (cli_world s1, None) \<and> po_bucket p = bucket \<and> po_key p = backup_key cid now \<and>
      po_body p = t_gzip T (Marshal (drBackup_json b))"
    unfolding w by (intro exI conjI, assumption) simp_all
qed

lemma backup_succeeds:
  assumes "cli_runBackup T now bucket region kubeconfig namespace cid includeCRD s = (s1, None)"
    and "kubeRESTConfig T kubeconfig = Inr cfg" and "serves_objects T cfg" and "valid_utf8 cid"
  obtains b s2 items where "upload_backup T now bucket region cid b s2 = (s1, None)" and "backup_ok b"
    and "snd (t_list T cfg (cli_world s) namespace) = Inr items" and "bk_SchemaVersion b = ''v1alpha1''"
    and "bk_Nodes b = map (cleanObject (t_objects T)) items" and "bk_CRDs b = backed_crds T cfg namespace includeCRD s"
    and "list_all api_object (bk_Nodes b)" and "list_all api_object (bk_CRDs b)"
proof -
  let ?U = "t_objects T"
  obtain s0 r where l: "cli_call (\<lambda>w. t_list T cfg w namespace) s = (s0, r)" by (cases "cli_call (\<lambda>w. t_list T cfg w namespace) s")
  moreover obtain s2 crds where c: "backup_crds T cfg includeCRD s0 = (s2, crds)" by (cases "backup_crds T cfg includeCRD s0")
  ultimately obtain items where r: "r = Inr items" and t: "time_json now \<noteq> None"
    and up: "upload_backup T now bucket region cid \<lparr>bk_Timestamp = fmt_rfc3339_nano now, bk_ClusterID = cid,
      bk_SchemaVersion = ''v1alpha1'', bk_CRDs = crds, bk_Nodes = map (cleanObject ?U) items\<rparr> s2 = (s1, None)"
    using assms(1,2) by (auto simp: cli_runBackup_def split: option.splits sum.splits)
  have items: "snd (t_list T cfg (cli_world s) namespace) = Inr items" using l r cli_call_world(2) by (metis snd_conv)
  then have n: "list_all api_object (map (cleanObject ?U) items)"
    using assms(3) by (auto simp: serves_objects_def list_all_iff)
  have crds: "crds = backed_crds T cfg namespace includeCRD s" using l c by (simp add: backed_crds_def)
  have served: "t_getCRD T cfg w name = (w1, Inr crd) \<Longrightarrow> api_object (cleanObject ?U crd)" for w w1 name crd
    using assms(3) unfolding serves_objects_def by (metis snd_conv)
  have k: "list_all api_object crds"
    using c by (auto simp: backup_crds_def cli_call_def dest: served split: if_splits prod.splits sum.splits)
  have "0 \<le> civ_year (civil_of now)" "civ_year (civil_of now) \<le> 9999" using t by (auto simp: time_json_def Let_def split: if_splits)
  then have "backup_ok \<lparr>bk_Timestamp = fmt_rfc3339_nano now, bk_ClusterID = cid, bk_SchemaVersion = ''v1alpha1'', bk_CRDs = crds,
      bk_Nodes = map (cleanObject ?U) items\<rparr>"
    using k n assms(4) by (intro backup_of_objects_ok) (auto simp: rfc3339_nano_valid nano_utf8)
  then show ?thesis by (rule that [OF up]) (simp_all add: items crds n k [unfolded crds])
qed

section \<open>A backup can be restored\<close>

lemma backup_key_gz: "has_suffix (backup_key cid now) ''.gz''"
proof -
  have "backup_key cid now = (''dr-backups/'' @ cid @ ''/'' @ fmt_key_time now @ ''.json'') @ ''.gz''" by (simp add: backup_key_def)
  then show ?thesis unfolding has_suffix_iff by blast
qed

lemma restore_of_object:
  assumes "t_awsConfig T region = None" and "snd (t_getObject T (cli_world s) bucket key) = Inr (Inr body)"
    and "read_body T key (Inr body) = Inr raw" and "parse_backup raw = Some b" and "bk_SchemaVersion b \<noteq> ''''"
  shows "\<exists>s2. cli_world s2 = fst (t_getObject T (cli_world s) bucket key) \<and>
     restore_run T bucket region kubeconfig key nsOverride dryRun force s =
       (if bk_Nodes b = [] \<and> bk_CRDs b = [] then (s2, Some (OtherErr ''backup contains no resources to restore''))
        else restore_backup T kubeconfig nsOverride dryRun force b s2)"
proof -
  obtain w1 where g: "t_getObject T (cli_world s) bucket key = (w1, Inr (Inr body))" using assms(2) by (metis prod.collapse)
  show ?thesis
  proof (cases "bk_Nodes b = [] \<and> bk_CRDs b = []")
    case True
    show ?thesis by (rule exI) (use True g assms in \<open>auto simp: restore_run_def cli_call_def Let_def\<close>)
  next
    case False
    show ?thesis by (rule exI) (use False g assms in \<open>auto simp: restore_run_def cli_call_def Let_def\<close>)
  qed
qed

lemma restore_of_upload:
  assumes "upload_backup T now bucket region cid b s = (s1, None)" and "backup_ok b" and "gzip_inverse T" and "s3_keeps T"
    and "bk_SchemaVersion b \<noteq> ''''"
  shows "\<exists>s2. cli_world s2 = fst (t_getObject T (cli_world s1) bucket (backup_key cid now)) \<and>
     restore_run T bucket region kubeconfig (backup_key cid now) nsOverride dryRun force s1 =
       (if bk_Nodes b = [] \<and> bk_CRDs b = [] then (s2, Some (OtherErr ''backup contains no resources to restore''))
        else restore_backup T kubeconfig nsOverride dryRun force b s2)"
proof (rule restore_of_object)
  show "t_awsConfig T region = None" by (rule upload_succeeds(1) [OF assms(1)])
  show "snd (t_getObject T (cli_world s1) bucket (backup_key cid now)) = Inr (Inr (t_gzip T (Marshal (drBackup_json b))))"
    using upload_succeeds(2) [OF assms(1)] assms(4) unfolding s3_keeps_def by metis
  show "read_body T (backup_key cid now) (Inr (t_gzip T (Marshal (drBackup_json b)))) = Inr (Marshal (drBackup_json b))"
    using assms(3) by (simp add: read_body_def backup_key_gz gzip_inverse_def)
qed (use assms in \<open>simp_all add: parse_backup_Marshal\<close>)

text \<open>
  C5. A backup can be restored. When the backup command succeeds, restoring the key it wrote, on any
  cluster that can be reached, applies exactly what the backup read: the custom resource definition
  and the TaoNodes with their server-managed fields cleared, in the order they were listed, with the
  type and the namespace the restore command gives them. Only a backup of nothing is refused.
\<close>

theorem backup_restored:
  assumes "gzip_inverse T" and "s3_keeps T" and "serves_objects T cfg" and "valid_utf8 cid"
    and "kubeRESTConfig T kubeconfig = Inr cfg"
    and "cli_runBackup T now bucket region kubeconfig namespace cid includeCRD s = (s1, None)"
    and "kubeRESTConfig T target = Inr cfg2" and "t_dynamic T cfg2 = None"
  shows "\<exists>items s2. snd (t_list T cfg (cli_world s) namespace) = Inr items \<and>
     cli_world s2 = fst (t_getObject T (cli_world s1) bucket (backup_key cid now)) \<and>
     restore_run T bucket region target (backup_key cid now) nsOverride False force s1 =
       (if items = [] \<and> backed_crds T cfg namespace includeCRD s = []
        then (s2, Some (OtherErr ''backup contains no resources to restore''))
        else restore_apply T cfg2 force (backed_crds T cfg namespace includeCRD s)
               (map (\<lambda>item. parse_object (t_objects T) nsOverride True (cleanObject (t_objects T) item)) items) s2)"
proof -
  obtain b s0 items where up: "upload_backup T now bucket region cid b s0 = (s1, None)" and ok: "backup_ok b"
    and list: "snd (t_list T cfg (cli_world s) namespace) = Inr items" and b: "bk_SchemaVersion b = ''v1alpha1''"
      "bk_Nodes b = map (cleanObject (t_objects T)) items" "bk_CRDs b = backed_crds T cfg namespace includeCRD s"
    and objs: "list_all api_object (bk_Nodes b)" "list_all api_object (bk_CRDs b)"
    by (rule backup_succeeds [OF assms(6,5,3,4)])
  obtain s2 where w: "cli_world s2 = fst (t_getObject T (cli_world s1) bucket (backup_key cid now))"
    and r: "restore_run T bucket region target (backup_key cid now) nsOverride False force s1 =
      (if bk_Nodes b = [] \<and> bk_CRDs b = [] then (s2, Some (OtherErr ''backup contains no resources to restore''))
       else restore_backup T target nsOverride False force b s2)"
    using restore_of_upload [OF up ok assms(1,2), of target nsOverride False force] b(1) by auto
  have g: "list_all (\<lambda>v. generic v \<and> (\<exists>ms. v = JObj ms)) xs" if "list_all api_object xs" for xs
    using that by (auto simp: list_all_iff api_object_def)
  have plain: "map (parse_object (t_objects T) '''' False) xs = xs" for xs
    by (simp add: parse_object_def map_idI)
  have "restore_backup T target nsOverride False force b s2 =
      restore_apply T cfg2 force (bk_CRDs b) (map (parse_object (t_objects T) nsOverride True) (bk_Nodes b)) s2"
    using assms(7,8) by (simp add: restore_backup_def parseObjects_def parse_from_generic g objs plain)
  then show ?thesis using list w r b by (auto simp: comp_def)
qed

subsection \<open>A small cluster\<close>

text \<open>
  Objects whose metadata are members of the object, a bucket, and a cluster that records what it is
  asked.
\<close>

definition text_of :: "string \<Rightarrow> json \<Rightarrow> string" where
  "text_of k v = (case v of JObj ms \<Rightarrow> (case map_of ms k of Some (JStr s) \<Rightarrow> s | _ \<Rightarrow> '''') | _ \<Rightarrow> '''')"

definition set_text :: "string \<Rightarrow> string \<Rightarrow> json \<Rightarrow> json" where
  "set_text k s v = (case v of
     JObj ms \<Rightarrow> JObj (if s = '''' then filter (\<lambda>m. fst m \<noteq> k) ms else put_member k (JStr s) ms) | _ \<Rightarrow> v)"

definition flat_objects :: unstructured_ops where
  "flat_objects = \<lparr>u_getName = text_of ''name'', u_getNamespace = text_of ''namespace'', u_setNamespace = set_text ''namespace'',
     u_getAPIVersion = text_of ''apiVersion'', u_setAPIVersion = set_text ''apiVersion'', u_getKind = text_of ''kind'',
     u_setKind = set_text ''kind'', u_setResourceVersion = set_text ''resourceVersion'', u_setUID = set_text ''uid'',
     u_clearManagedFields = set_text ''managedFields'' '''', u_clearFinalizers = set_text ''finalizers'' '''',
     u_clearDeletionTimestamp = set_text ''deletionTimestamp'' '''', u_setGeneration = (\<lambda>g. set_text ''generation'' (if g = 0 then '''' else fmt_d g)),
     u_nestedString = (\<lambda>v ks. '''')  , u_conditions = (\<lambda>v. [JObj [(''status'', JStr (text_of ''status'' v)), (''type'', JStr ''Established'')]])\<rparr>"

datatype cluster_event = Patched apply_patch "kerr option" | Looked string bool

record lab =
  lab_bucket :: "string \<times> string \<Rightarrow> string option"
  lab_events :: "cluster_event list"

fun poll_n :: "('w \<Rightarrow> 'w \<times> bool) \<Rightarrow> nat \<Rightarrow> 'w \<Rightarrow> 'w \<times> bool" where
  "poll_n f 0 w = (w, False)"
| "poll_n f (Suc n) w = (case f w of (w1, True) \<Rightarrow> (w1, True) | (w1, False) \<Rightarrow> poll_n f n w1)"

definition lab_node :: "string \<Rightarrow> json" where
  "lab_node name = JObj [(''kind'', JStr ''TaoNode''), (''name'', JStr name), (''namespace'', JStr ''tao''), (''uid'', JStr ''u-1'')]"

definition lab_crd :: json where
  "lab_crd = JObj [(''kind'', JStr ''CustomResourceDefinition''), (''name'', JStr ''taonodes.tao.guardian.io''), (''status'', JStr ''True'')]"

definition lab_tools :: "lab dr_tools" where
  "lab_tools = \<lparr>t_buildConfig = Inr, t_inCluster = Inr ''in-cluster'', t_homeFile = ''home'', t_dynamic = (\<lambda>_. None),
     t_list = (\<lambda>_ w _. (w, Inr [lab_node ''alpha'', lab_node ''beta''])),
     t_getCRD = (\<lambda>_ w name. (w\<lparr>lab_events := lab_events w @ [Looked name True]\<rparr>, Inr lab_crd)),
     t_patch = (\<lambda>_ w p. (w\<lparr>lab_events := lab_events w @ [Patched p None]\<rparr>, None)),
     t_poll = (\<lambda>f w. case poll_n f 46 w of (w1, ok) \<Rightarrow> (w1, if ok then None else Some (OtherErr ''timed out''))),
     t_awsConfig = (\<lambda>_. None),
     t_getObject = (\<lambda>w b k. (w, case lab_bucket w (b, k) of None \<Rightarrow> Inl (OtherErr ''NoSuchKey'') | Some x \<Rightarrow> Inr (Inr x))),
     t_putObject = (\<lambda>w p. (w\<lparr>lab_bucket := (lab_bucket w)((po_bucket p, po_key p) \<mapsto> po_body p)\<rparr>, None)),
     t_gzip = (\<lambda>x. CHR ''z'' # x), t_gunzip = (\<lambda>x. case x of [] \<Rightarrow> Inl (OtherErr ''EOF'') | _ # y \<Rightarrow> Inr (Inr y)),
     t_objects = flat_objects\<rparr>"

definition lab_start :: "lab cli_state" where
  "lab_start = \<lparr>cli_world = \<lparr>lab_bucket = Map.empty, lab_events = []\<rparr>, cli_out = []\<rparr>"

lemmas flat_simps = flat_objects_def text_of_def set_text_def cleanObject_def

lemma lab_services: "gzip_inverse lab_tools" "s3_keeps lab_tools"
  by (auto simp: gzip_inverse_def s3_keeps_def lab_tools_def)

lemma lab_clean:
  "cleanObject flat_objects (lab_node n) = JObj [(''kind'', JStr ''TaoNode''), (''name'', JStr n), (''namespace'', JStr ''tao'')]"
  "cleanObject flat_objects lab_crd = lab_crd"
  by (simp_all add: flat_simps lab_node_def lab_crd_def)

lemma lab_serves: "serves_objects lab_tools cfg"
proof -
  have "api_object (cleanObject flat_objects (lab_node n))" if "valid_utf8 n" for n
    unfolding lab_clean using that by (simp add: api_object_def max_depth_def ascii_utf8 byte_def)
  moreover have "api_object (cleanObject flat_objects lab_crd)"
    unfolding lab_clean by (simp add: lab_crd_def api_object_def max_depth_def ascii_utf8 byte_def)
  ultimately show ?thesis by (auto simp: serves_objects_def lab_tools_def ascii_utf8 byte_def)
qed

lemma lab_backup: "snd (cli_runBackup lab_tools 0 b r '''' '''' cid True lab_start) = None"
proof -
  have "time_json 0 \<noteq> None" by code_simp
  then show ?thesis
    by (auto simp: cli_runBackup_def kubeRESTConfig_def lab_tools_def cli_call_def backup_crds_def upload_backup_def Let_def)
qed

theorem backup_restored_witness:
  "\<exists>items s2. snd (t_list lab_tools ''in-cluster'' (cli_world lab_start) '''') = Inr items \<and>
     cli_world s2 = fst (t_getObject lab_tools (cli_world (fst (cli_runBackup lab_tools 0 ''b'' ''r'' '''' '''' ''c'' True lab_start))) ''b'' (backup_key ''c'' 0)) \<and>
     restore_run lab_tools ''b'' ''r'' ''other'' (backup_key ''c'' 0) ''dr'' False True (fst (cli_runBackup lab_tools 0 ''b'' ''r'' '''' '''' ''c'' True lab_start)) =
       (if items = [] \<and> backed_crds lab_tools ''in-cluster'' '''' True lab_start = []
        then (s2, Some (OtherErr ''backup contains no resources to restore''))
        else restore_apply lab_tools ''other'' True (backed_crds lab_tools ''in-cluster'' '''' True lab_start)
               (map (\<lambda>item. parse_object (t_objects lab_tools) ''dr'' True (cleanObject (t_objects lab_tools) item)) items) s2)"
proof (rule backup_restored [where kubeconfig = "''''" and cfg = "''in-cluster''"])
  show "cli_runBackup lab_tools 0 ''b'' ''r'' '''' '''' ''c'' True lab_start =
      (fst (cli_runBackup lab_tools 0 ''b'' ''r'' '''' '''' ''c'' True lab_start), None)"
    using lab_backup by (metis prod.collapse)
qed (simp_all add: lab_services lab_serves ascii_utf8 byte_def, simp_all add: kubeRESTConfig_def lab_tools_def)

lemma fold_say_world: "cli_world (fold say ls s) = cli_world s"
  by (induction ls arbitrary: s) auto

section \<open>Order and isolation\<close>

text \<open>
  C34. A dry run does not touch the cluster: what it does and prints is the same whatever the cluster
  and its configuration would answer, and it changes the world by the download alone.
\<close>

theorem dry_run_isolated:
  "restore_run T bucket region kubeconfig key nsOverride True force s =
     restore_run (T\<lparr>t_patch := p, t_getCRD := g, t_list := l, t_poll := q, t_dynamic := d, t_buildConfig := c, t_inCluster := i\<rparr>)
       bucket region kubeconfig' key nsOverride True force' s \<and>
   cli_world (fst (restore_run T bucket region kubeconfig key nsOverride True force s)) \<in>
     {cli_world s, fst (t_getObject T (cli_world s) bucket key)}"
proof -
  have same: "read_body (T\<lparr>t_patch := p, t_getCRD := g, t_list := l, t_poll := q, t_dynamic := d, t_buildConfig := c, t_inCluster := i\<rparr>) = read_body T"
    by (intro ext) (simp add: read_body_def split: sum.split)
  have out: "cli_world (printDryRun U crds nodes s') = cli_world s'" for U crds nodes s'
    by (simp add: printDryRun_def fold_say_world del: fold_append)
  show ?thesis
    by (auto simp: restore_run_def restore_backup_def same out cli_call_def Let_def split: option.splits prod.splits sum.splits)
qed

text \<open>
  The trace of a restore: every patch with its answer, every look at a definition with what it saw. A
  law of the polling helper, as documented: it evaluates its condition repeatedly, and succeeds
  exactly when an evaluation says so.
\<close>

definition traced :: "'w dr_tools \<Rightarrow> ('w \<Rightarrow> cluster_event list) \<Rightarrow> bool" where
  "traced T tr \<longleftrightarrow>
     (\<forall>cfg w p. tr (fst (t_patch T cfg w p)) = tr w @ [Patched p (snd (t_patch T cfg w p))]) \<and>
     (\<forall>cfg w name. tr (fst (crd_ready T cfg name w)) = tr w @ [Looked name (snd (crd_ready T cfg name w))]) \<and>
     (\<forall>f w. \<exists>n. case t_poll T f w of (w1, e) \<Rightarrow> poll_n f n w = (w1, e = None))"

text \<open>
  The runs that are allowed, with the failure they end in. Patches are sent in order and the first
  that is refused is the last. Definitions are awaited in order: each is looked at until it is seen
  established, and a wait that ends without that ends the run. The TaoNodes come after every patch of
  a definition has succeeded and every definition was seen established.
\<close>

inductive patch_protocol :: "apply_patch list \<Rightarrow> cluster_event list \<Rightarrow> kerr option \<Rightarrow> bool" where
  patches_done: "patch_protocol [] [] None"
| patch_refused: "patch_protocol (p # ps) [Patched p (Some e)] (Some e)"
| patch_accepted: "patch_protocol ps es r \<Longrightarrow> patch_protocol (p # ps) (Patched p None # es) r"

inductive await_protocol :: "string list \<Rightarrow> cluster_event list \<Rightarrow> kerr option \<Rightarrow> bool" where
  all_established: "await_protocol [] [] None"
| not_established: "await_protocol (n # ns) (replicate k (Looked n False)) (Some e)"
| established_next: "await_protocol ns es r \<Longrightarrow>
    await_protocol (n # ns) (replicate k (Looked n False) @ Looked n True # es) r"

inductive restore_protocol ::
  "apply_patch list \<Rightarrow> string list \<Rightarrow> apply_patch list \<Rightarrow> cluster_event list \<Rightarrow> kerr option \<Rightarrow> bool"
  for crds names nodes where
  definitions_refused: "patch_protocol crds es (Some e) \<Longrightarrow> restore_protocol crds names nodes es (Some e)"
| definitions_not_ready: "patch_protocol crds es None \<Longrightarrow> await_protocol names looks (Some e) \<Longrightarrow>
    restore_protocol crds names nodes (es @ looks) (Some e)"
| resources_applied: "patch_protocol crds es None \<Longrightarrow> await_protocol names looks None \<Longrightarrow> patch_protocol nodes es' r \<Longrightarrow>
    restore_protocol crds names nodes (es @ looks @ es') r"

inductive_cases patch_protocol_cons: "patch_protocol (p # ps) es r"
inductive_cases await_protocol_cons: "await_protocol (n # ns) es r"
inductive_cases restore_protocol_elim: "restore_protocol crds names nodes es r"

lemma patch_protocol_done: "patch_protocol ps es r \<Longrightarrow> r = None \<Longrightarrow> es = map (\<lambda>p. Patched p None) ps"
  by (induction rule: patch_protocol.induct) auto

lemma restore_protocol_done:
  assumes "restore_protocol crds names nodes es None"
  shows "\<exists>looks. await_protocol names looks None \<and>
    es = map (\<lambda>p. Patched p None) crds @ looks @ map (\<lambda>p. Patched p None) nodes"
  using assms by (auto elim!: restore_protocol_elim dest!: patch_protocol_done)

text \<open>A command reports a failure by wrapping it.\<close>

definition reports :: "kerr option \<Rightarrow> kerr option \<Rightarrow> bool" where
  "reports res r \<longleftrightarrow> (case r of None \<Rightarrow> res = None | Some e \<Rightarrow> \<exists>m. res = Some (Wrapped m e))"

lemma reports_simps [simp]: "reports res None \<longleftrightarrow> res = None" "reports (Some (Wrapped m e)) (Some e)"
  by (auto simp: reports_def)

lemma poll_n_trace:
  assumes "traced T tr" and "poll_n (crd_ready T cfg name) n w = (w1, ok)"
  shows "\<exists>k. tr w1 = tr w @ replicate k (Looked name False) @ (if ok then [Looked name True] else [])"
  using assms(2)
proof (induction n arbitrary: w)
  case (Suc n)
  obtain w2 b where r: "crd_ready T cfg name w = (w2, b)" by (cases "crd_ready T cfg name w")
  then have l: "tr w2 = tr w @ [Looked name b]" using assms(1) unfolding traced_def by (metis fst_conv snd_conv)
  show ?case
  proof (cases b)
    case True
    then show ?thesis using Suc.prems r l by (intro exI [of _ 0]) simp
  next
    case False
    obtain k where "tr w1 = tr w2 @ replicate k (Looked name False) @ (if ok then [Looked name True] else [])"
      using Suc.IH [of w2] Suc.prems r False by auto
    then show ?thesis using l False by (intro exI [of _ "Suc k"]) simp
  qed
qed (intro exI [of _ 0], simp)

lemma wait_trace:
  assumes "traced T tr" and "waitCRDEstablished T cfg name s = (s1, r)"
  shows "\<exists>k. tr (cli_world s1) = tr (cli_world s) @ replicate k (Looked name False) @ (if r = None then [Looked name True] else [])"
proof -
  obtain n where "case t_poll T (crd_ready T cfg name) (cli_world s) of (w1, e) \<Rightarrow> poll_n (crd_ready T cfg name) n (cli_world s) = (w1, e = None)"
    using assms(1) unfolding traced_def by metis
  moreover have "t_poll T (crd_ready T cfg name) (cli_world s) = (cli_world s1, r)"
    using assms(2) by (auto simp: waitCRDEstablished_def cli_call_def split: prod.splits)
  ultimately have "poll_n (crd_ready T cfg name) n (cli_world s) = (cli_world s1, r = None)" by simp
  then show ?thesis by (rule poll_n_trace [OF assms(1)])
qed

lemma await_trace:
  assumes "traced T tr"
  shows "\<exists>es r. tr (cli_world (fst (await_crds T cfg crds s))) = tr (cli_world s) @ es \<and>
    await_protocol (map (u_getName (t_objects T)) crds) es r \<and> reports (snd (await_crds T cfg crds s)) r"
proof (induction crds arbitrary: s)
  case (Cons crd crds)
  let ?name = "u_getName (t_objects T) crd"
  define s1 where "s1 = say (''[restore]   '' @ hourglass @ '' Waiting for CRD '' @ ?name @ '' to be Established'' @ ellipsis) s"
  obtain s2 r where w: "waitCRDEstablished T cfg ?name s1 = (s2, r)" by fastforce
  obtain k where k: "tr (cli_world s2) = tr (cli_world s) @ replicate k (Looked ?name False) @ (if r = None then [Looked ?name True] else [])"
    using wait_trace [OF assms w] by (auto simp: s1_def)
  show ?case
  proof (cases r)
    case None
    define s3 where "s3 = say (''[restore]   '' @ check_mark @ '' CRD '' @ ?name @ '' is Established'') s2"
    obtain es r' where "tr (cli_world (fst (await_crds T cfg crds s3))) = tr (cli_world s3) @ es"
      "await_protocol (map (u_getName (t_objects T)) crds) es r'" "reports (snd (await_crds T cfg crds s3)) r'"
      using Cons.IH by blast
    then show ?thesis using None w k
      by (intro exI [of _ "replicate k (Looked ?name False) @ Looked ?name True # es"] exI [of _ r'])
        (simp add: s1_def s3_def Let_def established_next)
  next
    case (Some e)
    then show ?thesis using w k not_established [of ?name "map (u_getName (t_objects T)) crds" k e]
      by (intro exI [of _ "replicate k (Looked ?name False)"] exI [of _ r]) (simp add: s1_def Let_def)
  qed
qed (intro exI [of _ "[]"] exI [of _ None], simp add: all_established)

lemma patch_trace:
  assumes "traced T tr" and "applyResource T cfg p s = (s1, r)"
  shows "tr (cli_world s1) = tr (cli_world s) @ [Patched p r]"
  using assms unfolding traced_def applyResource_def by (metis cli_call_world fst_conv snd_conv)

lemma apply_crds_trace:
  assumes "traced T tr"
  shows "\<exists>es r. tr (cli_world (fst (apply_crds T cfg force crds s))) = tr (cli_world s) @ es \<and>
    patch_protocol (map (crd_patch (t_objects T) force) crds) es r \<and> reports (snd (apply_crds T cfg force crds s)) r"
proof (induction crds arbitrary: s)
  case (Cons crd crds)
  let ?p = "crd_patch (t_objects T) force crd"
  obtain s1 r where a: "applyResource T cfg ?p s = (s1, r)" by fastforce
  note l = patch_trace [OF assms a]
  show ?case
  proof (cases r)
    case None
    define s2 where "s2 = say (''[restore]   '' @ check_mark @ '' CRD '' @ u_getName (t_objects T) crd @ '' applied'') s1"
    obtain es r' where "tr (cli_world (fst (apply_crds T cfg force crds s2))) = tr (cli_world s2) @ es"
      "patch_protocol (map (crd_patch (t_objects T) force) crds) es r'" "reports (snd (apply_crds T cfg force crds s2)) r'"
      using Cons.IH by blast
    then show ?thesis using None a l
      by (intro exI [of _ "Patched ?p None # es"] exI [of _ r']) (simp add: s2_def Let_def patch_accepted)
  next
    case (Some e)
    then show ?thesis using a l by (intro exI [of _ "[Patched ?p r]"] exI [of _ r]) (simp add: Let_def patch_refused)
  qed
qed (intro exI [of _ "[]"] exI [of _ None], simp add: patches_done)

definition node_patches :: "unstructured_ops \<Rightarrow> bool \<Rightarrow> json list \<Rightarrow> apply_patch list" where
  "node_patches U force nodes = map (\<lambda>node. node_patch U force (default_namespace U node)) nodes"

lemma apply_nodes_trace:
  assumes "traced T tr"
  shows "\<exists>es r. tr (cli_world (fst (apply_nodes T cfg force nodes s))) = tr (cli_world s) @ es \<and>
    patch_protocol (node_patches (t_objects T) force nodes) es r \<and> reports (snd (apply_nodes T cfg force nodes s)) r"
proof (induction nodes arbitrary: s)
  case (Cons node nodes)
  let ?p = "node_patch (t_objects T) force (default_namespace (t_objects T) node)"
  obtain s1 r where a: "applyResource T cfg ?p s = (s1, r)" by fastforce
  note l = patch_trace [OF assms a]
  show ?case
  proof (cases r)
    case None
    define s2 where "s2 = say (''[restore]   '' @ check_mark @ '' TaoNode '' @
      ((if u_getNamespace (t_objects T) node = '''' then ''taonode-guardian-system'' else u_getNamespace (t_objects T) node) @ ''/'' @
       u_getName (t_objects T) (default_namespace (t_objects T) node)) @ '' applied'') s1"
    obtain es r' where "tr (cli_world (fst (apply_nodes T cfg force nodes s2))) = tr (cli_world s2) @ es"
      "patch_protocol (node_patches (t_objects T) force nodes) es r'" "reports (snd (apply_nodes T cfg force nodes s2)) r'"
      using Cons.IH by blast
    then show ?thesis using None a l
      by (intro exI [of _ "Patched ?p None # es"] exI [of _ r']) (simp add: s2_def Let_def node_patches_def patch_accepted)
  next
    case (Some e)
    then show ?thesis using a l
      by (intro exI [of _ "[Patched ?p r]"] exI [of _ r]) (simp add: Let_def node_patches_def patch_refused)
  qed
qed (intro exI [of _ "[]"] exI [of _ None], simp add: patches_done node_patches_def)

text \<open>The two phases.\<close>

lemma restore_crds_trace:
  assumes "traced T tr" and "restore_crds T cfg force crds s = (s1, res)"
  shows "\<exists>es r. tr (cli_world s1) = tr (cli_world s) @ es \<and> reports res r \<and>
    ((\<exists>e. r = Some e \<and> patch_protocol (map (crd_patch (t_objects T) force) crds) es r) \<or>
     (\<exists>es1 looks. es = es1 @ looks \<and> patch_protocol (map (crd_patch (t_objects T) force) crds) es1 None \<and>
        await_protocol (map (u_getName (t_objects T)) crds) looks r))"
proof (cases "crds = []")
  case False
  define s0 where "s0 = say (''[restore] Phase 1 '' @ em_dash @ '' applying '' @ fmt_int (int (length crds)) @ '' CRD(s)'') s"
  obtain s2 res2 where a: "apply_crds T cfg force crds s0 = (s2, res2)" by fastforce
  obtain es r where es: "tr (cli_world s2) = tr (cli_world s) @ es" "patch_protocol (map (crd_patch (t_objects T) force) crds) es r"
    "reports res2 r" using apply_crds_trace [OF assms(1), of cfg force crds s0] a by (auto simp: s0_def)
  have run: "(case res2 of Some e \<Rightarrow> (s2, Some e) | None \<Rightarrow> await_crds T cfg crds s2) = (s1, res)"
    using assms(2) False a unfolding restore_crds_def s0_def [symmetric] by (simp split: option.splits)
  show ?thesis
  proof (cases r)
    case None
    obtain looks r' where "tr (cli_world (fst (await_crds T cfg crds s2))) = tr (cli_world s2) @ looks"
      "await_protocol (map (u_getName (t_objects T)) crds) looks r'" "reports (snd (await_crds T cfg crds s2)) r'"
      using await_trace [OF assms(1), of cfg crds s2] by blast
    then show ?thesis using None es run by (intro exI [of _ "es @ looks"] exI [of _ r']) auto
  next
    case (Some e)
    then show ?thesis using es run by (intro exI [of _ es] exI [of _ r]) (auto simp: reports_def)
  qed
qed (use assms(2) in \<open>auto simp: restore_crds_def intro!: exI [of _ None] all_established patches_done\<close>)

lemma restore_nodes_trace:
  assumes "traced T tr"
  shows "\<exists>es r. tr (cli_world (fst (restore_nodes T cfg force crds nodes s))) = tr (cli_world s) @ es \<and>
    patch_protocol (node_patches (t_objects T) force nodes) es r \<and> reports (snd (restore_nodes T cfg force crds nodes s)) r"
proof -
  define s0 where "s0 = say (''[restore] Phase 2 '' @ em_dash @ '' applying '' @ fmt_int (int (length nodes)) @ '' TaoNode CR(s)'') s"
  obtain s1 r where a: "apply_nodes T cfg force nodes s0 = (s1, r)" by fastforce
  have "cli_world (fst (restore_nodes T cfg force crds nodes s)) = cli_world s1 \<and> snd (restore_nodes T cfg force crds nodes s) = r"
    unfolding restore_nodes_def s0_def [symmetric] a by (cases r) simp_all
  then show ?thesis using apply_nodes_trace [OF assms, of cfg force nodes s0] a by (auto simp: s0_def)
qed

text \<open>
  C18. Definitions before resources, and no failure passed over. Whatever the cluster answers, a
  restore patches the custom resource definitions in order up to the first refusal, then looks at
  them in order until each is seen established, and patches a TaoNode only when every definition was
  accepted and seen established; the TaoNodes too are patched in order up to the first refusal. The
  command fails exactly when one of these steps does, with that step's error. When it succeeds, every
  patch was sent and accepted.
\<close>

theorem crds_before_nodes:
  assumes "traced T tr"
  shows "\<exists>es r. tr (cli_world (fst (restore_apply T cfg force crds nodes s))) = tr (cli_world s) @ es \<and>
    restore_protocol (map (crd_patch (t_objects T) force) crds) (map (u_getName (t_objects T)) crds)
      (node_patches (t_objects T) force nodes) es r \<and>
    reports (snd (restore_apply T cfg force crds nodes s)) r \<and>
    (snd (restore_apply T cfg force crds nodes s) = None \<longrightarrow>
       (\<exists>looks. await_protocol (map (u_getName (t_objects T)) crds) looks None \<and>
          es = map (\<lambda>p. Patched p None) (map (crd_patch (t_objects T) force) crds) @ looks @
            map (\<lambda>p. Patched p None) (node_patches (t_objects T) force nodes)))"
proof -
  let ?cps = "map (crd_patch (t_objects T) force) crds" and ?names = "map (u_getName (t_objects T)) crds"
  let ?nps = "node_patches (t_objects T) force nodes"
  have goal: ?thesis
    if "tr (cli_world (fst (restore_apply T cfg force crds nodes s))) = tr (cli_world s) @ es"
      "restore_protocol ?cps ?names ?nps es r" "reports (snd (restore_apply T cfg force crds nodes s)) r" for es r
  proof -
    have "r = None" if "snd (restore_apply T cfg force crds nodes s) = None"
      using \<open>reports _ r\<close> that by (auto simp: reports_def split: option.splits)
    then show ?thesis using that restore_protocol_done [of ?cps ?names ?nps es] by (intro exI [of _ es] exI [of _ r]) blast
  qed
  obtain s1 res where one: "restore_crds T cfg force crds s = (s1, res)" by fastforce
  obtain es r where es: "tr (cli_world s1) = tr (cli_world s) @ es" "reports res r" and
    cases: "(\<exists>e. r = Some e \<and> patch_protocol ?cps es r) \<or>
      (\<exists>es1 looks. es = es1 @ looks \<and> patch_protocol ?cps es1 None \<and> await_protocol ?names looks r)"
    using restore_crds_trace [OF assms one] by blast
  show ?thesis
  proof (cases r)
    case (Some e)
    then have "restore_protocol ?cps ?names ?nps es r"
      using cases by (auto intro: definitions_refused definitions_not_ready)
    then show ?thesis using es one Some by (intro goal [of es r]) (auto simp: restore_apply_def reports_def)
  next
    case None
    then obtain es1 looks where split: "es = es1 @ looks" "patch_protocol ?cps es1 None" "await_protocol ?names looks None"
      using cases by blast
    obtain es2 r2 where two: "tr (cli_world (fst (restore_nodes T cfg force crds nodes s1))) = tr (cli_world s1) @ es2"
      "patch_protocol ?nps es2 r2" "reports (snd (restore_nodes T cfg force crds nodes s1)) r2"
      using restore_nodes_trace [OF assms, of cfg force crds nodes s1] by (elim exE conjE) (rule that)
    have "restore_protocol ?cps ?names ?nps (es @ es2) r2"
      using resources_applied [OF split(2,3) two(2)] split(1) by simp
    moreover have "res = None" using es(2) None by simp
    ultimately show ?thesis using es one two
      by (intro goal [of "es @ es2" r2]) (simp_all add: restore_apply_def)
  qed
qed

lemma lab_traced: "traced lab_tools lab_events"
proof -
  have "\<exists>n. case (case poll_n f 46 w of (w1, ok) \<Rightarrow> (w1, if ok then None else Some (OtherErr ''timed out''))) of
      (w1, e) \<Rightarrow> poll_n f n w = (w1, e = None)" for f and w :: lab
    by (rule exI [of _ 46]) (simp split: prod.split)
  then show ?thesis
    by (auto simp: traced_def lab_tools_def crd_ready_def flat_objects_def text_of_def lab_crd_def established_def)
qed

theorem crds_before_nodes_witness:
  "\<exists>es r. lab_events (cli_world (fst (restore_apply lab_tools ''c'' True [lab_crd] [lab_node ''alpha''] lab_start))) = es \<and>
    restore_protocol [crd_patch flat_objects True lab_crd] [''taonodes.tao.guardian.io'']
      (node_patches flat_objects True [lab_node ''alpha'']) es r"
proof -
  have U: "t_objects lab_tools = flat_objects" by (simp add: lab_tools_def)
  have n: "u_getName flat_objects lab_crd = ''taonodes.tao.guardian.io''" by (simp add: flat_objects_def text_of_def lab_crd_def)
  have z: "lab_events (cli_world lab_start) = []" by (simp add: lab_start_def)
  show ?thesis
    using crds_before_nodes [OF lab_traced, of "''c''" True "[lab_crd]" "[lab_node ''alpha'']" lab_start]
    unfolding U list.map n z append_Nil by blast
qed

end
