(* ===== verification/Dr_Status.thy ===== *)
theory Dr_Status
  imports Tao_Dr Fleet_Analytics
begin

text \<open>
  The \<open>status\<close> command of the disaster-recovery tool (\<open>tools/tao-dr/internal/status/status.go\<close>): the
  inventory of the backups against the recovery point objective, and the health of the cluster. The
  pages of an S3 listing, the list of the cluster's nodes and \<open>sort.Slice\<close>, which is free in how it
  orders equal elements, are parameters. One call reads the clock once; writing to the terminal succeeds.
\<close>

section \<open>Services\<close>

record s3_object =
  so_Key :: string
  so_LastModified :: time
  so_Size :: int64

record backupEntry =
  be_Key :: string
  be_LastModified :: time
  be_SizeBytes :: int64

text \<open>The conditions of a node as pairs of type and status; a page may fail.\<close>

record 'w status_tools =
  st_tools :: "'w dr_tools"
  st_pages :: "'w \<Rightarrow> string \<Rightarrow> string \<Rightarrow> 'w \<times> (kerr + s3_object list) list"
  st_client :: "rest_config \<Rightarrow> kerr option"
  st_nodes :: "rest_config \<Rightarrow> 'w \<Rightarrow> 'w \<times> (kerr + (string \<times> string) list list)"
  st_sort :: "backupEntry list \<Rightarrow> backupEntry list"

section \<open>Helpers\<close>

definition rpo :: duration where "rpo = 4 * hour"

definition duration_minutes :: "duration \<Rightarrow> gofloat" where
  "duration_minutes d =
     fadd64 (f64_of_int (sint d sdiv 60000000000)) (fdiv64 (f64_of_int (sint d smod 60000000000)) (r64 60000000000))"

definition humanBytes :: "int64 \<Rightarrow> string" where
  "humanBytes b =
     (if 1048576 \<le> sint b then fmt_f 1 (fdiv64 (f64_of_int (sint b)) (f64_of_int 1048576)) @ '' MB''
      else if 1024 \<le> sint b then fmt_f 1 (fdiv64 (f64_of_int (sint b)) (f64_of_int 1024)) @ '' KB''
      else fmt_d b @ '' B'')"

definition humanDuration :: "duration \<Rightarrow> string" where
  "humanDuration d =
     (if 24 * sint hour \<le> sint d then fmt_f 0 (fdiv64 (duration_hours d) (r64 24)) @ ''d''
      else if sint hour \<le> sint d then fmt_f 0 (duration_hours d) @ ''h''
      else fmt_f 0 (duration_minutes d) @ ''m'')"

definition pad_right :: "nat \<Rightarrow> string \<Rightarrow> string" where
  "pad_right n s = s @ replicate (n - length s) (CHR '' '')"

section \<open>The inventory\<close>

definition entry_of :: "s3_object \<Rightarrow> backupEntry" where
  "entry_of obj = \<lparr>be_Key = so_Key obj, be_LastModified = so_LastModified obj, be_SizeBytes = so_Size obj\<rparr>"

definition page_entries :: "s3_object list \<Rightarrow> backupEntry list" where
  "page_entries objs = map entry_of (filter (\<lambda>obj. has_suffix (so_Key obj) ''.json.gz'') objs)"

fun collect_pages :: "string \<Rightarrow> (kerr + s3_object list) list \<Rightarrow> backupEntry list \<Rightarrow> kerr + backupEntry list" where
  "collect_pages bucket [] entries = Inr entries"
| "collect_pages bucket (Inl e # pages) entries = Inl (Wrapped (''listing s3://'' @ bucket @ ''/dr-backups/'') e)"
| "collect_pages bucket (Inr objs # pages) entries = collect_pages bucket pages (entries @ page_entries objs)"

definition listBackups :: "'w status_tools \<Rightarrow> string \<Rightarrow> 'w cli_state \<Rightarrow> 'w cli_state \<times> (kerr + backupEntry list)" where
  "listBackups T bucket s =
     (case cli_call (\<lambda>w. st_pages T w bucket ''dr-backups/'') s of (s1, pages) \<Rightarrow> (s1, collect_pages bucket pages []))"

definition warning_sign :: string where "warning_sign = [CHR 0xE2, CHR 0x9A, CHR 0xA0]"

definition entry_row :: "time \<Rightarrow> backupEntry \<Rightarrow> string" where
  "entry_row now e =
     (let age = since now (be_LastModified e);
          rpoLabel = (if sint rpo < sint age then cross_mark @ '' BREACH'' else check_mark @ '' ok'')
      in join tab [be_Key e, humanBytes (be_SizeBytes e), humanDuration age, rpoLabel])"

definition breach_warning :: "duration \<Rightarrow> string list" where
  "breach_warning latestAge =
     ['''', ''  '' @ warning_sign @ ''  RPO BREACH: latest backup is '' @ humanDuration latestAge @ '' old (RPO = '' @ fmt_duration rpo @ '')'']"

definition no_backups :: string where "no_backups = ''(no backups found under dr-backups/)''"

definition verdict :: "time \<Rightarrow> backupEntry list \<Rightarrow> string list" where
  "verdict now entries =
     (case entries of
        [] \<Rightarrow> [no_backups]
      | e # _ \<Rightarrow> (let latestAge = since now (be_LastModified e) in if sint rpo < sint latestAge then breach_warning latestAge else []))"

definition inventory_head :: "string \<Rightarrow> string list" where
  "inventory_head bucket = [''DR BACKUP INVENTORY  (s3://'' @ bucket @ '')'', join tab [''KEY'', ''SIZE'', ''AGE'', ''RPO''],
     join tab [dashes 3, dashes 4, dashes 3, dashes 3]]"

definition printBackupStatus :: "'w status_tools \<Rightarrow> time \<Rightarrow> string \<Rightarrow> string \<Rightarrow> 'w cli_state \<Rightarrow> 'w cli_state \<times> kerr option" where
  "printBackupStatus T now bucket region s =
     (case t_awsConfig (st_tools T) region of
        Some e \<Rightarrow> (s, Some (Wrapped ''loading AWS config'' e))
      | None \<Rightarrow>
          (case listBackups T bucket s of
             (s1, Inl e) \<Rightarrow> (s1, Some e)
           | (s1, Inr listed) \<Rightarrow>
               let entries = st_sort T listed
               in (fold say (inventory_head bucket @ map (entry_row now) entries @ verdict now entries) s1, None)))"

section \<open>The cluster\<close>

definition ready_conditions :: "(string \<times> string) list list \<Rightarrow> nat" where
  "ready_conditions nodes = length (filter (\<lambda>c. c = (''Ready'', ''True'')) (concat nodes))"

definition phase_of :: "unstructured_ops \<Rightarrow> json \<Rightarrow> string" where
  "phase_of U item = (let phase = u_nestedString U item [''status'', ''phase''] in if phase = '''' then ''Unknown'' else phase)"

definition taoNodePhaseCounts :: "unstructured_ops \<Rightarrow> json list \<Rightarrow> string \<Rightarrow> nat" where
  "taoNodePhaseCounts U items = fold (\<lambda>item counts. counts(phase_of U item := Suc (counts (phase_of U item)))) items (\<lambda>_. 0)"

definition listed_phases :: "string list" where
  "listed_phases = [''Synced'', ''Syncing'', ''Degraded'', ''Recovering'', ''Failed'', ''Pending'', ''Unknown'']"

definition phase_lines :: "(string \<Rightarrow> nat) \<Rightarrow> string list" where
  "phase_lines phaseCounts =
     map (\<lambda>phase. ''    '' @ pad_right 14 (phase @ '':'') @ tab @ fmt_int (int (phaseCounts phase)))
       (filter (\<lambda>phase. 0 < phaseCounts phase) listed_phases)"

definition health_lines :: "unstructured_ops \<Rightarrow> (string \<times> string) list list \<Rightarrow> kerr + json list \<Rightarrow> string list" where
  "health_lines U nodes taoList =
     [''CLUSTER HEALTH'', dashes 46, ''  K8s API:'' @ tab @ check_mark @ '' reachable'',
      ''  Nodes:'' @ tab @ fmt_int (int (ready_conditions nodes)) @ '' Ready / '' @ fmt_int (int (length nodes)) @ '' Total''] @
     (case taoList of
        Inl _ \<Rightarrow> [''  TaoNode CRD:'' @ tab @ cross_mark @ '' not installed (run '' @ [CHR 0x27] @ ''make install'' @ [CHR 0x27] @ '' first)'']
      | Inr items \<Rightarrow> (''  TaoNodes:'' @ tab @ fmt_int (int (length items)) @ '' total'') # phase_lines (taoNodePhaseCounts U items))"

definition printClusterHealth :: "'w status_tools \<Rightarrow> string \<Rightarrow> 'w cli_state \<Rightarrow> 'w cli_state \<times> kerr option" where
  "printClusterHealth T kubeconfig s =
     (case kubeRESTConfig (st_tools T) kubeconfig of
        Inl _ \<Rightarrow> (say (''CLUSTER HEALTH  '' @ cross_mark @ '' unreachable (kubeconfig not found or invalid)'') s, None)
      | Inr cfg \<Rightarrow>
          (case st_client T cfg of
             Some e \<Rightarrow> (s, Some (Wrapped ''building kubernetes client'' e))
           | None \<Rightarrow>
               (case t_dynamic (st_tools T) cfg of
                  Some e \<Rightarrow> (s, Some (Wrapped ''building dynamic client'' e))
                | None \<Rightarrow>
                    (case cli_call (st_nodes T cfg) s of
                       (s1, Inl e) \<Rightarrow> (s1, Some (Wrapped ''listing nodes'' e))
                     | (s1, Inr nodes) \<Rightarrow>
                         (case cli_call (\<lambda>w. t_list (st_tools T) cfg w '''') s1 of
                            (s2, taoList) \<Rightarrow> (fold say (health_lines (t_objects (st_tools T)) nodes taoList) s2, None))))))"

definition status_run :: "'w status_tools \<Rightarrow> time \<Rightarrow> string \<Rightarrow> string \<Rightarrow> string \<Rightarrow> 'w cli_state \<Rightarrow> 'w cli_state \<times> kerr option" where
  "status_run T now bucket region kubeconfig s =
     (if bucket = '''' then (s, Some (OtherErr ''--s3-bucket is required''))
      else case printBackupStatus T now bucket region s of
             (s1, errBackup) \<Rightarrow>
               (case printClusterHealth T kubeconfig (say '''' s1) of
                  (s2, errCluster) \<Rightarrow>
                    (s2, case errBackup of Some e \<Rightarrow> Some (Wrapped ''backup status'' e) | None \<Rightarrow> errCluster)))"

definition status_NewCommand :: "'w status_tools \<Rightarrow> time \<Rightarrow> string \<Rightarrow> string \<Rightarrow> string \<Rightarrow> 'w cli_state \<Rightarrow> 'w cli_state \<times> kerr option" where
  "status_NewCommand T now s3Bucket s3Region kubeconfig s = status_run T now s3Bucket s3Region kubeconfig s"

section \<open>What the command reports\<close>

text \<open>As documented, \<open>sort.Slice\<close> rearranges its slice into the order given, here newest first.\<close>

definition sorts_newest :: "'w status_tools \<Rightarrow> bool" where
  "sorts_newest T \<longleftrightarrow> (\<forall>es. mset (st_sort T es) = mset es \<and> sorted_wrt (\<lambda>a b. be_LastModified b \<le> be_LastModified a) (st_sort T es))"

lemma collect_pages_all:
  "collect_pages bucket (map Inr pages) entries = Inr (entries @ page_entries (concat pages))"
  by (induction pages arbitrary: entries) (auto simp: page_entries_def)

lemma collect_pages_error:
  "Inl e \<in> set pages \<Longrightarrow> \<exists>e'. collect_pages bucket pages entries = Inl e'"
  by (induction bucket pages entries rule: collect_pages.induct) auto

lemma fold_say: "fold say ls s = s\<lparr>cli_out := cli_out s @ ls\<rparr>"
  by (induction ls arbitrary: s) (simp_all add: say_def)

definition latest :: "backupEntry list \<Rightarrow> time" where
  "latest es = Max (be_LastModified ` set es)"

lemma newest_first:
  assumes "sorts_newest T" and "es \<noteq> []"
  obtains e rest where "st_sort T es = e # rest" and "be_LastModified e = latest es"
proof -
  have m: "mset (st_sort T es) = mset es" and s: "sorted_wrt (\<lambda>a b. be_LastModified b \<le> be_LastModified a) (st_sort T es)"
    using assms(1) by (auto simp: sorts_newest_def)
  then have eq: "set (st_sort T es) = set es" using mset_eq_setD by blast
  then obtain e rest where st: "st_sort T es = e # rest" using assms(2) by (cases "st_sort T es") auto
  then have "\<forall>x \<in> set es. be_LastModified x \<le> be_LastModified e" using s eq by force
  moreover have "e \<in> set es" using st eq by (metis list.set_intros(1))
  ultimately have "be_LastModified e = latest es" unfolding latest_def by (intro Max_eqI [symmetric]) auto
  then show ?thesis using st that by blast
qed

lemma status_page_error:
  assumes "t_awsConfig (st_tools T) region = None" and "Inl e \<in> set (snd (st_pages T (cli_world s) bucket ''dr-backups/''))"
  shows "\<exists>e'. snd (printBackupStatus T now bucket region s) = Some e'"
proof -
  obtain e' where "collect_pages bucket (snd (st_pages T (cli_world s) bucket ''dr-backups/'')) [] = Inl e'"
    using collect_pages_error [OF assms(2)] by blast
  then have "snd (listBackups T bucket s) = Inl e'" by (auto simp: listBackups_def cli_call_def split: prod.splits)
  then show ?thesis using assms(1) by (cases "listBackups T bucket s") (simp add: printBackupStatus_def)
qed

text \<open>
  C32. The inventory is complete and its verdict right. When the listing succeeds, every gzip backup on
  every page has one row, and after the rows there is a breach warning exactly when even the latest
  backup is older than the objective of four hours, with the age of that backup. With no backup at
  all there is a notice and no breach warning.
\<close>

theorem status_rpo:
  assumes "sorts_newest T" and "t_awsConfig (st_tools T) region = None"
    and "snd (st_pages T (cli_world s) bucket ''dr-backups/'') = map Inr pages"
  shows "\<exists>rows s1. printBackupStatus T now bucket region s = (s1, None) \<and>
     mset rows = mset (map (entry_row now) (page_entries (concat pages))) \<and>
     cli_out s1 = cli_out s @ inventory_head bucket @ rows @
       (if page_entries (concat pages) = [] then [no_backups]
        else if sint rpo < now - latest (page_entries (concat pages))
             then breach_warning (since now (latest (page_entries (concat pages)))) else [])"
proof -
  define es where "es = page_entries (concat pages)"
  obtain w where w: "st_pages T (cli_world s) bucket ''dr-backups/'' = (w, map Inr pages)" using assms(3) by (metis prod.collapse)
  then have run: "printBackupStatus T now bucket region s =
      (fold say (inventory_head bucket @ map (entry_row now) (st_sort T es) @ verdict now (st_sort T es)) (s\<lparr>cli_world := w\<rparr>), None)"
    using assms(2) by (simp add: printBackupStatus_def listBackups_def cli_call_def collect_pages_all es_def Let_def)
  have m: "mset (st_sort T es) = mset es" using assms(1) by (simp add: sorts_newest_def)
  have v: "verdict now (st_sort T es) =
      (if es = [] then [no_backups] else if sint rpo < now - latest es then breach_warning (since now (latest es)) else [])"
  proof (cases "es = []")
    case True
    then show ?thesis using m by (simp add: verdict_def)
  next
    case False
    then obtain e rest where "st_sort T es = e # rest" "be_LastModified e = latest es" by (rule newest_first [OF assms(1)])
    moreover have "sint rpo < sint (since now (latest es)) \<longleftrightarrow> sint rpo < now - latest es"
      by (rule less_since_iff) (simp add: rpo_def hour_def minute_def second_def)
    ultimately show ?thesis using False by (simp add: verdict_def Let_def)
  qed
  have "mset (map (entry_row now) (st_sort T es)) = mset (map (entry_row now) es)" using m by simp
  then show ?thesis using run v by (auto simp: es_def [symmetric] fold_say intro!: exI)
qed

definition lab_status :: "lab status_tools" where
  "lab_status = \<lparr>st_tools = lab_tools,
     st_pages = (\<lambda>w b p. (w, [Inr [\<lparr>so_Key = ''dr-backups/c/a.json.gz'', so_LastModified = 0, so_Size = 10\<rparr>],
       Inr [\<lparr>so_Key = ''dr-backups/c/notes.txt'', so_LastModified = 9, so_Size = 1\<rparr>]])),
     st_client = (\<lambda>_. None), st_nodes = (\<lambda>_ w. (w, Inr [[(''Ready'', ''True'')]])),
     st_sort = (\<lambda>es. rev (sort_key be_LastModified es))\<rparr>"

lemma lab_sorts: "sorts_newest lab_status"
proof -
  have "sorted_wrt (\<lambda>a b. be_LastModified b \<le> be_LastModified a) (rev (sort_key be_LastModified es))" for es :: "backupEntry list"
    using sorted_sort_key [of be_LastModified es] by (simp add: sorted_wrt_rev sorted_wrt_map sorted_map)
  then show ?thesis unfolding sorts_newest_def by (simp add: lab_status_def)
qed

definition lab_pages :: "s3_object list list" where
  "lab_pages = [[\<lparr>so_Key = ''dr-backups/c/a.json.gz'', so_LastModified = 0, so_Size = 10\<rparr>],
     [\<lparr>so_Key = ''dr-backups/c/notes.txt'', so_LastModified = 9, so_Size = 1\<rparr>]]"

theorem status_rpo_witness:
  "\<exists>rows s1. printBackupStatus lab_status 18000000000000 ''b'' ''r'' lab_start = (s1, None) \<and> length rows = 1 \<and>
     cli_out s1 = inventory_head ''b'' @ rows @ breach_warning (since 18000000000000 0)"
proof -
  have ok: "snd (st_pages lab_status (cli_world lab_start) ''b'' ''dr-backups/'') = map Inr lab_pages"
    by (simp add: lab_status_def lab_pages_def)
  have aws: "t_awsConfig (st_tools lab_status) ''r'' = None" by (simp add: lab_status_def lab_tools_def)
  have one: "page_entries (concat lab_pages) = [\<lparr>be_Key = ''dr-backups/c/a.json.gz'', be_LastModified = 0, be_SizeBytes = 10\<rparr>]"
    by (simp add: lab_pages_def page_entries_def has_suffix_def entry_of_def)
  obtain rows s1 where r: "printBackupStatus lab_status 18000000000000 ''b'' ''r'' lab_start = (s1, None)"
      "mset rows = mset (map (entry_row 18000000000000) (page_entries (concat lab_pages)))"
      "cli_out s1 = cli_out lab_start @ inventory_head ''b'' @ rows @
        (if page_entries (concat lab_pages) = [] then [no_backups]
         else if sint rpo < 18000000000000 - latest (page_entries (concat lab_pages))
              then breach_warning (since 18000000000000 (latest (page_entries (concat lab_pages)))) else [])"
    using status_rpo [OF lab_sorts aws ok, of 18000000000000] by blast
  have "length rows = 1" using mset_eq_length [OF r(2)] one by simp
  moreover have "sint rpo < 18000000000000" by (simp add: rpo_def hour_def minute_def second_def)
  ultimately show ?thesis using r(1,3) one by (simp add: latest_def lab_start_def)
qed

lemma phase_counts: "taoNodePhaseCounts U items p = length (filter (\<lambda>item. phase_of U item = p) items)"
proof -
  have "fold (\<lambda>item counts. counts(phase_of U item := Suc (counts (phase_of U item)))) items c p =
      c p + length (filter (\<lambda>item. phase_of U item = p) items)" for c
    by (induction items arbitrary: c) auto
  then show ?thesis by (simp add: taoNodePhaseCounts_def)
qed

text \<open>The lines of the report account for every TaoNode whose phase is one of the API's.\<close>

lemma phases_add_up:
  assumes "list_all (\<lambda>item. phase_of U item \<in> set listed_phases) items"
  shows "sum_list (map (taoNodePhaseCounts U items) (filter (\<lambda>phase. 0 < taoNodePhaseCounts U items phase) listed_phases)) = length items"
proof -
  have "sum_list (map f (filter (\<lambda>p. 0 < f p) ps)) = sum_list (map f ps)" for f :: "string \<Rightarrow> nat" and ps by (induction ps) auto
  moreover have "sum_list (map (taoNodePhaseCounts U items) ps) = length items"
    if "distinct ps" "list_all (\<lambda>item. phase_of U item \<in> set ps) items" for ps
    using that(2)
  proof (induction items)
    case (Cons x xs)
    have other: "sum_list (map (\<lambda>p. if phase_of U x = p then Suc (g p) else g p) ps) = sum_list (map g ps)"
      if "phase_of U x \<notin> set ps" for g ps using that by (induction ps) auto
    have "sum_list (map (\<lambda>p. if phase_of U x = p then Suc (g p) else g p) ps) = Suc (sum_list (map g ps))"
      if "phase_of U x \<in> set ps" "distinct ps" for g ps using that by (induction ps) (auto simp: other)
    then have "sum_list (map (\<lambda>p. if phase_of U x = p then Suc (taoNodePhaseCounts U xs p) else taoNodePhaseCounts U xs p) ps) =
        Suc (sum_list (map (taoNodePhaseCounts U xs) ps))" using Cons.prems \<open>distinct ps\<close> by auto
    moreover have "taoNodePhaseCounts U (x # xs) = (\<lambda>p. if phase_of U x = p then Suc (taoNodePhaseCounts U xs p) else taoNodePhaseCounts U xs p)"
      by (auto simp: phase_counts)
    ultimately show ?case using Cons by simp
  qed (simp add: phase_counts)
  moreover have "distinct listed_phases" by (simp add: listed_phases_def)
  ultimately show ?thesis using assms by metis
qed

end
