(* ===== verification/Dr_Failover.thy ===== *)
theory Dr_Failover
  imports Tao_Dr
begin

text \<open>
  The \<open>failover\<close> command of the disaster-recovery tool (\<open>tools/tao-dr/internal/failover/failover.go\<close>):
  Terraform is initialised, planned and applied. The file system, the \<open>tfexec\<close> package and the \<open>%q\<close>
  verb of \<open>fmt\<close> are parameters.
\<close>

section \<open>Services\<close>

datatype stat_answer = NotExist | StatFailed kerr | Stat bool

datatype plan_option = PlanVar string | Out string
datatype apply_option = DirOrPlan string | ApplyVar string

text \<open>A Terraform command is told its working directory and binary by the handle.\<close>

type_synonym terraform = "string \<times> string"

record 'w tf_tools =
  tf_LookPath :: "kerr + string"
  tf_Stat :: "string \<Rightarrow> stat_answer"
  tf_Getwd :: "string option"
  tf_New :: "string \<Rightarrow> string \<Rightarrow> kerr option"
  tf_Init :: "terraform \<Rightarrow> bool \<Rightarrow> 'w \<Rightarrow> 'w \<times> kerr option"
  tf_Plan :: "terraform \<Rightarrow> plan_option list \<Rightarrow> 'w \<Rightarrow> 'w \<times> (kerr + bool)"
  tf_Apply :: "terraform \<Rightarrow> apply_option list \<Rightarrow> 'w \<Rightarrow> 'w \<times> kerr option"
  tf_q :: "string \<Rightarrow> string"

section \<open>Paths and variables\<close>

definition resolvePath :: "'w tf_tools \<Rightarrow> string \<Rightarrow> kerr + string" where
  "resolvePath T dir =
     (case tf_Stat T dir of
        NotExist \<Rightarrow> Inl (OtherErr (''directory does not exist: '' @ dir))
      | StatFailed e \<Rightarrow> Inl e
      | Stat isDir \<Rightarrow>
          if \<not> isDir then Inl (OtherErr (dir @ '' is not a directory''))
          else case tf_Getwd T of
                 None \<Rightarrow> Inr dir
               | Some wd \<Rightarrow>
                   if has_prefix dir ''/'' \<or> (1 < length dir \<and> dir ! 1 = CHR '':'') then Inr dir
                   else Inr (wd @ ''/'' @ dir))"

text \<open>\<open>strings.Cut\<close> at the first equals sign.\<close>

definition cut_eq :: "string \<Rightarrow> string \<times> string \<times> bool" where
  "cut_eq s = (let k = takeWhile (\<lambda>c. c \<noteq> CHR ''='') s
     in if length k < length s then (k, drop (Suc (length k)) s, True) else (s, '''', False))"

fun var_opts :: "'w tf_tools \<Rightarrow> string list \<Rightarrow> plan_option list \<Rightarrow> apply_option list \<Rightarrow> kerr + plan_option list \<times> apply_option list" where
  "var_opts T [] planOpts applyOpts = Inr (planOpts, applyOpts)"
| "var_opts T (pair # pairs) planOpts applyOpts =
     (case cut_eq pair of
        (k, v, found) \<Rightarrow>
          if \<not> found \<or> k = '''' then Inl (OtherErr (''invalid --tf-var '' @ tf_q T pair @ '': expected key=value format''))
          else var_opts T pairs (planOpts @ [PlanVar (k @ ''='' @ v)]) (applyOpts @ [ApplyVar (k @ ''='' @ v)]))"

definition buildVarOpts :: "'w tf_tools \<Rightarrow> string list \<Rightarrow> kerr + plan_option list \<times> apply_option list" where
  "buildVarOpts T pairs = var_opts T pairs [] []"

section \<open>The command\<close>

definition no_terraform :: string where
  "no_terraform = [CHR 0x0A] @ ''Install Terraform from https://developer.hashicorp.com/terraform/downloads''"

text \<open>The message wraps the error in its middle: what follows the error is part of the text.\<close>

definition lookpath_error :: "kerr \<Rightarrow> kerr" where
  "lookpath_error e = OtherErr (''terraform binary not found in PATH: '' @ error_text e @ no_terraform)"

text \<open>Steps 4 to 7, with the handle and the options at hand.\<close>

definition terraform_steps ::
  "'w tf_tools \<Rightarrow> terraform \<Rightarrow> plan_option list \<Rightarrow> apply_option list \<Rightarrow> bool \<Rightarrow> 'w cli_state \<Rightarrow> 'w cli_state \<times> kerr option" where
  "terraform_steps T tf planVarOpts applyVarOpts dryRun s =
     (case cli_call (tf_Init T tf False) (say ''[failover] Running: terraform init'' s) of
        (s1, Some e) \<Rightarrow> (s1, Some (Wrapped ''terraform init'' e))
      | (s1, None) \<Rightarrow>
          let planFile = (if dryRun then '''' else ''tao-dr-failover.tfplan'');
              planOpts = planVarOpts @ (if planFile \<noteq> '''' then [Out planFile] else [])
          in (case cli_call (tf_Plan T tf planOpts) (say ''[failover] Running: terraform plan'' s1) of
                (s2, Inl e) \<Rightarrow> (s2, Some (Wrapped ''terraform plan'' e))
              | (s2, Inr hasChanges) \<Rightarrow>
                  if \<not> hasChanges then (say ''[failover] Plan: no infrastructure changes required.'' s2, None)
                  else if dryRun then (say ''[dry-run] Plan complete. No changes applied (--dry-run).'' (say '''' s2), None)
                  else case cli_call (tf_Apply T tf (DirOrPlan planFile # applyVarOpts)) (say ''[failover] Running: terraform apply'' s2) of
                         (s3, Some e) \<Rightarrow> (s3, Some (Wrapped ''terraform apply'' e))
                       | (s3, None) \<Rightarrow>
                           (say (''[failover] Failover complete. Verify the new cluster with '' @ [CHR 0x27] @ ''tao-dr status'' @ [CHR 0x27] @ ''.'') s3, None)))"

definition failover_run :: "'w tf_tools \<Rightarrow> string \<Rightarrow> string list \<Rightarrow> bool \<Rightarrow> 'w cli_state \<Rightarrow> 'w cli_state \<times> kerr option" where
  "failover_run T tfDir tfVarPairs dryRun s0 =
     (case tf_LookPath T of
        Inl e \<Rightarrow> (s0, Some (lookpath_error e))
      | Inr tfBin \<Rightarrow>
          let s = say (''[failover] Using terraform binary: '' @ tfBin) s0
          in (case resolvePath T tfDir of
                Inl e \<Rightarrow> (s, Some (Wrapped (''resolving --tf-dir '' @ tf_q T tfDir) e))
              | Inr absDir \<Rightarrow>
                  (case tf_New T absDir tfBin of
                     Some e \<Rightarrow> (s, Some (Wrapped ''initializing tfexec'' e))
                   | None \<Rightarrow>
                       (case buildVarOpts T tfVarPairs of
                          Inl e \<Rightarrow> (s, Some e)
                        | Inr (planVarOpts, applyVarOpts) \<Rightarrow>
                            terraform_steps T (absDir, tfBin) planVarOpts applyVarOpts dryRun s))))"

definition failover_NewCommand :: "'w tf_tools \<Rightarrow> string \<Rightarrow> string list \<Rightarrow> bool \<Rightarrow> 'w cli_state \<Rightarrow> 'w cli_state \<times> kerr option" where
  "failover_NewCommand T tfDir tfVars dryRun s =
     (if tfDir = '''' then (s, Some (OtherErr ''--tf-dir is required'')) else failover_run T tfDir tfVars dryRun s)"

section \<open>What Terraform is asked\<close>

definition good_pair :: "string \<Rightarrow> bool" where
  "good_pair p \<longleftrightarrow> CHR ''='' \<in> set p \<and> hd p \<noteq> CHR ''=''"

lemma cut_eq_good:
  assumes "cut_eq p = (k, v, found)"
  shows "good_pair p \<longleftrightarrow> found \<and> k \<noteq> ''''" and "found \<Longrightarrow> k @ ''='' @ v = p"
proof -
  show "found \<Longrightarrow> k @ ''='' @ v = p"
  proof -
    assume found
    define t where "t = takeWhile (\<lambda>c. c \<noteq> CHR ''='') p"
    have less: "length t < length p" and kv: "k = t" "v = drop (Suc (length t)) p"
      using assms \<open>found\<close> by (auto simp: cut_eq_def Let_def t_def split: if_splits)
    have "p ! length t = CHR ''=''" using nth_length_takeWhile [of "\<lambda>c. c \<noteq> CHR ''=''" p] less by (simp add: t_def)
    moreover have "take (length t) p = t" unfolding t_def by (metis takeWhile_eq_take)
    ultimately show ?thesis using kv id_take_nth_drop [OF less] by simp
  qed
  show "good_pair p \<longleftrightarrow> found \<and> k \<noteq> ''''"
  proof (cases "CHR ''='' \<in> set p")
    case True
    then obtain a b where p: "p = a @ CHR ''='' # b" and na: "CHR ''='' \<notin> set a" using split_list_first by metis
    have "takeWhile (\<lambda>c. c \<noteq> CHR ''='') p = a" unfolding p using na by (subst takeWhile_append2) auto
    moreover have "length a < length p" using p by simp
    ultimately have "k = a" "found" using assms by (simp_all add: cut_eq_def Let_def)
    then show ?thesis using p na by (cases a) (auto simp: good_pair_def)
  next
    case False
    then have "takeWhile (\<lambda>c. c \<noteq> CHR ''='') p = p" by (auto simp: takeWhile_eq_all_conv)
    then have "length (takeWhile (\<lambda>c. c \<noteq> CHR ''='') p) = length p" by (rule arg_cong)
    then have "\<not> found" using assms unfolding cut_eq_def Let_def by simp
    then show ?thesis using False by (simp add: good_pair_def)
  qed
qed

lemma var_opts_result:
  "var_opts T pairs ps as = (if list_all good_pair pairs then Inr (ps @ map PlanVar pairs, as @ map ApplyVar pairs) else
     Inl (OtherErr (''invalid --tf-var '' @ tf_q T (hd (filter (\<lambda>p. \<not> good_pair p) pairs)) @ '': expected key=value format'')))"
proof (induction pairs arbitrary: ps as)
  case (Cons p pairs)
  obtain k v found where c: "cut_eq p = (k, v, found)" by (cases "cut_eq p")
  note g = cut_eq_good [OF c]
  show ?case
  proof (cases "good_pair p")
    case True
    then have "found" "k \<noteq> ''''" "k @ ''='' @ v = p" using g by auto
    then show ?thesis using Cons True c by simp
  next
    case False
    then show ?thesis using c g(1) by auto
  qed
qed simp

text \<open>
  What a run did, call by call, each with its answer. A law of the recorder \<open>tr\<close>: every Terraform call
  adds itself and what it answered.
\<close>

datatype tf_event =
    Inited terraform bool "kerr option"
  | Planned terraform "plan_option list" "kerr + bool"
  | Applied terraform "apply_option list" "kerr option"

definition tf_traced :: "'w tf_tools \<Rightarrow> ('w \<Rightarrow> tf_event list) \<Rightarrow> bool" where
  "tf_traced T tr \<longleftrightarrow>
     (\<forall>tf up w. tr (fst (tf_Init T tf up w)) = tr w @ [Inited tf up (snd (tf_Init T tf up w))]) \<and>
     (\<forall>tf opts w. tr (fst (tf_Plan T tf opts w)) = tr w @ [Planned tf opts (snd (tf_Plan T tf opts w))]) \<and>
     (\<forall>tf opts w. tr (fst (tf_Apply T tf opts w)) = tr w @ [Applied tf opts (snd (tf_Apply T tf opts w))])"

lemma traced_calls:
  assumes "tf_traced T tr"
  shows "cli_call (tf_Init T tf up) s = (s1, r1) \<Longrightarrow> tr (cli_world s1) = tr (cli_world s) @ [Inited tf up r1]"
    and "cli_call (tf_Plan T tf po) s = (s1, r2) \<Longrightarrow> tr (cli_world s1) = tr (cli_world s) @ [Planned tf po r2]"
    and "cli_call (tf_Apply T tf ao) s = (s1, r3) \<Longrightarrow> tr (cli_world s1) = tr (cli_world s) @ [Applied tf ao r3]"
  using assms unfolding tf_traced_def by (metis cli_call_world fst_conv snd_conv)+

text \<open>
  The runs that are allowed, with the result each one has to report: the initialisation failed; the
  plan failed; the plan succeeded and nothing is to be applied, because it found no change or the run
  is dry; the plan found changes and its file was applied.
\<close>

inductive terraform_protocol ::
  "terraform \<Rightarrow> plan_option list \<Rightarrow> apply_option list \<Rightarrow> bool \<Rightarrow> tf_event list \<Rightarrow> kerr option \<Rightarrow> bool"
  for tf pv av dryRun where
  init_failed: "terraform_protocol tf pv av dryRun [Inited tf False (Some e)] (Some (Wrapped ''terraform init'' e))"
| plan_failed: "po = pv @ (if dryRun then [] else [Out ''tao-dr-failover.tfplan'']) \<Longrightarrow>
    terraform_protocol tf pv av dryRun [Inited tf False None, Planned tf po (Inl e)] (Some (Wrapped ''terraform plan'' e))"
| planned: "po = pv @ (if dryRun then [] else [Out ''tao-dr-failover.tfplan'']) \<Longrightarrow> changes \<longrightarrow> dryRun \<Longrightarrow>
    terraform_protocol tf pv av dryRun [Inited tf False None, Planned tf po (Inr changes)] None"
| applied: "\<not> dryRun \<Longrightarrow>
    terraform_protocol tf pv av dryRun
      [Inited tf False None, Planned tf (pv @ [Out ''tao-dr-failover.tfplan'']) (Inr True),
       Applied tf (DirOrPlan ''tao-dr-failover.tfplan'' # av) r]
      (map_option (Wrapped ''terraform apply'') r)"

inductive_cases terraform_protocol_elim: "terraform_protocol tf pv av dryRun es r"

lemma steps_protocol:
  assumes "tf_traced T tr"
  shows "\<exists>es. tr (cli_world (fst (terraform_steps T tf pv av dryRun s))) = tr (cli_world s) @ es \<and>
    terraform_protocol tf pv av dryRun es (snd (terraform_steps T tf pv av dryRun s))"
proof -
  let ?plan = "pv @ (if dryRun then [] else [Out ''tao-dr-failover.tfplan''])"
  obtain s1 r1 where i: "cli_call (tf_Init T tf False) (say ''[failover] Running: terraform init'' s) = (s1, r1)" by fastforce
  obtain s2 r2 where p: "cli_call (tf_Plan T tf ?plan) (say ''[failover] Running: terraform plan'' s1) = (s2, r2)" by fastforce
  obtain s3 r3 where a: "cli_call (tf_Apply T tf (DirOrPlan ''tao-dr-failover.tfplan'' # av)) (say ''[failover] Running: terraform apply'' s2) = (s3, r3)"
    by fastforce
  note t = traced_calls(1) [OF assms i] traced_calls(2) [OF assms p] traced_calls(3) [OF assms a]
  show ?thesis
  proof (cases r1)
    case (Some e)
    then show ?thesis using i t by (auto simp: terraform_steps_def intro: init_failed)
  next
    case None
    then have run: "terraform_steps T tf pv av dryRun s =
        (case r2 of Inl e \<Rightarrow> (s2, Some (Wrapped ''terraform plan'' e))
         | Inr hasChanges \<Rightarrow>
             if \<not> hasChanges then (say ''[failover] Plan: no infrastructure changes required.'' s2, None)
             else if dryRun then (say ''[dry-run] Plan complete. No changes applied (--dry-run).'' (say '''' s2), None)
             else case r3 of Some e \<Rightarrow> (s3, Some (Wrapped ''terraform apply'' e))
                  | None \<Rightarrow> (say (''[failover] Failover complete. Verify the new cluster with '' @ [CHR 0x27] @ ''tao-dr status'' @ [CHR 0x27] @ ''.'') s3, None))"
      using i p a by (cases dryRun) (simp_all add: terraform_steps_def Let_def split: sum.split option.split)
    show ?thesis
    proof (cases r2)
      case (Inl e)
      then show ?thesis unfolding run using t None
        by (intro exI [of _ "[Inited tf False None, Planned tf ?plan (Inl e)]"]) (simp add: plan_failed [OF refl])
    next
      case (Inr changes)
      show ?thesis
      proof (cases "changes \<and> \<not> dryRun")
        case True
        then show ?thesis unfolding run using t None Inr applied [of dryRun tf pv av r3]
          by (intro exI [of _ "[Inited tf False None, Planned tf ?plan (Inr True), Applied tf (DirOrPlan ''tao-dr-failover.tfplan'' # av) r3]"])
            (cases r3; simp)
      next
        case False
        then show ?thesis unfolding run using t None Inr planned [OF refl, of changes dryRun tf pv av]
          by (intro exI [of _ "[Inited tf False None, Planned tf ?plan (Inr changes)]"]) auto
      qed
    qed
  qed
qed

text \<open>
  C33. Failover applies what was planned, and only that. A run that reaches Terraform initialises it,
  plans with every variable given, and applies at most once: never in a dry run, only after an
  initialisation that succeeded and a plan that succeeded and found changes, and always the plan file
  that this plan wrote, in the same directory. It reports exactly the first failure, and success
  otherwise. A malformed variable stops the command with an error before Terraform is asked anything.
\<close>

theorem failover_applies_plan:
  assumes "tf_traced T tr"
  shows "\<exists>es. tr (cli_world (fst (failover_run T tfDir pairs dryRun s))) = tr (cli_world s) @ es \<and>
    (es = [] \<and> snd (failover_run T tfDir pairs dryRun s) \<noteq> None \<or>
     list_all good_pair pairs \<and>
     (\<exists>tf. terraform_protocol tf (map PlanVar pairs) (map ApplyVar pairs) dryRun es (snd (failover_run T tfDir pairs dryRun s))))"
proof (cases "\<exists>bin dir. tf_LookPath T = Inr bin \<and> resolvePath T tfDir = Inr dir \<and> tf_New T dir bin = None \<and> list_all good_pair pairs")
  case True
  then obtain bin dir where *: "tf_LookPath T = Inr bin" "resolvePath T tfDir = Inr dir" "tf_New T dir bin = None" "list_all good_pair pairs"
    by blast
  let ?s = "say (''[failover] Using terraform binary: '' @ bin) s"
  have run: "failover_run T tfDir pairs dryRun s = terraform_steps T (dir, bin) (map PlanVar pairs) (map ApplyVar pairs) dryRun ?s"
    using * by (simp add: failover_run_def Let_def buildVarOpts_def var_opts_result)
  obtain es where "tr (cli_world (fst (terraform_steps T (dir, bin) (map PlanVar pairs) (map ApplyVar pairs) dryRun ?s))) = tr (cli_world ?s) @ es"
    "terraform_protocol (dir, bin) (map PlanVar pairs) (map ApplyVar pairs) dryRun es
      (snd (terraform_steps T (dir, bin) (map PlanVar pairs) (map ApplyVar pairs) dryRun ?s))"
    using steps_protocol [OF assms, of "(dir, bin)" "map PlanVar pairs" "map ApplyVar pairs" dryRun ?s] by (elim exE conjE) (rule that)
  then show ?thesis unfolding run using *(4) by (intro exI [of _ es]) auto
next
  case False
  then have "cli_world (fst (failover_run T tfDir pairs dryRun s)) = cli_world s \<and> snd (failover_run T tfDir pairs dryRun s) \<noteq> None"
    by (auto simp: failover_run_def Let_def buildVarOpts_def var_opts_result split: sum.split option.split)
  then show ?thesis by (intro exI [of _ "[]"]) simp
qed

definition lab_terraform :: "(kerr + bool) \<Rightarrow> tf_event list tf_tools" where
  "lab_terraform plan = \<lparr>tf_LookPath = Inr ''/usr/bin/terraform'', tf_Stat = (\<lambda>_. Stat True), tf_Getwd = Some ''/home'',
     tf_New = (\<lambda>_ _. None), tf_Init = (\<lambda>tf up w. (w @ [Inited tf up None], None)),
     tf_Plan = (\<lambda>tf opts w. (w @ [Planned tf opts plan], plan)),
     tf_Apply = (\<lambda>tf opts w. (w @ [Applied tf opts None], None)), tf_q = id\<rparr>"

text \<open>With changes the run has three steps; with a plan that fails, the two steps and the error of the protocol.\<close>

theorem failover_applies_plan_witness:
  "length (cli_world (fst (failover_run (lab_terraform (Inr True)) ''infra'' [''region=eu''] False \<lparr>cli_world = [], cli_out = []\<rparr>))) = 3 \<and>
   (\<exists>e. snd (failover_run (lab_terraform (Inl e)) ''infra'' [''region=eu''] False \<lparr>cli_world = [], cli_out = []\<rparr>) =
      Some (Wrapped ''terraform plan'' e))"
proof
  have t: "tf_traced (lab_terraform plan) id" for plan by (simp add: tf_traced_def lab_terraform_def)
  show "length (cli_world (fst (failover_run (lab_terraform (Inr True)) ''infra'' [''region=eu''] False \<lparr>cli_world = [], cli_out = []\<rparr>))) = 3"
    by (simp add: failover_run_def lab_terraform_def resolvePath_def has_prefix_def buildVarOpts_def cut_eq_def terraform_steps_def
        cli_call_def say_def Let_def)
  let ?plan = "Inl (OtherErr ''no credentials'') :: kerr + bool"
  have planned: "cli_world (fst (failover_run (lab_terraform ?plan) ''infra'' [''region=eu''] False \<lparr>cli_world = [], cli_out = []\<rparr>)) =
      [Inited (''/home/infra'', ''/usr/bin/terraform'') False None,
       Planned (''/home/infra'', ''/usr/bin/terraform'') [PlanVar ''region=eu'', Out ''tao-dr-failover.tfplan''] ?plan]"
    by (simp add: failover_run_def lab_terraform_def resolvePath_def has_prefix_def buildVarOpts_def cut_eq_def terraform_steps_def
        cli_call_def say_def Let_def)
  show "\<exists>e. snd (failover_run (lab_terraform (Inl e)) ''infra'' [''region=eu''] False \<lparr>cli_world = [], cli_out = []\<rparr>) =
      Some (Wrapped ''terraform plan'' e)"
    using failover_applies_plan [OF t, of ?plan "''infra''" "[''region=eu'']" False "\<lparr>cli_world = [], cli_out = []\<rparr>"] planned
    by (intro exI [of _ "OtherErr ''no credentials''"]) (auto elim!: terraform_protocol_elim)
qed

end
