(* ===== verification/Operator_Main.thy ===== *)
theory Operator_Main
  imports Controller_Run Dr_Runner Go_Float
begin

text \<open>
  How the operator is put together: \<open>cmd/main.go\<close> and the connection to ClickHouse of
  \<open>internal/analytics/client.go\<close>. The environment, the projected files, the ClickHouse driver and the
  controller-runtime manager are parameters; the manager answers each registration with an error or
  none. Logging is left out. \<open>time.ParseDuration\<close> is modelled as the library defines it.
\<close>

section \<open>\<open>time.ParseDuration\<close>\<close>

text \<open>A run of digits; \<open>None\<close> when it exceeds \<open>1 << 63\<close>.\<close>

fun leadingInt :: "string \<Rightarrow> int \<Rightarrow> (int \<times> string) option" where
  "leadingInt [] x = Some (x, [])"
| "leadingInt (c # s) x =
     (if \<not> is_digit c then Some (x, c # s)
      else if 2 ^ 63 div 10 < x then None
      else let y = x * 10 + int (byte c - 48) in if 2 ^ 63 < y then None else leadingInt s y)"

text \<open>The digits of a fraction; those that would overflow are dropped. The second result is the number kept.\<close>

fun leadingFraction :: "string \<Rightarrow> int \<Rightarrow> nat \<Rightarrow> bool \<Rightarrow> int \<times> nat \<times> string" where
  "leadingFraction [] x n overflow = (x, n, [])"
| "leadingFraction (c # s) x n overflow =
     (if \<not> is_digit c then (x, n, c # s)
      else if overflow \<or> (2 ^ 63 - 1) div 10 < x \<or> 2 ^ 63 < x * 10 + int (byte c - 48) then leadingFraction s x n True
      else leadingFraction s (x * 10 + int (byte c - 48)) (Suc n) False)"

definition unitMap :: "string \<Rightarrow> int option" where
  "unitMap u = map_of [(''ns'', 1), (''us'', 10 ^ 3), ([CHR 0xC2, CHR 0xB5, CHR ''s''], 10 ^ 3), ([CHR 0xCE, CHR 0xBC, CHR ''s''], 10 ^ 3),
     (''ms'', 10 ^ 6), (''s'', 10 ^ 9), (''m'', 60 * 10 ^ 9), (''h'', 3600 * 10 ^ 9)] u"

definition unit_char :: "char \<Rightarrow> bool" where "unit_char c \<longleftrightarrow> c \<noteq> CHR ''.'' \<and> \<not> is_digit c"

text \<open>\<open>uint64(float64(f) * (float64(unit) / scale))\<close>.\<close>

definition fraction_of_unit :: "int \<Rightarrow> nat \<Rightarrow> int \<Rightarrow> int" where
  "fraction_of_unit f n unit =
     (case fmul64 (f64_of_int f) (fdiv64 (f64_of_int unit) (r64 (10 ^ n))) of Fin x \<Rightarrow> \<lfloor>x\<rfloor> | _ \<Rightarrow> 0)"

text \<open>One number with its unit: its value and the rest.\<close>

definition duration_part :: "string \<Rightarrow> (int \<times> string) option" where
  "duration_part s =
     (case s of
        [] \<Rightarrow> None
      | c # _ \<Rightarrow>
          if \<not> (c = CHR ''.'' \<or> is_digit c) then None
          else (case leadingInt s 0 of
                  None \<Rightarrow> None
                | Some (v, s1) \<Rightarrow>
                    let pre = (length s1 \<noteq> length s);
                        (f, n, s2) = (if has_prefix s1 ''.'' then leadingFraction (drop 1 s1) 0 0 False else (0, 0, s1));
                        post = (has_prefix s1 ''.'' \<and> length s2 \<noteq> length (drop 1 s1));
                        u = takeWhile unit_char s2; s3 = dropWhile unit_char s2
                    in if \<not> pre \<and> \<not> post then None
                       else if u = '''' then None
                       else (case unitMap u of
                               None \<Rightarrow> None
                             | Some unit \<Rightarrow>
                                 if 2 ^ 63 div unit < v then None
                                 else let w = v * unit + (if 0 < f then fraction_of_unit f n unit else 0)
                                      in if 0 < f \<and> 2 ^ 63 < w then None else Some (w, s3))))"

lemma leadingInt_shorter: "leadingInt s x = Some (v, r) \<Longrightarrow> length r \<le> length s"
  by (induction s x rule: leadingInt.induct) (auto simp: Let_def split: if_splits)

lemma leadingFraction_shorter: "leadingFraction s x n ov = (f, k, r) \<Longrightarrow> length r \<le> length s"
  by (induction s x n ov rule: leadingFraction.induct) (auto split: if_splits)

lemma duration_part_shorter:
  assumes "duration_part s = Some (w, r)"
  shows "length r < length s"
proof -
  obtain v s1 where l: "leadingInt s 0 = Some (v, s1)" using assms by (auto simp: duration_part_def split: list.splits if_splits option.splits)
  obtain f n s2 where f: "(if has_prefix s1 ''.'' then leadingFraction (drop 1 s1) 0 0 False else (0, 0, s1)) = (f, n, s2)"
    by (metis prod_cases3)
  have "length s2 \<le> length s1" using f leadingFraction_shorter [of "drop 1 s1"] by (fastforce split: if_splits)
  moreover have "length s1 \<le> length s" using l by (rule leadingInt_shorter)
  moreover have "r = dropWhile unit_char s2" "takeWhile unit_char s2 \<noteq> []"
    using assms l f by (auto simp: duration_part_def Let_def split: list.splits if_splits option.splits)
  moreover have "length (takeWhile unit_char s2) + length (dropWhile unit_char s2) = length s2"
    by (metis length_append takeWhile_dropWhile_id)
  ultimately show ?thesis by (cases "takeWhile unit_char s2") auto
qed

function duration_parts :: "string \<Rightarrow> int \<Rightarrow> int option" where
  "duration_parts s d =
     (if s = '''' then Some d
      else case duration_part s of
             None \<Rightarrow> None
           | Some (w, r) \<Rightarrow> let sum = (d + w) mod 2 ^ 64 in if 2 ^ 63 < sum then None else duration_parts r sum)"
  by pat_completeness auto

termination by (relation "measure (\<lambda>(s, d). length s)") (auto dest: duration_part_shorter)

declare duration_parts.simps [simp del]

definition ParseDuration :: "string \<Rightarrow> duration option" where
  "ParseDuration orig =
     (let neg = has_prefix orig ''-''; s = (if has_prefix orig ''-'' \<or> has_prefix orig ''+'' then drop 1 orig else orig)
      in if s = ''0'' then Some 0
         else if s = '''' then None
         else (case duration_parts s 0 of
                 None \<Rightarrow> None
               | Some d \<Rightarrow> if neg then Some (- word_of_int d) else if 2 ^ 63 - 1 < d then None else Some (word_of_int d)))"

section \<open>The process environment\<close>

record clickhouse_options =
  co_Addr :: "string list"
  co_Database :: string
  co_Username :: string
  co_Password :: string
  co_DialTimeout :: duration
  co_MaxOpenConns :: int
  co_MaxIdleConns :: int
  co_ConnMaxLifetime :: duration
  co_Settings :: "(string \<times> int) list"
  co_Compression :: string
  co_TLSMinVersion :: "string option"

text \<open>A connection serves the writer and the detector; opening and pinging it may fail.\<close>

record ('d, 'b) main_env =
  me_Getenv :: "string \<Rightarrow> string"
  me_Hostname :: string
  me_ReadFile :: "string \<Rightarrow> string option"
  me_Open :: "clickhouse_options \<Rightarrow> kerr + ('d, 'b) ch_conn \<times> detector_db"
  me_Ping :: "clickhouse_options \<Rightarrow> kerr option"
  me_tableOrder :: "(string \<times> table_schema) list"

definition getEnvOrDefault :: "('d, 'b) main_env \<Rightarrow> string \<Rightarrow> string \<Rightarrow> string" where
  "getEnvOrDefault E key fallback = (if me_Getenv E key \<noteq> '''' then me_Getenv E key else fallback)"

definition readClickHouseSecret :: "('d, 'b) main_env \<Rightarrow> string \<Rightarrow> string \<Rightarrow> string" where
  "readClickHouseSecret E name defaultVal =
     (case me_ReadFile E (''/secrets/clickhouse/'' @ name) of
        None \<Rightarrow> defaultVal
      | Some data \<Rightarrow> if trim_space data = '''' then defaultVal else trim_space data)"

definition getDRInterval :: "('d, 'b) main_env \<Rightarrow> duration" where
  "getDRInterval E =
     (let s = me_Getenv E ''DR_INTERVAL''
      in if s = '''' then hour
         else case ParseDuration s of
                None \<Rightarrow> hour
              | Some d \<Rightarrow> if d \<le>s 0 then hour else d)"

section \<open>The analytics plane\<close>

record ClickHouseConfig =
  cc_Endpoint :: string
  cc_Username :: string
  cc_Password :: string
  cc_Database :: string
  cc_DialTimeout :: duration
  cc_MaxOpenConns :: int
  cc_MaxIdleConns :: int
  cc_ConnMaxLifetime :: duration
  cc_TLSEnabled :: bool

definition connection_options :: "ClickHouseConfig \<Rightarrow> clickhouse_options" where
  "connection_options cfg = \<lparr>co_Addr = [cc_Endpoint cfg],
     co_Database = (if cc_Database cfg = '''' then ''taoguardian'' else cc_Database cfg),
     co_Username = cc_Username cfg, co_Password = cc_Password cfg,
     co_DialTimeout = (if cc_DialTimeout cfg = 0 then 10 * second else cc_DialTimeout cfg),
     co_MaxOpenConns = (if cc_MaxOpenConns cfg = 0 then 5 else cc_MaxOpenConns cfg),
     co_MaxIdleConns = (if cc_MaxIdleConns cfg = 0 then 2 else cc_MaxIdleConns cfg),
     co_ConnMaxLifetime = (if cc_ConnMaxLifetime cfg = 0 then hour else cc_ConnMaxLifetime cfg),
     co_Settings = [(''max_execution_time'', 30)], co_Compression = ''lz4'',
     co_TLSMinVersion = (if cc_TLSEnabled cfg then Some ''TLS 1.2'' else None)\<rparr>"

definition NewClickHouseConn :: "('d, 'b) main_env \<Rightarrow> ClickHouseConfig \<Rightarrow> kerr + ('d, 'b) ch_conn \<times> detector_db" where
  "NewClickHouseConn E cfg =
     (let opts = connection_options cfg
      in case me_Open E opts of
           Inl e \<Rightarrow> Inl (Wrapped (''open clickhouse connection to '' @ cc_Endpoint cfg) e)
         | Inr conn \<Rightarrow>
             (case me_Ping E opts of
                Some e \<Rightarrow> Inl (Wrapped (''ping clickhouse at '' @ cc_Endpoint cfg) e)
              | None \<Rightarrow> Inr conn))"

definition main_config :: "('d, 'b) main_env \<Rightarrow> string \<Rightarrow> ClickHouseConfig" where
  "main_config E endpoint = \<lparr>cc_Endpoint = endpoint, cc_Username = readClickHouseSecret E ''username'' ''default'',
     cc_Password = readClickHouseSecret E ''password'' '''', cc_Database = readClickHouseSecret E ''database'' ''taoguardian'',
     cc_DialTimeout = 0, cc_MaxOpenConns = 0, cc_MaxIdleConns = 0, cc_ConnMaxLifetime = 0,
     cc_TLSEnabled = (me_Getenv E ''CLICKHOUSE_TLS'' = ''true'')\<rparr>"

text \<open>The writer keeps its connection; the flag tells whether the thirty seconds for the schema have passed.\<close>

definition initAnalytics ::
  "('d, 'b) main_env \<Rightarrow> bool \<Rightarrow> 'd \<Rightarrow> 'd \<times> (BatchWriter \<times> ('d, 'b) ch_conn) option \<times> detector_db option \<times> CircuitBreaker option" where
  "initAnalytics E expired d =
     (let endpoint = readClickHouseSecret E ''endpoint'' ''''
      in if endpoint = '''' then (d, None, None, None)
         else case NewClickHouseConn E (main_config E endpoint) of
                Inl e \<Rightarrow> (d, None, None, None)
              | Inr (conn, db) \<Rightarrow>
                  (case ApplySchema conn expired (me_tableOrder E) d of
                     (d1, Some e) \<Rightarrow> (d1, None, None, None)
                   | (d1, None) \<Rightarrow>
                       (d1, Some (NewBatchWriter, conn), Some db, Some (NewCircuitBreaker 5 (30 * second) 3))))"

section \<open>The advisory plane\<close>

definition initAI :: "('d, 'b) main_env \<Rightarrow> time \<Rightarrow> Advisor option" where
  "initAI E now =
     (let ollamaURL = me_Getenv E ''OLLAMA_ENDPOINT''
      in if ollamaURL = '''' then None
         else case NewAdvisor \<lparr>cfg_ollamaEndpoint = ollamaURL, cfg_model = getEnvOrDefault E ''OLLAMA_MODEL'' ''llama3.2'',
                  cfg_requestTimeout = 30 * second, cfg_maxCallsPerMinute = 5\<rparr> now of
                Inl e \<Rightarrow> None
              | Inr advisor \<Rightarrow> Some advisor)"

section \<open>The object store\<close>

text \<open>The store logs an upload and reports success.\<close>

definition noop_Upload :: "'w \<Rightarrow> string \<Rightarrow> string \<Rightarrow> 'w \<times> kerr option" where
  "noop_Upload w key data = (w, None)"

definition newObjectStore :: "string \<Rightarrow> 'w \<Rightarrow> string \<Rightarrow> string \<Rightarrow> 'w \<times> kerr option" where
  "newObjectStore bucket = noop_Upload"

section \<open>\<open>main\<close>\<close>

record main_flags =
  fl_metricsAddr :: string
  fl_probeAddr :: string
  fl_enableLeaderElect :: bool
  fl_enableWebhooks :: bool
  fl_clusterID :: string

record manager_options =
  mo_metrics :: string
  mo_probe :: string
  mo_leaderElection :: bool
  mo_leaderElectionID :: string
  mo_webhookPort :: "nat option"

datatype manager_call = NewManager manager_options | AddWriter | SetupController nat | SetupWebhook | AddDR
  | AddHealthz | AddReadyz | StartManager

record ('d, 'b) TaoNodeReconciler =
  rc_AnalyticsWriter :: "(BatchWriter \<times> ('d, 'b) ch_conn) option"
  rc_AnomalyDetector :: "detector_db option"
  rc_ClickHouseCircuit :: "CircuitBreaker option"
  rc_AIAdvisor :: "Advisor option"
  rc_RecoveryLimiter :: RecoveryRateLimiter
  rc_DefaultImage :: string
  rc_ProbeTimeout :: duration

definition main_clusterID :: "('d, 'b) main_env \<Rightarrow> main_flags \<Rightarrow> string" where
  "main_clusterID E fl =
     (let clusterID = (if fl_clusterID fl = '''' then me_Hostname E else fl_clusterID fl)
      in if clusterID = '''' then ''taoguardian'' else clusterID)"

definition managerOpts :: "main_flags \<Rightarrow> manager_options" where
  "managerOpts fl = \<lparr>mo_metrics = fl_metricsAddr fl, mo_probe = fl_probeAddr fl, mo_leaderElection = fl_enableLeaderElect fl,
     mo_leaderElectionID = ''tao.guardian.io'', mo_webhookPort = (if fl_enableWebhooks fl then Some 9443 else None)\<rparr>"

definition main_reconciler :: "('d, 'b) main_env \<Rightarrow> bool \<Rightarrow> time \<Rightarrow> 'd \<Rightarrow> 'd \<times> ('d, 'b) TaoNodeReconciler" where
  "main_reconciler E expired now d =
     (case initAnalytics E expired d of
        (d1, batchWriter, anomalyDetector, circuitBreaker) \<Rightarrow>
          (d1, \<lparr>rc_AnalyticsWriter = batchWriter, rc_AnomalyDetector = anomalyDetector, rc_ClickHouseCircuit = circuitBreaker,
             rc_AIAdvisor = initAI E now, rc_RecoveryLimiter = NewRecoveryRateLimiter 5 (2 * minute),
             rc_DefaultImage = getEnvOrDefault E ''DEFAULT_NODE_IMAGE'' ''ghcr.io/opentensor/subtensor:latest'',
             rc_ProbeTimeout = 5 * second\<rparr>))"

text \<open>The runner gets the operator's client, the clock's interval and the store.\<close>

definition main_DRRunner ::
  "('d, 'b) main_env \<Rightarrow> main_flags \<Rightarrow> ('w \<Rightarrow> 'w \<times> (kerr + TaoNode list)) \<Rightarrow> (string \<Rightarrow> string) \<Rightarrow> api_json \<Rightarrow> 'w DRRunner option" where
  "main_DRRunner E fl list gzip J =
     (let drBackupBucket = me_Getenv E ''DR_BACKUP_BUCKET''
      in if drBackupBucket \<noteq> '''' then
           Some \<lparr>drr_list = list, drr_Upload = newObjectStore drBackupBucket, drr_gzip = gzip, drr_json = J,
             drr_ClusterID = main_clusterID E fl, drr_Interval = getDRInterval E\<rparr>
         else None)"

text \<open>The calls \<open>main\<close> makes on the manager, in order: the first that fails ends the process.\<close>

definition main_calls :: "main_flags \<Rightarrow> bool \<Rightarrow> bool \<Rightarrow> manager_call list" where
  "main_calls fl analytics dr =
     [NewManager (managerOpts fl)] @ (if analytics then [AddWriter] else []) @ [SetupController 10] @
     (if fl_enableWebhooks fl then [SetupWebhook] else []) @ (if dr then [AddDR] else []) @ [AddHealthz, AddReadyz, StartManager]"

fun until_error :: "(manager_call \<Rightarrow> kerr option) \<Rightarrow> manager_call list \<Rightarrow> manager_call list \<times> bool" where
  "until_error mgr [] = ([], True)"
| "until_error mgr (c # cs) =
     (case mgr c of Some e \<Rightarrow> ([c], False) | None \<Rightarrow> (case until_error mgr cs of (done, ok) \<Rightarrow> (c # done, ok)))"

text \<open>
  The database after the schema, the calls made, and whether the process ends normally rather than
  with exit status 1.
\<close>

definition operator_main ::
  "('d, 'b) main_env \<Rightarrow> main_flags \<Rightarrow> bool \<Rightarrow> time \<Rightarrow> (manager_call \<Rightarrow> kerr option) \<Rightarrow> 'd \<Rightarrow> 'd \<times> manager_call list \<times> bool" where
  "operator_main E fl expired now mgr d =
     (case mgr (NewManager (managerOpts fl)) of
        Some e \<Rightarrow> (d, [NewManager (managerOpts fl)], False)
      | None \<Rightarrow>
          (case main_reconciler E expired now d of
             (d1, reconciler) \<Rightarrow>
               (d1, until_error mgr (main_calls fl (rc_AnalyticsWriter reconciler \<noteq> None) (me_Getenv E ''DR_BACKUP_BUCKET'' \<noteq> '''')))))"

section \<open>Properties of the wiring\<close>

lemma ParseDuration_examples:
  "ParseDuration ''30m'' = Some (30 * minute)" "ParseDuration ''24h'' = Some (24 * hour)" "ParseDuration ''1h30m5s'' = Some (hour + 30 * minute + 5 * second)"
  "ParseDuration ''90'' = None" "ParseDuration ''1d'' = None" "ParseDuration ''-5s'' = Some (- (5 * second))"
  by code_simp+

text \<open>
  The interval between backups is positive whatever the environment says, as \<open>time.NewTicker\<close>
  demands: it panics on any other.
\<close>

theorem dr_interval_positive: "0 <s getDRInterval E"
proof -
  have "0 <s hour" by code_simp
  then show ?thesis by (auto simp: getDRInterval_def Let_def word_sless_alt word_sle_eq split: option.split)
qed

lemma ApplySchema_done:
  "ApplySchema conn expired order d = (d1, None) \<Longrightarrow> d1 = fold (\<lambda>t d. fst (ch_exec conn expired d (ddl (snd t)))) order d"
  by (induction conn expired order d rule: ApplySchema.induct) (auto split: prod.splits option.splits)

text \<open>
  The analytics plane is all there or not at all: writer, detector and breaker are set up
  together, with the breaker the reconciler expects, and only when an endpoint is configured and every
  table of the schema was created; and the writer is registered with the manager exactly then.
\<close>

theorem analytics_all_or_nothing:
  "case initAnalytics E expired d of
     (d1, writer, detector, breaker) \<Rightarrow>
       writer = None \<and> detector = None \<and> breaker = None \<or>
       (\<exists>conn db. writer = Some (NewBatchWriter, conn) \<and> detector = Some db \<and> breaker = Some (NewCircuitBreaker 5 (30 * second) 3) \<and>
          readClickHouseSecret E ''endpoint'' '''' \<noteq> '''' \<and>
          d1 = fold (\<lambda>t d. fst (ch_exec conn expired d (ddl (snd t)))) (me_tableOrder E) d)"
  by (auto simp: initAnalytics_def Let_def dest: ApplySchema_done split: sum.splits prod.splits option.splits)

lemma until_error_prefix:
  "until_error mgr cs = (done, ok) \<Longrightarrow> (\<exists>rest. cs = done @ rest) \<and> (ok \<longleftrightarrow> list_all (\<lambda>c. mgr c = None) cs) \<and> (ok \<longrightarrow> done = cs)"
  by (induction mgr cs arbitrary: "done" rule: until_error.induct) (auto split: option.splits prod.splits)

text \<open>
  The operator starts only when it is complete. The manager is started after everything was
  registered without an error, the writer exactly when the analytics plane is up, the webhook and the
  backup runner exactly when they are configured; and the process reports success only when every call
  succeeded.
\<close>

theorem starts_complete:
  assumes "operator_main E fl expired now mgr d = (d1, calls, ok)"
  shows "(StartManager \<in> set calls \<longrightarrow> (\<forall>c \<in> set (butlast calls). mgr c = None) \<and>
       AddHealthz \<in> set calls \<and> AddReadyz \<in> set calls \<and> SetupController 10 \<in> set calls \<and>
       (AddWriter \<in> set calls \<longleftrightarrow> rc_AnalyticsWriter (snd (main_reconciler E expired now d)) \<noteq> None) \<and>
       (SetupWebhook \<in> set calls \<longleftrightarrow> fl_enableWebhooks fl) \<and>
       (AddDR \<in> set calls \<longleftrightarrow> me_Getenv E ''DR_BACKUP_BUCKET'' \<noteq> '''')) \<and>
     (ok \<longrightarrow> StartManager \<in> set calls \<and> (\<forall>c \<in> set calls. mgr c = None))"
proof (cases "mgr (NewManager (managerOpts fl))")
  case (Some e)
  then show ?thesis using assms by (auto simp: operator_main_def)
next
  case None
  define cs where "cs = main_calls fl (rc_AnalyticsWriter (snd (main_reconciler E expired now d)) \<noteq> None) (me_Getenv E ''DR_BACKUP_BUCKET'' \<noteq> '''')"
  have u: "until_error mgr cs = (calls, ok)" using assms None by (auto simp: operator_main_def cs_def split: prod.splits)
  obtain rest where rest: "cs = calls @ rest" and ok: "ok \<longleftrightarrow> list_all (\<lambda>c. mgr c = None) cs" "ok \<longrightarrow> calls = cs"
    using until_error_prefix [OF u] by blast
  obtain init where init: "cs = init @ [StartManager]" "StartManager \<notin> set init" by (auto simp: cs_def main_calls_def)
  have good: "until_error mgr xs = (ys, b) \<Longrightarrow> \<forall>c \<in> set (butlast ys). mgr c = None" for xs ys b
    by (induction mgr xs arbitrary: ys b rule: until_error.induct) (auto split: option.splits prod.splits if_splits)
  have full: "calls = cs" if "StartManager \<in> set calls"
  proof -
    have "rest = []" using that rest init by (cases rest rule: rev_cases) auto
    then show ?thesis using rest by simp
  qed
  have mem: "StartManager \<in> set cs" "AddHealthz \<in> set cs" "AddReadyz \<in> set cs" "SetupController 10 \<in> set cs"
    "AddWriter \<in> set cs \<longleftrightarrow> rc_AnalyticsWriter (snd (main_reconciler E expired now d)) \<noteq> None"
    "SetupWebhook \<in> set cs \<longleftrightarrow> fl_enableWebhooks fl" "AddDR \<in> set cs \<longleftrightarrow> me_Getenv E ''DR_BACKUP_BUCKET'' \<noteq> ''''"
    by (auto simp: cs_def main_calls_def)
  have "ok \<longrightarrow> StartManager \<in> set calls \<and> (\<forall>c \<in> set calls. mgr c = None)" using ok mem(1) by (simp add: list_all_iff)
  moreover have "\<forall>c \<in> set (butlast calls). mgr c = None" by (rule good [OF u])
  ultimately show ?thesis using full mem(2-) by blast
qed

definition bare_env :: "(nat, nat) main_env" where
  "bare_env = \<lparr>me_Getenv = (\<lambda>_. ''''), me_Hostname = ''pod'', me_ReadFile = (\<lambda>_. None), me_Open = (\<lambda>_. Inl (OtherErr ''refused'')),
     me_Ping = (\<lambda>_. None), me_tableOrder = tableSchemas\<rparr>"

definition default_flags :: main_flags where
  "default_flags = \<lparr>fl_metricsAddr = '':8080'', fl_probeAddr = '':8081'', fl_enableLeaderElect = True, fl_enableWebhooks = True, fl_clusterID = ''''\<rparr>"

theorem starts_complete_witness:
  "StartManager \<in> set (fst (snd (operator_main bare_env default_flags False 0 (\<lambda>_. None) 0)))"
proof -
  have run: "operator_main bare_env default_flags False 0 (\<lambda>_. None) 0 =
      (0, [NewManager (managerOpts default_flags), SetupController 10, SetupWebhook, AddHealthz, AddReadyz, StartManager], True)"
    by (simp add: operator_main_def main_reconciler_def initAnalytics_def readClickHouseSecret_def bare_env_def main_calls_def default_flags_def)
  show ?thesis using starts_complete [OF run] run by simp
qed

text \<open>
  The fleet-wide cap of the deployed operator is five: from the limiter \<open>main\<close> creates, in every
  run of the controller, at most five recoveries are in flight at once.
\<close>

theorem operator_recovery_cap:
  assumes "controller_run C s s'" and "ctl_limiter s = rc_RecoveryLimiter (snd (main_reconciler E expired now d))"
  shows "ActiveCount (ctl_limiter s') \<le> 5"
proof -
  have "ctl_limiter s = NewRecoveryRateLimiter 5 (2 * minute)" using assms(2) by (simp add: main_reconciler_def split: prod.splits)
  then obtain ops where "ctl_limiter s' = fst (gate_run TryAcquire Release ops (NewRecoveryRateLimiter 5 (2 * minute)))"
    using run_limiter [OF assms(1)] by metis
  then show ?thesis using limiter_within_cap [of 5 ops "2 * minute"] by simp
qed

theorem operator_recovery_cap_witness:
  "ActiveCount (ctl_limiter (fst (Reconcile mem_controller 12 ''tao'' ''node'' between))) \<le> 5"
  by (rule operator_recovery_cap [OF sample_run, of bare_env False 0 0])
    (simp add: fresh_controller_def main_reconciler_def initAnalytics_def readClickHouseSecret_def bare_env_def)

lemma noop_backup:
  assumes "drr_Upload dr = noop_Upload" and "\<And>w. stored (fst (drr_list dr w)) = stored w"
  shows "stored (drs_world (backup_cycle dr now s)) = stored (drs_world s)"
  using assms(2) [of "drs_world s"] assms(1)
  by (auto simp: backup_cycle_def runBackup_def noop_Upload_def Let_def split: prod.splits sum.splits option.splits)

lemma noop_loop:
  assumes "drr_Upload dr = noop_Upload" and "\<And>w. stored (fst (drr_list dr w)) = stored w"
  shows "stored (drs_world (fst (dr_loop dr evs s))) = stored (drs_world s)"
proof (induction evs arbitrary: s)
  case (Cons e evs)
  then show ?case by (cases e) (simp_all add: noop_backup [where stored = stored, OF assms])
qed simp

text \<open>
  The operator's own backups store nothing. The runner \<open>main\<close> creates counts every cycle whose
  resources can be listed as a successful backup and remembers its time, yet no object is ever
  written: whatever a store would serve is unchanged by any run of the runner.
\<close>

theorem noop_store_keeps_nothing:
  assumes "main_DRRunner E fl lister gzip J = Some dr" and "\<And>w. stored (fst (lister w)) = stored w"
  shows "stored (drs_world (fst (dr_Start dr now evs s))) = stored (drs_world s) \<and>
    (\<forall>nodes. snd (lister (drs_world s)) = Inr nodes \<longrightarrow> time_json now \<noteq> None \<longrightarrow>
      drm_BackupSuccess (drs_metrics (backup_cycle dr now s)) = Suc (drm_BackupSuccess (drs_metrics s)) \<and>
      drm_LastBackupTime (drs_metrics (backup_cycle dr now s)) = Some now)"
proof -
  have dr: "drr_Upload dr = noop_Upload" "drr_list dr = lister"
    using assms(1) by (auto simp: main_DRRunner_def newObjectStore_def Let_def split: if_splits)
  have "stored (drs_world (fst (dr_Start dr now evs s))) = stored (drs_world s)"
    by (simp add: dr_Start_def noop_loop [of dr stored] noop_backup [of dr stored] dr assms(2))
  moreover have "drm_BackupSuccess (drs_metrics (backup_cycle dr now s)) = Suc (drm_BackupSuccess (drs_metrics s)) \<and>
      drm_LastBackupTime (drs_metrics (backup_cycle dr now s)) = Some now"
    if "snd (lister (drs_world s)) = Inr nodes" "time_json now \<noteq> None" for nodes
    using that dr by (cases "lister (drs_world s)")
      (auto simp: backup_cycle_def runBackup_def DRBackup_json_def make_backup_def noop_Upload_def Let_def)
  ultimately show ?thesis by blast
qed

definition bucket_env :: "(nat, nat) main_env" where
  "bucket_env = bare_env\<lparr>me_Getenv := (\<lambda>k. if k = ''DR_BACKUP_BUCKET'' then ''bucket'' else '''')\<rparr>"

theorem noop_store_keeps_nothing_witness:
  "\<exists>dr. main_DRRunner bucket_env default_flags (\<lambda>w. (w, Inr [])) id plain_api = Some dr \<and>
     drs_world (fst (dr_Start dr 0 [Tick 1, Cancelled] \<lparr>drs_world = (5 :: nat), drs_metrics = NewDRMetrics\<rparr>)) = 5"
proof -
  obtain dr where dr: "main_DRRunner bucket_env default_flags (\<lambda>w :: nat. (w, Inr [])) id plain_api = Some dr"
    by (simp add: main_DRRunner_def bucket_env_def bare_env_def Let_def)
  show ?thesis using noop_store_keeps_nothing [OF dr, of id 0 "[Tick 1, Cancelled]" "\<lparr>drs_world = 5, drs_metrics = NewDRMetrics\<rparr>"] dr by auto
qed

end
