(* ===== verification/Go_Memory.thy ===== *)
theory Go_Memory
  imports Guardian_Prelude "HOL-Library.AList"
begin

text \<open>
  Go's memory where aliasing matters: pointers, slices and maps refer to cells of a store, and two
  values may share a cell. The locales state what a representation of data in the store promises
  (it depends on the cells of its footprint only) and what a deep copy promises on top (an equal
  value in fresh cells); their clients conclude that copy and original are independent. Pointers,
  slices, maps and structs of copied parts are copied deeply.
\<close>

section \<open>The store\<close>

type_synonym addr = nat

text \<open>Addresses below \<open>next_addr\<close> are allocated.\<close>

record 'c store =
  next_addr :: addr
  cells :: "addr \<Rightarrow> 'c option"

definition alloc :: "'c \<Rightarrow> 'c store \<Rightarrow> 'c store \<times> addr" where
  "alloc c h = (h\<lparr>next_addr := Suc (next_addr h), cells := (cells h)(next_addr h \<mapsto> c)\<rparr>, next_addr h)"

definition peek :: "'c store \<Rightarrow> addr \<Rightarrow> 'c option" where
  "peek h a = (if a < next_addr h then cells h a else None)"

definition poke :: "addr \<Rightarrow> 'c \<Rightarrow> 'c store \<Rightarrow> 'c store" where
  "poke a c h = h\<lparr>cells := (cells h)(a \<mapsto> c)\<rparr>"

text \<open>From \<open>h\<close> to \<open>h'\<close> only the cells of \<open>S\<close> are written and new ones allocated.\<close>

definition modifies :: "addr set \<Rightarrow> 'c store \<Rightarrow> 'c store \<Rightarrow> bool" where
  "modifies S h h' \<longleftrightarrow> next_addr h \<le> next_addr h' \<and> (\<forall>a < next_addr h. a \<notin> S \<longrightarrow> cells h' a = cells h a)"

lemma modifies_refl [simp]: "modifies S h h"
  by (simp add: modifies_def)

lemma modifies_trans: "modifies {} h h1 \<Longrightarrow> modifies {} h1 h2 \<Longrightarrow> modifies {} h h2"
  by (simp add: modifies_def)

lemma modifies_alloc: "modifies {} h (fst (alloc c h))"
  by (simp add: modifies_def alloc_def)

section \<open>Representations and deep copies\<close>

text \<open>
  \<open>val h x\<close> is the data the value \<open>x\<close> stands for, \<open>None\<close> when it refers to no cell of the right kind;
  \<open>fp h x\<close> are the addresses of the cells it is read from.
\<close>

locale memory_repr =
  fixes val :: "'c store \<Rightarrow> 'v \<Rightarrow> 'a option" and fp :: "'c store \<Rightarrow> 'v \<Rightarrow> addr set"
  assumes allocated: "val h x = Some v \<Longrightarrow> a \<in> fp h x \<Longrightarrow> a < next_addr h"
    and frame: "val h x = Some v \<Longrightarrow> \<forall>a \<in> fp h x. a < next_addr h' \<and> cells h' a = cells h a \<Longrightarrow> val h' x = Some v \<and> fp h' x = fp h x"
begin

lemma unmodified:
  assumes "val h x = Some v" and "modifies S h h'" and "fp h x \<inter> S = {}"
  shows "val h' x = Some v" and "fp h' x = fp h x"
proof -
  have "a < next_addr h' \<and> cells h' a = cells h a" if "a \<in> fp h x" for a
    using allocated [OF assms(1) that] assms(2,3) that unfolding modifies_def by fastforce
  then show "val h' x = Some v" "fp h' x = fp h x" using frame [OF assms(1)] by blast+
qed

end

locale deep_copier = memory_repr val fp
  for val :: "'c store \<Rightarrow> 'v \<Rightarrow> 'a option" and fp :: "'c store \<Rightarrow> 'v \<Rightarrow> addr set" +
  fixes copy :: "'c store \<Rightarrow> 'v \<Rightarrow> 'c store \<times> 'v"
  assumes copied: "val h x = Some v \<Longrightarrow> copy h x = (h', y) \<Longrightarrow>
    modifies {} h h' \<and> val h' y = Some v \<and> fp h' y \<subseteq> {next_addr h..<next_addr h'}"
begin

text \<open>Later allocations change neither.\<close>

lemma copied_later:
  assumes "val h x = Some v" and "copy h x = (h1, y)" and "modifies {} h1 h2"
  shows "modifies {} h h2" and "val h2 y = Some v" and "fp h2 y \<subseteq> {next_addr h..<next_addr h1}" and "next_addr h1 \<le> next_addr h2"
proof -
  note c = copied [OF assms(1,2)]
  show "modifies {} h h2" using c assms(3) by (blast intro: modifies_trans)
  show "val h2 y = Some v" "fp h2 y \<subseteq> {next_addr h..<next_addr h1}" "next_addr h1 \<le> next_addr h2"
    using c unmodified [of h1 y v "{}" h2] assms(3) by (simp_all add: modifies_def)
qed

lemma original_cells: "val h x = Some v \<Longrightarrow> copy h x = (h1, y) \<Longrightarrow> fp h1 x = fp h x"
  using copied unmodified(2) by (metis inf_bot_right)

text \<open>The copy and the original have no cell in common, and whatever is done to one leaves the other.\<close>

lemma independent:
  assumes "val h x = Some v" and "copy h x = (h1, y)"
  shows "val h1 x = Some v" and "val h1 y = Some v" and "fp h1 x \<inter> fp h1 y = {}"
    and "modifies (fp h1 y) h1 h2 \<Longrightarrow> val h2 x = Some v" and "modifies (fp h1 x) h1 h2 \<Longrightarrow> val h2 y = Some v"
proof -
  note c = copied [OF assms]
  show y: "val h1 y = Some v" using c by blast
  note x = unmodified [OF assms(1), of "{}" h1]
  show x1: "val h1 x = Some v" using x c by simp
  have "fp h1 x = fp h x" using x c by simp
  then show disj: "fp h1 x \<inter> fp h1 y = {}" using allocated [OF assms(1)] c by fastforce
  show "val h2 x = Some v" if "modifies (fp h1 y) h1 h2" using unmodified(1) [OF x1 that disj] .
  show "val h2 y = Some v" if "modifies (fp h1 x) h1 h2" using unmodified(1) [OF y that] disj by blast
qed

end

section \<open>Plain values\<close>

text \<open>A value without references: an assignment copies it.\<close>

definition flat_val :: "'c store \<Rightarrow> 'v \<Rightarrow> 'v option" where "flat_val h x = Some x"

definition flat_fp :: "'c store \<Rightarrow> 'v \<Rightarrow> addr set" where "flat_fp h x = {}"

definition flat_copy :: "'c store \<Rightarrow> 'v \<Rightarrow> 'c store \<times> 'v" where "flat_copy h x = (h, x)"

interpretation flat: deep_copier flat_val flat_fp flat_copy
  by unfold_locales (auto simp: flat_val_def flat_fp_def flat_copy_def)

section \<open>Pointers\<close>

text \<open>
  How a kind of cell is stored: \<open>mk\<close> makes a cell, \<open>get\<close> reads one of that kind. \<open>new_copy\<close> is \<open>new(T)\<close>
  followed by \<open>DeepCopyInto\<close>, whose first statement assigns the struct and whose others replace
  its references; \<open>ptr_copy\<close> is \<open>DeepCopy\<close>, which gives \<open>nil\<close> for \<open>nil\<close>.
\<close>

definition deref :: "('c \<Rightarrow> 'v option) \<Rightarrow> 'c store \<Rightarrow> addr \<Rightarrow> 'v option" where
  "deref get h a = Option.bind (peek h a) get"

definition new_copy :: "('v \<Rightarrow> 'c) \<Rightarrow> ('c store \<Rightarrow> 'v \<Rightarrow> 'c store \<times> 'v) \<Rightarrow> 'c store \<Rightarrow> 'v \<Rightarrow> 'c store \<times> addr" where
  "new_copy mk into h x = (let (h1, a) = alloc (mk x) h; (h2, y) = into h1 x in (poke a (mk y) h2, a))"

fun ptr_copy ::
  "('c \<Rightarrow> 'v option) \<Rightarrow> ('v \<Rightarrow> 'c) \<Rightarrow> ('c store \<Rightarrow> 'v \<Rightarrow> 'c store \<times> 'v) \<Rightarrow> 'c store \<Rightarrow> addr option \<Rightarrow> 'c store \<times> addr option" where
  "ptr_copy get mk into h None = (h, None)"
| "ptr_copy get mk into h (Some a) = (case deref get h a of None \<Rightarrow> (h, None) | Some x \<Rightarrow> apsnd Some (new_copy mk into h x))"

fun ptr_val :: "('c \<Rightarrow> 'v option) \<Rightarrow> ('c store \<Rightarrow> 'v \<Rightarrow> 'a option) \<Rightarrow> 'c store \<Rightarrow> addr option \<Rightarrow> 'a option option" where
  "ptr_val get val h None = Some None"
| "ptr_val get val h (Some a) = map_option Some (Option.bind (deref get h a) (val h))"

fun ptr_fp :: "('c \<Rightarrow> 'v option) \<Rightarrow> ('c store \<Rightarrow> 'v \<Rightarrow> addr set) \<Rightarrow> 'c store \<Rightarrow> addr option \<Rightarrow> addr set" where
  "ptr_fp get fp h None = {}"
| "ptr_fp get fp h (Some a) = insert a (case deref get h a of None \<Rightarrow> {} | Some x \<Rightarrow> fp h x)"

lemma deref_frame: "a < next_addr h' \<Longrightarrow> cells h' a = cells h a \<Longrightarrow> deref get h a = Some x \<Longrightarrow> deref get h' a = Some x"
  by (auto simp: deref_def peek_def split: if_splits)

lemma new_copy_fresh:
  assumes "deep_copier val fp into" and "val h x = Some v" and "\<And>y. get (mk y) = Some y" and "new_copy mk into h x = (h', a)"
  shows "\<exists>y. modifies {} h h' \<and> a = next_addr h \<and> a < next_addr h' \<and> deref get h' a = Some y \<and> val h' y = Some v \<and>
    fp h' y \<subseteq> {next_addr h<..<next_addr h'}"
proof -
  note repr = deep_copier.axioms(1) [OF assms(1)]
  obtain h1 where h1: "alloc (mk x) h = (h1, next_addr h)" "modifies {} h h1" "next_addr h1 = Suc (next_addr h)"
    using modifies_alloc [of h "mk x"] by (simp add: alloc_def)
  obtain h2 y where into: "into h1 x = (h2, y)" by fastforce
  have h': "h' = poke (next_addr h) (mk y) h2" "a = next_addr h" using assms(4) by (auto simp: new_copy_def h1 into)
  have "val h1 x = Some v" using memory_repr.unmodified(1) [OF repr assms(2) h1(2)] by simp
  from deep_copier.copied [OF assms(1) this into]
  have h2: "modifies {} h1 h2" "val h2 y = Some v" "fp h2 y \<subseteq> {next_addr h1..<next_addr h2}" by simp_all
  have m: "modifies {next_addr h} h2 h'" "next_addr h' = next_addr h2" by (simp_all add: h' modifies_def poke_def)
  have "fp h2 y \<inter> {next_addr h} = {}" using h2(3) h1(3) by auto
  note y = memory_repr.unmodified [OF repr h2(2) m(1) this]
  have "modifies {} h h'" using h1(2,3) h2(1) by (auto simp: h' modifies_def poke_def)
  moreover have "deref get h' a = Some y" "a < next_addr h'"
    using h1(3) h2(1) assms(3) by (auto simp: deref_def peek_def h' poke_def modifies_def)
  ultimately show ?thesis using y h2(3) h1(3) m(2) h'(2) by (intro exI [of _ y]) auto
qed

lemma ptr_copier:
  assumes "deep_copier val fp into" and "\<And>y. get (mk y) = Some y"
  shows "deep_copier (ptr_val get val) (ptr_fp get fp) (ptr_copy get mk into)"
proof unfold_locales
  note repr = deep_copier.axioms(1) [OF assms(1)]
  fix h p v
  assume v: "ptr_val get val h p = Some v"
  show "a < next_addr h" if "a \<in> ptr_fp get fp h p" for a
    using v that memory_repr.allocated [OF repr]
    by (cases p) (auto simp: deref_def peek_def bind_eq_Some_conv split: option.splits if_splits, metis)
  show "ptr_val get val h' p = Some v \<and> ptr_fp get fp h' p = ptr_fp get fp h p"
    if "\<forall>a \<in> ptr_fp get fp h p. a < next_addr h' \<and> cells h' a = cells h a" for h'
  proof (cases p)
    case (Some a)
    then obtain x w where x: "deref get h a = Some x" "val h x = Some w" "v = Some w" using v by (auto simp: bind_eq_Some_conv)
    moreover from this have "deref get h' a = Some x" using that Some by (intro deref_frame [of _ h' h]) auto
    moreover have "val h' x = Some w \<and> fp h' x = fp h x" using that Some x by (intro memory_repr.frame [OF repr]) auto
    ultimately show ?thesis using Some by simp
  qed (use v in simp)
  show "modifies {} h h' \<and> ptr_val get val h' q = Some v \<and> ptr_fp get fp h' q \<subseteq> {next_addr h..<next_addr h'}"
    if run: "ptr_copy get mk into h p = (h', q)" for h' q
  proof (cases p)
    case (Some a)
    then obtain x w where x: "deref get h a = Some x" "val h x = Some w" "v = Some w" using v by (auto simp: bind_eq_Some_conv)
    obtain b where b: "new_copy mk into h x = (h', b)" "q = Some b" using run Some x(1) by (cases "new_copy mk into h x") auto
    then show ?thesis using new_copy_fresh [OF assms(1) x(2) assms(2) b(1)] x(3) by auto
  qed (use v run in simp)
qed

text \<open>A reference that is copied by a function of its own unless it is nil.\<close>

fun nil_val :: "('c store \<Rightarrow> 'v \<Rightarrow> 'a option) \<Rightarrow> 'c store \<Rightarrow> 'v option \<Rightarrow> 'a option option" where
  "nil_val val h None = Some None"
| "nil_val val h (Some x) = map_option Some (val h x)"

fun nil_fp :: "('c store \<Rightarrow> 'v \<Rightarrow> addr set) \<Rightarrow> 'c store \<Rightarrow> 'v option \<Rightarrow> addr set" where
  "nil_fp fp h None = {}"
| "nil_fp fp h (Some x) = fp h x"

fun nil_copy :: "('c store \<Rightarrow> 'v \<Rightarrow> 'c store \<times> 'v) \<Rightarrow> 'c store \<Rightarrow> 'v option \<Rightarrow> 'c store \<times> 'v option" where
  "nil_copy copy h None = (h, None)"
| "nil_copy copy h (Some x) = apsnd Some (copy h x)"

lemma nil_copier:
  assumes "deep_copier val fp copy"
  shows "deep_copier (nil_val val) (nil_fp fp) (nil_copy copy)"
proof unfold_locales
  note repr = deep_copier.axioms(1) [OF assms]
  fix h p v
  assume v: "nil_val val h p = Some v"
  show "a < next_addr h" if "a \<in> nil_fp fp h p" for a
    using v that by (cases p) (auto intro: memory_repr.allocated [OF repr])
  show "nil_val val h' p = Some v \<and> nil_fp fp h' p = nil_fp fp h p"
    if same: "\<forall>a \<in> nil_fp fp h p. a < next_addr h' \<and> cells h' a = cells h a" for h'
  proof (cases p)
    case (Some x)
    then obtain w where "val h x = Some w" "v = Some w" using v by auto
    then show ?thesis using memory_repr.frame [OF repr, of h x w h'] same Some by simp
  qed (use v in simp)
  show "modifies {} h h' \<and> nil_val val h' q = Some v \<and> nil_fp fp h' q \<subseteq> {next_addr h..<next_addr h'}"
    if run: "nil_copy copy h p = (h', q)" for h' q
  proof (cases p)
    case (Some x)
    then obtain w y where x: "val h x = Some w" "v = Some w" "copy h x = (h', y)" "q = Some y"
      using v run by (cases "copy h x") auto
    then show ?thesis using deep_copier.copied [OF assms x(1,3)] by simp
  qed (use v run in simp)
qed

section \<open>Slices\<close>

text \<open>
  A slice refers to a part of an array: the array's cell, an offset and a length; the nil slice to
  none. \<open>slice_copy\<close> is \<open>make\<close> followed by the loop that copies element by element.
\<close>

type_synonym slice = "(addr \<times> nat \<times> nat) option"

definition slice_elems :: "('c \<Rightarrow> 'v list option) \<Rightarrow> 'c store \<Rightarrow> addr \<times> nat \<times> nat \<Rightarrow> 'v list option" where
  "slice_elems get h = (\<lambda>(a, off, n). case deref get h a of
      None \<Rightarrow> None | Some xs \<Rightarrow> if off + n \<le> length xs then Some (take n (drop off xs)) else None)"

fun list_val :: "('c store \<Rightarrow> 'v \<Rightarrow> 'a option) \<Rightarrow> 'c store \<Rightarrow> 'v list \<Rightarrow> 'a list option" where
  "list_val val h [] = Some []"
| "list_val val h (x # xs) = (case val h x of None \<Rightarrow> None | Some v \<Rightarrow> map_option ((#) v) (list_val val h xs))"

fun list_fp :: "('c store \<Rightarrow> 'v \<Rightarrow> addr set) \<Rightarrow> 'c store \<Rightarrow> 'v list \<Rightarrow> addr set" where
  "list_fp fp h [] = {}"
| "list_fp fp h (x # xs) = fp h x \<union> list_fp fp h xs"

fun list_copy :: "('c store \<Rightarrow> 'v \<Rightarrow> 'c store \<times> 'v) \<Rightarrow> 'c store \<Rightarrow> 'v list \<Rightarrow> 'c store \<times> 'v list" where
  "list_copy into h [] = (h, [])"
| "list_copy into h (x # xs) = (let (h1, y) = into h x; (h2, ys) = list_copy into h1 xs in (h2, y # ys))"

fun slice_copy ::
  "('c \<Rightarrow> 'v list option) \<Rightarrow> ('v list \<Rightarrow> 'c) \<Rightarrow> ('c store \<Rightarrow> 'v \<Rightarrow> 'c store \<times> 'v) \<Rightarrow> 'c store \<Rightarrow> slice \<Rightarrow> 'c store \<times> slice" where
  "slice_copy get mk into h None = (h, None)"
| "slice_copy get mk into h (Some s) = (case slice_elems get h s of
      None \<Rightarrow> (h, None)
    | Some xs \<Rightarrow> apsnd (\<lambda>a. Some (a, 0, length xs)) (new_copy mk (list_copy into) h xs))"

fun slice_val :: "('c \<Rightarrow> 'v list option) \<Rightarrow> ('c store \<Rightarrow> 'v \<Rightarrow> 'a option) \<Rightarrow> 'c store \<Rightarrow> slice \<Rightarrow> 'a list option" where
  "slice_val get val h None = Some []"
| "slice_val get val h (Some s) = Option.bind (slice_elems get h s) (list_val val h)"

fun slice_fp :: "('c \<Rightarrow> 'v list option) \<Rightarrow> ('c store \<Rightarrow> 'v \<Rightarrow> addr set) \<Rightarrow> 'c store \<Rightarrow> slice \<Rightarrow> addr set" where
  "slice_fp get fp h None = {}"
| "slice_fp get fp h (Some s) = insert (fst s) (case slice_elems get h s of None \<Rightarrow> {} | Some xs \<Rightarrow> list_fp fp h xs)"

lemma list_val_length: "list_val val h xs = Some vs \<Longrightarrow> length vs = length xs"
  by (induction xs arbitrary: vs) (auto split: option.splits)

lemma list_repr:
  assumes "memory_repr val fp"
  shows "memory_repr (list_val val) (list_fp fp)"
proof unfold_locales
  fix h xs vs
  assume vs: "list_val val h xs = Some vs"
  show "a < next_addr h" if "a \<in> list_fp fp h xs" for a
    using vs that memory_repr.allocated [OF assms] by (induction xs arbitrary: vs) (auto split: option.splits)
  show "list_val val h' xs = Some vs \<and> list_fp fp h' xs = list_fp fp h xs"
    if "\<forall>a \<in> list_fp fp h xs. a < next_addr h' \<and> cells h' a = cells h a" for h'
    using vs that
  proof (induction xs arbitrary: vs)
    case (Cons x xs)
    then obtain v ws where v: "val h x = Some v" "list_val val h xs = Some ws" "vs = v # ws" by (auto split: option.splits)
    have "val h' x = Some v \<and> fp h' x = fp h x" using Cons.prems by (intro memory_repr.frame [OF assms v(1)]) auto
    then show ?case using Cons.IH [OF v(2)] Cons.prems v by simp
  qed simp
qed

lemma list_copier:
  assumes "deep_copier val fp into"
  shows "deep_copier (list_val val) (list_fp fp) (list_copy into)"
proof (intro deep_copier.intro deep_copier_axioms.intro)
  show lrepr: "memory_repr (list_val val) (list_fp fp)" by (rule list_repr [OF deep_copier.axioms(1) [OF assms]])
  fix h xs vs h' ys
  assume "list_val val h xs = Some vs" and "list_copy into h xs = (h', ys)"
  then show "modifies {} h h' \<and> list_val val h' ys = Some vs \<and> list_fp fp h' ys \<subseteq> {next_addr h..<next_addr h'}"
  proof (induction xs arbitrary: h vs ys)
    case (Cons x xs)
    obtain v ws where v: "val h x = Some v" "list_val val h xs = Some ws" "vs = v # ws"
      using Cons.prems(1) by (auto split: option.splits)
    obtain h1 y zs where y: "into h x = (h1, y)" "list_copy into h1 xs = (h', zs)" "ys = y # zs"
      using Cons.prems(2) by (auto split: prod.splits)
    have m: "modifies {} h h1" using deep_copier.copied [OF assms v(1) y(1)] by blast
    have "list_val val h1 xs = Some ws" using memory_repr.unmodified(1) [OF lrepr v(2) m] by simp
    from Cons.IH [OF this y(2)]
    have zs: "modifies {} h1 h'" "list_val val h' zs = Some ws" "list_fp fp h' zs \<subseteq> {next_addr h1..<next_addr h'}" by simp_all
    note later = deep_copier.copied_later [OF assms v(1) y(1) zs(1)]
    have "{next_addr h1..<next_addr h'} \<subseteq> {next_addr h..<next_addr h'}" using m by (auto simp: modifies_def)
    then show ?case using later zs v(3) y(3) by fastforce
  qed simp
qed

lemma slice_elems_frame:
  assumes "fst s < next_addr h'" and "cells h' (fst s) = cells h (fst s)" and "slice_elems get h s = Some xs"
  shows "slice_elems get h' s = Some xs"
proof -
  obtain ys where "deref get h (fst s) = Some ys" using assms(3) by (auto simp: slice_elems_def split: prod.splits option.splits)
  with deref_frame [OF assms(1,2) this] show ?thesis using assms(3) by (auto simp: slice_elems_def split: prod.splits)
qed

lemma slice_copier:
  assumes "deep_copier val fp into" and "\<And>ys. get (mk ys) = Some ys"
  shows "deep_copier (slice_val get val) (slice_fp get fp) (slice_copy get mk into)"
proof unfold_locales
  note elems = list_copier [OF assms(1)]
  note repr = deep_copier.axioms(1) [OF elems]
  fix h p v
  assume v: "slice_val get val h p = Some v"
  show "a < next_addr h" if "a \<in> slice_fp get fp h p" for a
  proof (cases p)
    case (Some s)
    then obtain xs where xs: "slice_elems get h s = Some xs" "list_val val h xs = Some v" using v by (auto simp: bind_eq_Some_conv)
    then have "fst s < next_addr h" by (auto simp: slice_elems_def deref_def peek_def split: prod.splits option.splits if_splits)
    then show ?thesis using that Some xs memory_repr.allocated [OF repr xs(2)] by auto
  qed (use that in simp)
  show "slice_val get val h' p = Some v \<and> slice_fp get fp h' p = slice_fp get fp h p"
    if same: "\<forall>a \<in> slice_fp get fp h p. a < next_addr h' \<and> cells h' a = cells h a" for h'
  proof (cases p)
    case (Some s)
    then obtain xs where xs: "slice_elems get h s = Some xs" "list_val val h xs = Some v" using v by (auto simp: bind_eq_Some_conv)
    moreover from this have "slice_elems get h' s = Some xs" using same Some by (intro slice_elems_frame [of s h' h]) auto
    moreover have "list_val val h' xs = Some v \<and> list_fp fp h' xs = list_fp fp h xs"
      using same Some xs by (intro memory_repr.frame [OF repr]) auto
    ultimately show ?thesis using Some by simp
  qed (use v in simp)
  show "modifies {} h h' \<and> slice_val get val h' q = Some v \<and> slice_fp get fp h' q \<subseteq> {next_addr h..<next_addr h'}"
    if run: "slice_copy get mk into h p = (h', q)" for h' q
  proof (cases p)
    case (Some s)
    then obtain xs where xs: "slice_elems get h s = Some xs" "list_val val h xs = Some v" using v by (auto simp: bind_eq_Some_conv)
    obtain b where b: "new_copy mk (list_copy into) h xs = (h', b)" "q = Some (b, 0, length xs)"
      using run Some xs(1) by (cases "new_copy mk (list_copy into) h xs") auto
    obtain ys where ys: "modifies {} h h'" "b = next_addr h" "b < next_addr h'" "deref get h' b = Some ys" "list_val val h' ys = Some v"
      "list_fp fp h' ys \<subseteq> {next_addr h<..<next_addr h'}" using new_copy_fresh [OF elems xs(2) assms(2) b(1)] by blast
    have "length ys = length xs" using list_val_length [OF xs(2)] list_val_length [OF ys(5)] by simp
    then have "slice_elems get h' (b, 0, length xs) = Some ys" using ys(4) by (simp add: slice_elems_def)
    then show ?thesis using ys b(2) by auto
  qed (use v run in simp)
qed

section \<open>Maps\<close>

text \<open>
  A map refers to its entries, listed here in the order the run-time iterates over them. \<open>map_into\<close> is
  the loop \<open>for key, val := range in\<close> that fills the new map.
\<close>

definition map_into :: "'c store \<Rightarrow> (string \<times> string) list \<Rightarrow> 'c store \<times> (string \<times> string) list" where
  "map_into h kvs = (h, fold (\<lambda>(k, v) out. AList.update k v out) kvs [])"

definition map_val :: "'c store \<Rightarrow> (string \<times> string) list \<Rightarrow> (string \<rightharpoonup> string) option" where
  "map_val h kvs = (if distinct (map fst kvs) then Some (map_of kvs) else None)"

lemma map_loop: "map_of (fold (\<lambda>(k, v) out. AList.update k v out) kvs out) = map_of out ++ map_of (rev kvs)"
  by (induction kvs arbitrary: out) (auto simp: update_conv' map_add_assoc)

lemma map_loop_distinct: "distinct (map fst out) \<Longrightarrow> distinct (map fst (fold (\<lambda>(k, v) out. AList.update k v out) kvs out))"
  by (induction kvs arbitrary: out) (auto simp: distinct_update)

lemma map_of_rev_distinct: "distinct (map fst kvs) \<Longrightarrow> map_of (rev kvs) = map_of kvs"
  by (subst map_of_inject_set) (simp_all add: rev_map [symmetric])

interpretation map_entries: deep_copier map_val flat_fp map_into
  by unfold_locales
    (auto simp: map_val_def flat_fp_def map_into_def map_loop map_loop_distinct map_of_rev_distinct split: if_splits)

section \<open>Structs\<close>

text \<open>The references of a struct, two at a time, and a struct by its references.\<close>

definition pair_val :: "('c store \<Rightarrow> 'v \<Rightarrow> 'a option) \<Rightarrow> ('c store \<Rightarrow> 'w \<Rightarrow> 'b option) \<Rightarrow> 'c store \<Rightarrow> 'v \<times> 'w \<Rightarrow> ('a \<times> 'b) option" where
  "pair_val val1 val2 h = (\<lambda>(x, y). case val1 h x of None \<Rightarrow> None | Some v \<Rightarrow> map_option (Pair v) (val2 h y))"

definition pair_fp :: "('c store \<Rightarrow> 'v \<Rightarrow> addr set) \<Rightarrow> ('c store \<Rightarrow> 'w \<Rightarrow> addr set) \<Rightarrow> 'c store \<Rightarrow> 'v \<times> 'w \<Rightarrow> addr set" where
  "pair_fp fp1 fp2 h = (\<lambda>(x, y). fp1 h x \<union> fp2 h y)"

definition pair_copy ::
  "('c store \<Rightarrow> 'v \<Rightarrow> 'c store \<times> 'v) \<Rightarrow> ('c store \<Rightarrow> 'w \<Rightarrow> 'c store \<times> 'w) \<Rightarrow> 'c store \<Rightarrow> 'v \<times> 'w \<Rightarrow> 'c store \<times> ('v \<times> 'w)" where
  "pair_copy copy1 copy2 h = (\<lambda>(x, y). let (h1, x1) = copy1 h x; (h2, y1) = copy2 h1 y in (h2, x1, y1))"

lemma pair_copier:
  assumes "deep_copier val1 fp1 copy1" and "deep_copier val2 fp2 copy2"
  shows "deep_copier (pair_val val1 val2) (pair_fp fp1 fp2) (pair_copy copy1 copy2)"
proof unfold_locales
  note repr1 = deep_copier.axioms(1) [OF assms(1)] and repr2 = deep_copier.axioms(1) [OF assms(2)]
  fix h z v
  assume v: "pair_val val1 val2 h z = Some v"
  obtain x y where z: "z = (x, y)" by (cases z)
  then obtain v1 v2 where vs: "val1 h x = Some v1" "val2 h y = Some v2" "v = (v1, v2)"
    using v by (auto simp: pair_val_def split: option.splits)
  show "a < next_addr h" if "a \<in> pair_fp fp1 fp2 h z" for a
    using that memory_repr.allocated [OF repr1 vs(1)] memory_repr.allocated [OF repr2 vs(2)] by (auto simp: pair_fp_def z)
  show "pair_val val1 val2 h' z = Some v \<and> pair_fp fp1 fp2 h' z = pair_fp fp1 fp2 h z"
    if "\<forall>a \<in> pair_fp fp1 fp2 h z. a < next_addr h' \<and> cells h' a = cells h a" for h'
    using that memory_repr.frame [OF repr1 vs(1), of h'] memory_repr.frame [OF repr2 vs(2), of h'] vs(3)
    by (simp add: pair_val_def pair_fp_def z)
  show "modifies {} h h' \<and> pair_val val1 val2 h' z' = Some v \<and> pair_fp fp1 fp2 h' z' \<subseteq> {next_addr h..<next_addr h'}"
    if run: "pair_copy copy1 copy2 h z = (h', z')" for h' z'
  proof -
    obtain h1 x1 y1 where c: "copy1 h x = (h1, x1)" "copy2 h1 y = (h', y1)" "z' = (x1, y1)"
      using run by (auto simp: pair_copy_def z split: prod.splits)
    have m: "modifies {} h h1" using deep_copier.copied [OF assms(1) vs(1) c(1)] by blast
    have "val2 h1 y = Some v2" using memory_repr.unmodified(1) [OF repr2 vs(2) m] by simp
    from deep_copier.copied [OF assms(2) this c(2)]
    have y1: "modifies {} h1 h'" "val2 h' y1 = Some v2" "fp2 h' y1 \<subseteq> {next_addr h1..<next_addr h'}" by simp_all
    have "{next_addr h1..<next_addr h'} \<subseteq> {next_addr h..<next_addr h'}" using m by (auto simp: modifies_def)
    then show ?thesis using deep_copier.copied_later [OF assms(1) vs(1) c(1) y1(1)] y1 vs(3)
      by (fastforce simp: c(3) pair_val_def pair_fp_def)
  qed
qed

lemma struct_copier:
  assumes "deep_copier val fp copy"
    and "\<And>x t. refs (upd x t) = t" and "\<And>x t. build (upd x t) = build x"
    and "\<And>h x. sval h x = map_option (build x) (val h (refs x))"
    and "\<And>h x. sfp h x = fp h (refs x)"
    and "\<And>h x. scopy h x = (case copy h (refs x) of (h', t) \<Rightarrow> (h', upd x t))"
  shows "deep_copier sval sfp scopy"
proof unfold_locales
  note repr = deep_copier.axioms(1) [OF assms(1)]
  fix h x v
  assume v: "sval h x = Some v"
  then obtain w where w: "val h (refs x) = Some w" "v = build x w" by (auto simp: assms(4))
  show "a < next_addr h" if "a \<in> sfp h x" for a using memory_repr.allocated [OF repr w(1)] that by (simp add: assms(5))
  show "sval h' x = Some v \<and> sfp h' x = sfp h x" if "\<forall>a \<in> sfp h x. a < next_addr h' \<and> cells h' a = cells h a" for h'
    using memory_repr.frame [OF repr w(1), of h'] that w(2) by (simp add: assms(4,5))
  show "modifies {} h h' \<and> sval h' y = Some v \<and> sfp h' y \<subseteq> {next_addr h..<next_addr h'}" if run: "scopy h x = (h', y)" for h' y
  proof -
    obtain t where t: "copy h (refs x) = (h', t)" "y = upd x t" using run by (auto simp: assms(6) split: prod.splits)
    then show ?thesis using deep_copier.copied [OF assms(1) w(1) t(1)] by (simp add: assms(2-5) w(2))
  qed
qed

end
