(* ===== verification/Deep_Copies.thy ===== *)
theory Deep_Copies
  imports Api_Types Go_Memory
begin

text \<open>
  The generated deep copies, \<open>api/v1alpha1/zz_generated.deepcopy.go\<close>, over memory with aliasing. A struct
  with references has a record \<open>X_mem\<close> of what Go keeps in it: pointers, slices and maps are
  addresses. \<open>X_val\<close> reads the data of \<open>Api_Types\<close> out of the store and \<open>X_fp\<close> collects the cells that
  are read; \<open>X_DeepCopyInto\<close> and \<open>X_DeepCopy\<close> follow the generated functions statement by statement:
  an assignment of a struct copies its references too, and the following statements replace them.
  The copies of Kubernetes' own types are parameters.
\<close>

section \<open>Structs in memory\<close>

record list_meta =
  lm_resourceVersion :: string
  lm_continue :: string
  lm_remainingItemCount :: "int64 option"

record AIAdvisorSpec_mem =
  mai_enabled :: bool
  mai_endpoint :: string
  mai_model :: string
  mai_timeoutSeconds :: int32
  mai_minAnomalyScoreForAdvisory :: string
  mai_notificationChannels :: "addr option"
  mai_contextWindowTokens :: int32

record AIIncidentReportStatus_mem =
  mirs_timestamp :: "addr option"
  mirs_severity :: string
  mirs_summary :: string
  mirs_rootCauseCategory :: string
  mirs_recommendedAction :: string
  mirs_confidence :: string

record AIAdvisoryStatus_mem =
  maas_lastReport :: "addr option"
  maas_modelAvailable :: bool
  maas_inferencesTotal24h :: int32
  maas_avgInferenceLatencyMs :: int32

record AnalyticsSpec_mem =
  man_enabled :: bool
  man_clickHouseRef :: ClickHouseRef
  man_ingestion :: IngestionSpec
  man_anomalyDetection :: "addr option"
  man_retention :: RetentionSpec

record AnomalyScoreStatus_mem =
  mass_type :: string
  mass_score :: string
  mass_detail :: string
  mass_detectedAt :: "addr option"

record AnalyticsStatusBlock_mem =
  masb_connected :: bool
  masb_lastIngestionTime :: "addr option"
  masb_rowsIngested24h :: int64
  masb_anomalyScores :: slice
  masb_ingestionLagMs :: int32

record 'x AutoExpandSpec_mem =
  mae_thresholdPercent :: int32
  mae_maxSize :: 'x
  mae_incrementPercent :: int32

record 'x ChainStorageSpec_mem =
  mcs_storageClass :: string
  mcs_size :: 'x
  mcs_autoExpand :: "addr option"

record DisasterRecoverySpec_mem =
  mdr_enabled :: bool
  mdr_crdBackup :: CRDBackupSpec
  mdr_chainDataDR :: ChainDataDRSpec
  mdr_clickHouseDR :: "addr option"
  mdr_rpo :: string
  mdr_rto :: string

record MonitoringSpec_mem =
  mmon_enabled :: bool
  mmon_port :: int32
  mmon_alertRules :: slice

record ResourceStatus_mem =
  mrs_diskUsagePercent :: int32
  mrs_gpuUtilizationPercent :: "addr option"
  mrs_estimatedMonthlyUSD :: string

record SnapshotStatus_mem =
  msns_lastSnapshotTime :: "addr option"
  msns_lastSnapshotSize :: int64
  msns_availableSnapshots :: int32

record SyncStateStatus_mem =
  msss_state :: string
  msss_currentBlock :: int64
  msss_networkBlock :: int64
  msss_blockLag :: int64
  msss_syncPercentage :: string
  msss_lastSyncedAt :: "addr option"

record 'x TaoNodeSpec_mem =
  mspec_network :: string
  mspec_subnetID :: int32
  mspec_role :: TaoNodeRole
  mspec_image :: string
  mspec_version :: string
  mspec_chainStorage :: "'x ChainStorageSpec_mem"
  mspec_syncPolicy :: SyncPolicySpec
  mspec_snapshotPolicy :: "addr option"
  mspec_gpu :: "addr option"
  mspec_validator :: "addr option"
  mspec_resources :: 'x
  mspec_monitoring :: "addr option"
  mspec_analytics :: "addr option"
  mspec_aiAdvisor :: "addr option"
  mspec_disasterRecovery :: "addr option"
  mspec_tolerations :: slice
  mspec_nodeSelector :: "addr option"

record 'x TaoNodeStatus_mem =
  mst_phase :: TaoNodePhase
  mst_syncState :: SyncStateStatus_mem
  mst_chain :: ChainStatus
  mst_resources :: ResourceStatus_mem
  mst_snapshot :: "addr option"
  mst_analytics :: "addr option"
  mst_aiAdvisory :: "addr option"
  mst_conditions :: slice
  mst_restartCount :: int32
  mst_observedGeneration :: int64
  mst_lastReconcileTime :: "addr option"
  mst_hotkeyHash :: string

record 'x TaoNode_mem =
  mtn_typeMeta :: type_meta
  mtn_meta :: 'x
  mtn_spec :: "'x TaoNodeSpec_mem"
  mtn_status :: "'x TaoNodeStatus_mem"

record 'x TaoNodeList_mem =
  mtl_typeMeta :: type_meta
  mtl_listMeta :: 'x
  mtl_items :: slice

section \<open>Cells\<close>

text \<open>
  What a reference may refer to: a struct, an array, the entries of a map, an \<open>int32\<close>, or memory of
  Kubernetes' types, whose values have the type \<open>'x\<close>.
\<close>

datatype 'x cell =
    C_AIAdvisorSpec AIAdvisorSpec_mem
  | C_AIAdvisoryStatus AIAdvisoryStatus_mem
  | C_AIIncidentReportStatus AIIncidentReportStatus_mem
  | C_AlertRule AlertRule
  | C_AnalyticsSpec AnalyticsSpec_mem
  | C_AnalyticsStatusBlock AnalyticsStatusBlock_mem
  | C_AnomalyDetectionSpec AnomalyDetectionSpec
  | C_AnomalyScoreStatus AnomalyScoreStatus_mem
  | C_AutoExpandSpec "'x AutoExpandSpec_mem"
  | C_CRDBackupSpec CRDBackupSpec
  | C_ChainDataDRSpec ChainDataDRSpec
  | C_ChainStatus ChainStatus
  | C_ChainStorageSpec "'x ChainStorageSpec_mem"
  | C_ClickHouseDRSpec ClickHouseDRSpec
  | C_ClickHouseRef ClickHouseRef
  | C_DisasterRecoverySpec DisasterRecoverySpec_mem
  | C_GPUSpec GPUSpec
  | C_IngestionSpec IngestionSpec
  | C_MonitoringSpec MonitoringSpec_mem
  | C_NotificationChannels NotificationChannels
  | C_ResourceStatus ResourceStatus_mem
  | C_RetentionSpec RetentionSpec
  | C_SnapshotDestination SnapshotDestination
  | C_SnapshotPolicySpec SnapshotPolicySpec
  | C_SnapshotStatus SnapshotStatus_mem
  | C_SyncPolicySpec SyncPolicySpec
  | C_SyncStateStatus SyncStateStatus_mem
  | C_TaoNode "'x TaoNode_mem"
  | C_TaoNodeList "'x TaoNodeList_mem"
  | C_TaoNodeSpec "'x TaoNodeSpec_mem"
  | C_TaoNodeStatus "'x TaoNodeStatus_mem"
  | C_ValidatorSpec ValidatorSpec
  | C_int32 int32
  | Cs_AnomalyScoreStatus "AnomalyScoreStatus_mem list"
  | Cs_AlertRule "AlertRule list"
  | Cs_TaoNode "'x TaoNode_mem list"
  | Cs_foreign "'x list"
  | C_map "(string \<times> string) list"
  | C_foreign 'x

definition get_AIAdvisorSpec :: "'x cell \<Rightarrow> (AIAdvisorSpec_mem) option" where
  "get_AIAdvisorSpec c = (case c of C_AIAdvisorSpec x \<Rightarrow> Some x | _ \<Rightarrow> None)"

definition get_AIAdvisoryStatus :: "'x cell \<Rightarrow> (AIAdvisoryStatus_mem) option" where
  "get_AIAdvisoryStatus c = (case c of C_AIAdvisoryStatus x \<Rightarrow> Some x | _ \<Rightarrow> None)"

definition get_AIIncidentReportStatus :: "'x cell \<Rightarrow> (AIIncidentReportStatus_mem) option" where
  "get_AIIncidentReportStatus c = (case c of C_AIIncidentReportStatus x \<Rightarrow> Some x | _ \<Rightarrow> None)"

definition get_AlertRule :: "'x cell \<Rightarrow> (AlertRule) option" where
  "get_AlertRule c = (case c of C_AlertRule x \<Rightarrow> Some x | _ \<Rightarrow> None)"

definition get_AnalyticsSpec :: "'x cell \<Rightarrow> (AnalyticsSpec_mem) option" where
  "get_AnalyticsSpec c = (case c of C_AnalyticsSpec x \<Rightarrow> Some x | _ \<Rightarrow> None)"

definition get_AnalyticsStatusBlock :: "'x cell \<Rightarrow> (AnalyticsStatusBlock_mem) option" where
  "get_AnalyticsStatusBlock c = (case c of C_AnalyticsStatusBlock x \<Rightarrow> Some x | _ \<Rightarrow> None)"

definition get_AnomalyDetectionSpec :: "'x cell \<Rightarrow> (AnomalyDetectionSpec) option" where
  "get_AnomalyDetectionSpec c = (case c of C_AnomalyDetectionSpec x \<Rightarrow> Some x | _ \<Rightarrow> None)"

definition get_AnomalyScoreStatus :: "'x cell \<Rightarrow> (AnomalyScoreStatus_mem) option" where
  "get_AnomalyScoreStatus c = (case c of C_AnomalyScoreStatus x \<Rightarrow> Some x | _ \<Rightarrow> None)"

definition get_AutoExpandSpec :: "'x cell \<Rightarrow> ('x AutoExpandSpec_mem) option" where
  "get_AutoExpandSpec c = (case c of C_AutoExpandSpec x \<Rightarrow> Some x | _ \<Rightarrow> None)"

definition get_CRDBackupSpec :: "'x cell \<Rightarrow> (CRDBackupSpec) option" where
  "get_CRDBackupSpec c = (case c of C_CRDBackupSpec x \<Rightarrow> Some x | _ \<Rightarrow> None)"

definition get_ChainDataDRSpec :: "'x cell \<Rightarrow> (ChainDataDRSpec) option" where
  "get_ChainDataDRSpec c = (case c of C_ChainDataDRSpec x \<Rightarrow> Some x | _ \<Rightarrow> None)"

definition get_ChainStatus :: "'x cell \<Rightarrow> (ChainStatus) option" where
  "get_ChainStatus c = (case c of C_ChainStatus x \<Rightarrow> Some x | _ \<Rightarrow> None)"

definition get_ChainStorageSpec :: "'x cell \<Rightarrow> ('x ChainStorageSpec_mem) option" where
  "get_ChainStorageSpec c = (case c of C_ChainStorageSpec x \<Rightarrow> Some x | _ \<Rightarrow> None)"

definition get_ClickHouseDRSpec :: "'x cell \<Rightarrow> (ClickHouseDRSpec) option" where
  "get_ClickHouseDRSpec c = (case c of C_ClickHouseDRSpec x \<Rightarrow> Some x | _ \<Rightarrow> None)"

definition get_ClickHouseRef :: "'x cell \<Rightarrow> (ClickHouseRef) option" where
  "get_ClickHouseRef c = (case c of C_ClickHouseRef x \<Rightarrow> Some x | _ \<Rightarrow> None)"

definition get_DisasterRecoverySpec :: "'x cell \<Rightarrow> (DisasterRecoverySpec_mem) option" where
  "get_DisasterRecoverySpec c = (case c of C_DisasterRecoverySpec x \<Rightarrow> Some x | _ \<Rightarrow> None)"

definition get_GPUSpec :: "'x cell \<Rightarrow> (GPUSpec) option" where
  "get_GPUSpec c = (case c of C_GPUSpec x \<Rightarrow> Some x | _ \<Rightarrow> None)"

definition get_IngestionSpec :: "'x cell \<Rightarrow> (IngestionSpec) option" where
  "get_IngestionSpec c = (case c of C_IngestionSpec x \<Rightarrow> Some x | _ \<Rightarrow> None)"

definition get_MonitoringSpec :: "'x cell \<Rightarrow> (MonitoringSpec_mem) option" where
  "get_MonitoringSpec c = (case c of C_MonitoringSpec x \<Rightarrow> Some x | _ \<Rightarrow> None)"

definition get_NotificationChannels :: "'x cell \<Rightarrow> (NotificationChannels) option" where
  "get_NotificationChannels c = (case c of C_NotificationChannels x \<Rightarrow> Some x | _ \<Rightarrow> None)"

definition get_ResourceStatus :: "'x cell \<Rightarrow> (ResourceStatus_mem) option" where
  "get_ResourceStatus c = (case c of C_ResourceStatus x \<Rightarrow> Some x | _ \<Rightarrow> None)"

definition get_RetentionSpec :: "'x cell \<Rightarrow> (RetentionSpec) option" where
  "get_RetentionSpec c = (case c of C_RetentionSpec x \<Rightarrow> Some x | _ \<Rightarrow> None)"

definition get_SnapshotDestination :: "'x cell \<Rightarrow> (SnapshotDestination) option" where
  "get_SnapshotDestination c = (case c of C_SnapshotDestination x \<Rightarrow> Some x | _ \<Rightarrow> None)"

definition get_SnapshotPolicySpec :: "'x cell \<Rightarrow> (SnapshotPolicySpec) option" where
  "get_SnapshotPolicySpec c = (case c of C_SnapshotPolicySpec x \<Rightarrow> Some x | _ \<Rightarrow> None)"

definition get_SnapshotStatus :: "'x cell \<Rightarrow> (SnapshotStatus_mem) option" where
  "get_SnapshotStatus c = (case c of C_SnapshotStatus x \<Rightarrow> Some x | _ \<Rightarrow> None)"

definition get_SyncPolicySpec :: "'x cell \<Rightarrow> (SyncPolicySpec) option" where
  "get_SyncPolicySpec c = (case c of C_SyncPolicySpec x \<Rightarrow> Some x | _ \<Rightarrow> None)"

definition get_SyncStateStatus :: "'x cell \<Rightarrow> (SyncStateStatus_mem) option" where
  "get_SyncStateStatus c = (case c of C_SyncStateStatus x \<Rightarrow> Some x | _ \<Rightarrow> None)"

definition get_TaoNode :: "'x cell \<Rightarrow> ('x TaoNode_mem) option" where
  "get_TaoNode c = (case c of C_TaoNode x \<Rightarrow> Some x | _ \<Rightarrow> None)"

definition get_TaoNodeList :: "'x cell \<Rightarrow> ('x TaoNodeList_mem) option" where
  "get_TaoNodeList c = (case c of C_TaoNodeList x \<Rightarrow> Some x | _ \<Rightarrow> None)"

definition get_TaoNodeSpec :: "'x cell \<Rightarrow> ('x TaoNodeSpec_mem) option" where
  "get_TaoNodeSpec c = (case c of C_TaoNodeSpec x \<Rightarrow> Some x | _ \<Rightarrow> None)"

definition get_TaoNodeStatus :: "'x cell \<Rightarrow> ('x TaoNodeStatus_mem) option" where
  "get_TaoNodeStatus c = (case c of C_TaoNodeStatus x \<Rightarrow> Some x | _ \<Rightarrow> None)"

definition get_ValidatorSpec :: "'x cell \<Rightarrow> (ValidatorSpec) option" where
  "get_ValidatorSpec c = (case c of C_ValidatorSpec x \<Rightarrow> Some x | _ \<Rightarrow> None)"

definition get_int32 :: "'x cell \<Rightarrow> (int32) option" where
  "get_int32 c = (case c of C_int32 x \<Rightarrow> Some x | _ \<Rightarrow> None)"

definition get_AnomalyScoreStatus_array :: "'x cell \<Rightarrow> (AnomalyScoreStatus_mem list) option" where
  "get_AnomalyScoreStatus_array c = (case c of Cs_AnomalyScoreStatus x \<Rightarrow> Some x | _ \<Rightarrow> None)"

definition get_AlertRule_array :: "'x cell \<Rightarrow> (AlertRule list) option" where
  "get_AlertRule_array c = (case c of Cs_AlertRule x \<Rightarrow> Some x | _ \<Rightarrow> None)"

definition get_TaoNode_array :: "'x cell \<Rightarrow> ('x TaoNode_mem list) option" where
  "get_TaoNode_array c = (case c of Cs_TaoNode x \<Rightarrow> Some x | _ \<Rightarrow> None)"

definition get_foreign_array :: "'x cell \<Rightarrow> ('x list) option" where
  "get_foreign_array c = (case c of Cs_foreign x \<Rightarrow> Some x | _ \<Rightarrow> None)"

definition get_map :: "'x cell \<Rightarrow> ((string \<times> string) list) option" where
  "get_map c = (case c of C_map x \<Rightarrow> Some x | _ \<Rightarrow> None)"

definition get_foreign :: "'x cell \<Rightarrow> ('x) option" where
  "get_foreign c = (case c of C_foreign x \<Rightarrow> Some x | _ \<Rightarrow> None)"

lemma get_cell [simp]:
  "get_AIAdvisorSpec (C_AIAdvisorSpec x0) = Some x0"
  "get_AIAdvisoryStatus (C_AIAdvisoryStatus x1) = Some x1"
  "get_AIIncidentReportStatus (C_AIIncidentReportStatus x2) = Some x2"
  "get_AlertRule (C_AlertRule x3) = Some x3"
  "get_AnalyticsSpec (C_AnalyticsSpec x4) = Some x4"
  "get_AnalyticsStatusBlock (C_AnalyticsStatusBlock x5) = Some x5"
  "get_AnomalyDetectionSpec (C_AnomalyDetectionSpec x6) = Some x6"
  "get_AnomalyScoreStatus (C_AnomalyScoreStatus x7) = Some x7"
  "get_AutoExpandSpec (C_AutoExpandSpec x8) = Some x8"
  "get_CRDBackupSpec (C_CRDBackupSpec x9) = Some x9"
  "get_ChainDataDRSpec (C_ChainDataDRSpec x10) = Some x10"
  "get_ChainStatus (C_ChainStatus x11) = Some x11"
  "get_ChainStorageSpec (C_ChainStorageSpec x12) = Some x12"
  "get_ClickHouseDRSpec (C_ClickHouseDRSpec x13) = Some x13"
  "get_ClickHouseRef (C_ClickHouseRef x14) = Some x14"
  "get_DisasterRecoverySpec (C_DisasterRecoverySpec x15) = Some x15"
  "get_GPUSpec (C_GPUSpec x16) = Some x16"
  "get_IngestionSpec (C_IngestionSpec x17) = Some x17"
  "get_MonitoringSpec (C_MonitoringSpec x18) = Some x18"
  "get_NotificationChannels (C_NotificationChannels x19) = Some x19"
  "get_ResourceStatus (C_ResourceStatus x20) = Some x20"
  "get_RetentionSpec (C_RetentionSpec x21) = Some x21"
  "get_SnapshotDestination (C_SnapshotDestination x22) = Some x22"
  "get_SnapshotPolicySpec (C_SnapshotPolicySpec x23) = Some x23"
  "get_SnapshotStatus (C_SnapshotStatus x24) = Some x24"
  "get_SyncPolicySpec (C_SyncPolicySpec x25) = Some x25"
  "get_SyncStateStatus (C_SyncStateStatus x26) = Some x26"
  "get_TaoNode (C_TaoNode x27) = Some x27"
  "get_TaoNodeList (C_TaoNodeList x28) = Some x28"
  "get_TaoNodeSpec (C_TaoNodeSpec x29) = Some x29"
  "get_TaoNodeStatus (C_TaoNodeStatus x30) = Some x30"
  "get_ValidatorSpec (C_ValidatorSpec x31) = Some x31"
  "get_int32 (C_int32 x32) = Some x32"
  "get_AnomalyScoreStatus_array (Cs_AnomalyScoreStatus x33) = Some x33"
  "get_AlertRule_array (Cs_AlertRule x34) = Some x34"
  "get_TaoNode_array (Cs_TaoNode x35) = Some x35"
  "get_foreign_array (Cs_foreign x36) = Some x36"
  "get_map (C_map x37) = Some x37"
  "get_foreign (C_foreign x38) = Some x38"
  by (simp_all add: get_AIAdvisorSpec_def get_AIAdvisoryStatus_def get_AIIncidentReportStatus_def get_AlertRule_def get_AnalyticsSpec_def get_AnalyticsStatusBlock_def get_AnomalyDetectionSpec_def get_AnomalyScoreStatus_def get_AutoExpandSpec_def get_CRDBackupSpec_def get_ChainDataDRSpec_def get_ChainStatus_def get_ChainStorageSpec_def get_ClickHouseDRSpec_def get_ClickHouseRef_def get_DisasterRecoverySpec_def get_GPUSpec_def get_IngestionSpec_def get_MonitoringSpec_def get_NotificationChannels_def get_ResourceStatus_def get_RetentionSpec_def get_SnapshotDestination_def get_SnapshotPolicySpec_def get_SnapshotStatus_def get_SyncPolicySpec_def get_SyncStateStatus_def get_TaoNode_def get_TaoNodeList_def get_TaoNodeSpec_def get_TaoNodeStatus_def get_ValidatorSpec_def get_int32_def get_AnomalyScoreStatus_array_def get_AlertRule_array_def get_TaoNode_array_def get_foreign_array_def get_map_def get_foreign_def)

section \<open>Copies of Kubernetes' types\<close>

text \<open>
  \<open>DeepCopy\<close> and \<open>DeepCopyInto\<close> of the quantities, resource requirements, tolerations, conditions and
  metadata of Kubernetes, and of the \<open>Time\<close> a pointer refers to. As documented, they are deep copies.
\<close>

record ('c, 'v, 'a) copier =
  cp_val :: "'c store \<Rightarrow> 'v \<Rightarrow> 'a option"
  cp_fp :: "'c store \<Rightarrow> 'v \<Rightarrow> addr set"
  cp_copy :: "'c store \<Rightarrow> 'v \<Rightarrow> 'c store \<times> 'v"

definition deep :: "('c, 'v, 'a) copier \<Rightarrow> bool" where
  "deep C \<longleftrightarrow> deep_copier (cp_val C) (cp_fp C) (cp_copy C)"

record 'x foreign =
  fo_quantity :: "('x cell, 'x, quantity) copier"
  fo_resources :: "('x cell, 'x, resource_requirements) copier"
  fo_toleration :: "('x cell, 'x, toleration) copier"
  fo_condition :: "('x cell, 'x, condition) copier"
  fo_meta :: "('x cell, 'x, object_meta) copier"
  fo_listMeta :: "('x cell, 'x, list_meta) copier"
  fo_time :: "('x cell, addr, time) copier"

definition foreign_laws :: "'x foreign \<Rightarrow> bool" where
  "foreign_laws F \<longleftrightarrow> deep (fo_quantity F) \<and> deep (fo_resources F) \<and> deep (fo_toleration F) \<and> deep (fo_condition F) \<and>
     deep (fo_meta F) \<and> deep (fo_listMeta F) \<and> deep (fo_time F)"

text \<open>A pointer to a \<open>Time\<close>: \<open>*out = (*in).DeepCopy()\<close> unless it is nil.\<close>

abbreviation time_val :: "'x foreign \<Rightarrow> 'x cell store \<Rightarrow> addr option \<Rightarrow> time option option" where
  "time_val F \<equiv> nil_val (cp_val (fo_time F))"

abbreviation time_fp :: "'x foreign \<Rightarrow> 'x cell store \<Rightarrow> addr option \<Rightarrow> addr set" where
  "time_fp F \<equiv> nil_fp (cp_fp (fo_time F))"

abbreviation time_copy :: "'x foreign \<Rightarrow> 'x cell store \<Rightarrow> addr option \<Rightarrow> 'x cell store \<times> addr option" where
  "time_copy F \<equiv> nil_copy (cp_copy (fo_time F))"

text \<open>A map field: entries in a cell; the nil map has none.\<close>

definition entries_val :: "'x cell store \<Rightarrow> addr option \<Rightarrow> (string \<rightharpoonup> string) option" where
  "entries_val h p = map_option (\<lambda>m. case m of None \<Rightarrow> Map.empty | Some m \<Rightarrow> m) (ptr_val get_map map_val h p)"

section \<open>What the structs stand for\<close>

definition AIAdvisorSpec_of where
  "AIAdvisorSpec_of x = (\<lambda>v1. \<lparr>ai_enabled = mai_enabled x, ai_endpoint = mai_endpoint x, ai_model = mai_model x,
       ai_timeoutSeconds = mai_timeoutSeconds x, ai_minAnomalyScoreForAdvisory = mai_minAnomalyScoreForAdvisory x,
       ai_notificationChannels = v1, ai_contextWindowTokens = mai_contextWindowTokens x\<rparr>)"

definition AIAdvisorSpec_val :: "'x cell store \<Rightarrow> AIAdvisorSpec_mem \<Rightarrow> AIAdvisorSpec option" where
  "AIAdvisorSpec_val h x = map_option (AIAdvisorSpec_of x)
     (ptr_val get_NotificationChannels flat_val h (mai_notificationChannels x))"

definition AIAdvisorSpec_fp :: "'x cell store \<Rightarrow> AIAdvisorSpec_mem \<Rightarrow> addr set" where
  "AIAdvisorSpec_fp h x = ptr_fp get_NotificationChannels flat_fp h (mai_notificationChannels x)"

definition AIIncidentReportStatus_of where
  "AIIncidentReportStatus_of x = (\<lambda>v1. \<lparr>irs_timestamp = v1, irs_severity = mirs_severity x, irs_summary = mirs_summary x,
       irs_rootCauseCategory = mirs_rootCauseCategory x, irs_recommendedAction = mirs_recommendedAction x,
       irs_confidence = mirs_confidence x\<rparr>)"

definition AIIncidentReportStatus_val :: "'x foreign \<Rightarrow> 'x cell store \<Rightarrow> AIIncidentReportStatus_mem \<Rightarrow> AIIncidentReportStatus option" where
  "AIIncidentReportStatus_val F h x = map_option (AIIncidentReportStatus_of x)
     (time_val F h (mirs_timestamp x))"

definition AIIncidentReportStatus_fp :: "'x foreign \<Rightarrow> 'x cell store \<Rightarrow> AIIncidentReportStatus_mem \<Rightarrow> addr set" where
  "AIIncidentReportStatus_fp F h x = time_fp F h (mirs_timestamp x)"

definition AIAdvisoryStatus_of where
  "AIAdvisoryStatus_of x = (\<lambda>v1. \<lparr>aas_lastReport = v1, aas_modelAvailable = maas_modelAvailable x,
       aas_inferencesTotal24h = maas_inferencesTotal24h x, aas_avgInferenceLatencyMs = maas_avgInferenceLatencyMs x\<rparr>)"

definition AIAdvisoryStatus_val :: "'x foreign \<Rightarrow> 'x cell store \<Rightarrow> AIAdvisoryStatus_mem \<Rightarrow> AIAdvisoryStatus option" where
  "AIAdvisoryStatus_val F h x = map_option (AIAdvisoryStatus_of x)
     (ptr_val get_AIIncidentReportStatus (AIIncidentReportStatus_val F) h (maas_lastReport x))"

definition AIAdvisoryStatus_fp :: "'x foreign \<Rightarrow> 'x cell store \<Rightarrow> AIAdvisoryStatus_mem \<Rightarrow> addr set" where
  "AIAdvisoryStatus_fp F h x = ptr_fp get_AIIncidentReportStatus (AIIncidentReportStatus_fp F) h (maas_lastReport x)"

definition AnalyticsSpec_of where
  "AnalyticsSpec_of x = (\<lambda>v1. \<lparr>an_enabled = man_enabled x, an_clickHouseRef = man_clickHouseRef x, an_ingestion = man_ingestion x,
       an_anomalyDetection = v1, an_retention = man_retention x\<rparr>)"

definition AnalyticsSpec_val :: "'x cell store \<Rightarrow> AnalyticsSpec_mem \<Rightarrow> AnalyticsSpec option" where
  "AnalyticsSpec_val h x = map_option (AnalyticsSpec_of x)
     (ptr_val get_AnomalyDetectionSpec flat_val h (man_anomalyDetection x))"

definition AnalyticsSpec_fp :: "'x cell store \<Rightarrow> AnalyticsSpec_mem \<Rightarrow> addr set" where
  "AnalyticsSpec_fp h x = ptr_fp get_AnomalyDetectionSpec flat_fp h (man_anomalyDetection x)"

definition AnomalyScoreStatus_of where
  "AnomalyScoreStatus_of x = (\<lambda>v1. \<lparr>ass_type = mass_type x, ass_score = mass_score x, ass_detail = mass_detail x, ass_detectedAt = v1\<rparr>)"

definition AnomalyScoreStatus_val :: "'x foreign \<Rightarrow> 'x cell store \<Rightarrow> AnomalyScoreStatus_mem \<Rightarrow> AnomalyScoreStatus option" where
  "AnomalyScoreStatus_val F h x = map_option (AnomalyScoreStatus_of x)
     (time_val F h (mass_detectedAt x))"

definition AnomalyScoreStatus_fp :: "'x foreign \<Rightarrow> 'x cell store \<Rightarrow> AnomalyScoreStatus_mem \<Rightarrow> addr set" where
  "AnomalyScoreStatus_fp F h x = time_fp F h (mass_detectedAt x)"

definition AnalyticsStatusBlock_of where
  "AnalyticsStatusBlock_of x = (\<lambda>(v1, v2). \<lparr>asb_connected = masb_connected x, asb_lastIngestionTime = v1,
       asb_rowsIngested24h = masb_rowsIngested24h x, asb_anomalyScores = v2, asb_ingestionLagMs = masb_ingestionLagMs x\<rparr>)"

definition AnalyticsStatusBlock_val :: "'x foreign \<Rightarrow> 'x cell store \<Rightarrow> AnalyticsStatusBlock_mem \<Rightarrow> AnalyticsStatusBlock option" where
  "AnalyticsStatusBlock_val F h x = map_option (AnalyticsStatusBlock_of x)
     (pair_val (time_val F) (slice_val get_AnomalyScoreStatus_array (AnomalyScoreStatus_val F)) h (masb_lastIngestionTime x,
       masb_anomalyScores x))"

definition AnalyticsStatusBlock_fp :: "'x foreign \<Rightarrow> 'x cell store \<Rightarrow> AnalyticsStatusBlock_mem \<Rightarrow> addr set" where
  "AnalyticsStatusBlock_fp F h x = pair_fp (time_fp F) (slice_fp get_AnomalyScoreStatus_array (AnomalyScoreStatus_fp F)) h (masb_lastIngestionTime x,
       masb_anomalyScores x)"

definition AutoExpandSpec_of where
  "AutoExpandSpec_of x = (\<lambda>v1. \<lparr>ae_thresholdPercent = mae_thresholdPercent x, ae_maxSize = v1,
       ae_incrementPercent = mae_incrementPercent x\<rparr>)"

definition AutoExpandSpec_val :: "'x foreign \<Rightarrow> 'x cell store \<Rightarrow> 'x AutoExpandSpec_mem \<Rightarrow> AutoExpandSpec option" where
  "AutoExpandSpec_val F h x = map_option (AutoExpandSpec_of x)
     (cp_val (fo_quantity F) h (mae_maxSize x))"

definition AutoExpandSpec_fp :: "'x foreign \<Rightarrow> 'x cell store \<Rightarrow> 'x AutoExpandSpec_mem \<Rightarrow> addr set" where
  "AutoExpandSpec_fp F h x = cp_fp (fo_quantity F) h (mae_maxSize x)"

definition ChainStorageSpec_of where
  "ChainStorageSpec_of x = (\<lambda>(v1, v2). \<lparr>cs_storageClass = mcs_storageClass x, cs_size = v1, cs_autoExpand = v2\<rparr>)"

definition ChainStorageSpec_val :: "'x foreign \<Rightarrow> 'x cell store \<Rightarrow> 'x ChainStorageSpec_mem \<Rightarrow> ChainStorageSpec option" where
  "ChainStorageSpec_val F h x = map_option (ChainStorageSpec_of x)
     (pair_val (cp_val (fo_quantity F)) (ptr_val get_AutoExpandSpec (AutoExpandSpec_val F)) h (mcs_size x, mcs_autoExpand x))"

definition ChainStorageSpec_fp :: "'x foreign \<Rightarrow> 'x cell store \<Rightarrow> 'x ChainStorageSpec_mem \<Rightarrow> addr set" where
  "ChainStorageSpec_fp F h x = pair_fp (cp_fp (fo_quantity F)) (ptr_fp get_AutoExpandSpec (AutoExpandSpec_fp F)) h (mcs_size x, mcs_autoExpand x)"

definition DisasterRecoverySpec_of where
  "DisasterRecoverySpec_of x = (\<lambda>v1. \<lparr>dr_enabled = mdr_enabled x, dr_crdBackup = mdr_crdBackup x, dr_chainDataDR = mdr_chainDataDR x,
       dr_clickHouseDR = v1, dr_rpo = mdr_rpo x, dr_rto = mdr_rto x\<rparr>)"

definition DisasterRecoverySpec_val :: "'x cell store \<Rightarrow> DisasterRecoverySpec_mem \<Rightarrow> DisasterRecoverySpec option" where
  "DisasterRecoverySpec_val h x = map_option (DisasterRecoverySpec_of x)
     (ptr_val get_ClickHouseDRSpec flat_val h (mdr_clickHouseDR x))"

definition DisasterRecoverySpec_fp :: "'x cell store \<Rightarrow> DisasterRecoverySpec_mem \<Rightarrow> addr set" where
  "DisasterRecoverySpec_fp h x = ptr_fp get_ClickHouseDRSpec flat_fp h (mdr_clickHouseDR x)"

definition MonitoringSpec_of where
  "MonitoringSpec_of x = (\<lambda>v1. \<lparr>mon_enabled = mmon_enabled x, mon_port = mmon_port x, mon_alertRules = v1\<rparr>)"

definition MonitoringSpec_val :: "'x cell store \<Rightarrow> MonitoringSpec_mem \<Rightarrow> MonitoringSpec option" where
  "MonitoringSpec_val h x = map_option (MonitoringSpec_of x)
     (slice_val get_AlertRule_array flat_val h (mmon_alertRules x))"

definition MonitoringSpec_fp :: "'x cell store \<Rightarrow> MonitoringSpec_mem \<Rightarrow> addr set" where
  "MonitoringSpec_fp h x = slice_fp get_AlertRule_array flat_fp h (mmon_alertRules x)"

definition ResourceStatus_of where
  "ResourceStatus_of x = (\<lambda>v1. \<lparr>rs_diskUsagePercent = mrs_diskUsagePercent x, rs_gpuUtilizationPercent = v1,
       rs_estimatedMonthlyUSD = mrs_estimatedMonthlyUSD x\<rparr>)"

definition ResourceStatus_val :: "'x cell store \<Rightarrow> ResourceStatus_mem \<Rightarrow> ResourceStatus option" where
  "ResourceStatus_val h x = map_option (ResourceStatus_of x)
     (ptr_val get_int32 flat_val h (mrs_gpuUtilizationPercent x))"

definition ResourceStatus_fp :: "'x cell store \<Rightarrow> ResourceStatus_mem \<Rightarrow> addr set" where
  "ResourceStatus_fp h x = ptr_fp get_int32 flat_fp h (mrs_gpuUtilizationPercent x)"

definition SnapshotStatus_of where
  "SnapshotStatus_of x = (\<lambda>v1. \<lparr>sns_lastSnapshotTime = v1, sns_lastSnapshotSize = msns_lastSnapshotSize x,
       sns_availableSnapshots = msns_availableSnapshots x\<rparr>)"

definition SnapshotStatus_val :: "'x foreign \<Rightarrow> 'x cell store \<Rightarrow> SnapshotStatus_mem \<Rightarrow> SnapshotStatus option" where
  "SnapshotStatus_val F h x = map_option (SnapshotStatus_of x)
     (time_val F h (msns_lastSnapshotTime x))"

definition SnapshotStatus_fp :: "'x foreign \<Rightarrow> 'x cell store \<Rightarrow> SnapshotStatus_mem \<Rightarrow> addr set" where
  "SnapshotStatus_fp F h x = time_fp F h (msns_lastSnapshotTime x)"

definition SyncStateStatus_of where
  "SyncStateStatus_of x = (\<lambda>v1. \<lparr>sss_state = msss_state x, sss_currentBlock = msss_currentBlock x, sss_networkBlock = msss_networkBlock x,
       sss_blockLag = msss_blockLag x, sss_syncPercentage = msss_syncPercentage x, sss_lastSyncedAt = v1\<rparr>)"

definition SyncStateStatus_val :: "'x foreign \<Rightarrow> 'x cell store \<Rightarrow> SyncStateStatus_mem \<Rightarrow> SyncStateStatus option" where
  "SyncStateStatus_val F h x = map_option (SyncStateStatus_of x)
     (time_val F h (msss_lastSyncedAt x))"

definition SyncStateStatus_fp :: "'x foreign \<Rightarrow> 'x cell store \<Rightarrow> SyncStateStatus_mem \<Rightarrow> addr set" where
  "SyncStateStatus_fp F h x = time_fp F h (msss_lastSyncedAt x)"

definition TaoNodeSpec_of where
  "TaoNodeSpec_of x = (\<lambda>(v1, v2, v3, v4, v5, v6, v7, v8, v9, v10, v11). \<lparr>spec_network = mspec_network x,
       spec_subnetID = mspec_subnetID x, spec_role = mspec_role x, spec_image = mspec_image x, spec_version = mspec_version x,
       spec_chainStorage = v1, spec_syncPolicy = mspec_syncPolicy x, spec_snapshotPolicy = v2, spec_gpu = v3, spec_validator = v4,
       spec_resources = v5, spec_monitoring = v6, spec_analytics = v7, spec_aiAdvisor = v8, spec_disasterRecovery = v9,
       spec_tolerations = v10, spec_nodeSelector = v11\<rparr>)"

definition TaoNodeSpec_val :: "'x foreign \<Rightarrow> 'x cell store \<Rightarrow> 'x TaoNodeSpec_mem \<Rightarrow> TaoNodeSpec option" where
  "TaoNodeSpec_val F h x = map_option (TaoNodeSpec_of x)
     (pair_val (ChainStorageSpec_val F) (pair_val (ptr_val get_SnapshotPolicySpec flat_val) (pair_val (ptr_val get_GPUSpec flat_val)
       (pair_val (ptr_val get_ValidatorSpec flat_val) (pair_val (cp_val (fo_resources F))
       (pair_val (ptr_val get_MonitoringSpec MonitoringSpec_val) (pair_val (ptr_val get_AnalyticsSpec AnalyticsSpec_val)
       (pair_val (ptr_val get_AIAdvisorSpec AIAdvisorSpec_val) (pair_val (ptr_val get_DisasterRecoverySpec DisasterRecoverySpec_val)
       (pair_val (slice_val get_foreign_array (cp_val (fo_toleration F))) entries_val))))))))) h (mspec_chainStorage x,
       mspec_snapshotPolicy x, mspec_gpu x, mspec_validator x, mspec_resources x, mspec_monitoring x, mspec_analytics x,
       mspec_aiAdvisor x, mspec_disasterRecovery x, mspec_tolerations x, mspec_nodeSelector x))"

definition TaoNodeSpec_fp :: "'x foreign \<Rightarrow> 'x cell store \<Rightarrow> 'x TaoNodeSpec_mem \<Rightarrow> addr set" where
  "TaoNodeSpec_fp F h x = pair_fp (ChainStorageSpec_fp F) (pair_fp (ptr_fp get_SnapshotPolicySpec flat_fp) (pair_fp (ptr_fp get_GPUSpec flat_fp)
       (pair_fp (ptr_fp get_ValidatorSpec flat_fp) (pair_fp (cp_fp (fo_resources F))
       (pair_fp (ptr_fp get_MonitoringSpec MonitoringSpec_fp) (pair_fp (ptr_fp get_AnalyticsSpec AnalyticsSpec_fp)
       (pair_fp (ptr_fp get_AIAdvisorSpec AIAdvisorSpec_fp) (pair_fp (ptr_fp get_DisasterRecoverySpec DisasterRecoverySpec_fp)
       (pair_fp (slice_fp get_foreign_array (cp_fp (fo_toleration F))) (ptr_fp get_map flat_fp)))))))))) h (mspec_chainStorage x,
       mspec_snapshotPolicy x, mspec_gpu x, mspec_validator x, mspec_resources x, mspec_monitoring x, mspec_analytics x,
       mspec_aiAdvisor x, mspec_disasterRecovery x, mspec_tolerations x, mspec_nodeSelector x)"

definition TaoNodeStatus_of where
  "TaoNodeStatus_of x = (\<lambda>(v1, v2, v3, v4, v5, v6, v7). \<lparr>st_phase = mst_phase x, st_syncState = v1, st_chain = mst_chain x,
       st_resources = v2, st_snapshot = v3, st_analytics = v4, st_aiAdvisory = v5, st_conditions = v6,
       st_restartCount = mst_restartCount x, st_observedGeneration = mst_observedGeneration x, st_lastReconcileTime = v7,
       st_hotkeyHash = mst_hotkeyHash x\<rparr>)"

definition TaoNodeStatus_val :: "'x foreign \<Rightarrow> 'x cell store \<Rightarrow> 'x TaoNodeStatus_mem \<Rightarrow> TaoNodeStatus option" where
  "TaoNodeStatus_val F h x = map_option (TaoNodeStatus_of x)
     (pair_val (SyncStateStatus_val F) (pair_val ResourceStatus_val (pair_val (ptr_val get_SnapshotStatus (SnapshotStatus_val F))
       (pair_val (ptr_val get_AnalyticsStatusBlock (AnalyticsStatusBlock_val F))
       (pair_val (ptr_val get_AIAdvisoryStatus (AIAdvisoryStatus_val F))
       (pair_val (slice_val get_foreign_array (cp_val (fo_condition F))) (time_val F)))))) h (mst_syncState x, mst_resources x,
       mst_snapshot x, mst_analytics x, mst_aiAdvisory x, mst_conditions x, mst_lastReconcileTime x))"

definition TaoNodeStatus_fp :: "'x foreign \<Rightarrow> 'x cell store \<Rightarrow> 'x TaoNodeStatus_mem \<Rightarrow> addr set" where
  "TaoNodeStatus_fp F h x = pair_fp (SyncStateStatus_fp F) (pair_fp ResourceStatus_fp (pair_fp (ptr_fp get_SnapshotStatus (SnapshotStatus_fp F))
       (pair_fp (ptr_fp get_AnalyticsStatusBlock (AnalyticsStatusBlock_fp F))
       (pair_fp (ptr_fp get_AIAdvisoryStatus (AIAdvisoryStatus_fp F)) (pair_fp (slice_fp get_foreign_array (cp_fp (fo_condition F)))
       (time_fp F)))))) h (mst_syncState x, mst_resources x, mst_snapshot x, mst_analytics x, mst_aiAdvisory x, mst_conditions x,
       mst_lastReconcileTime x)"

definition TaoNode_of where
  "TaoNode_of x = (\<lambda>(v1, v2, v3). \<lparr>tn_typeMeta = mtn_typeMeta x, tn_meta = v1, tn_spec = v2, tn_status = v3\<rparr>)"

definition TaoNode_val :: "'x foreign \<Rightarrow> 'x cell store \<Rightarrow> 'x TaoNode_mem \<Rightarrow> TaoNode option" where
  "TaoNode_val F h x = map_option (TaoNode_of x)
     (pair_val (cp_val (fo_meta F)) (pair_val (TaoNodeSpec_val F) (TaoNodeStatus_val F)) h (mtn_meta x, mtn_spec x, mtn_status x))"

definition TaoNode_fp :: "'x foreign \<Rightarrow> 'x cell store \<Rightarrow> 'x TaoNode_mem \<Rightarrow> addr set" where
  "TaoNode_fp F h x = pair_fp (cp_fp (fo_meta F)) (pair_fp (TaoNodeSpec_fp F) (TaoNodeStatus_fp F)) h (mtn_meta x, mtn_spec x, mtn_status x)"

definition TaoNodeList_of where
  "TaoNodeList_of x = (\<lambda>(v1, v2). (mtl_typeMeta x, v1, v2))"

definition TaoNodeList_val :: "'x foreign \<Rightarrow> 'x cell store \<Rightarrow> 'x TaoNodeList_mem \<Rightarrow> (type_meta \<times> list_meta \<times> TaoNode list) option" where
  "TaoNodeList_val F h x = map_option (TaoNodeList_of x)
     (pair_val (cp_val (fo_listMeta F)) (slice_val get_TaoNode_array (TaoNode_val F)) h (mtl_listMeta x, mtl_items x))"

definition TaoNodeList_fp :: "'x foreign \<Rightarrow> 'x cell store \<Rightarrow> 'x TaoNodeList_mem \<Rightarrow> addr set" where
  "TaoNodeList_fp F h x = pair_fp (cp_fp (fo_listMeta F)) (slice_fp get_TaoNode_array (TaoNode_fp F)) h (mtl_listMeta x, mtl_items x)"

section \<open>The generated functions\<close>

definition AIAdvisorSpec_DeepCopyInto :: "'x cell store \<Rightarrow> AIAdvisorSpec_mem \<Rightarrow> 'x cell store \<times> AIAdvisorSpec_mem" where
  "AIAdvisorSpec_DeepCopyInto h x =
     (let (h1, r1) = ptr_copy get_NotificationChannels C_NotificationChannels flat_copy h (mai_notificationChannels x)
      in (h1, x\<lparr>mai_notificationChannels := r1\<rparr>))"

definition AIAdvisorSpec_DeepCopy :: "'x cell store \<Rightarrow> addr option \<Rightarrow> 'x cell store \<times> addr option" where
  "AIAdvisorSpec_DeepCopy h p = ptr_copy get_AIAdvisorSpec C_AIAdvisorSpec AIAdvisorSpec_DeepCopyInto h p"

definition AIIncidentReportStatus_DeepCopyInto :: "'x foreign \<Rightarrow> 'x cell store \<Rightarrow> AIIncidentReportStatus_mem \<Rightarrow> 'x cell store \<times> AIIncidentReportStatus_mem" where
  "AIIncidentReportStatus_DeepCopyInto F h x =
     (let (h1, r1) = time_copy F h (mirs_timestamp x)
      in (h1, x\<lparr>mirs_timestamp := r1\<rparr>))"

definition AIIncidentReportStatus_DeepCopy :: "'x foreign \<Rightarrow> 'x cell store \<Rightarrow> addr option \<Rightarrow> 'x cell store \<times> addr option" where
  "AIIncidentReportStatus_DeepCopy F h p = ptr_copy get_AIIncidentReportStatus C_AIIncidentReportStatus (AIIncidentReportStatus_DeepCopyInto F) h p"

definition AIAdvisoryStatus_DeepCopyInto :: "'x foreign \<Rightarrow> 'x cell store \<Rightarrow> AIAdvisoryStatus_mem \<Rightarrow> 'x cell store \<times> AIAdvisoryStatus_mem" where
  "AIAdvisoryStatus_DeepCopyInto F h x =
     (let (h1, r1) = ptr_copy get_AIIncidentReportStatus C_AIIncidentReportStatus (AIIncidentReportStatus_DeepCopyInto F) h (maas_lastReport x)
      in (h1, x\<lparr>maas_lastReport := r1\<rparr>))"

definition AIAdvisoryStatus_DeepCopy :: "'x foreign \<Rightarrow> 'x cell store \<Rightarrow> addr option \<Rightarrow> 'x cell store \<times> addr option" where
  "AIAdvisoryStatus_DeepCopy F h p = ptr_copy get_AIAdvisoryStatus C_AIAdvisoryStatus (AIAdvisoryStatus_DeepCopyInto F) h p"

definition AlertRule_DeepCopyInto :: "'x cell store \<Rightarrow> AlertRule \<Rightarrow> 'x cell store \<times> AlertRule" where
  "AlertRule_DeepCopyInto h x = (h, x)"

definition AlertRule_DeepCopy :: "'x cell store \<Rightarrow> addr option \<Rightarrow> 'x cell store \<times> addr option" where
  "AlertRule_DeepCopy h p = ptr_copy get_AlertRule C_AlertRule AlertRule_DeepCopyInto h p"

definition AnalyticsSpec_DeepCopyInto :: "'x cell store \<Rightarrow> AnalyticsSpec_mem \<Rightarrow> 'x cell store \<times> AnalyticsSpec_mem" where
  "AnalyticsSpec_DeepCopyInto h x =
     (let (h1, r1) = ptr_copy get_AnomalyDetectionSpec C_AnomalyDetectionSpec flat_copy h (man_anomalyDetection x)
      in (h1, x\<lparr>man_clickHouseRef := man_clickHouseRef x, man_ingestion := man_ingestion x, man_anomalyDetection := r1,
           man_retention := man_retention x\<rparr>))"

definition AnalyticsSpec_DeepCopy :: "'x cell store \<Rightarrow> addr option \<Rightarrow> 'x cell store \<times> addr option" where
  "AnalyticsSpec_DeepCopy h p = ptr_copy get_AnalyticsSpec C_AnalyticsSpec AnalyticsSpec_DeepCopyInto h p"

definition AnomalyScoreStatus_DeepCopyInto :: "'x foreign \<Rightarrow> 'x cell store \<Rightarrow> AnomalyScoreStatus_mem \<Rightarrow> 'x cell store \<times> AnomalyScoreStatus_mem" where
  "AnomalyScoreStatus_DeepCopyInto F h x =
     (let (h1, r1) = time_copy F h (mass_detectedAt x)
      in (h1, x\<lparr>mass_detectedAt := r1\<rparr>))"

definition AnomalyScoreStatus_DeepCopy :: "'x foreign \<Rightarrow> 'x cell store \<Rightarrow> addr option \<Rightarrow> 'x cell store \<times> addr option" where
  "AnomalyScoreStatus_DeepCopy F h p = ptr_copy get_AnomalyScoreStatus C_AnomalyScoreStatus (AnomalyScoreStatus_DeepCopyInto F) h p"

definition AnalyticsStatusBlock_DeepCopyInto :: "'x foreign \<Rightarrow> 'x cell store \<Rightarrow> AnalyticsStatusBlock_mem \<Rightarrow> 'x cell store \<times> AnalyticsStatusBlock_mem" where
  "AnalyticsStatusBlock_DeepCopyInto F h x =
     (let (h1, r1) = time_copy F h (masb_lastIngestionTime x);
          (h2, r2) = slice_copy get_AnomalyScoreStatus_array Cs_AnomalyScoreStatus (AnomalyScoreStatus_DeepCopyInto F) h1 (masb_anomalyScores x)
      in (h2, x\<lparr>masb_lastIngestionTime := r1, masb_anomalyScores := r2\<rparr>))"

definition AnalyticsStatusBlock_DeepCopy :: "'x foreign \<Rightarrow> 'x cell store \<Rightarrow> addr option \<Rightarrow> 'x cell store \<times> addr option" where
  "AnalyticsStatusBlock_DeepCopy F h p = ptr_copy get_AnalyticsStatusBlock C_AnalyticsStatusBlock (AnalyticsStatusBlock_DeepCopyInto F) h p"

definition AnomalyDetectionSpec_DeepCopyInto :: "'x cell store \<Rightarrow> AnomalyDetectionSpec \<Rightarrow> 'x cell store \<times> AnomalyDetectionSpec" where
  "AnomalyDetectionSpec_DeepCopyInto h x = (h, x)"

definition AnomalyDetectionSpec_DeepCopy :: "'x cell store \<Rightarrow> addr option \<Rightarrow> 'x cell store \<times> addr option" where
  "AnomalyDetectionSpec_DeepCopy h p = ptr_copy get_AnomalyDetectionSpec C_AnomalyDetectionSpec AnomalyDetectionSpec_DeepCopyInto h p"

definition AutoExpandSpec_DeepCopyInto :: "'x foreign \<Rightarrow> 'x cell store \<Rightarrow> 'x AutoExpandSpec_mem \<Rightarrow> 'x cell store \<times> 'x AutoExpandSpec_mem" where
  "AutoExpandSpec_DeepCopyInto F h x =
     (let (h1, r1) = cp_copy (fo_quantity F) h (mae_maxSize x)
      in (h1, x\<lparr>mae_maxSize := r1\<rparr>))"

definition AutoExpandSpec_DeepCopy :: "'x foreign \<Rightarrow> 'x cell store \<Rightarrow> addr option \<Rightarrow> 'x cell store \<times> addr option" where
  "AutoExpandSpec_DeepCopy F h p = ptr_copy get_AutoExpandSpec C_AutoExpandSpec (AutoExpandSpec_DeepCopyInto F) h p"

definition CRDBackupSpec_DeepCopyInto :: "'x cell store \<Rightarrow> CRDBackupSpec \<Rightarrow> 'x cell store \<times> CRDBackupSpec" where
  "CRDBackupSpec_DeepCopyInto h x = (h, x\<lparr>cb_destination := cb_destination x\<rparr>)"

definition CRDBackupSpec_DeepCopy :: "'x cell store \<Rightarrow> addr option \<Rightarrow> 'x cell store \<times> addr option" where
  "CRDBackupSpec_DeepCopy h p = ptr_copy get_CRDBackupSpec C_CRDBackupSpec CRDBackupSpec_DeepCopyInto h p"

definition ChainDataDRSpec_DeepCopyInto :: "'x cell store \<Rightarrow> ChainDataDRSpec \<Rightarrow> 'x cell store \<times> ChainDataDRSpec" where
  "ChainDataDRSpec_DeepCopyInto h x = (h, x)"

definition ChainDataDRSpec_DeepCopy :: "'x cell store \<Rightarrow> addr option \<Rightarrow> 'x cell store \<times> addr option" where
  "ChainDataDRSpec_DeepCopy h p = ptr_copy get_ChainDataDRSpec C_ChainDataDRSpec ChainDataDRSpec_DeepCopyInto h p"

definition ChainStatus_DeepCopyInto :: "'x cell store \<Rightarrow> ChainStatus \<Rightarrow> 'x cell store \<times> ChainStatus" where
  "ChainStatus_DeepCopyInto h x = (h, x)"

definition ChainStatus_DeepCopy :: "'x cell store \<Rightarrow> addr option \<Rightarrow> 'x cell store \<times> addr option" where
  "ChainStatus_DeepCopy h p = ptr_copy get_ChainStatus C_ChainStatus ChainStatus_DeepCopyInto h p"

definition ChainStorageSpec_DeepCopyInto :: "'x foreign \<Rightarrow> 'x cell store \<Rightarrow> 'x ChainStorageSpec_mem \<Rightarrow> 'x cell store \<times> 'x ChainStorageSpec_mem" where
  "ChainStorageSpec_DeepCopyInto F h x =
     (let (h1, r1) = cp_copy (fo_quantity F) h (mcs_size x);
          (h2, r2) = ptr_copy get_AutoExpandSpec C_AutoExpandSpec (AutoExpandSpec_DeepCopyInto F) h1 (mcs_autoExpand x)
      in (h2, x\<lparr>mcs_size := r1, mcs_autoExpand := r2\<rparr>))"

definition ChainStorageSpec_DeepCopy :: "'x foreign \<Rightarrow> 'x cell store \<Rightarrow> addr option \<Rightarrow> 'x cell store \<times> addr option" where
  "ChainStorageSpec_DeepCopy F h p = ptr_copy get_ChainStorageSpec C_ChainStorageSpec (ChainStorageSpec_DeepCopyInto F) h p"

definition ClickHouseDRSpec_DeepCopyInto :: "'x cell store \<Rightarrow> ClickHouseDRSpec \<Rightarrow> 'x cell store \<times> ClickHouseDRSpec" where
  "ClickHouseDRSpec_DeepCopyInto h x = (h, x\<lparr>chd_destination := chd_destination x\<rparr>)"

definition ClickHouseDRSpec_DeepCopy :: "'x cell store \<Rightarrow> addr option \<Rightarrow> 'x cell store \<times> addr option" where
  "ClickHouseDRSpec_DeepCopy h p = ptr_copy get_ClickHouseDRSpec C_ClickHouseDRSpec ClickHouseDRSpec_DeepCopyInto h p"

definition ClickHouseRef_DeepCopyInto :: "'x cell store \<Rightarrow> ClickHouseRef \<Rightarrow> 'x cell store \<times> ClickHouseRef" where
  "ClickHouseRef_DeepCopyInto h x = (h, x)"

definition ClickHouseRef_DeepCopy :: "'x cell store \<Rightarrow> addr option \<Rightarrow> 'x cell store \<times> addr option" where
  "ClickHouseRef_DeepCopy h p = ptr_copy get_ClickHouseRef C_ClickHouseRef ClickHouseRef_DeepCopyInto h p"

definition DisasterRecoverySpec_DeepCopyInto :: "'x cell store \<Rightarrow> DisasterRecoverySpec_mem \<Rightarrow> 'x cell store \<times> DisasterRecoverySpec_mem" where
  "DisasterRecoverySpec_DeepCopyInto h x =
     (let (h1, r1) = ptr_copy get_ClickHouseDRSpec C_ClickHouseDRSpec flat_copy h (mdr_clickHouseDR x)
      in (h1, x\<lparr>mdr_crdBackup := mdr_crdBackup x, mdr_chainDataDR := mdr_chainDataDR x, mdr_clickHouseDR := r1\<rparr>))"

definition DisasterRecoverySpec_DeepCopy :: "'x cell store \<Rightarrow> addr option \<Rightarrow> 'x cell store \<times> addr option" where
  "DisasterRecoverySpec_DeepCopy h p = ptr_copy get_DisasterRecoverySpec C_DisasterRecoverySpec DisasterRecoverySpec_DeepCopyInto h p"

definition GPUSpec_DeepCopyInto :: "'x cell store \<Rightarrow> GPUSpec \<Rightarrow> 'x cell store \<times> GPUSpec" where
  "GPUSpec_DeepCopyInto h x = (h, x)"

definition GPUSpec_DeepCopy :: "'x cell store \<Rightarrow> addr option \<Rightarrow> 'x cell store \<times> addr option" where
  "GPUSpec_DeepCopy h p = ptr_copy get_GPUSpec C_GPUSpec GPUSpec_DeepCopyInto h p"

definition IngestionSpec_DeepCopyInto :: "'x cell store \<Rightarrow> IngestionSpec \<Rightarrow> 'x cell store \<times> IngestionSpec" where
  "IngestionSpec_DeepCopyInto h x = (h, x)"

definition IngestionSpec_DeepCopy :: "'x cell store \<Rightarrow> addr option \<Rightarrow> 'x cell store \<times> addr option" where
  "IngestionSpec_DeepCopy h p = ptr_copy get_IngestionSpec C_IngestionSpec IngestionSpec_DeepCopyInto h p"

definition MonitoringSpec_DeepCopyInto :: "'x cell store \<Rightarrow> MonitoringSpec_mem \<Rightarrow> 'x cell store \<times> MonitoringSpec_mem" where
  "MonitoringSpec_DeepCopyInto h x =
     (let (h1, r1) = slice_copy get_AlertRule_array Cs_AlertRule flat_copy h (mmon_alertRules x)
      in (h1, x\<lparr>mmon_alertRules := r1\<rparr>))"

definition MonitoringSpec_DeepCopy :: "'x cell store \<Rightarrow> addr option \<Rightarrow> 'x cell store \<times> addr option" where
  "MonitoringSpec_DeepCopy h p = ptr_copy get_MonitoringSpec C_MonitoringSpec MonitoringSpec_DeepCopyInto h p"

definition NotificationChannels_DeepCopyInto :: "'x cell store \<Rightarrow> NotificationChannels \<Rightarrow> 'x cell store \<times> NotificationChannels" where
  "NotificationChannels_DeepCopyInto h x = (h, x)"

definition NotificationChannels_DeepCopy :: "'x cell store \<Rightarrow> addr option \<Rightarrow> 'x cell store \<times> addr option" where
  "NotificationChannels_DeepCopy h p = ptr_copy get_NotificationChannels C_NotificationChannels NotificationChannels_DeepCopyInto h p"

definition ResourceStatus_DeepCopyInto :: "'x cell store \<Rightarrow> ResourceStatus_mem \<Rightarrow> 'x cell store \<times> ResourceStatus_mem" where
  "ResourceStatus_DeepCopyInto h x =
     (let (h1, r1) = ptr_copy get_int32 C_int32 flat_copy h (mrs_gpuUtilizationPercent x)
      in (h1, x\<lparr>mrs_gpuUtilizationPercent := r1\<rparr>))"

definition ResourceStatus_DeepCopy :: "'x cell store \<Rightarrow> addr option \<Rightarrow> 'x cell store \<times> addr option" where
  "ResourceStatus_DeepCopy h p = ptr_copy get_ResourceStatus C_ResourceStatus ResourceStatus_DeepCopyInto h p"

definition RetentionSpec_DeepCopyInto :: "'x cell store \<Rightarrow> RetentionSpec \<Rightarrow> 'x cell store \<times> RetentionSpec" where
  "RetentionSpec_DeepCopyInto h x = (h, x)"

definition RetentionSpec_DeepCopy :: "'x cell store \<Rightarrow> addr option \<Rightarrow> 'x cell store \<times> addr option" where
  "RetentionSpec_DeepCopy h p = ptr_copy get_RetentionSpec C_RetentionSpec RetentionSpec_DeepCopyInto h p"

definition SnapshotDestination_DeepCopyInto :: "'x cell store \<Rightarrow> SnapshotDestination \<Rightarrow> 'x cell store \<times> SnapshotDestination" where
  "SnapshotDestination_DeepCopyInto h x = (h, x)"

definition SnapshotDestination_DeepCopy :: "'x cell store \<Rightarrow> addr option \<Rightarrow> 'x cell store \<times> addr option" where
  "SnapshotDestination_DeepCopy h p = ptr_copy get_SnapshotDestination C_SnapshotDestination SnapshotDestination_DeepCopyInto h p"

definition SnapshotPolicySpec_DeepCopyInto :: "'x cell store \<Rightarrow> SnapshotPolicySpec \<Rightarrow> 'x cell store \<times> SnapshotPolicySpec" where
  "SnapshotPolicySpec_DeepCopyInto h x = (h, x\<lparr>snp_destination := snp_destination x\<rparr>)"

definition SnapshotPolicySpec_DeepCopy :: "'x cell store \<Rightarrow> addr option \<Rightarrow> 'x cell store \<times> addr option" where
  "SnapshotPolicySpec_DeepCopy h p = ptr_copy get_SnapshotPolicySpec C_SnapshotPolicySpec SnapshotPolicySpec_DeepCopyInto h p"

definition SnapshotStatus_DeepCopyInto :: "'x foreign \<Rightarrow> 'x cell store \<Rightarrow> SnapshotStatus_mem \<Rightarrow> 'x cell store \<times> SnapshotStatus_mem" where
  "SnapshotStatus_DeepCopyInto F h x =
     (let (h1, r1) = time_copy F h (msns_lastSnapshotTime x)
      in (h1, x\<lparr>msns_lastSnapshotTime := r1\<rparr>))"

definition SnapshotStatus_DeepCopy :: "'x foreign \<Rightarrow> 'x cell store \<Rightarrow> addr option \<Rightarrow> 'x cell store \<times> addr option" where
  "SnapshotStatus_DeepCopy F h p = ptr_copy get_SnapshotStatus C_SnapshotStatus (SnapshotStatus_DeepCopyInto F) h p"

definition SyncPolicySpec_DeepCopyInto :: "'x cell store \<Rightarrow> SyncPolicySpec \<Rightarrow> 'x cell store \<times> SyncPolicySpec" where
  "SyncPolicySpec_DeepCopyInto h x = (h, x)"

definition SyncPolicySpec_DeepCopy :: "'x cell store \<Rightarrow> addr option \<Rightarrow> 'x cell store \<times> addr option" where
  "SyncPolicySpec_DeepCopy h p = ptr_copy get_SyncPolicySpec C_SyncPolicySpec SyncPolicySpec_DeepCopyInto h p"

definition SyncStateStatus_DeepCopyInto :: "'x foreign \<Rightarrow> 'x cell store \<Rightarrow> SyncStateStatus_mem \<Rightarrow> 'x cell store \<times> SyncStateStatus_mem" where
  "SyncStateStatus_DeepCopyInto F h x =
     (let (h1, r1) = time_copy F h (msss_lastSyncedAt x)
      in (h1, x\<lparr>msss_lastSyncedAt := r1\<rparr>))"

definition SyncStateStatus_DeepCopy :: "'x foreign \<Rightarrow> 'x cell store \<Rightarrow> addr option \<Rightarrow> 'x cell store \<times> addr option" where
  "SyncStateStatus_DeepCopy F h p = ptr_copy get_SyncStateStatus C_SyncStateStatus (SyncStateStatus_DeepCopyInto F) h p"

definition TaoNodeSpec_DeepCopyInto :: "'x foreign \<Rightarrow> 'x cell store \<Rightarrow> 'x TaoNodeSpec_mem \<Rightarrow> 'x cell store \<times> 'x TaoNodeSpec_mem" where
  "TaoNodeSpec_DeepCopyInto F h x =
     (let (h1, r1) = ChainStorageSpec_DeepCopyInto F h (mspec_chainStorage x);
          (h2, r2) = ptr_copy get_SnapshotPolicySpec C_SnapshotPolicySpec flat_copy h1 (mspec_snapshotPolicy x);
          (h3, r3) = ptr_copy get_GPUSpec C_GPUSpec flat_copy h2 (mspec_gpu x);
          (h4, r4) = ptr_copy get_ValidatorSpec C_ValidatorSpec flat_copy h3 (mspec_validator x);
          (h5, r5) = cp_copy (fo_resources F) h4 (mspec_resources x);
          (h6, r6) = ptr_copy get_MonitoringSpec C_MonitoringSpec MonitoringSpec_DeepCopyInto h5 (mspec_monitoring x);
          (h7, r7) = ptr_copy get_AnalyticsSpec C_AnalyticsSpec AnalyticsSpec_DeepCopyInto h6 (mspec_analytics x);
          (h8, r8) = ptr_copy get_AIAdvisorSpec C_AIAdvisorSpec AIAdvisorSpec_DeepCopyInto h7 (mspec_aiAdvisor x);
          (h9, r9) = ptr_copy get_DisasterRecoverySpec C_DisasterRecoverySpec DisasterRecoverySpec_DeepCopyInto h8 (mspec_disasterRecovery x);
          (h10, r10) = slice_copy get_foreign_array Cs_foreign (cp_copy (fo_toleration F)) h9 (mspec_tolerations x);
          (h11, r11) = ptr_copy get_map C_map map_into h10 (mspec_nodeSelector x)
      in (h11, x\<lparr>mspec_chainStorage := r1, mspec_syncPolicy := mspec_syncPolicy x, mspec_snapshotPolicy := r2, mspec_gpu := r3,
           mspec_validator := r4, mspec_resources := r5, mspec_monitoring := r6, mspec_analytics := r7, mspec_aiAdvisor := r8,
           mspec_disasterRecovery := r9, mspec_tolerations := r10, mspec_nodeSelector := r11\<rparr>))"

definition TaoNodeSpec_DeepCopy :: "'x foreign \<Rightarrow> 'x cell store \<Rightarrow> addr option \<Rightarrow> 'x cell store \<times> addr option" where
  "TaoNodeSpec_DeepCopy F h p = ptr_copy get_TaoNodeSpec C_TaoNodeSpec (TaoNodeSpec_DeepCopyInto F) h p"

definition TaoNodeStatus_DeepCopyInto :: "'x foreign \<Rightarrow> 'x cell store \<Rightarrow> 'x TaoNodeStatus_mem \<Rightarrow> 'x cell store \<times> 'x TaoNodeStatus_mem" where
  "TaoNodeStatus_DeepCopyInto F h x =
     (let (h1, r1) = SyncStateStatus_DeepCopyInto F h (mst_syncState x);
          (h2, r2) = ResourceStatus_DeepCopyInto h1 (mst_resources x);
          (h3, r3) = ptr_copy get_SnapshotStatus C_SnapshotStatus (SnapshotStatus_DeepCopyInto F) h2 (mst_snapshot x);
          (h4, r4) = ptr_copy get_AnalyticsStatusBlock C_AnalyticsStatusBlock (AnalyticsStatusBlock_DeepCopyInto F) h3 (mst_analytics x);
          (h5, r5) = ptr_copy get_AIAdvisoryStatus C_AIAdvisoryStatus (AIAdvisoryStatus_DeepCopyInto F) h4 (mst_aiAdvisory x);
          (h6, r6) = slice_copy get_foreign_array Cs_foreign (cp_copy (fo_condition F)) h5 (mst_conditions x);
          (h7, r7) = time_copy F h6 (mst_lastReconcileTime x)
      in (h7, x\<lparr>mst_syncState := r1, mst_chain := mst_chain x, mst_resources := r2, mst_snapshot := r3, mst_analytics := r4,
           mst_aiAdvisory := r5, mst_conditions := r6, mst_lastReconcileTime := r7\<rparr>))"

definition TaoNodeStatus_DeepCopy :: "'x foreign \<Rightarrow> 'x cell store \<Rightarrow> addr option \<Rightarrow> 'x cell store \<times> addr option" where
  "TaoNodeStatus_DeepCopy F h p = ptr_copy get_TaoNodeStatus C_TaoNodeStatus (TaoNodeStatus_DeepCopyInto F) h p"

definition TaoNode_DeepCopyInto :: "'x foreign \<Rightarrow> 'x cell store \<Rightarrow> 'x TaoNode_mem \<Rightarrow> 'x cell store \<times> 'x TaoNode_mem" where
  "TaoNode_DeepCopyInto F h x =
     (let (h1, r1) = cp_copy (fo_meta F) h (mtn_meta x);
          (h2, r2) = TaoNodeSpec_DeepCopyInto F h1 (mtn_spec x);
          (h3, r3) = TaoNodeStatus_DeepCopyInto F h2 (mtn_status x)
      in (h3, x\<lparr>mtn_typeMeta := mtn_typeMeta x, mtn_meta := r1, mtn_spec := r2, mtn_status := r3\<rparr>))"

definition TaoNode_DeepCopy :: "'x foreign \<Rightarrow> 'x cell store \<Rightarrow> addr option \<Rightarrow> 'x cell store \<times> addr option" where
  "TaoNode_DeepCopy F h p = ptr_copy get_TaoNode C_TaoNode (TaoNode_DeepCopyInto F) h p"

definition TaoNode_DeepCopyObject :: "'x foreign \<Rightarrow> 'x cell store \<Rightarrow> addr option \<Rightarrow> 'x cell store \<times> addr option" where
  "TaoNode_DeepCopyObject F h p = (case TaoNode_DeepCopy F h p of (h1, Some c) \<Rightarrow> (h1, Some c) | (h1, None) \<Rightarrow> (h1, None))"

definition TaoNodeList_DeepCopyInto :: "'x foreign \<Rightarrow> 'x cell store \<Rightarrow> 'x TaoNodeList_mem \<Rightarrow> 'x cell store \<times> 'x TaoNodeList_mem" where
  "TaoNodeList_DeepCopyInto F h x =
     (let (h1, r1) = cp_copy (fo_listMeta F) h (mtl_listMeta x);
          (h2, r2) = slice_copy get_TaoNode_array Cs_TaoNode (TaoNode_DeepCopyInto F) h1 (mtl_items x)
      in (h2, x\<lparr>mtl_typeMeta := mtl_typeMeta x, mtl_listMeta := r1, mtl_items := r2\<rparr>))"

definition TaoNodeList_DeepCopy :: "'x foreign \<Rightarrow> 'x cell store \<Rightarrow> addr option \<Rightarrow> 'x cell store \<times> addr option" where
  "TaoNodeList_DeepCopy F h p = ptr_copy get_TaoNodeList C_TaoNodeList (TaoNodeList_DeepCopyInto F) h p"

definition TaoNodeList_DeepCopyObject :: "'x foreign \<Rightarrow> 'x cell store \<Rightarrow> addr option \<Rightarrow> 'x cell store \<times> addr option" where
  "TaoNodeList_DeepCopyObject F h p = (case TaoNodeList_DeepCopy F h p of (h1, Some c) \<Rightarrow> (h1, Some c) | (h1, None) \<Rightarrow> (h1, None))"

definition ValidatorSpec_DeepCopyInto :: "'x cell store \<Rightarrow> ValidatorSpec \<Rightarrow> 'x cell store \<times> ValidatorSpec" where
  "ValidatorSpec_DeepCopyInto h x = (h, x)"

definition ValidatorSpec_DeepCopy :: "'x cell store \<Rightarrow> addr option \<Rightarrow> 'x cell store \<times> addr option" where
  "ValidatorSpec_DeepCopy h p = ptr_copy get_ValidatorSpec C_ValidatorSpec ValidatorSpec_DeepCopyInto h p"

section \<open>Every copy is deep\<close>

named_theorems deep_parts \<open>parts that are copied deeply\<close>

lemma foreign_parts [deep_parts]:
  assumes "foreign_laws F"
  shows "deep_copier (cp_val (fo_quantity F)) (cp_fp (fo_quantity F)) (cp_copy (fo_quantity F))"
    "deep_copier (cp_val (fo_resources F)) (cp_fp (fo_resources F)) (cp_copy (fo_resources F))"
    "deep_copier (cp_val (fo_toleration F)) (cp_fp (fo_toleration F)) (cp_copy (fo_toleration F))"
    "deep_copier (cp_val (fo_condition F)) (cp_fp (fo_condition F)) (cp_copy (fo_condition F))"
    "deep_copier (cp_val (fo_meta F)) (cp_fp (fo_meta F)) (cp_copy (fo_meta F))"
    "deep_copier (cp_val (fo_listMeta F)) (cp_fp (fo_listMeta F)) (cp_copy (fo_listMeta F))"
    "deep_copier (time_val F) (time_fp F) (time_copy F)"
  using assms by (auto simp: foreign_laws_def deep_def intro: nil_copier)

lemma map_part [deep_parts]: "deep_copier entries_val (ptr_fp get_map flat_fp) (ptr_copy get_map C_map map_into)"
  by (rule struct_copier [OF ptr_copier [OF map_entries.deep_copier_axioms, of get_map C_map], where refs = "\<lambda>p. p" and upd = "\<lambda>_ p. p"])
    (auto simp: entries_val_def)

lemmas [deep_parts] = flat.deep_copier_axioms pair_copier ptr_copier slice_copier

interpretation aiAdvisor_copies: deep_copier AIAdvisorSpec_val AIAdvisorSpec_fp AIAdvisorSpec_DeepCopyInto
  by (rule struct_copier [where copy = "ptr_copy get_NotificationChannels C_NotificationChannels flat_copy"
        and refs = "\<lambda>x. mai_notificationChannels x"
        and upd = "\<lambda>x r1. x\<lparr>mai_notificationChannels := r1\<rparr>"
        and build = AIAdvisorSpec_of])
    (auto simp: AIAdvisorSpec_val_def AIAdvisorSpec_fp_def AIAdvisorSpec_DeepCopyInto_def AIAdvisorSpec_of_def pair_copy_def
      split: prod.splits intro!: deep_parts)

lemmas [deep_parts] = aiAdvisor_copies.deep_copier_axioms

lemma AIIncidentReportStatus_deep [deep_parts]:
  "foreign_laws F \<Longrightarrow> deep_copier (AIIncidentReportStatus_val F) (AIIncidentReportStatus_fp F) (AIIncidentReportStatus_DeepCopyInto F)"
  by (rule struct_copier [where copy = "time_copy F"
        and refs = "\<lambda>x. mirs_timestamp x"
        and upd = "\<lambda>x r1. x\<lparr>mirs_timestamp := r1\<rparr>"
        and build = AIIncidentReportStatus_of])
    (auto simp: AIIncidentReportStatus_val_def AIIncidentReportStatus_fp_def AIIncidentReportStatus_DeepCopyInto_def AIIncidentReportStatus_of_def pair_copy_def
      split: prod.splits intro!: deep_parts)

lemma AIAdvisoryStatus_deep [deep_parts]:
  "foreign_laws F \<Longrightarrow> deep_copier (AIAdvisoryStatus_val F) (AIAdvisoryStatus_fp F) (AIAdvisoryStatus_DeepCopyInto F)"
  by (rule struct_copier [where copy = "ptr_copy get_AIIncidentReportStatus C_AIIncidentReportStatus (AIIncidentReportStatus_DeepCopyInto F)"
        and refs = "\<lambda>x. maas_lastReport x"
        and upd = "\<lambda>x r1. x\<lparr>maas_lastReport := r1\<rparr>"
        and build = AIAdvisoryStatus_of])
    (auto simp: AIAdvisoryStatus_val_def AIAdvisoryStatus_fp_def AIAdvisoryStatus_DeepCopyInto_def AIAdvisoryStatus_of_def pair_copy_def
      split: prod.splits intro!: deep_parts)

interpretation analytics_copies: deep_copier AnalyticsSpec_val AnalyticsSpec_fp AnalyticsSpec_DeepCopyInto
  by (rule struct_copier [where copy = "ptr_copy get_AnomalyDetectionSpec C_AnomalyDetectionSpec flat_copy"
        and refs = "\<lambda>x. man_anomalyDetection x"
        and upd = "\<lambda>x r1. x\<lparr>man_anomalyDetection := r1\<rparr>"
        and build = AnalyticsSpec_of])
    (auto simp: AnalyticsSpec_val_def AnalyticsSpec_fp_def AnalyticsSpec_DeepCopyInto_def AnalyticsSpec_of_def pair_copy_def
      split: prod.splits intro!: deep_parts)

lemmas [deep_parts] = analytics_copies.deep_copier_axioms

lemma AnomalyScoreStatus_deep [deep_parts]:
  "foreign_laws F \<Longrightarrow> deep_copier (AnomalyScoreStatus_val F) (AnomalyScoreStatus_fp F) (AnomalyScoreStatus_DeepCopyInto F)"
  by (rule struct_copier [where copy = "time_copy F"
        and refs = "\<lambda>x. mass_detectedAt x"
        and upd = "\<lambda>x r1. x\<lparr>mass_detectedAt := r1\<rparr>"
        and build = AnomalyScoreStatus_of])
    (auto simp: AnomalyScoreStatus_val_def AnomalyScoreStatus_fp_def AnomalyScoreStatus_DeepCopyInto_def AnomalyScoreStatus_of_def pair_copy_def
      split: prod.splits intro!: deep_parts)

lemma AnalyticsStatusBlock_deep [deep_parts]:
  "foreign_laws F \<Longrightarrow> deep_copier (AnalyticsStatusBlock_val F) (AnalyticsStatusBlock_fp F) (AnalyticsStatusBlock_DeepCopyInto F)"
  by (rule struct_copier [where copy = "pair_copy (time_copy F) (slice_copy get_AnomalyScoreStatus_array Cs_AnomalyScoreStatus (AnomalyScoreStatus_DeepCopyInto F))"
        and refs = "\<lambda>x. (masb_lastIngestionTime x, masb_anomalyScores x)"
        and upd = "\<lambda>x. \<lambda>(r1, r2). x\<lparr>masb_lastIngestionTime := r1, masb_anomalyScores := r2\<rparr>"
        and build = AnalyticsStatusBlock_of])
    (auto simp: AnalyticsStatusBlock_val_def AnalyticsStatusBlock_fp_def AnalyticsStatusBlock_DeepCopyInto_def AnalyticsStatusBlock_of_def pair_copy_def
      split: prod.splits intro!: deep_parts)

lemma AutoExpandSpec_deep [deep_parts]:
  "foreign_laws F \<Longrightarrow> deep_copier (AutoExpandSpec_val F) (AutoExpandSpec_fp F) (AutoExpandSpec_DeepCopyInto F)"
  by (rule struct_copier [where copy = "cp_copy (fo_quantity F)"
        and refs = "\<lambda>x. mae_maxSize x"
        and upd = "\<lambda>x r1. x\<lparr>mae_maxSize := r1\<rparr>"
        and build = AutoExpandSpec_of])
    (auto simp: AutoExpandSpec_val_def AutoExpandSpec_fp_def AutoExpandSpec_DeepCopyInto_def AutoExpandSpec_of_def pair_copy_def
      split: prod.splits intro!: deep_parts)

lemma ChainStorageSpec_deep [deep_parts]:
  "foreign_laws F \<Longrightarrow> deep_copier (ChainStorageSpec_val F) (ChainStorageSpec_fp F) (ChainStorageSpec_DeepCopyInto F)"
  by (rule struct_copier [where copy = "pair_copy (cp_copy (fo_quantity F)) (ptr_copy get_AutoExpandSpec C_AutoExpandSpec (AutoExpandSpec_DeepCopyInto F))"
        and refs = "\<lambda>x. (mcs_size x, mcs_autoExpand x)"
        and upd = "\<lambda>x. \<lambda>(r1, r2). x\<lparr>mcs_size := r1, mcs_autoExpand := r2\<rparr>"
        and build = ChainStorageSpec_of])
    (auto simp: ChainStorageSpec_val_def ChainStorageSpec_fp_def ChainStorageSpec_DeepCopyInto_def ChainStorageSpec_of_def pair_copy_def
      split: prod.splits intro!: deep_parts)

interpretation dr_copies: deep_copier DisasterRecoverySpec_val DisasterRecoverySpec_fp DisasterRecoverySpec_DeepCopyInto
  by (rule struct_copier [where copy = "ptr_copy get_ClickHouseDRSpec C_ClickHouseDRSpec flat_copy"
        and refs = "\<lambda>x. mdr_clickHouseDR x"
        and upd = "\<lambda>x r1. x\<lparr>mdr_clickHouseDR := r1\<rparr>"
        and build = DisasterRecoverySpec_of])
    (auto simp: DisasterRecoverySpec_val_def DisasterRecoverySpec_fp_def DisasterRecoverySpec_DeepCopyInto_def DisasterRecoverySpec_of_def pair_copy_def
      split: prod.splits intro!: deep_parts)

lemmas [deep_parts] = dr_copies.deep_copier_axioms

interpretation monitoring_copies: deep_copier MonitoringSpec_val MonitoringSpec_fp MonitoringSpec_DeepCopyInto
  by (rule struct_copier [where copy = "slice_copy get_AlertRule_array Cs_AlertRule flat_copy"
        and refs = "\<lambda>x. mmon_alertRules x"
        and upd = "\<lambda>x r1. x\<lparr>mmon_alertRules := r1\<rparr>"
        and build = MonitoringSpec_of])
    (auto simp: MonitoringSpec_val_def MonitoringSpec_fp_def MonitoringSpec_DeepCopyInto_def MonitoringSpec_of_def pair_copy_def
      split: prod.splits intro!: deep_parts)

lemmas [deep_parts] = monitoring_copies.deep_copier_axioms

interpretation resource_copies: deep_copier ResourceStatus_val ResourceStatus_fp ResourceStatus_DeepCopyInto
  by (rule struct_copier [where copy = "ptr_copy get_int32 C_int32 flat_copy"
        and refs = "\<lambda>x. mrs_gpuUtilizationPercent x"
        and upd = "\<lambda>x r1. x\<lparr>mrs_gpuUtilizationPercent := r1\<rparr>"
        and build = ResourceStatus_of])
    (auto simp: ResourceStatus_val_def ResourceStatus_fp_def ResourceStatus_DeepCopyInto_def ResourceStatus_of_def pair_copy_def
      split: prod.splits intro!: deep_parts)

lemmas [deep_parts] = resource_copies.deep_copier_axioms

lemma SnapshotStatus_deep [deep_parts]:
  "foreign_laws F \<Longrightarrow> deep_copier (SnapshotStatus_val F) (SnapshotStatus_fp F) (SnapshotStatus_DeepCopyInto F)"
  by (rule struct_copier [where copy = "time_copy F"
        and refs = "\<lambda>x. msns_lastSnapshotTime x"
        and upd = "\<lambda>x r1. x\<lparr>msns_lastSnapshotTime := r1\<rparr>"
        and build = SnapshotStatus_of])
    (auto simp: SnapshotStatus_val_def SnapshotStatus_fp_def SnapshotStatus_DeepCopyInto_def SnapshotStatus_of_def pair_copy_def
      split: prod.splits intro!: deep_parts)

lemma SyncStateStatus_deep [deep_parts]:
  "foreign_laws F \<Longrightarrow> deep_copier (SyncStateStatus_val F) (SyncStateStatus_fp F) (SyncStateStatus_DeepCopyInto F)"
  by (rule struct_copier [where copy = "time_copy F"
        and refs = "\<lambda>x. msss_lastSyncedAt x"
        and upd = "\<lambda>x r1. x\<lparr>msss_lastSyncedAt := r1\<rparr>"
        and build = SyncStateStatus_of])
    (auto simp: SyncStateStatus_val_def SyncStateStatus_fp_def SyncStateStatus_DeepCopyInto_def SyncStateStatus_of_def pair_copy_def
      split: prod.splits intro!: deep_parts)

lemma TaoNodeSpec_deep [deep_parts]:
  "foreign_laws F \<Longrightarrow> deep_copier (TaoNodeSpec_val F) (TaoNodeSpec_fp F) (TaoNodeSpec_DeepCopyInto F)"
  by (rule struct_copier [where copy = "pair_copy (ChainStorageSpec_DeepCopyInto F) (pair_copy (ptr_copy get_SnapshotPolicySpec C_SnapshotPolicySpec flat_copy)
          (pair_copy (ptr_copy get_GPUSpec C_GPUSpec flat_copy) (pair_copy (ptr_copy get_ValidatorSpec C_ValidatorSpec flat_copy)
          (pair_copy (cp_copy (fo_resources F)) (pair_copy (ptr_copy get_MonitoringSpec C_MonitoringSpec MonitoringSpec_DeepCopyInto)
          (pair_copy (ptr_copy get_AnalyticsSpec C_AnalyticsSpec AnalyticsSpec_DeepCopyInto)
          (pair_copy (ptr_copy get_AIAdvisorSpec C_AIAdvisorSpec AIAdvisorSpec_DeepCopyInto)
          (pair_copy (ptr_copy get_DisasterRecoverySpec C_DisasterRecoverySpec DisasterRecoverySpec_DeepCopyInto)
          (pair_copy (slice_copy get_foreign_array Cs_foreign (cp_copy (fo_toleration F))) (ptr_copy get_map C_map map_into))))))))))"
        and refs = "\<lambda>x. (mspec_chainStorage x, mspec_snapshotPolicy x, mspec_gpu x, mspec_validator x, mspec_resources x, mspec_monitoring x,
          mspec_analytics x, mspec_aiAdvisor x, mspec_disasterRecovery x, mspec_tolerations x, mspec_nodeSelector x)"
        and upd = "\<lambda>x. \<lambda>(r1, r2, r3, r4, r5, r6, r7, r8, r9, r10, r11). x\<lparr>mspec_chainStorage := r1, mspec_snapshotPolicy :=
          r2, mspec_gpu := r3, mspec_validator := r4, mspec_resources := r5, mspec_monitoring := r6, mspec_analytics := r7, mspec_aiAdvisor
          := r8, mspec_disasterRecovery := r9, mspec_tolerations := r10, mspec_nodeSelector := r11\<rparr>"
        and build = TaoNodeSpec_of])
    (auto simp: TaoNodeSpec_val_def TaoNodeSpec_fp_def TaoNodeSpec_DeepCopyInto_def TaoNodeSpec_of_def pair_copy_def
      split: prod.splits intro!: deep_parts)

lemma TaoNodeStatus_deep [deep_parts]:
  "foreign_laws F \<Longrightarrow> deep_copier (TaoNodeStatus_val F) (TaoNodeStatus_fp F) (TaoNodeStatus_DeepCopyInto F)"
  by (rule struct_copier [where copy = "pair_copy (SyncStateStatus_DeepCopyInto F) (pair_copy ResourceStatus_DeepCopyInto
          (pair_copy (ptr_copy get_SnapshotStatus C_SnapshotStatus (SnapshotStatus_DeepCopyInto F))
          (pair_copy (ptr_copy get_AnalyticsStatusBlock C_AnalyticsStatusBlock (AnalyticsStatusBlock_DeepCopyInto F))
          (pair_copy (ptr_copy get_AIAdvisoryStatus C_AIAdvisoryStatus (AIAdvisoryStatus_DeepCopyInto F))
          (pair_copy (slice_copy get_foreign_array Cs_foreign (cp_copy (fo_condition F))) (time_copy F))))))"
        and refs = "\<lambda>x. (mst_syncState x, mst_resources x, mst_snapshot x, mst_analytics x, mst_aiAdvisory x, mst_conditions x, mst_lastReconcileTime x)"
        and upd = "\<lambda>x. \<lambda>(r1, r2, r3, r4, r5, r6, r7). x\<lparr>mst_syncState := r1, mst_resources := r2, mst_snapshot := r3,
          mst_analytics := r4, mst_aiAdvisory := r5, mst_conditions := r6, mst_lastReconcileTime := r7\<rparr>"
        and build = TaoNodeStatus_of])
    (auto simp: TaoNodeStatus_val_def TaoNodeStatus_fp_def TaoNodeStatus_DeepCopyInto_def TaoNodeStatus_of_def pair_copy_def
      split: prod.splits intro!: deep_parts)

lemma TaoNode_deep [deep_parts]:
  "foreign_laws F \<Longrightarrow> deep_copier (TaoNode_val F) (TaoNode_fp F) (TaoNode_DeepCopyInto F)"
  by (rule struct_copier [where copy = "pair_copy (cp_copy (fo_meta F)) (pair_copy (TaoNodeSpec_DeepCopyInto F) (TaoNodeStatus_DeepCopyInto F))"
        and refs = "\<lambda>x. (mtn_meta x, mtn_spec x, mtn_status x)"
        and upd = "\<lambda>x. \<lambda>(r1, r2, r3). x\<lparr>mtn_meta := r1, mtn_spec := r2, mtn_status := r3\<rparr>"
        and build = TaoNode_of])
    (auto simp: TaoNode_val_def TaoNode_fp_def TaoNode_DeepCopyInto_def TaoNode_of_def pair_copy_def
      split: prod.splits intro!: deep_parts)

lemma TaoNodeList_deep [deep_parts]:
  "foreign_laws F \<Longrightarrow> deep_copier (TaoNodeList_val F) (TaoNodeList_fp F) (TaoNodeList_DeepCopyInto F)"
  by (rule struct_copier [where copy = "pair_copy (cp_copy (fo_listMeta F)) (slice_copy get_TaoNode_array Cs_TaoNode (TaoNode_DeepCopyInto F))"
        and refs = "\<lambda>x. (mtl_listMeta x, mtl_items x)"
        and upd = "\<lambda>x. \<lambda>(r1, r2). x\<lparr>mtl_listMeta := r1, mtl_items := r2\<rparr>"
        and build = TaoNodeList_of])
    (auto simp: TaoNodeList_val_def TaoNodeList_fp_def TaoNodeList_DeepCopyInto_def TaoNodeList_of_def pair_copy_def
      split: prod.splits intro!: deep_parts)

text \<open>The structs without references.\<close>

lemma flat_structs:
  "AlertRule_DeepCopyInto = flat_copy"
  "AnomalyDetectionSpec_DeepCopyInto = flat_copy"
  "CRDBackupSpec_DeepCopyInto = flat_copy"
  "ChainDataDRSpec_DeepCopyInto = flat_copy"
  "ChainStatus_DeepCopyInto = flat_copy"
  "ClickHouseDRSpec_DeepCopyInto = flat_copy"
  "ClickHouseRef_DeepCopyInto = flat_copy"
  "GPUSpec_DeepCopyInto = flat_copy"
  "IngestionSpec_DeepCopyInto = flat_copy"
  "NotificationChannels_DeepCopyInto = flat_copy"
  "RetentionSpec_DeepCopyInto = flat_copy"
  "SnapshotDestination_DeepCopyInto = flat_copy"
  "SnapshotPolicySpec_DeepCopyInto = flat_copy"
  "SyncPolicySpec_DeepCopyInto = flat_copy"
  "ValidatorSpec_DeepCopyInto = flat_copy"
  by (intro ext, simp add: flat_copy_def AlertRule_DeepCopyInto_def AnomalyDetectionSpec_DeepCopyInto_def CRDBackupSpec_DeepCopyInto_def ChainDataDRSpec_DeepCopyInto_def
      ChainStatus_DeepCopyInto_def ClickHouseDRSpec_DeepCopyInto_def ClickHouseRef_DeepCopyInto_def GPUSpec_DeepCopyInto_def
      IngestionSpec_DeepCopyInto_def NotificationChannels_DeepCopyInto_def RetentionSpec_DeepCopyInto_def
      SnapshotDestination_DeepCopyInto_def SnapshotPolicySpec_DeepCopyInto_def SyncPolicySpec_DeepCopyInto_def
      ValidatorSpec_DeepCopyInto_def)+

text \<open>\<open>DeepCopy\<close> of every type is a deep copy of what its pointer refers to.\<close>

lemma DeepCopy_deep:
  "deep_copier (ptr_val get_AIAdvisorSpec AIAdvisorSpec_val) (ptr_fp get_AIAdvisorSpec AIAdvisorSpec_fp) AIAdvisorSpec_DeepCopy"
  "deep_copier (ptr_val get_AlertRule flat_val) (ptr_fp get_AlertRule flat_fp) AlertRule_DeepCopy"
  "deep_copier (ptr_val get_AnalyticsSpec AnalyticsSpec_val) (ptr_fp get_AnalyticsSpec AnalyticsSpec_fp) AnalyticsSpec_DeepCopy"
  "deep_copier (ptr_val get_AnomalyDetectionSpec flat_val) (ptr_fp get_AnomalyDetectionSpec flat_fp) AnomalyDetectionSpec_DeepCopy"
  "deep_copier (ptr_val get_CRDBackupSpec flat_val) (ptr_fp get_CRDBackupSpec flat_fp) CRDBackupSpec_DeepCopy"
  "deep_copier (ptr_val get_ChainDataDRSpec flat_val) (ptr_fp get_ChainDataDRSpec flat_fp) ChainDataDRSpec_DeepCopy"
  "deep_copier (ptr_val get_ChainStatus flat_val) (ptr_fp get_ChainStatus flat_fp) ChainStatus_DeepCopy"
  "deep_copier (ptr_val get_ClickHouseDRSpec flat_val) (ptr_fp get_ClickHouseDRSpec flat_fp) ClickHouseDRSpec_DeepCopy"
  "deep_copier (ptr_val get_ClickHouseRef flat_val) (ptr_fp get_ClickHouseRef flat_fp) ClickHouseRef_DeepCopy"
  "deep_copier (ptr_val get_DisasterRecoverySpec DisasterRecoverySpec_val) (ptr_fp get_DisasterRecoverySpec DisasterRecoverySpec_fp) DisasterRecoverySpec_DeepCopy"
  "deep_copier (ptr_val get_GPUSpec flat_val) (ptr_fp get_GPUSpec flat_fp) GPUSpec_DeepCopy"
  "deep_copier (ptr_val get_IngestionSpec flat_val) (ptr_fp get_IngestionSpec flat_fp) IngestionSpec_DeepCopy"
  "deep_copier (ptr_val get_MonitoringSpec MonitoringSpec_val) (ptr_fp get_MonitoringSpec MonitoringSpec_fp) MonitoringSpec_DeepCopy"
  "deep_copier (ptr_val get_NotificationChannels flat_val) (ptr_fp get_NotificationChannels flat_fp) NotificationChannels_DeepCopy"
  "deep_copier (ptr_val get_ResourceStatus ResourceStatus_val) (ptr_fp get_ResourceStatus ResourceStatus_fp) ResourceStatus_DeepCopy"
  "deep_copier (ptr_val get_RetentionSpec flat_val) (ptr_fp get_RetentionSpec flat_fp) RetentionSpec_DeepCopy"
  "deep_copier (ptr_val get_SnapshotDestination flat_val) (ptr_fp get_SnapshotDestination flat_fp) SnapshotDestination_DeepCopy"
  "deep_copier (ptr_val get_SnapshotPolicySpec flat_val) (ptr_fp get_SnapshotPolicySpec flat_fp) SnapshotPolicySpec_DeepCopy"
  "deep_copier (ptr_val get_SyncPolicySpec flat_val) (ptr_fp get_SyncPolicySpec flat_fp) SyncPolicySpec_DeepCopy"
  "deep_copier (ptr_val get_ValidatorSpec flat_val) (ptr_fp get_ValidatorSpec flat_fp) ValidatorSpec_DeepCopy"
  by (auto intro!: deep_parts simp: flat_structs AIAdvisorSpec_DeepCopy_def [abs_def] AlertRule_DeepCopy_def [abs_def] AnalyticsSpec_DeepCopy_def [abs_def]
      AnomalyDetectionSpec_DeepCopy_def [abs_def] CRDBackupSpec_DeepCopy_def [abs_def] ChainDataDRSpec_DeepCopy_def [abs_def]
      ChainStatus_DeepCopy_def [abs_def] ClickHouseDRSpec_DeepCopy_def [abs_def] ClickHouseRef_DeepCopy_def [abs_def]
      DisasterRecoverySpec_DeepCopy_def [abs_def] GPUSpec_DeepCopy_def [abs_def] IngestionSpec_DeepCopy_def [abs_def]
      MonitoringSpec_DeepCopy_def [abs_def] NotificationChannels_DeepCopy_def [abs_def] ResourceStatus_DeepCopy_def [abs_def]
      RetentionSpec_DeepCopy_def [abs_def] SnapshotDestination_DeepCopy_def [abs_def] SnapshotPolicySpec_DeepCopy_def [abs_def]
      SyncPolicySpec_DeepCopy_def [abs_def] ValidatorSpec_DeepCopy_def [abs_def])

lemma DeepCopy_deep_foreign:
  assumes "foreign_laws F"
  shows "deep_copier (ptr_val get_AIAdvisoryStatus (AIAdvisoryStatus_val F)) (ptr_fp get_AIAdvisoryStatus (AIAdvisoryStatus_fp F)) (AIAdvisoryStatus_DeepCopy F)"
    "deep_copier (ptr_val get_AIIncidentReportStatus (AIIncidentReportStatus_val F)) (ptr_fp get_AIIncidentReportStatus (AIIncidentReportStatus_fp F)) (AIIncidentReportStatus_DeepCopy F)"
    "deep_copier (ptr_val get_AnalyticsStatusBlock (AnalyticsStatusBlock_val F)) (ptr_fp get_AnalyticsStatusBlock (AnalyticsStatusBlock_fp F)) (AnalyticsStatusBlock_DeepCopy F)"
    "deep_copier (ptr_val get_AnomalyScoreStatus (AnomalyScoreStatus_val F)) (ptr_fp get_AnomalyScoreStatus (AnomalyScoreStatus_fp F)) (AnomalyScoreStatus_DeepCopy F)"
    "deep_copier (ptr_val get_AutoExpandSpec (AutoExpandSpec_val F)) (ptr_fp get_AutoExpandSpec (AutoExpandSpec_fp F)) (AutoExpandSpec_DeepCopy F)"
    "deep_copier (ptr_val get_ChainStorageSpec (ChainStorageSpec_val F)) (ptr_fp get_ChainStorageSpec (ChainStorageSpec_fp F)) (ChainStorageSpec_DeepCopy F)"
    "deep_copier (ptr_val get_SnapshotStatus (SnapshotStatus_val F)) (ptr_fp get_SnapshotStatus (SnapshotStatus_fp F)) (SnapshotStatus_DeepCopy F)"
    "deep_copier (ptr_val get_SyncStateStatus (SyncStateStatus_val F)) (ptr_fp get_SyncStateStatus (SyncStateStatus_fp F)) (SyncStateStatus_DeepCopy F)"
    "deep_copier (ptr_val get_TaoNode (TaoNode_val F)) (ptr_fp get_TaoNode (TaoNode_fp F)) (TaoNode_DeepCopy F)"
    "deep_copier (ptr_val get_TaoNodeList (TaoNodeList_val F)) (ptr_fp get_TaoNodeList (TaoNodeList_fp F)) (TaoNodeList_DeepCopy F)"
    "deep_copier (ptr_val get_TaoNodeSpec (TaoNodeSpec_val F)) (ptr_fp get_TaoNodeSpec (TaoNodeSpec_fp F)) (TaoNodeSpec_DeepCopy F)"
    "deep_copier (ptr_val get_TaoNodeStatus (TaoNodeStatus_val F)) (ptr_fp get_TaoNodeStatus (TaoNodeStatus_fp F)) (TaoNodeStatus_DeepCopy F)"
  using assms by (auto intro!: deep_parts simp: AIAdvisoryStatus_DeepCopy_def [abs_def] AIIncidentReportStatus_DeepCopy_def [abs_def] AnalyticsStatusBlock_DeepCopy_def [abs_def]
      AnomalyScoreStatus_DeepCopy_def [abs_def] AutoExpandSpec_DeepCopy_def [abs_def] ChainStorageSpec_DeepCopy_def [abs_def]
      SnapshotStatus_DeepCopy_def [abs_def] SyncStateStatus_DeepCopy_def [abs_def] TaoNode_DeepCopy_def [abs_def]
      TaoNodeList_DeepCopy_def [abs_def] TaoNodeSpec_DeepCopy_def [abs_def] TaoNodeStatus_DeepCopy_def [abs_def])

section \<open>Copy and original are independent\<close>

text \<open>The resource a pointer refers to, and the cells it is made of.\<close>

definition TaoNode_at :: "'x foreign \<Rightarrow> 'x cell store \<Rightarrow> addr option \<Rightarrow> TaoNode option option" where
  "TaoNode_at F h p = ptr_val get_TaoNode (TaoNode_val F) h p"

definition TaoNode_cells :: "'x foreign \<Rightarrow> 'x cell store \<Rightarrow> addr option \<Rightarrow> addr set" where
  "TaoNode_cells F h p = ptr_fp get_TaoNode (TaoNode_fp F) h p"

lemma TaoNode_at_deep: "foreign_laws F \<Longrightarrow> deep_copier (TaoNode_at F) (TaoNode_cells F) (TaoNode_DeepCopy F)"
  using DeepCopy_deep_foreign by (simp add: TaoNode_at_def [abs_def] TaoNode_cells_def [abs_def])

text \<open>
  C16. A copied resource is independent of its original. \<open>tn.DeepCopy()\<close> gives an equal resource, leaves the
  original, and the two have no memory in common: whatever is written to the memory of one, the other
  stays as it was. This is what the reconciler relies on when it hands a copy to the advisory
  goroutine and goes on updating the status of the original.
\<close>

theorem TaoNode_DeepCopy_independent:
  assumes "foreign_laws F" and "TaoNode_at F h p = Some v" and "TaoNode_DeepCopy F h p = (h1, q)"
  shows "TaoNode_at F h1 p = Some v \<and> TaoNode_at F h1 q = Some v \<and> TaoNode_cells F h1 p \<inter> TaoNode_cells F h1 q = {} \<and>
    (\<forall>h2. modifies (TaoNode_cells F h1 q) h1 h2 \<longrightarrow> TaoNode_at F h2 p = Some v) \<and>
    (\<forall>h2. modifies (TaoNode_cells F h1 p) h1 h2 \<longrightarrow> TaoNode_at F h2 q = Some v)"
  using deep_copier.independent [OF TaoNode_at_deep [OF assms(1)] assms(2,3)] by blast

text \<open>The same of a list of resources, through \<open>DeepCopyObject\<close>, as the client's cache copies it.\<close>

lemma TaoNodeList_DeepCopyObject_independent:
  assumes "foreign_laws F" and "ptr_val get_TaoNodeList (TaoNodeList_val F) h p = Some v" and "TaoNodeList_DeepCopyObject F h p = (h1, q)"
  shows "ptr_val get_TaoNodeList (TaoNodeList_val F) h1 q = Some v"
    and "ptr_fp get_TaoNodeList (TaoNodeList_fp F) h1 p \<inter> ptr_fp get_TaoNodeList (TaoNodeList_fp F) h1 q = {}"
    and "modifies (ptr_fp get_TaoNodeList (TaoNodeList_fp F) h1 q) h1 h2 \<Longrightarrow> ptr_val get_TaoNodeList (TaoNodeList_val F) h2 p = Some v"
proof -
  have deep: "deep_copier (ptr_val get_TaoNodeList (TaoNodeList_val F)) (ptr_fp get_TaoNodeList (TaoNodeList_fp F)) (TaoNodeList_DeepCopy F)"
    using DeepCopy_deep_foreign [OF assms(1)] by simp
  have "TaoNodeList_DeepCopy F h p = (h1, q)"
    using assms(3) by (auto simp: TaoNodeList_DeepCopyObject_def split: prod.splits option.splits)
  note i = deep_copier.independent [OF deep assms(2) this]
  show "ptr_val get_TaoNodeList (TaoNodeList_val F) h1 q = Some v"
    "ptr_fp get_TaoNodeList (TaoNodeList_fp F) h1 p \<inter> ptr_fp get_TaoNodeList (TaoNodeList_fp F) h1 q = {}" using i(2,3) by blast+
  show "ptr_val get_TaoNodeList (TaoNodeList_val F) h2 p = Some v"
    if "modifies (ptr_fp get_TaoNodeList (TaoNodeList_fp F) h1 q) h1 h2" using i(4) [OF that] .
qed

text \<open>
  Kubernetes' types as plain values, times in cells of their own, and a small resource: the status
  refers to an array of conditions, the specification to a map.
\<close>

datatype plain_mem = PQuantity quantity | PResources resource_requirements | PToleration toleration | PCondition condition
  | PMeta object_meta | PListMeta list_meta | PTime time

definition plain_copier :: "(plain_mem \<Rightarrow> 'a option) \<Rightarrow> (plain_mem cell, plain_mem, 'a) copier" where
  "plain_copier get = \<lparr>cp_val = (\<lambda>h x. get x), cp_fp = flat_fp, cp_copy = flat_copy\<rparr>"

lemma plain_copier_deep: "deep (plain_copier get)"
  unfolding deep_def by unfold_locales (auto simp: plain_copier_def flat_fp_def flat_copy_def)

definition plain_time :: "plain_mem cell \<Rightarrow> time option" where
  "plain_time c = Option.bind (get_foreign c) (\<lambda>x. case x of PTime t \<Rightarrow> Some t | _ \<Rightarrow> None)"

definition plain_foreign :: "plain_mem foreign" where
  "plain_foreign = \<lparr>fo_quantity = plain_copier (\<lambda>x. case x of PQuantity q \<Rightarrow> Some q | _ \<Rightarrow> None),
     fo_resources = plain_copier (\<lambda>x. case x of PResources r \<Rightarrow> Some r | _ \<Rightarrow> None),
     fo_toleration = plain_copier (\<lambda>x. case x of PToleration t \<Rightarrow> Some t | _ \<Rightarrow> None),
     fo_condition = plain_copier (\<lambda>x. case x of PCondition c \<Rightarrow> Some c | _ \<Rightarrow> None),
     fo_meta = plain_copier (\<lambda>x. case x of PMeta m \<Rightarrow> Some m | _ \<Rightarrow> None),
     fo_listMeta = plain_copier (\<lambda>x. case x of PListMeta m \<Rightarrow> Some m | _ \<Rightarrow> None),
     fo_time = \<lparr>cp_val = (\<lambda>h a. deref plain_time h a), cp_fp = (\<lambda>h a. {a}),
       cp_copy = (\<lambda>h a. case deref plain_time h a of None \<Rightarrow> (h, a) | Some t \<Rightarrow> alloc (C_foreign (PTime t)) h)\<rparr>\<rparr>"

lemma plain_time_deep: "deep (fo_time plain_foreign)"
  unfolding deep_def plain_foreign_def
  by unfold_locales
    (auto simp: deref_def peek_def alloc_def modifies_def plain_time_def bind_eq_Some_conv split: if_splits)

lemma plain_foreign_laws: "foreign_laws plain_foreign"
  using plain_time_deep unfolding plain_foreign_def by (simp add: foreign_laws_def plain_copier_deep)

definition small_spec_mem :: "plain_mem TaoNodeSpec_mem" where
  "small_spec_mem = \<lparr>mspec_network = ''test'', mspec_subnetID = 1, mspec_role = RoleMiner, mspec_image = '''', mspec_version = '''',
     mspec_chainStorage = \<lparr>mcs_storageClass = ''ssd'', mcs_size = PQuantity (Quantity ''1Gi''), mcs_autoExpand = None\<rparr>,
     mspec_syncPolicy = \<lparr>sp_maxBlockLag = 1, sp_recoveryStrategy = ''restart'', sp_maxRestartAttempts = 1, sp_probeIntervalSeconds = 1,
       sp_syncTimeoutMinutes = 1\<rparr>,
     mspec_snapshotPolicy = None, mspec_gpu = None, mspec_validator = None,
     mspec_resources = PResources \<lparr>rr_requests = None, rr_limits = None\<rparr>, mspec_monitoring = None, mspec_analytics = None,
     mspec_aiAdvisor = None, mspec_disasterRecovery = None, mspec_tolerations = None, mspec_nodeSelector = Some 2\<rparr>"

definition small_status_mem :: "plain_mem TaoNodeStatus_mem" where
  "small_status_mem = \<lparr>mst_phase = PhaseSynced,
     mst_syncState = \<lparr>msss_state = '''', msss_currentBlock = 0, msss_networkBlock = 0, msss_blockLag = 0, msss_syncPercentage = '''',
       msss_lastSyncedAt = Some 3\<rparr>,
     mst_chain = \<lparr>chs_peerCount = 0, chs_finalizedBlock = 0, chs_runtimeVersion = '''', chs_epoch = 0\<rparr>,
     mst_resources = \<lparr>mrs_diskUsagePercent = 0, mrs_gpuUtilizationPercent = None, mrs_estimatedMonthlyUSD = ''''\<rparr>,
     mst_snapshot = None, mst_analytics = None, mst_aiAdvisory = None, mst_conditions = Some (1, 0, 1), mst_restartCount = 0,
     mst_observedGeneration = 0, mst_lastReconcileTime = None, mst_hotkeyHash = ''''\<rparr>"

definition small_condition :: condition where
  "small_condition = \<lparr>cond_type = ''Ready'', cond_status = ConditionTrue, cond_observedGeneration = 0, cond_lastTransitionTime = 0,
     cond_reason = ''Synced'', cond_message = ''''\<rparr>"

definition small_meta :: object_meta where
  "small_meta = \<lparr>om_name = ''n'', om_namespace = ''tao'', om_uid = ''u'', om_resourceVersion = ''1'', om_generation = 1,
     om_deletionTimestamp = None, om_finalizers = [], om_managedFields = [], om_labels = Map.empty, om_annotations = Map.empty\<rparr>"

definition small_store :: "plain_mem cell store" where
  "small_store = \<lparr>next_addr = 4, cells = [0 \<mapsto> C_TaoNode \<lparr>mtn_typeMeta = \<lparr>tm_kind = ''TaoNode'', tm_apiVersion = ''v''\<rparr>,
       mtn_meta = PMeta small_meta, mtn_spec = small_spec_mem, mtn_status = small_status_mem\<rparr>,
     1 \<mapsto> Cs_foreign [PCondition small_condition], 2 \<mapsto> C_map [(''disk'', ''ssd'')], 3 \<mapsto> C_foreign (PTime 7)]\<rparr>"

lemma small_node:
  "\<exists>v. TaoNode_at plain_foreign small_store (Some 0) = Some v" "1 \<in> TaoNode_cells plain_foreign small_store (Some 0)"
  by (simp_all add: TaoNode_at_def TaoNode_cells_def TaoNode_val_def TaoNode_fp_def TaoNodeSpec_val_def TaoNodeStatus_val_def
      TaoNodeStatus_fp_def ChainStorageSpec_val_def SyncStateStatus_val_def ResourceStatus_val_def pair_val_def pair_fp_def deref_def
      peek_def small_store_def small_spec_mem_def small_status_mem_def plain_foreign_def plain_copier_def slice_elems_def
      entries_val_def map_val_def plain_time_def)

text \<open>Overwriting the conditions of the original in place leaves the copy.\<close>

theorem TaoNode_DeepCopy_independent_witness:
  "\<exists>v h1 q. TaoNode_DeepCopy plain_foreign small_store (Some 0) = (h1, q) \<and> TaoNode_at plain_foreign h1 q = Some v \<and>
     TaoNode_at plain_foreign (poke 1 (Cs_foreign []) h1) q = Some v"
proof -
  obtain h1 q where run: "TaoNode_DeepCopy plain_foreign small_store (Some 0) = (h1, q)" by fastforce
  obtain v where v: "TaoNode_at plain_foreign small_store (Some 0) = Some v" using small_node by blast
  note i = TaoNode_DeepCopy_independent [OF plain_foreign_laws v run]
  have "TaoNode_cells plain_foreign h1 (Some 0) = TaoNode_cells plain_foreign small_store (Some 0)"
    by (rule deep_copier.original_cells [OF TaoNode_at_deep [OF plain_foreign_laws] v run])
  then have "modifies (TaoNode_cells plain_foreign h1 (Some 0)) h1 (poke 1 (Cs_foreign []) h1)"
    using small_node by (auto simp: modifies_def poke_def)
  then show ?thesis using i run by blast
qed

end
