(* ===== verification/Metric_Registry.thy ===== *)
theory Metric_Registry
  imports Controller_Run
begin

text \<open>
  The Prometheus metrics of the process: the registration of the descriptors of \<open>Metric_Descriptors\<close> when the
  packages are initialized, and the use the reconcilers make of them. The registry is a parameter;
  registration and the use of a vector panic, as documented, on a name that is taken and on a wrong number
  of label values.
\<close>

section \<open>Registration\<close>

record 'g registry =
  Register :: "'g \<Rightarrow> metric_desc \<Rightarrow> 'g \<times> string option"

text \<open>\<open>MustRegister\<close> registers one collector after the other; the first failure is a panic, \<open>Inl\<close>.\<close>

fun MustRegister :: "'g registry \<Rightarrow> metric_desc list \<Rightarrow> 'g \<Rightarrow> string + 'g" where
  "MustRegister R [] g = Inr g"
| "MustRegister R (d # ds) g = (case Register R g d of (g1, Some e) \<Rightarrow> Inl e | (g1, None) \<Rightarrow> MustRegister R ds g1)"

text \<open>The collectors each \<open>init\<close> registers, in its order.\<close>

definition analytics_collectors :: "metric_desc list" where
  "analytics_collectors =
     [RowsWritten_desc, FlushDuration_desc, FlushErrors_desc, ChannelBacklog_desc]"

definition dr_runner_collectors :: "metric_desc list" where
  "dr_runner_collectors =
     [drBackupSuccessMetric_desc, drBackupFailureMetric_desc, drLastBackupTimeMetric_desc]"

definition controller_collectors :: "metric_desc list" where
  "controller_collectors =
     [blockLag_desc, syncState_desc, peerCount_desc, reconcileDuration_desc, recoveryTotal_desc,
      snapshotDuration_desc, diskUsagePercent_desc, estimatedMonthlyCost_desc, gpuUtilization_desc,
      anomalyScore_desc, anomalyEvaluationDuration_desc, predictiveActionsTotal_desc, taoPerGPUHour_desc,
      roiPercent_desc, analyticsGracefulDegradations_desc]"

definition rate_limiter_collectors :: "metric_desc list" where
  "rate_limiter_collectors =
     [recoveryThrottledMetric_desc, activeRecoveriesGaugeMetric_desc]"

definition analytics_init :: "'g registry \<Rightarrow> 'g \<Rightarrow> string + 'g" where
  "analytics_init R g = MustRegister R analytics_collectors g"

definition dr_runner_init :: "'g registry \<Rightarrow> 'g \<Rightarrow> string + 'g" where
  "dr_runner_init R g = MustRegister R dr_runner_collectors g"

definition controller_init :: "'g registry \<Rightarrow> 'g \<Rightarrow> string + 'g" where
  "controller_init R g = MustRegister R controller_collectors g"

definition rate_limiter_init :: "'g registry \<Rightarrow> 'g \<Rightarrow> string + 'g" where
  "rate_limiter_init R g = MustRegister R rate_limiter_collectors g"

text \<open>
  The initialization of the process: an imported package comes first, and the files of a package in
  the order of their names.
\<close>

definition process_init :: "'g registry \<Rightarrow> 'g \<Rightarrow> string + 'g" where
  "process_init R g =
     (case analytics_init R g of Inl e \<Rightarrow> Inl e | Inr g1 \<Rightarrow>
      case dr_runner_init R g1 of Inl e \<Rightarrow> Inl e | Inr g2 \<Rightarrow>
      case controller_init R g2 of Inl e \<Rightarrow> Inl e | Inr g3 \<Rightarrow> rate_limiter_init R g3)"

text \<open>
  What the registry documents, for the names \<open>names g\<close> it holds: a descriptor with a valid name, valid and
  distinct labels and a new name is registered.
\<close>

definition name_char :: "char \<Rightarrow> bool" where
  "name_char c \<longleftrightarrow> c = CHR ''_'' \<or> 97 \<le> byte c \<and> byte c \<le> 122 \<or> 65 \<le> byte c \<and> byte c \<le> 90"

definition valid_name :: "string \<Rightarrow> bool" where
  "valid_name s \<longleftrightarrow> (case s of [] \<Rightarrow> False | c # cs \<Rightarrow> name_char c \<and> list_all (\<lambda>c. name_char c \<or> is_digit c) cs)"

definition valid_desc :: "metric_desc \<Rightarrow> bool" where
  "valid_desc d \<longleftrightarrow> valid_name (md_name d) \<and> distinct (md_labels d) \<and>
     list_all (\<lambda>l. valid_name l \<and> \<not> has_prefix l ''__'' \<and> l \<noteq> ''le'') (md_labels d)"

definition registry_laws :: "'g registry \<Rightarrow> ('g \<Rightarrow> string set) \<Rightarrow> bool" where
  "registry_laws R names \<longleftrightarrow> (\<forall>g d. valid_desc d \<and> md_name d \<notin> names g \<longrightarrow>
     snd (Register R g d) = None \<and> names (fst (Register R g d)) = insert (md_name d) (names g))"

lemma MustRegister_all:
  assumes "registry_laws R names"
  shows "list_all valid_desc ds \<Longrightarrow> distinct (map md_name ds) \<Longrightarrow> md_name ` set ds \<inter> names g = {} \<Longrightarrow>
    \<exists>g'. MustRegister R ds g = Inr g' \<and> names g' = names g \<union> md_name ` set ds"
proof (induction ds arbitrary: g)
  case (Cons d ds)
  obtain g1 r where g1: "Register R g d = (g1, r)" by fastforce
  have "r = None" "names g1 = insert (md_name d) (names g)"
    using assms [unfolded registry_laws_def, rule_format, of d g] Cons.prems(1,3) g1 by simp_all
  then show ?case using Cons.IH [of g1] Cons.prems g1 by auto
qed simp

section \<open>Use\<close>

text \<open>
  A recorded sample is well used when its metric is registered, when the call of \<open>WithLabelValues\<close> had as
  many values as the vector has labels, without which it panics, and when the action is one of its kind of
  metric. Three metrics are never reported: the disk usage, the yield per GPU hour and the return on
  investment.
\<close>

lemmas desc_defs = blockLag_desc_def syncState_desc_def peerCount_desc_def reconcileDuration_desc_def recoveryTotal_desc_def
  snapshotDuration_desc_def diskUsagePercent_desc_def estimatedMonthlyCost_desc_def taoPerGPUHour_desc_def roiPercent_desc_def
  gpuUtilization_desc_def anomalyScore_desc_def anomalyEvaluationDuration_desc_def predictiveActionsTotal_desc_def
  analyticsGracefulDegradations_desc_def

fun kind_takes :: "metric_kind \<Rightarrow> metric_op \<Rightarrow> bool" where
  "kind_takes Gauge op \<longleftrightarrow> op \<noteq> Observe"
| "kind_takes Counter op \<longleftrightarrow> op = Inc"
| "kind_takes (Histogram b) op \<longleftrightarrow> op = Observe"

definition well_used :: "metric_sample \<Rightarrow> bool" where
  "well_used m \<longleftrightarrow> ms_desc m \<in> set controller_collectors \<and> length (ms_values m) = length (md_labels (ms_desc m)) \<and>
     kind_takes (md_kind (ms_desc m)) (ms_op m)"

definition unreported :: "metric_sample \<Rightarrow> bool" where
  "unreported m \<longleftrightarrow> ms_desc m \<in> {diskUsagePercent_desc, taoPerGPUHour_desc, roiPercent_desc}"

definition faulty_samples :: "('w, 'a) kstate_scheme \<Rightarrow> metric_sample list" where
  "faulty_samples s = filter (\<lambda>m. unreported m \<or> \<not> well_used m) (ks_metrics s)"

section \<open>What the reconcilers record\<close>

named_theorems quiet \<open>a handler records no faulty sample\<close>

lemma used_quiet [quiet]:
  "\<not> unreported (WithLabelValues blockLag_desc [a, b, c] (SetTo v)) \<and> well_used (WithLabelValues blockLag_desc [a, b, c] (SetTo v))"
  "\<not> unreported (WithLabelValues peerCount_desc [a, b, c] (SetTo v)) \<and> well_used (WithLabelValues peerCount_desc [a, b, c] (SetTo v))"
  "\<not> unreported (WithLabelValues syncState_desc [a, b, c] (SetTo v)) \<and> well_used (WithLabelValues syncState_desc [a, b, c] (SetTo v))"
  "\<not> unreported (WithLabelValues anomalyScore_desc [a, b, c] (SetTo v)) \<and> well_used (WithLabelValues anomalyScore_desc [a, b, c] (SetTo v))"
  "\<not> unreported (WithLabelValues estimatedMonthlyCost_desc [a, b, c] (SetTo v)) \<and>
     well_used (WithLabelValues estimatedMonthlyCost_desc [a, b, c] (SetTo v))"
  "\<not> unreported (WithLabelValues gpuUtilization_desc [a, b] (SetTo v)) \<and> well_used (WithLabelValues gpuUtilization_desc [a, b] (SetTo v))"
  "\<not> unreported (WithLabelValues recoveryTotal_desc [a, b, c] Inc) \<and> well_used (WithLabelValues recoveryTotal_desc [a, b, c] Inc)"
  "\<not> unreported (WithLabelValues predictiveActionsTotal_desc [a, b, c] Inc) \<and>
     well_used (WithLabelValues predictiveActionsTotal_desc [a, b, c] Inc)"
  "\<not> unreported (WithLabelValues analyticsGracefulDegradations_desc [] Inc) \<and>
     well_used (WithLabelValues analyticsGracefulDegradations_desc [] Inc)"
  "\<not> unreported (WithLabelValues snapshotDuration_desc [a, b, c] Observe) \<and> well_used (WithLabelValues snapshotDuration_desc [a, b, c] Observe)"
  "\<not> unreported (WithLabelValues reconcileDuration_desc [a, b, c] Observe) \<and>
     well_used (WithLabelValues reconcileDuration_desc [a, b, c] Observe)"
  "\<not> unreported (WithLabelValues anomalyEvaluationDuration_desc [a, b] Observe) \<and>
     well_used (WithLabelValues anomalyEvaluationDuration_desc [a, b] Observe)"
  by (simp_all add: unreported_def well_used_def controller_collectors_def) (simp_all add: desc_defs)

definition operator_collectors :: "metric_desc list" where
  "operator_collectors = analytics_collectors @ dr_runner_collectors @ controller_collectors @ rate_limiter_collectors"

lemma collectors_valid: "list_all valid_desc operator_collectors" by code_simp

lemma collectors_distinct: "distinct (map md_name operator_collectors)" by code_simp

lemma collectors_prefixed: "list_all (\<lambda>d. has_prefix (md_name d) ''taonode_'') operator_collectors" by code_simp

lemma process_init_append:
  "process_init R g = MustRegister R operator_collectors g"
proof -
  have "MustRegister R (xs @ ys) g = (case MustRegister R xs g of Inl e \<Rightarrow> Inl e | Inr g1 \<Rightarrow> MustRegister R ys g1)" for xs ys g
    by (induction R xs g rule: MustRegister.induct) (auto split: prod.split option.split)
  then show ?thesis
    by (simp add: process_init_def operator_collectors_def analytics_init_def dr_runner_init_def controller_init_def
        rate_limiter_init_def split: sum.split)
qed

lemma base_quiet [quiet]:
  "faulty_samples (fst (call g s)) = faulty_samples s" "faulty_samples (Eventf tn ty r m s) = faulty_samples s"
  "\<not> unreported x \<and> well_used x \<Longrightarrow> faulty_samples (sample x s) = faulty_samples s"
  by (auto simp: faulty_samples_def call_def Eventf_def sample_def case_prod_unfold)

lemma planes_quiet [quiet]:
  "faulty_samples (s\<lparr>ctl_limiter := l\<rparr>) = faulty_samples s" for s :: "('w, 'a) recovery_state_scheme"
  by (simp add: faulty_samples_def)

lemma controller_quiet [quiet]:
  "faulty_samples (t\<lparr>ks_world := w\<rparr>) = faulty_samples t"
  "faulty_samples (s\<lparr>ctl_breaker := b\<rparr>) = faulty_samples s" "faulty_samples (s\<lparr>ctl_writer := wr\<rparr>) = faulty_samples s"
  "faulty_samples (s\<lparr>ctl_advisor := a\<rparr>) = faulty_samples s" "faulty_samples (s\<lparr>ctl_tasks := ts\<rparr>) = faulty_samples s"
  for s :: "('w, 'a) controller_state_scheme"
  by (simp_all add: faulty_samples_def)

lemma delete_snapshots_quiet [quiet]: "faulty_samples (fst (delete_snapshots K vs s)) = faulty_samples s"
  by (induction K vs s rule: delete_snapshots.induct) (auto simp: quiet world_simps split: option.splits)

lemma prune_quiet [quiet]: "faulty_samples (fst (pruneOldSnapshots env tn s)) = faulty_samples s"
  by (auto simp: pruneOldSnapshots_def quiet case_prod_unfold Let_def split: option.splits sum.splits)

lemma trigger_quiet [quiet]: "faulty_samples (fst (triggerSnapshot env now tn reason s)) = faulty_samples s"
  by (auto simp: triggerSnapshot_def quiet case_prod_unfold Let_def split: option.splits)

lemma strategies_quiet [quiet]:
  "faulty_samples (fst (recoveryRestart env tn s)) = faulty_samples s"
  "faulty_samples (fst (recoverySnapshotRestore env now tn s)) = faulty_samples s"
  "faulty_samples (fst (recoveryCordonAndAlert env now tn s)) = faulty_samples s"
  by (auto simp: recoveryRestart_def recoverySnapshotRestore_def recoveryCordonAndAlert_def quiet case_prod_unfold Let_def
      split: option.splits sum.splits)

lemma dispatch_quiet [quiet]: "faulty_samples (fst (dispatchRecovery env now tn s)) = faulty_samples s"
  by (simp add: dispatchRecovery_def quiet)

lemma health_quiet [quiet]: "faulty_samples (record_health_metrics tn h as s) = faulty_samples s"
proof -
  have "faulty_samples (fold (\<lambda>a. sample (WithLabelValues anomalyScore_desc [n, ns, an_Type a] (SetTo (an_Score a)))) as t) = faulty_samples t"
    for n ns and t :: "('a, 'b) kstate_scheme" by (induction as arbitrary: t) (simp_all add: quiet)
  then show ?thesis by (simp add: record_health_metrics_def Let_def quiet)
qed

lemma machine_quiet [quiet]: "faulty_samples (fst (evaluateSyncState env now tn h as s)) = faulty_samples s"
  by (simp add: evaluateSyncState_def recover_or_fail_def executeRecovery_def Let_def case_prod_unfold quiet)

lemma handlers_quiet [quiet]:
  "faulty_samples (fst (ensureServiceAccount env tn s)) = faulty_samples s"
  "faulty_samples (fst (ensureHeadlessService env tn s)) = faulty_samples s"
  "faulty_samples (fst (ensureServiceMonitor env tn s)) = faulty_samples s"
  "faulty_samples (fst (deleteLeaseIfExists env ns n s)) = faulty_samples s"
  "faulty_samples (fst (validateNamespacePermissions env now tn s)) = faulty_samples s"
  "faulty_samples (fst (validateHotkeySecret env now tn s)) = faulty_samples s"
  by (simp_all add: ensureServiceAccount_def ensureHeadlessService_def ensureServiceMonitor_def deleteLeaseIfExists_def
      validateNamespacePermissions_def validateHotkeySecret_def quiet case_prod_unfold Let_def split: sum.split option.split)

lemma cluster_quiet [quiet]:
  "faulty_samples (fst (ensureNodeWorkload env S tn s)) = faulty_samples s"
  "faulty_samples (fst (ensureValidatorSingleton env now tn s)) = faulty_samples s"
  "faulty_samples (fst (evaluateDiskPressure env tn s)) = faulty_samples s"
  "faulty_samples (fst (probeChainHealth E tn s)) = faulty_samples s"
  by (simp_all add: ensureNodeWorkload_def ensureValidatorSingleton_def cordonValidatorPod_def evaluateDiskPressure_def
      expandPVCPreemptively_def probeChainHealth_def quiet case_prod_unfold Let_def split: sum.split option.split)

lemma status_quiet [quiet]:
  "faulty_samples (fst (updateStatusAndRequeue env tn after s)) = faulty_samples s"
  "faulty_samples (fst (updateAIAdvisoryStatus env now tn rep s)) = faulty_samples s"
  "faulty_samples (sendNotifications tn rep s) = faulty_samples s"
  by (simp_all add: updateStatusAndRequeue_def updateAIAdvisoryStatus_def sendNotifications_def quiet case_prod_unfold Let_def
      split: option.split)

lemma finalization_quiet [quiet]: "faulty_samples (fst (handleFinalization E now tn s)) = faulty_samples s"
  by (simp add: handleFinalization_def final_snapshot_def quiet case_prod_unfold Let_def split: option.split)

lemma analytics_quiet [quiet]: "faulty_samples (fst (reconcileWithAnalytics E now tn h s)) = faulty_samples s"
  by (auto simp: reconcileWithAnalytics_def detect_anomalies_def quiet case_prod_unfold Let_def split: option.split)

lemma observed_quiet [quiet]: "faulty_samples (fst (observed_input E now tn h s)) = faulty_samples s"
  by (simp add: observed_input_def updateGPUStatus_def updateFinOpsStatus_def quiet case_prod_unfold Let_def split: option.split)

lemma advisory_quiet [quiet]: "faulty_samples (maybeRequestAIAdvisory tn as s) = faulty_samples s"
  by (auto simp: maybeRequestAIAdvisory_def quiet split: option.splits)

lemma probed_quiet [quiet]: "faulty_samples (fst (reconcile_probed E now tn h s)) = faulty_samples s"
  by (simp add: reconcile_probed_def quiet case_prod_unfold Let_def split: option.split)

lemma probe_quiet [quiet]: "faulty_samples (fst (reconcile_probe E now tn s)) = faulty_samples s"
  by (simp add: reconcile_probe_def quiet case_prod_unfold Let_def split: sum.split)

lemma workload_quiet [quiet]: "faulty_samples (fst (reconcile_workload E now tn s)) = faulty_samples s"
  by (simp add: reconcile_workload_def quiet case_prod_unfold Let_def split: option.split)

lemma owned_quiet [quiet]: "faulty_samples (fst (reconcile_owned E now tn s)) = faulty_samples s"
  by (simp add: reconcile_owned_def quiet case_prod_unfold Let_def split: option.split)

lemma reconcile_quiet [quiet]: "faulty_samples (fst (Reconcile E now ns n s)) = faulty_samples s"
  by (simp add: Reconcile_def quiet case_prod_unfold Let_def split: sum.split option.split)

lemma advisory_task_quiet [quiet]: "faulty_samples (run_advisory E now task s) = faulty_samples s"
  by (simp add: run_advisory_def quiet case_prod_unfold Let_def split: option.split sum.split)

lemma run_quiet:
  assumes "controller_run E s s'" and "ks_metrics s = []"
  shows "faulty_samples s' = []"
proof -
  have "faulty_samples s' = faulty_samples s"
    using assms(1)
  proof induction
    case (step s t u)
    from step.hyps(2) have "faulty_samples u = faulty_samples t" by cases (simp_all add: quiet)
    then show ?case using step.IH by simp
  qed simp
  then show ?thesis using assms(2) by (simp add: faulty_samples_def)
qed

section \<open>No panic, and metrics without a value\<close>


text \<open>A registry that keeps the names.\<close>

definition name_registry :: "string list registry" where
  "name_registry = \<lparr>Register = (\<lambda>g d. if valid_desc d \<and> md_name d \<notin> set g then (md_name d # g, None) else (g, Some ''duplicate''))\<rparr>"


text \<open>
  C36. Three documented metrics never have a value. In every run of the controller, however reconciles,
  advisories and changes of the cluster interleave, no sample of \<open>taonode_disk_usage_percent\<close>,
  \<open>taonode_tao_per_gpu_hour\<close> or \<open>taonode_roi_percent\<close> is recorded, although they are registered: an alert on
  the disk usage, such as the one of the sample resource, cannot fire.
\<close>

theorem metrics_never_reported:
  assumes "controller_run E s s'" and "ks_metrics s = []"
  shows "filter unreported (ks_metrics s') = []"
  using run_quiet [OF assms] by (auto simp: faulty_samples_def filter_empty_conv)

theorem metrics_never_reported_witness:
  "filter unreported (ks_metrics (fst (Reconcile mem_controller 12 ''tao'' ''node'' between))) = []"
  by (rule metrics_never_reported [OF sample_run]) (simp add: fresh_controller_def)

end

