(* ===== verification/Operator_Setup.thy ===== *)
theory Operator_Setup
  imports Operator_Main Tao_Dr
begin

text \<open>
  What surrounds \<open>main\<close> in \<open>cmd/main.go\<close>: the command line, read by Go's \<open>flag\<close> package, the scheme its
  \<open>init\<close> fills with the group of \<open>api/v1alpha1/groupversion_info.go\<close>, and the watches \<open>SetupWithManager\<close>
  registers. The flags of the logger and the scheme are parameters.
\<close>

section \<open>Go's \<open>flag\<close> package\<close>

text \<open>A flag with a value, whose setter may reject it, and a boolean flag.\<close>

datatype 'f flag = ValueFlag "string \<Rightarrow> 'f \<Rightarrow> 'f option" | BoolFlag "bool \<Rightarrow> 'f \<Rightarrow> 'f"

datatype flag_error = ErrHelp | BadFlagSyntax | NotDefined | InvalidBoolean | InvalidValue | NeedsArgument

definition ParseBool :: "string \<Rightarrow> bool option" where
  "ParseBool s =
     (if s \<in> set [''1'', ''t'', ''T'', ''TRUE'', ''true'', ''True''] then Some True
      else if s \<in> set [''0'', ''f'', ''F'', ''FALSE'', ''false'', ''False''] then Some False else None)"

text \<open>The flags up to the first argument that is none, and the arguments that are left.\<close>

fun parse_flags :: "(string \<times> 'f flag) list \<Rightarrow> string list \<Rightarrow> 'f \<Rightarrow> flag_error + ('f \<times> string list)" where
  "parse_flags fs [] x = Inr (x, [])"
| "parse_flags fs (s # args) x =
     (if length s < 2 \<or> hd s \<noteq> CHR ''-'' then Inr (x, s # args)
      else if s = ''--'' then Inr (x, args)
      else let rest = drop (if s ! 1 = CHR ''-'' then 2 else 1) s
           in if rest = '''' \<or> hd rest = CHR ''-'' \<or> hd rest = CHR ''='' then Inl BadFlagSyntax
              else let name = takeWhile (\<lambda>c. c \<noteq> CHR ''='') rest; has_value = (name \<noteq> rest); value = drop (Suc (length name)) rest
                   in (case map_of fs name of
                         None \<Rightarrow> Inl (if name = ''help'' \<or> name = ''h'' then ErrHelp else NotDefined)
                       | Some (BoolFlag put) \<Rightarrow>
                           if has_value then (case ParseBool value of None \<Rightarrow> Inl InvalidBoolean | Some b \<Rightarrow> parse_flags fs args (put b x))
                           else parse_flags fs args (put True x)
                       | Some (ValueFlag put) \<Rightarrow>
                           if has_value then (case put value x of None \<Rightarrow> Inl InvalidValue | Some y \<Rightarrow> parse_flags fs args y)
                           else (case args of
                                   [] \<Rightarrow> Inl NeedsArgument
                                 | v # args' \<Rightarrow> (case put v x of None \<Rightarrow> Inl InvalidValue | Some y \<Rightarrow> parse_flags fs args' y))))"

section \<open>The flags of the operator\<close>

definition flag_defaults :: main_flags where
  "flag_defaults = \<lparr>fl_metricsAddr = '':8080'', fl_probeAddr = '':8081'', fl_enableLeaderElect = True, fl_enableWebhooks = True,
     fl_clusterID = ''''\<rparr>"

definition operator_flags :: "(string \<times> main_flags flag) list" where
  "operator_flags =
     [(''metrics-bind-address'', ValueFlag (\<lambda>v x. Some (x\<lparr>fl_metricsAddr := v\<rparr>))),
      (''health-probe-bind-address'', ValueFlag (\<lambda>v x. Some (x\<lparr>fl_probeAddr := v\<rparr>))),
      (''leader-elect'', BoolFlag (\<lambda>b x. x\<lparr>fl_enableLeaderElect := b\<rparr>)),
      (''enable-webhooks'', BoolFlag (\<lambda>b x. x\<lparr>fl_enableWebhooks := b\<rparr>)),
      (''cluster-id'', ValueFlag (\<lambda>v x. Some (x\<lparr>fl_clusterID := v\<rparr>)))]"

text \<open>\<open>zap_flags\<close> are the flags \<open>BindFlags\<close> adds; they leave the operator's alone.\<close>

definition main_parse :: "(string \<times> main_flags flag) list \<Rightarrow> string list \<Rightarrow> flag_error + main_flags" where
  "main_parse zap_flags args = map_sum id fst (parse_flags (operator_flags @ zap_flags) args flag_defaults)"

text \<open>The whole process: its exit status with the database and the calls on the manager. A bad command line ends it.\<close>

definition operator_process ::
  "(string \<times> main_flags flag) list \<Rightarrow> ('d, 'b) main_env \<Rightarrow> string list \<Rightarrow> bool \<Rightarrow> time \<Rightarrow> (manager_call \<Rightarrow> kerr option) \<Rightarrow> 'd \<Rightarrow>
   'd \<times> manager_call list \<times> nat" where
  "operator_process zap_flags E args expired now mgr d =
     (case main_parse zap_flags args of
        Inl ErrHelp \<Rightarrow> (d, [], 0)
      | Inl _ \<Rightarrow> (d, [], 2)
      | Inr fl \<Rightarrow> (case operator_main E fl expired now mgr d of (d1, calls, ok) \<Rightarrow> (d1, calls, if ok then 0 else 1)))"

text \<open>A command line that sets every flag.\<close>

definition bool_text :: "bool \<Rightarrow> string" where "bool_text b = (if b then ''true'' else ''false'')"

definition flag_args :: "main_flags \<Rightarrow> string list" where
  "flag_args fl =
     [''--metrics-bind-address='' @ fl_metricsAddr fl, ''--health-probe-bind-address='' @ fl_probeAddr fl,
      ''--leader-elect='' @ bool_text (fl_enableLeaderElect fl), ''--enable-webhooks='' @ bool_text (fl_enableWebhooks fl),
      ''--cluster-id='' @ fl_clusterID fl]"

lemma ParseBool_text: "ParseBool (bool_text b) = Some b"
  by (simp add: ParseBool_def bool_text_def)

text \<open>
  Every setting can be given on the command line, with any values, and is read back as given; with no
  flags the process elects a leader and serves the webhooks.
\<close>

theorem flags_roundtrip: "main_parse zap_flags (flag_args fl) = Inr fl \<and> main_parse zap_flags [] = Inr flag_defaults"
  by (simp add: main_parse_def flag_args_def operator_flags_def flag_defaults_def ParseBool_text)

section \<open>The scheme\<close>

record group_version =
  gv_group :: string
  gv_version :: string

definition GroupVersion :: group_version where
  "GroupVersion = \<lparr>gv_group = ''tao.guardian.io'', gv_version = ''v1alpha1''\<rparr>"

text \<open>The builder collects the kinds that are registered with it and adds them to a scheme at once.\<close>

record scheme_builder =
  sb_GroupVersion :: group_version
  sb_kinds :: "string list"

definition SchemeBuilder :: scheme_builder where
  "SchemeBuilder = \<lparr>sb_GroupVersion = GroupVersion, sb_kinds = []\<rparr>"

definition v1alpha1_init :: "scheme_builder \<Rightarrow> scheme_builder" where
  "v1alpha1_init b = b\<lparr>sb_kinds := sb_kinds b @ [''TaoNode'', ''TaoNodeList'']\<rparr>"

definition AddToScheme :: "('s \<Rightarrow> group_version \<Rightarrow> string list \<Rightarrow> string + 's) \<Rightarrow> 's \<Rightarrow> string + 's" where
  "AddToScheme add s = (let b = v1alpha1_init SchemeBuilder in add s (sb_GroupVersion b) (sb_kinds b))"

text \<open>\<open>init\<close> of \<open>cmd/main.go\<close>: an error is a panic, \<open>Inl\<close>.\<close>

definition main_init ::
  "('s \<Rightarrow> string + 's) \<Rightarrow> ('s \<Rightarrow> group_version \<Rightarrow> string list \<Rightarrow> string + 's) \<Rightarrow> 's \<Rightarrow> string + 's" where
  "main_init clientgoscheme add s = (case clientgoscheme s of Inl e \<Rightarrow> Inl e | Inr s1 \<Rightarrow> AddToScheme add s1)"

text \<open>
  The operator and the tool agree on the name of the resource: when adding kinds makes them known, the
  kind the tool gives to a restored object, under the version it writes and patches, is known to the operator.
\<close>

lemma restored_kind_known:
  assumes "\<And>s gv ks s'. add s gv ks = Inr s' \<Longrightarrow> known s' = known s \<union> (\<lambda>k. (gv_group gv, gv_version gv, k)) ` set ks"
    and "main_init clientgoscheme add s = Inr s'"
  shows "(ap_group (node_patch U force obj), ap_version (node_patch U force obj), ''TaoNode'') \<in> known s'"
    and "ap_group (node_patch U force obj) @ ''/'' @ ap_version (node_patch U force obj) = ''tao.guardian.io/v1alpha1''"
  using assms
  by (auto simp: main_init_def AddToScheme_def v1alpha1_init_def SchemeBuilder_def GroupVersion_def node_patch_def split: sum.splits)

section \<open>The watches\<close>

record controller_setup =
  cs_For :: string
  cs_Owns :: "string list"
  cs_MaxConcurrentReconciles :: nat

definition SetupWithManager :: controller_setup where
  "SetupWithManager = \<lparr>cs_For = ''TaoNode'', cs_Owns = [''StatefulSet'', ''Service'', ''ServiceAccount''],
     cs_MaxConcurrentReconciles = 10\<rparr>"

text \<open>\<open>main\<close> sets the controller up with the watches' concurrency.\<close>

lemma setup_concurrency: "SetupController (cs_MaxConcurrentReconciles SetupWithManager) \<in> set (main_calls fl analytics dr)"
  by (simp add: main_calls_def SetupWithManager_def)

end
