(* ===== verification/Tao_Dr_Main.thy ===== *)
theory Tao_Dr_Main
  imports Dr_Status Dr_Failover
begin

text \<open>
  The command line of the disaster-recovery tool, \<open>main\<close> of \<open>tools/tao-dr/cmd/tao-dr/main.go\<close>: the commands with
  their flags and defaults, and the exit status. Reading the command line is the work of cobra, a
  parameter: it names the command to run and the values of its flags, or refuses the line.
\<close>

section \<open>Commands and flags\<close>

datatype flag_value = FString string | FBool bool | FStrings "string list"

record cobra_command =
  cc_Use :: string
  cc_Flags :: "(string \<times> flag_value) list"
  cc_Required :: "string list"

definition persistent_flags :: "(string \<times> flag_value) list" where
  "persistent_flags = [(''s3-bucket'', FString ''''), (''s3-region'', FString ''us-east-1''), (''kubeconfig'', FString '''')]"

definition status_command :: cobra_command where
  "status_command = \<lparr>cc_Use = ''status'', cc_Flags = [], cc_Required = []\<rparr>"

definition restore_command :: cobra_command where
  "restore_command = \<lparr>cc_Use = ''restore'',
     cc_Flags = [(''backup-key'', FString ''''), (''dry-run'', FBool False), (''namespace'', FString ''''), (''force-ownership'', FBool False)],
     cc_Required = [''backup-key'']\<rparr>"

definition failover_command :: cobra_command where
  "failover_command = \<lparr>cc_Use = ''failover'', cc_Flags = [(''tf-dir'', FString ''''), (''tf-var'', FStrings []), (''dry-run'', FBool False)],
     cc_Required = [''tf-dir'']\<rparr>"

definition backup_command :: cobra_command where
  "backup_command = \<lparr>cc_Use = ''backup'',
     cc_Flags = [(''namespace'', FString ''''), (''cluster-id'', FString ''taonode-guardian''), (''include-crd'', FBool True)],
     cc_Required = []\<rparr>"

definition root_commands :: "cobra_command list" where
  "root_commands = [status_command, restore_command, failover_command, backup_command]"

text \<open>The line asks for help, is refused, or runs a command with the values of its flags.\<close>

datatype cobra_answer = Help | Refused kerr | RunE string "string \<Rightarrow> flag_value"

fun string_of :: "flag_value \<Rightarrow> string" where
  "string_of (FString s) = s"
| "string_of _ = ''''"

fun bool_of :: "flag_value \<Rightarrow> bool" where
  "bool_of (FBool b) = b"
| "bool_of _ = False"

fun strings_of :: "flag_value \<Rightarrow> string list" where
  "strings_of (FStrings ss) = ss"
| "strings_of _ = []"

section \<open>Running a command\<close>

record 'w tool_services =
  ts_cobra :: "(string \<times> flag_value) list \<Rightarrow> cobra_command list \<Rightarrow> string list \<Rightarrow> cobra_answer"
  ts_status :: "'w status_tools"
  ts_terraform :: "'w tf_tools"

definition run_command ::
  "'w tool_services \<Rightarrow> time \<Rightarrow> string \<Rightarrow> (string \<Rightarrow> flag_value) \<Rightarrow> 'w cli_state \<Rightarrow> 'w cli_state \<times> kerr option" where
  "run_command S now name v s =
     (let T = st_tools (ts_status S); bucket = string_of (v ''s3-bucket''); region = string_of (v ''s3-region'');
          kubeconfig = string_of (v ''kubeconfig'')
      in if name = ''status'' then status_NewCommand (ts_status S) now bucket region kubeconfig s
         else if name = ''restore'' then
           restore_NewCommand T bucket region kubeconfig (string_of (v ''backup-key'')) (string_of (v ''namespace''))
             (bool_of (v ''dry-run'')) (bool_of (v ''force-ownership'')) s
         else if name = ''failover'' then
           failover_NewCommand (ts_terraform S) (string_of (v ''tf-dir'')) (strings_of (v ''tf-var'')) (bool_of (v ''dry-run'')) s
         else newBackupCommand T now bucket region kubeconfig (string_of (v ''namespace'')) (string_of (v ''cluster-id''))
           (bool_of (v ''include-crd'')) s)"

definition tao_dr_main :: "'w tool_services \<Rightarrow> time \<Rightarrow> string list \<Rightarrow> 'w cli_state \<Rightarrow> 'w cli_state \<times> nat" where
  "tao_dr_main S now args s =
     (case ts_cobra S persistent_flags root_commands args of
        Help \<Rightarrow> (s, 0)
      | Refused e \<Rightarrow> (s, 1)
      | RunE name v \<Rightarrow> (case run_command S now name v s of (s1, None) \<Rightarrow> (s1, 0) | (s1, Some e) \<Rightarrow> (s1, 1)))"

text \<open>
  A command that reports success had the settings it needs: a bucket, or for a failover a Terraform
  directory, and for a restore a key. Without them nothing is done at all.
\<close>

theorem success_has_settings:
  assumes "ts_cobra S persistent_flags root_commands args = RunE name v" and "tao_dr_main S now args s = (s', 0)"
  shows "(name = ''failover'' \<longrightarrow> string_of (v ''tf-dir'') \<noteq> '''') \<and>
    (name \<noteq> ''failover'' \<longrightarrow> string_of (v ''s3-bucket'') \<noteq> '''') \<and>
    (name = ''restore'' \<longrightarrow> string_of (v ''backup-key'') \<noteq> '''')"
  using assms
  by (auto simp: tao_dr_main_def run_command_def status_NewCommand_def status_run_def restore_NewCommand_def failover_NewCommand_def
      newBackupCommand_def Let_def split: prod.splits option.splits if_splits)

lemma missing_settings_harmless:
  assumes "ts_cobra S persistent_flags root_commands args = RunE name v"
    and "if name = ''failover'' then string_of (v ''tf-dir'') = '''' else string_of (v ''s3-bucket'') = ''''"
  shows "tao_dr_main S now args s = (s, 1)"
  using assms
  by (simp add: tao_dr_main_def run_command_def status_NewCommand_def status_run_def restore_NewCommand_def failover_NewCommand_def
      newBackupCommand_def Let_def split: if_splits)

end
