(* ===== verification/Spec2Isabelle.thy ===== *)
theory Spec2Isabelle
  imports Go_Float Go_Time Go_Sha256 Api_Types Admission_Webhook Recovery_Limiter Circuit_Breaker
    Snapshot_Manager Storage_Manager Validator_Guard Anomaly_Detector Sync_State_Machine
    Gpu_FinOps Pod_Builder Workload_Manager Clickhouse_Tables Batch_Writer Go_Json Ai_Advisor
    Reconciler User_Specification Controller_Run Fleet_Analytics Node_Json Dr_Runner Tao_Dr Dr_Status Dr_Failover Operator_Main Deep_Copies
    Metric_Registry Operator_Setup Tao_Dr_Main
begin

text \<open>
  TaoNode Guardian: a verification library for the Kubernetes operator and its disaster-recovery
  tool under \<open>src/\<close>.

  \<^bold>\<open>The program.\<close> The operator (\<open>cmd/main.go\<close>) runs Bittensor nodes, described by the custom resource
  TaoNode (\<open>api/v1alpha1\<close>). A validating webhook decides which resources are admitted. The controller
  (\<open>internal/controller\<close>) reconciles each resource in ten steps, from the finalizer over the account and
  service, the permission and secret guards, the workload, the validator lease, the chain probe,
  the analytics, the sync state machine with its recoveries, storage expansion and advisories to the
  status. The analytics plane (\<open>internal/analytics\<close>) writes rows to ClickHouse through five buffered
  pipelines and scores anomalies behind a circuit breaker; the
  advisory plane (\<open>internal/ai\<close>) asks a language model about incidents and notifies a channel; a
  periodic runner backs the resources up. The command-line tool (\<open>tools/tao-dr\<close>) backs up, restores,
  reports the state of the backups and fails over with Terraform.

  \<^bold>\<open>How the model corresponds to the code.\<close> A struct is a record with the source's fields, an
  enumerated string a datatype, a function or method a definition of the same name. \<open>int32\<close> and \<open>int64\<close>
  are words, \<open>time.Duration\<close> a signed 64-bit number of nanoseconds with Go's saturating subtraction of times, a
  time a number of nanoseconds since the epoch; \<open>float32\<close> and \<open>float64\<close> are exact rationals rounded
  once per operation. Strings are byte strings. Errors are values: a call returns a sum or an option,
  and every early return of the source is a branch. Stateful code passes its state explicitly;
  concurrent code is an inductive step relation whose labels are the events. One reading of the clock is
  an argument \<open>now\<close> of the operation that takes it.

  Code that is not in the repository is a parameter: the Kubernetes client (\<open>'w kclient\<close>), quantity
  arithmetic (\<open>quantity_ops\<close>), semantic equality, the ClickHouse driver and the answers of its
  queries, HTTP, gzip and the object store, the Terraform executor, the process environment and the
  controller manager, the metric registry, the scheme and cobra. A call of a parameter maps a world
  to a world and an answer, so other actors may act during it. What a theorem relies on is a named predicate stating documented behaviour
  (\<open>status_laws\<close>, \<open>spec_laws\<close>, \<open>server_defaults\<close>, \<open>claim_laws\<close>, \<open>snapshot_laws\<close>, \<open>driver_laws\<close>, \<open>api_laws\<close>, \<open>foreign_laws\<close>,
  \<open>traced\<close>, \<open>tf_traced\<close> and others), shown to hold of a concrete instance (\<open>Kube_Memory\<close>, \<open>mem_controller\<close>, \<open>json_client\<close>, \<open>lab_tools\<close>)
  on which the witnesses run.

  \<^bold>\<open>The library of Go.\<close>
  \<^item> \<open>Guardian_Prelude\<close>: integers, times, formatting, lists, association lists, rule collections.
  \<^item> \<open>Go_Float\<close>, \<open>Go_Float_Order\<close>: binary floating point; rounding is monotone, and exact on small integers.
  \<^item> \<open>Go_Time\<close>, \<open>Go_Calendar\<close>: the civil calendar, timestamps as text, and that a written timestamp is valid.
  \<^item> \<open>Go_Json\<close>, \<open>Go_Json_Encode\<close>, \<open>Go_Json_Any\<close>: parser, encoder and generic values of \<open>encoding/json\<close>;
    decoding undoes encoding. \<open>Go_Sha256\<close>: the hash of the pod-template annotations.
  \<^item> \<open>Go_Memory\<close>: a store of cells for pointers, slices and maps. The locale \<open>memory_repr\<close> states that a value
    depends on its footprint only, \<open>deep_copier\<close> extends it by what a deep copy promises; pointers,
    slices, maps and structs of deep copies are deep copies.

  \<^bold>\<open>The API.\<close>
  \<^item> \<open>Api_Types\<close>, \<open>Node_Json\<close> (\<open>taonode_types.go\<close>): the resource, its JSON encoding and the defaults of its
    schema. Each specification struct's encoding is an interpretation of the locale \<open>json_codec\<close>: it is read back
    with its defaults filled in. A specification without empty defaulted fields survives being written and
    read; switching a default off does not.
  \<^item> \<open>Admission_Webhook\<close> (\<open>taonode_webhook.go\<close>): every check is an interpretation of \<open>field_rules\<close>; the
    webhook accepts exactly the admissible resources, and the immutable fields hold over all histories.
  \<^item> \<open>Deep_Copies\<close> (\<open>zz_generated.deepcopy.go\<close>): the structs as Go keeps them in memory and every generated
    function over the store; a copied resource shares no memory with its original. The other theories
    use values, which are never shared: this theory justifies them where the controller copies.
  \<^item> \<open>Kube_Quantities\<close>, \<open>Kube_Objects\<close>, \<open>Kube_Client\<close>, \<open>Kube_Memory\<close>: the Kubernetes types, the client
    parameter and its in-memory instance. \<open>Metric_Descriptors\<close>: the metrics of the process; a sample is the
    call that makes it, with the vector, the label values and the action.

  \<^bold>\<open>The controller.\<close>
  \<^item> \<open>Recovery_Limiter\<close> (\<open>rate_limiter.go\<close>): the locale \<open>recovery_gate\<close> states what a limiter promises;
    cap, cooldown and progress are proved from it and hold of \<open>TryAcquire\<close> and \<open>Release\<close>.
  \<^item> \<open>Sync_State_Machine\<close> (\<open>sync_state_machine.go\<close>): the three strategies interpret \<open>recovery_strategy\<close>; one
    evaluation refines the transition function \<open>next_phase\<close>, which is compared with the documented diagram.
  \<^item> \<open>Node_Helpers\<close>, \<open>Gpu_FinOps\<close>, \<open>Pod_Builder\<close>, \<open>Workload_Manager\<close> (\<open>helpers.go\<close>, \<open>gpu_advisor.go\<close>,
    \<open>finops_estimator.go\<close>, \<open>statefulset_builder.go\<close>, \<open>workload_manager.go\<close>): the pod isolates the key, drops
    privileges and resolves its mounts. On an API server that fills in the volume mode, the workload step
    takes every stored set to have drifted and replaces it on every reconcile.
  \<^item> \<open>Snapshot_Manager\<close>, \<open>Storage_Manager\<close>, \<open>Validator_Guard\<close> (the files of these names): the sort is a stable
    sort, pruning keeps the newest, runs of the disk step grow a volume to its maximum, the lease refines a
    lock.
  \<^item> \<open>Reconciler\<close> (\<open>taonode_controller.go\<close>, \<open>chain_probe.go\<close>): the whole loop; no workload without its
    guards, deletion never blocked, and the restart budget over the count in the stored status.
    \<open>User_Specification\<close>: the one update that rewrites a specification, and what it can change in it.
    \<open>Controller_Run\<close>: any interleaving of
    reconciles, advisories and foreign changes; the recovery cap over whole runs.

  \<^bold>\<open>Analytics and advice.\<close>
  \<^item> \<open>Analytics_Types\<close>, \<open>Clickhouse_Tables\<close> (\<open>types.go\<close>, \<open>schema.go\<close>, \<open>flush.go\<close>): each row type interprets
    \<open>ch_table\<close>, so a flush matches the columns of its table. \<open>Batch_Writer\<close> (\<open>batch_writer.go\<close>, the loop of
    \<open>flush.go\<close>): every row is written in order, pending or counted.
  \<^item> \<open>Circuit_Breaker\<close>, \<open>Anomaly_Detector\<close>, \<open>Fleet_Analytics\<close> (\<open>circuit_breaker.go\<close>, \<open>anomaly_detector.go\<close>,
    \<open>fleet_correlator.go\<close>, \<open>finops_calculator.go\<close>): blackout of an open circuit (locale \<open>blackout\<close>), bounds of the
    scores (locale \<open>anomaly_query\<close>), the cost report; the correlator, whose first scan the native driver
    refuses.
  \<^item> \<open>Ai_Advisor\<close> (\<open>internal/ai\<close>): prompts, client, reports, the call limiter and the notifier.

  \<^bold>\<open>Disaster recovery and the process.\<close>
  \<^item> \<open>Dr_Runner\<close> (\<open>dr_runner.go\<close>): every tick is counted, and the loop ends exactly on cancellation.
  \<^item> \<open>Tao_Dr\<close> (\<open>cmd/tao-dr/main.go\<close>, \<open>restore.go\<close>), \<open>Dr_Status\<close>, \<open>Dr_Failover\<close>: a backup is restored as it was,
    definitions come before resources, a dry run touches nothing, the status reports a breached
    objective, Terraform applies only a plan that succeeded. The protocols of restore and failover are
    inductive relations on the requests together with their answers.
    \<open>Tao_Dr_Main\<close>: the commands, their flags and the exit status; success means the settings were there.
  \<^item> \<open>Operator_Main\<close>, \<open>Operator_Setup\<close> (\<open>cmd/main.go\<close>, \<open>client.go\<close>, \<open>groupversion_info.go\<close>): the command line, the
    scheme, how the planes are wired and what \<open>main\<close> registers. Every flag is read back as given.
  \<^item> \<open>Metric_Registry\<close> (both \<open>metrics.go\<close> and the metrics of \<open>rate_limiter.go\<close> and \<open>dr_runner.go\<close>): registration
    cannot panic, the reconcilers' samples fit registered vectors, and three documented metrics never get a
    value.
  \<^item> This theory joins the two programs: an object the operator's runner uploads, the tool restores.

  \<^bold>\<open>Bounds and termination.\<close> No definition that models code has fuel. Loops over data are structural
  recursions; the JSON parser, the escaper and the duration parser are functions with a termination
  proof on the length of their input. The parser's depth bound 10000 is that of \<open>encoding/json\<close>, the
  channel size and the intervals are the source's constants. The endless loops (the flush loops, the
  backup loop, the controller) are step relations or recursions over the list of their events, so a theorem about them speaks
  of runs of any length. The retries and polls of the concrete instances (5 attempts, 46 polls) belong to
  the witnesses; the theorems allow any number. The interleavings of \<open>Controller_Run\<close> take a
  reconcile as one step; those of the limiter, the breaker and the writer take one method call. The
  breaker stores its state after it has released its lock; \<open>Circuit_Breaker\<close> splits the two methods there and
  shows the race, its runs do not interleave the halves.

  \<^bold>\<open>Not modelled.\<close> The bodies of the frameworks: the workqueue behind \<open>SetupWithManager\<close>, cobra's reading of
  a command line, the Prometheus registry, the logger and its flags; the calls on them are modelled and
  their answers are parameters. Log lines, and the alignment of the tool's tables by \<open>tabwriter\<close>: nothing
  depends on them. The SQL of the queries is text handed to ClickHouse, whose answers are arbitrary.
  Goroutine scheduling inside one locked method is the Go runtime's. The lines of the sources no
  definition names are licences, imports, comments, the texts of help messages and the tool's repeated
  copies of \<open>kubeRESTConfig\<close>.
\<close>

section \<open>The operator's backups and the tool's restore\<close>

lemma operator_manifest_parses:
  assumes "DRBackup_json J b = Some data" and "wf_json data" and "depth data \<le> max_depth"
  shows "parse_backup (Marshal data) = Some \<lparr>bk_Timestamp = fmt_rfc3339_nano (drb_Timestamp b), bk_ClusterID = drb_ClusterID b,
    bk_SchemaVersion = drb_SchemaVersion b, bk_CRDs = [], bk_Nodes = map (TaoNode_json J) (drb_Nodes b)\<rparr>"
proof -
  let ?b = "\<lparr>bk_Timestamp = fmt_rfc3339_nano (drb_Timestamp b), bk_ClusterID = drb_ClusterID b,
    bk_SchemaVersion = drb_SchemaVersion b, bk_CRDs = [], bk_Nodes = map (TaoNode_json J) (drb_Nodes b)\<rparr>"
  have year: "0 \<le> civ_year (civil_of (drb_Timestamp b))" "civ_year (civil_of (drb_Timestamp b)) \<le> 9999"
    and data: "data = drBackup_json ?b"
    using assms(1) by (auto simp: DRBackup_json_def time_json_def Let_def drBackup_json_def member_def omit_nil_def split: if_splits)
  then have "backup_ok ?b" using assms(2,3) by (simp add: backup_ok_def rfc3339_nano_valid)
  then show ?thesis unfolding data by (rule parse_backup_Marshal)
qed

text \<open>
  C7. What the operator's runner uploads, the tool restores. A backup cycle that has listed resources makes
  one upload, under the key of its cluster and time, and succeeds exactly when the upload does. And
  whatever bucket holds that object, the restore command, given its key, reads back a manifest with exactly
  the listed TaoNodes, their server-managed fields cleared and in their order, and no definitions. The
  tool's reader undoes the runner's compression. The statement is about the runner with any object store:
  the only one under \<open>src\<close>, the placeholder in \<open>main\<close>, logs the upload and stores nothing, so today's operator
  does not itself fill such a bucket.
\<close>

theorem operator_backup_restorable:
  assumes nodes: "snd (drr_list dr (drs_world s)) = Inr nodes" "nodes \<noteq> []"
    and data: "DRBackup_json (drr_json dr) (make_backup dr now nodes) = Some data" "wf_json data" "depth data \<le> max_depth"
    and gz: "\<And>x. t_gunzip T (drr_gzip dr x) = Inr (Inr x)" and aws: "t_awsConfig T region = None"
    and run: "runBackup dr now s = (s1, err)"
  shows "let key = backup_key (drr_ClusterID dr) now; body = drr_gzip dr (Marshal data);
      (w2, r) = drr_Upload dr (fst (drr_list dr (drs_world s))) key body
    in drs_world s1 = w2 \<and> (err = None \<longleftrightarrow> r = None) \<and>
      (snd (t_getObject T w bucket key) = Inr (Inr body) \<longrightarrow>
        (\<exists>s2. cli_world s2 = fst (t_getObject T w bucket key) \<and>
          restore_run T bucket region kubeconfig key nsOverride dryRun force \<lparr>cli_world = w, cli_out = out\<rparr> =
            restore_backup T kubeconfig nsOverride dryRun force
              \<lparr>bk_Timestamp = fmt_rfc3339_nano now, bk_ClusterID = drr_ClusterID dr, bk_SchemaVersion = ''v1alpha1'', bk_CRDs = [],
               bk_Nodes = map (\<lambda>n. TaoNode_json (drr_json dr) (strip_node n)) nodes\<rparr> s2))"
proof -
  let ?key = "backup_key (drr_ClusterID dr) now" and ?body = "drr_gzip dr (Marshal data)"
  let ?b = "\<lparr>bk_Timestamp = fmt_rfc3339_nano now, bk_ClusterID = drr_ClusterID dr, bk_SchemaVersion = ''v1alpha1'', bk_CRDs = [],
         bk_Nodes = map (\<lambda>n. TaoNode_json (drr_json dr) (strip_node n)) nodes\<rparr>"
  have up: "drs_world s1 = fst (drr_Upload dr (fst (drr_list dr (drs_world s))) ?key ?body) \<and>
      (err = None \<longleftrightarrow> snd (drr_Upload dr (fst (drr_list dr (drs_world s))) ?key ?body) = None)"
    using run nodes data(1) by (auto simp: runBackup_def Let_def split: prod.splits sum.splits option.splits)
  have parse: "parse_backup (Marshal data) = Some ?b"
    using operator_manifest_parses [OF data] by (simp add: make_backup_def comp_def)
  have body: "read_body T ?key (Inr ?body) = Inr (Marshal data)" using gz by (simp add: read_body_def backup_key_gz)
  have "\<exists>s2. cli_world s2 = fst (t_getObject T w bucket ?key) \<and>
      restore_run T bucket region kubeconfig ?key nsOverride dryRun force \<lparr>cli_world = w, cli_out = out\<rparr> =
        restore_backup T kubeconfig nsOverride dryRun force ?b s2"
    if get: "snd (t_getObject T w bucket ?key) = Inr (Inr ?body)"
  proof -
    have "snd (t_getObject T (cli_world \<lparr>cli_world = w, cli_out = out\<rparr>) bucket ?key) = Inr (Inr ?body)" using get by simp
    from restore_of_object [OF aws this body parse] show ?thesis using nodes(2) by simp
  qed
  then show ?thesis using up by (simp add: Let_def case_prod_unfold)
qed

text \<open>A runner and a tool that share a bucket.\<close>

definition lab_runner :: "lab DRRunner" where
  "lab_runner = \<lparr>drr_list = (\<lambda>w. (w, Inr [sample_node])),
     drr_Upload = (\<lambda>w k x. (w\<lparr>lab_bucket := (lab_bucket w)((''b'', k) \<mapsto> x)\<rparr>, None)),
     drr_gzip = t_gzip lab_tools, drr_json = plain_api, drr_ClusterID = ''c'', drr_Interval = hour\<rparr>"

lemma sample_node_json:
  "wf_json (TaoNode_json plain_api (strip_node sample_node)) \<and> depth (TaoNode_json plain_api (strip_node sample_node)) \<le> 9"
  by (simp add: TaoNode_json_def strip_node_def sample_node_def sample_spec_def zero_TaoNodeStatus_def zero_SyncStateStatus_def TaoNodeStatus_json_def
      SyncStateStatus_json_def ChainStatus_json_def ResourceStatus_json_def spec_codecs plain_api_def quantity_text_def list_json_def
      fmt_int_valid ascii_utf8 byte_def)

theorem operator_backup_restorable_witness:
  "\<exists>s1 s2. runBackup lab_runner 0 \<lparr>drs_world = cli_world lab_start, drs_metrics = NewDRMetrics\<rparr> = (s1, None) \<and>
    restore_run lab_tools ''b'' ''r'' ''target'' (backup_key (drr_ClusterID lab_runner) 0) '''' True False \<lparr>cli_world = drs_world s1, cli_out = []\<rparr> =
      restore_backup lab_tools ''target'' '''' True False
        \<lparr>bk_Timestamp = fmt_rfc3339_nano 0, bk_ClusterID = drr_ClusterID lab_runner, bk_SchemaVersion = ''v1alpha1'', bk_CRDs = [],
         bk_Nodes = map (\<lambda>n. TaoNode_json (drr_json lab_runner) (strip_node n)) [sample_node]\<rparr> s2"
proof -
  let ?s = "\<lparr>drs_world = cli_world lab_start, drs_metrics = NewDRMetrics\<rparr>" and ?key = "backup_key (drr_ClusterID lab_runner) 0"
  have year: "civ_year (civil_of 0) = 1970" by code_simp
  then have t: "time_json 0 = Some (JStr (fmt_rfc3339_nano 0))" by (simp add: time_json_def)
  obtain data where data: "DRBackup_json (drr_json lab_runner) (make_backup lab_runner 0 [sample_node]) = Some data"
    using t by (simp add: lab_runner_def DRBackup_json_def make_backup_def)
  have wf: "wf_json data" "depth data \<le> max_depth"
    using data t sample_node_json nano_utf8 [of 0] year
    by (auto simp: DRBackup_json_def make_backup_def lab_runner_def max_depth_def ascii_utf8 byte_def)
  have nodes: "snd (drr_list lab_runner (drs_world ?s)) = Inr [sample_node]" by (simp add: lab_runner_def)
  have gz: "t_gunzip lab_tools (drr_gzip lab_runner x) = Inr (Inr x)" for x by (simp add: lab_runner_def lab_tools_def)
  have aws: "t_awsConfig lab_tools ''r'' = None" by (simp add: lab_tools_def)
  obtain s1 err where run: "runBackup lab_runner 0 ?s = (s1, err)" by fastforce
  note out = operator_backup_restorable [OF nodes _ data wf gz aws run, where w = "drs_world s1" and bucket = "''b''"
      and kubeconfig = "''target''" and nsOverride = "''''" and dryRun = True and force = False and out = "[]"]
  have up: "snd (drr_Upload lab_runner w k x) = None"
    "snd (t_getObject lab_tools (fst (drr_Upload lab_runner w k x)) ''b'' k) = Inr (Inr x)" for w k x
    by (simp_all add: lab_runner_def lab_tools_def)
  show ?thesis using out run up by (auto simp: Let_def case_prod_unfold)
qed

end
